(* ===== verification/Prelude.thy ===== *)
theory Prelude
  imports Main "HOL-Library.Word"
begin

text \<open>
  The vocabulary shared by every component: the result type of a contract
  invocation, Rust's checked and saturating machine arithmetic, the host
  environment of one Soroban invocation, small facts on lists and finite sums,
  reachable states, and the generic interfaces (invariants of a transition
  system, pausable contracts, two-step admin handover) that the contracts
  implement.

  A contract invocation on the Soroban host is atomic: when an entrypoint
  returns an error or panics, the host discards every storage write of that
  frame. A failing call is therefore a value \<open>Inl fault\<close> that carries no
  state, and a succeeding one is \<open>Inr (result, new state)\<close>. The host also
  refuses contract re-entry, so a call to another contract cannot change the
  storage of the caller while the caller runs.
\<close>

named_theorems result_simps \<open>inversion of the result combinators\<close>
named_theorems arith_simps \<open>checked and saturating machine arithmetic\<close>

section \<open>Types of the contract language\<close>

text \<open>
  Addresses are opaque identifiers that can be compared. \<open>u32\<close> and \<open>u64\<close> are
  words; \<open>i128\<close> is an integer, with the range written out in every arithmetic
  operation on it.
\<close>

type_synonym address = nat
type_synonym u32 = "32 word"
type_synonym u64 = "64 word"
type_synonym i128 = int
type_synonym bytes = "8 word list"

section \<open>Results\<close>

text \<open>
  \<open>Err e\<close> is a contract error, returned as \<open>Err(e)\<close> or raised by
  \<open>panic_with_error!\<close> (the host reports both with the same error code);
  \<open>AuthTrap\<close> is a \<open>require_auth\<close> the invoker did not satisfy; \<open>Trap\<close> is any
  other abort (\<open>panic!\<close>, an overflow caught by \<open>overflow-checks\<close>, \<open>unwrap\<close> of
  \<open>None\<close>, a failed call to another contract).
\<close>

datatype 'e fault = Err 'e | AuthTrap | Trap

type_synonym ('e, 'a) outcome = "'e fault + 'a"

definition andthen :: "'f + 'a \<Rightarrow> ('a \<Rightarrow> 'f + 'b) \<Rightarrow> 'f + 'b" where
  "andthen m k = (case m of Inl f \<Rightarrow> Inl f | Inr x \<Rightarrow> k x)"

definition require :: "bool \<Rightarrow> 'f \<Rightarrow> 'f + unit" where
  "require b f = (if b then Inr () else Inl f)"

definition ok_or :: "'a option \<Rightarrow> 'f \<Rightarrow> 'f + 'a" where
  "ok_or m f = (case m of None \<Rightarrow> Inl f | Some x \<Rightarrow> Inr x)"

definition unwrap_or :: "'a option \<Rightarrow> 'a \<Rightarrow> 'a" where
  "unwrap_or m d = (case m of None \<Rightarrow> d | Some x \<Rightarrow> x)"

lemma andthen_Inr [simp]: "andthen (Inr x) k = k x"
  by (simp add: andthen_def)

lemma andthen_Inl [simp]: "andthen (Inl f) k = Inl f"
  by (simp add: andthen_def)

lemma require_True [simp]: "require True f = Inr ()"
  by (simp add: require_def)

lemma require_False [simp]: "require False f = Inl f"
  by (simp add: require_def)

lemma ok_or_simps [simp]: "ok_or None f = Inl f" "ok_or (Some x) f = Inr x"
  by (simp_all add: ok_or_def)

lemma unwrap_or_simps [simp]: "unwrap_or None d = d" "unwrap_or (Some x) d = x"
  by (simp_all add: unwrap_or_def)

lemma andthen_eq_Inr [result_simps]:
  "andthen m k = Inr r \<longleftrightarrow> (\<exists>x. m = Inr x \<and> k x = Inr r)"
  by (cases m) simp_all

lemma andthen_eq_Inl [result_simps]:
  "andthen m k = Inl f \<longleftrightarrow> m = Inl f \<or> (\<exists>x. m = Inr x \<and> k x = Inl f)"
  by (cases m) simp_all

lemma require_eq_Inr [result_simps]: "require b f = Inr u \<longleftrightarrow> b"
  by (simp add: require_def)

lemma require_eq_Inl [result_simps]: "require b f = Inl g \<longleftrightarrow> \<not> b \<and> g = f"
  by (auto simp: require_def)

lemma ok_or_eq_Inr [result_simps]: "ok_or m f = Inr x \<longleftrightarrow> m = Some x"
  by (cases m) simp_all

lemma ok_or_eq_Inl [result_simps]: "ok_or m f = Inl g \<longleftrightarrow> m = None \<and> g = f"
  by (cases m) auto

text \<open>A loop whose body may fail: the first failure aborts the whole call.\<close>

fun fold_result :: "('a \<Rightarrow> 's \<Rightarrow> 'f + 's) \<Rightarrow> 'a list \<Rightarrow> 's \<Rightarrow> 'f + 's" where
  "fold_result f [] s = Inr s"
| "fold_result f (x # xs) s = andthen (f x s) (fold_result f xs)"

lemma fold_result_invariant:
  assumes "fold_result f xs s = Inr t" and "P s"
    and "\<And>x u v. x \<in> set xs \<Longrightarrow> f x u = Inr v \<Longrightarrow> P u \<Longrightarrow> P v"
  shows "P t"
  using assms
proof (induction xs arbitrary: s)
  case Nil
  then show ?case by simp
next
  case (Cons x xs)
  from Cons.prems(1) obtain u where u: "f x s = Inr u" "fold_result f xs u = Inr t"
    by (auto simp: result_simps)
  from u(1) have "P u" by (rule Cons.prems(3) [rotated]) (simp_all add: Cons.prems(2))
  with u(2) show ?case by (rule Cons.IH) (use Cons.prems(3) in auto)
qed

lemma fold_result_append:
  "fold_result f (xs @ ys) s = andthen (fold_result f xs s) (fold_result f ys)"
proof (induction xs arbitrary: s)
  case (Cons x xs)
  then show ?case by (cases "f x s") simp_all
qed simp

section \<open>Machine arithmetic\<close>

text \<open>
  \<open>checked_add\<close>, \<open>saturating_add\<close> and \<open>saturating_sub\<close> of \<open>u32\<close> and \<open>u64\<close>.
  With \<open>overflow-checks = true\<close> a plain \<open>a + b\<close> panics exactly where
  \<open>checked_add\<close> is \<open>None\<close>.
\<close>

definition checked_add :: "'n::len word \<Rightarrow> 'n word \<Rightarrow> 'n word option" where
  "checked_add a b = (if unat a + unat b < 2 ^ LENGTH('n) then Some (a + b) else None)"

definition saturating_add :: "'n::len word \<Rightarrow> 'n word \<Rightarrow> 'n word" where
  "saturating_add a b = (if unat a + unat b < 2 ^ LENGTH('n) then a + b else - 1)"

definition saturating_sub :: "'n::len word \<Rightarrow> 'n word \<Rightarrow> 'n word" where
  "saturating_sub a b = (if b \<le> a then a - b else 0)"

lemma checked_add_Some [arith_simps]:
  "checked_add a b = Some c \<longleftrightarrow> unat c = unat a + unat b"
  for a b c :: "'n::len word"
proof
  assume "checked_add a b = Some c"
  then show "unat c = unat a + unat b"
    by (auto simp: checked_add_def unat_word_ariths split: if_splits)
next
  assume eq: "unat c = unat a + unat b"
  moreover have "unat c < 2 ^ LENGTH('n)" by (rule unsigned_less)
  ultimately have "unat (a + b) = unat c" by (simp add: unat_word_ariths)
  then have "a + b = c" by (simp only: word_unat_eq_iff)
  with eq \<open>unat c < 2 ^ LENGTH('n)\<close> show "checked_add a b = Some c"
    by (simp add: checked_add_def)
qed

lemma checked_add_None [arith_simps]:
  "checked_add a b = None \<longleftrightarrow> 2 ^ LENGTH('n) \<le> unat a + unat b"
  for a b :: "'n::len word"
  by (auto simp: checked_add_def)

lemma unat_saturating_add [arith_simps]:
  "unat (saturating_add a b) = min (unat a + unat b) (2 ^ LENGTH('n) - 1)"
  for a b :: "'n::len word"
proof -
  have "unat (- 1 :: 'n word) = 2 ^ LENGTH('n) - 1" by (simp add: unsigned_minus_1_eq_mask mask_eq_exp_minus_1)
  then show ?thesis by (auto simp: saturating_add_def unat_word_ariths)
qed

lemma unat_saturating_sub [arith_simps]:
  "unat (saturating_sub a b) = unat a - unat b"
  for a b :: "'n::len word"
  by (auto simp: saturating_sub_def unat_sub word_le_nat_alt)

lemma word_eq_unat_iff: "a = b \<longleftrightarrow> unat a = unat b"
  for a b :: "'n::len word"
  by (rule word_unat_eq_iff)

text \<open>Arithmetic on \<open>i128\<close>.\<close>

definition i128_MAX :: int where "i128_MAX = 2 ^ 127 - 1"

definition i128_MIN :: int where "i128_MIN = - (2 ^ 127)"

definition i128_ok :: "int \<Rightarrow> bool" where
  "i128_ok x \<longleftrightarrow> i128_MIN \<le> x \<and> x \<le> i128_MAX"

definition checked_i128 :: "int \<Rightarrow> int option" where
  "checked_i128 x = (if i128_ok x then Some x else None)"

lemma checked_i128_Some [arith_simps]: "checked_i128 x = Some y \<longleftrightarrow> i128_ok x \<and> y = x"
  by (auto simp: checked_i128_def)

lemma checked_i128_None [arith_simps]: "checked_i128 x = None \<longleftrightarrow> \<not> i128_ok x"
  by (simp add: checked_i128_def)

lemmas i128_defs = i128_ok_def i128_MAX_def i128_MIN_def

text \<open>Rust's integer division and remainder truncate towards zero.\<close>

definition rust_div :: "int \<Rightarrow> int \<Rightarrow> int" where
  "rust_div a b = (if 0 \<le> a then a div b else - ((- a) div b))"

definition rust_rem :: "int \<Rightarrow> int \<Rightarrow> int" where
  "rust_rem a b = a - rust_div a b * b"

lemma rust_div_nonneg [simp]: "0 \<le> a \<Longrightarrow> rust_div a b = a div b"
  by (simp add: rust_div_def)

lemma rust_rem_nonneg [simp]: "0 \<le> a \<Longrightarrow> rust_rem a b = a mod b"
  by (simp add: rust_rem_def minus_div_mult_eq_mod)

section \<open>The host environment of one invocation\<close>

text \<open>
  Everything an invocation reads that is not its own storage. The contracts
  behind \<open>h_transfer\<close>, \<open>h_balance\<close>, \<open>h_is_allowed\<close> and
  \<open>h_is_allowed_for_amount\<close> are looked up by address at run time, so they are
  parameters: \<open>'w\<close> is the state of the rest of the ledger, and \<open>None\<close> is a
  call that traps.
\<close>

record 'w host =
  h_now :: u64
  h_seq :: nat
  h_self :: address
  h_auth :: "address \<Rightarrow> bool"
  h_transfer :: "address \<Rightarrow> address \<Rightarrow> address \<Rightarrow> i128 \<Rightarrow> 'w \<Rightarrow> 'w option"
  h_balance :: "address \<Rightarrow> address \<Rightarrow> 'w \<Rightarrow> i128 option"
  h_is_allowed :: "address \<Rightarrow> address \<Rightarrow> 'w \<Rightarrow> bool option"
  h_is_allowed_for_amount :: "address \<Rightarrow> address \<Rightarrow> i128 \<Rightarrow> 'w \<Rightarrow> bool option"

definition require_auth :: "'w host \<Rightarrow> address \<Rightarrow> ('e, unit) outcome" where
  "require_auth h a = require (h_auth h a) AuthTrap"

lemma require_auth_eq_Inr [result_simps]: "require_auth h a = Inr u \<longleftrightarrow> h_auth h a"
  by (simp add: require_auth_def result_simps)

text \<open>\<open>Env::mock_all_auths\<close> of the test environment: every \<open>require_auth\<close> succeeds.\<close>

definition mock_all_auths :: "'w host \<Rightarrow> 'w host" where
  "mock_all_auths h = h\<lparr>h_auth := \<lambda>_. True\<rparr>"

section \<open>Lists\<close>

text \<open>Rust's \<open>Vec::contains\<close> guard before \<open>push_back\<close>, and the copy loop that drops one value.\<close>

definition push_new :: "'a \<Rightarrow> 'a list \<Rightarrow> 'a list" where
  "push_new x xs = (if x \<in> set xs then xs else xs @ [x])"

definition drop_value :: "'a \<Rightarrow> 'a list \<Rightarrow> 'a list" where
  "drop_value x xs = filter (\<lambda>y. y \<noteq> x) xs"

lemma push_new_simps [simp]:
  "push_new x [] = [x]" "x \<in> set xs \<Longrightarrow> push_new x xs = xs" "x \<notin> set xs \<Longrightarrow> push_new x xs = xs @ [x]"
  by (simp_all add: push_new_def)

lemma set_push_new [simp]: "set (push_new x xs) = insert x (set xs)"
  by (auto simp: push_new_def)

lemma distinct_push_new [simp]: "distinct (push_new x xs) \<longleftrightarrow> distinct xs"
  by (auto simp: push_new_def)

lemma set_drop_value [simp]: "set (drop_value x xs) = set xs - {x}"
  by (auto simp: drop_value_def)

lemma distinct_drop_value [simp]: "distinct xs \<Longrightarrow> distinct (drop_value x xs)"
  by (simp add: drop_value_def)

lemma drop_value_absent [simp]: "x \<notin> set xs \<Longrightarrow> drop_value x xs = xs"
  by (auto simp: drop_value_def filter_id_conv)

lemma length_drop_value_le [simp]: "length (drop_value x xs) \<le> length xs"
  by (simp add: drop_value_def)

lemma sum_list_drop_value:
  "distinct xs \<Longrightarrow> x \<in> set xs \<Longrightarrow>
    sum_list (map f (drop_value x xs)) + f x = (sum_list (map f xs) :: nat)"
proof (induction xs)
  case (Cons y xs)
  show ?case
  proof (cases "y = x")
    case True
    with Cons.prems have "drop_value x (y # xs) = drop_value x xs" "x \<notin> set xs"
      by (simp_all add: drop_value_def)
    with True show ?thesis by simp
  next
    case False
    with Cons show ?thesis by (auto simp: drop_value_def)
  qed
qed simp

lemma sum_list_drop_value_le:
  "sum_list (map f (drop_value x xs)) \<le> (sum_list (map f xs) :: nat)"
  by (induction xs) (auto simp: drop_value_def)

section \<open>Reachable states and invariants\<close>

inductive reachable :: "('s \<Rightarrow> bool) \<Rightarrow> ('s \<Rightarrow> 's \<Rightarrow> bool) \<Rightarrow> 's \<Rightarrow> bool"
  for init :: "'s \<Rightarrow> bool" and step :: "'s \<Rightarrow> 's \<Rightarrow> bool" where
  reachable_init: "init s \<Longrightarrow> reachable init step s"
| reachable_step: "reachable init step s \<Longrightarrow> step s t \<Longrightarrow> reachable init step t"

lemma steps_reachable: "step\<^sup>*\<^sup>* s t \<Longrightarrow> reachable init step s \<Longrightarrow> reachable init step t"
  by (induction rule: rtranclp_induct) (auto intro: reachable_step)

text \<open>
  The contract between a component's step relation and a property of its
  states: it holds initially and every step keeps it.
\<close>

locale invariant =
  fixes init :: "'s \<Rightarrow> bool"
    and step :: "'s \<Rightarrow> 's \<Rightarrow> bool"
    and inv :: "'s \<Rightarrow> bool"
  assumes init_inv: "init s \<Longrightarrow> inv s"
    and step_inv: "inv s \<Longrightarrow> step s t \<Longrightarrow> inv t"
begin

lemma reachable_inv: "reachable init step s \<Longrightarrow> inv s"
  by (induction rule: reachable.induct) (auto intro: init_inv step_inv)

lemma steps_inv: "step\<^sup>*\<^sup>* s t \<Longrightarrow> inv s \<Longrightarrow> inv t"
  by (induction rule: rtranclp_induct) (auto intro: step_inv)

end

text \<open>
  A preorder that every step from a good state respects: what can change
  between two states of one run, however many calls lie between them.
\<close>

locale monotone = invariant +
  fixes le :: "'s \<Rightarrow> 's \<Rightarrow> bool"
  assumes le_refl: "le s s"
    and le_trans: "le s t \<Longrightarrow> le t u \<Longrightarrow> le s u"
    and step_le: "inv s \<Longrightarrow> step s t \<Longrightarrow> le s t"
begin

lemma steps_le: "step\<^sup>*\<^sup>* s t \<Longrightarrow> inv s \<Longrightarrow> le s t"
proof (induction rule: rtranclp_induct)
  case (step t u)
  then have "inv t" by (blast intro: steps_inv)
  with step show ?case by (blast intro: le_trans step_le)
qed (rule le_refl)

lemma reachable_le: "reachable init step s \<Longrightarrow> step\<^sup>*\<^sup>* s t \<Longrightarrow> le s t"
  by (blast intro: steps_le reachable_inv)

end

section \<open>Interfaces every contract implements\<close>

text \<open>
  The pause switch. \<open>pause(admin)\<close> and \<open>unpause(admin)\<close> succeed exactly for the
  stored admin's own authorisation, whatever the switch says, and change nothing
  of who the admin is.
\<close>

locale pausable =
  fixes pause :: "'w host \<Rightarrow> 's \<Rightarrow> address \<Rightarrow> ('e, 's) outcome"
    and unpause :: "'w host \<Rightarrow> 's \<Rightarrow> address \<Rightarrow> ('e, 's) outcome"
    and paused :: "'s \<Rightarrow> bool"
    and admin_of :: "'s \<Rightarrow> address option"
  assumes pause_succeeds: "(\<exists>t. pause h s a = Inr t) \<longleftrightarrow> h_auth h a \<and> admin_of s = Some a"
    and pause_effect: "pause h s a = Inr t \<Longrightarrow> paused t \<and> admin_of t = admin_of s"
    and unpause_succeeds: "(\<exists>t. unpause h s a = Inr t) \<longleftrightarrow> h_auth h a \<and> admin_of s = Some a"
    and unpause_effect: "unpause h s a = Inr t \<Longrightarrow> \<not> paused t \<and> admin_of t = admin_of s"
begin

text \<open>Pausing again, and resuming after a pause, never gets stuck for the same admin.\<close>

lemma pause_again: "pause h s a = Inr t \<Longrightarrow> h_auth h' a \<Longrightarrow> \<exists>u. pause h' t a = Inr u \<and> paused u"
  by (metis pause_succeeds pause_effect)

lemma resume_after_pause: "pause h s a = Inr t \<Longrightarrow> h_auth h' a \<Longrightarrow> \<exists>u. unpause h' t a = Inr u \<and> \<not> paused u"
  by (metis pause_succeeds pause_effect unpause_succeeds unpause_effect)

lemma pause_needs_admin: "pause h s a = Inr t \<Longrightarrow> h_auth h a \<and> admin_of s = Some a"
  using pause_succeeds by blast

end

text \<open>
  The two-step handover of the admin role: the admin nominates, and the role
  moves when the nominee accepts.
\<close>

locale two_step_admin =
  fixes nominate :: "'w host \<Rightarrow> 's \<Rightarrow> address \<Rightarrow> address \<Rightarrow> ('e, 's) outcome"
    and accept :: "'w host \<Rightarrow> 's \<Rightarrow> address \<Rightarrow> ('e, 's) outcome"
    and admin_of :: "'s \<Rightarrow> address option"
    and nominee :: "'s \<Rightarrow> address option"
  assumes nominate_effect: "nominate h s a n = Inr t \<Longrightarrow>
      h_auth h a \<and> admin_of s = Some a \<and> admin_of t = admin_of s \<and> nominee t = Some n"
    and accept_effect: "accept h s n = Inr t \<Longrightarrow>
      h_auth h n \<and> nominee s = Some n \<and> admin_of t = Some n \<and> nominee t = None"
begin

lemma handover_needs_both:
  "nominate h s a n = Inr t \<Longrightarrow> accept h' t m = Inr u \<Longrightarrow>
     m = n \<and> h_auth h a \<and> admin_of s = Some a \<and> h_auth h' n \<and> admin_of u = Some n"
  by (auto dest!: nominate_effect accept_effect)

lemma handover_not_replayed: "accept h s n = Inr t \<Longrightarrow> accept h' t m \<noteq> Inr u"
  by (auto dest!: accept_effect)

lemma nomination_superseded:
  "nominate h s a n = Inr t \<Longrightarrow> nominate h' t b n' = Inr u \<Longrightarrow> accept h'' u m = Inr v \<Longrightarrow> m = n'"
  by (auto dest!: nominate_effect accept_effect)

end

text \<open>Nobody becomes admin without an own authorisation, whichever entrypoint is called.\<close>

locale signed_admin =
  fixes call :: "'w host \<Rightarrow> 's \<Rightarrow> 'c \<Rightarrow> ('e, 's) outcome"
    and admin_of :: "'s \<Rightarrow> address option"
  assumes new_admin_signed: "call h s c = Inr t \<Longrightarrow> admin_of t = admin_of s \<or> (\<exists>a. admin_of t = Some a \<and> h_auth h a)"
begin

lemma stays_not_admin: "call h s c = Inr t \<Longrightarrow> \<not> h_auth h a \<Longrightarrow> admin_of s \<noteq> Some a \<Longrightarrow> admin_of t \<noteq> Some a"
  using new_admin_signed by fastforce

end

end
