(* ===== verification/Multisig.thy ===== *)
theory Multisig
  imports Prelude
begin

text \<open>
  \<^verbatim>\<open>crates/multisig\<close>: the error codes and the stored data of the treasury, and
  the quorum primitives that every treasury entrypoint is built on
  (\<open>signer_weight\<close>, \<open>require_authorized_signer\<close>, \<open>record_approval\<close>,
  \<open>revoke_approval\<close>, \<open>meets_threshold\<close>, and approval expiry).

  The storage of the treasury is one record with a field per \<open>DataKey\<close>: a key
  without argument is an \<open>option\<close> (\<open>None\<close>: the key is absent), a key with an
  argument is a finite map from the argument. An approval book is the pair of
  an \<open>approvals\<close> list and an accumulated \<open>weight\<close> that settlements, disputes and
  signer rotations all carry; the locale \<open>approval_book\<close> states what the
  primitives promise to those clients.
\<close>

section \<open>Error codes\<close>

datatype (plugins only: code) TreasuryError =
    T_AlreadyInitialized | T_ZeroThreshold | T_SettlementNotFound | T_AlreadyExecuted
  | T_ThresholdNotMet | T_ThresholdNotConfigured | T_InvalidAmount | T_ContractPaused
  | T_Unauthorized | T_UnauthorizedSigner | T_InvalidTokenContract | T_TokenNotAllowed
  | T_RotationNotFound | T_RotationAlreadyExecuted | T_SettlementOnHold | T_DisputeNotExpired
  | T_AlreadyOnHold | T_ThresholdUnreachable | T_ComplianceCheckFailed | T_ArithmeticOverflow
  | T_DisputeNotFound | T_DisputeAlreadyResolved | T_ResolutionDirectionMismatch
  | T_BatchTooLarge | T_WeightOverflow | T_SettlementNotCancellable | T_TtlNotElapsed
  | T_AllowlistFull | T_NotOnHold | T_DestinationNotAllowed | T_InsufficientBalance
  | T_NotPaused | T_RotationProposalCooldown | T_WorkflowNotRegisteredSigner
  | T_WithdrawalLimitExceeded | T_InvalidSplitRatio | T_ForceCancelNotAllowed
  | T_SignerChangeTooEarly | T_SignerChangeNotFound | T_SignerChangeAlreadyFinalised
  | T_ExecutionDeadlineExceeded | T_QuorumBreak | T_TokenHasPendingSettlements
  | T_ApprovalNotFound | T_DuplicateVote | T_NoPendingAdmin | T_LabelTooLong
  | T_InvalidTimelockDelay | T_DuplicateReferenceId | T_TokenHasBalance

section \<open>Stored data\<close>

datatype SettlementHoldReason =
  HNone | ComplianceReview | FraudCheck | KycPending | AdminHold

datatype SettlementStatus =
  SPending | SExecuted | SPartiallySettled | SPartiallyExecuted | SOnHold | SCancelled | SExpired

datatype DisputeStatus =
  DRaised | DResolvedClaimant | DResolvedCounterparty | DExpired | DResolvedSplit

datatype RotationStatus = RPending | RExecuted | RCancelled

datatype SignerChangeKind =
    SetSigner address u32
  | RemoveSigner address
  | UpdateThreshold u32
  | UpdateTimelockDelay u64

datatype SignerChangeStatus = CPending | CExecuted | CCancelled

datatype MaybeAddress = MNone | MSome address

record Settlement =
  st_id :: u64
  st_merchant_address :: address
  st_amount :: i128
  st_approvals :: "address list"
  st_approval_weight :: u32
  st_status :: SettlementStatus
  st_hold_reason :: SettlementHoldReason
  st_proposed_at :: u64
  st_execution_deadline :: u64
  st_token :: MaybeAddress

record Dispute =
  dp_id :: u64
  dp_settlement_id :: u64
  dp_claimant :: address
  dp_counterparty :: address
  dp_amount :: i128
  dp_status :: DisputeStatus
  dp_resolution_approvals :: "address list"
  dp_resolution_weight :: u32
  dp_resolution_for_claimant :: bool
  dp_dispute_expires_at :: u64
  dp_claimant_share_bps :: u32
  dp_evidence_hash :: "bytes option"
  dp_resolution_memo :: "string option"

record SignerRotationProposal =
  rot_id :: u64
  rot_old_signer :: address
  rot_new_signer :: address
  rot_approvals :: "address list"
  rot_approval_weight :: u32
  rot_status :: RotationStatus
  rot_captured_old_weight :: u32

record SignerChangeProposal =
  chg_id :: u64
  chg_kind :: SignerChangeKind
  chg_proposed_at :: u64
  chg_executable_at :: u64
  chg_status :: SignerChangeStatus

record ApprovalExpiry =
  ae_signer :: address
  ae_approved_at :: u64
  ae_expires_at :: u64

text \<open>
  The events the treasury publishes, each with the data of its topics and its
  payload. The log is append-only and newest last.
\<close>

datatype (plugins only: code) TreasuryEvent =
    Ev_treasury_initialized address
  | Ev_threshold_updated u32
  | Ev_treasury_paused address
  | Ev_treasury_unpaused address
  | Ev_withdrawal_limit_set i128 u64
  | Ev_settlement_expiry_updated u64
  | Ev_compliance_id_set address
  | Ev_admin_transfer_proposed address u64
  | Ev_admin_transferred address
  | Ev_admin_transfer_cancelled address
  | Ev_deposit address i128 "bytes option"
  | Ev_withdraw address i128
  | Ev_treasury_drained address
  | Ev_emergency_withdraw address i128
  | Ev_settlement_held u64 SettlementHoldReason "u64 option"
  | Ev_settlement_released u64 Settlement
  | Ev_settlement_proposed u64 Settlement
  | Ev_settlement_approved u64 Settlement
  | Ev_settlement_approval_revoked u64 address Settlement
  | Ev_settlement_partial_approved u64 Settlement
  | Ev_settlement_executed u64 Settlement
  | Ev_settlement_partial_executed u64 Settlement
  | Ev_settlement_cancelled u64 Settlement
  | Ev_settlement_force_cancelled u64 address Settlement
  | Ev_settlement_expired u64 Settlement
  | Ev_merchant_payout_updated address address
  | Ev_token_allowed address
  | Ev_token_removed address
  | Ev_signer_weight_set address u32
  | Ev_signer_label_set address string
  | Ev_signer_removed address
  | Ev_rotation_proposed u64 SignerRotationProposal
  | Ev_rotation_executed u64 SignerRotationProposal
  | Ev_rotation_approved u64 SignerRotationProposal
  | Ev_rotation_cancelled u64 SignerRotationProposal
  | Ev_signer_change_proposed u64 SignerChangeProposal
  | Ev_signer_change_executed u64 SignerChangeProposal
  | Ev_signer_change_cancelled u64 SignerChangeProposal
  | Ev_dispute_raised u64 Dispute
  | Ev_dispute_expired u64 Dispute
  | Ev_dispute_resolved u64 Dispute
  | Ev_dispute_resolved_split u64 Dispute
  | Ev_dispute_resolution_voted u64 Dispute

text \<open>
  The storage, one field per \<open>DataKey\<close>. \<open>DepositRef\<close> lives in temporary storage:
  its field maps a reference to the last ledger at which the entry is live.
  The last two fields are the event log and the rest of the ledger.
\<close>

record 'w treasury =
  t_admin :: "address option"
  t_threshold :: "u32 option"
  t_settlement_count :: "u64 option"
  t_settlements :: "u64 \<rightharpoonup> Settlement"
  t_signers :: "address \<rightharpoonup> u32"
  t_paused :: "bool option"
  t_dispute_count :: "u64 option"
  t_disputes :: "u64 \<rightharpoonup> Dispute"
  t_balances :: "address \<times> address \<rightharpoonup> i128"
  t_token_allowlist :: "address list option"
  t_rotation_count :: "u64 option"
  t_rotations :: "u64 \<rightharpoonup> SignerRotationProposal"
  t_payout_addresses :: "address \<rightharpoonup> address"
  t_signer_list :: "address list option"
  t_withdrawal_allowlist :: "address list option"
  t_last_rotation_proposal :: "address \<rightharpoonup> u64"
  t_partial_approved :: "u64 \<rightharpoonup> i128"
  t_merchant_settlements :: "address \<rightharpoonup> u64 list"
  t_withdrawal_limit :: "i128 option"
  t_withdrawal_window_secs :: "u64 option"
  t_window_start :: "address \<rightharpoonup> u64"
  t_withdrawn :: "address \<rightharpoonup> i128"
  t_signer_change_count :: "u64 option"
  t_signer_changes :: "u64 \<rightharpoonup> SignerChangeProposal"
  t_partial_executed :: "u64 \<rightharpoonup> i128"
  t_payout_history :: "address \<rightharpoonup> (address \<times> u64) list"
  t_hold_expiry :: "u64 \<rightharpoonup> u64"
  t_pending_admin :: "(address \<times> u64) option"
  t_token_total :: "address \<rightharpoonup> i128"
  t_deposit_refs :: "bytes \<rightharpoonup> nat"
  t_signer_last_active :: "address \<rightharpoonup> u64"
  t_pending_index :: "u64 list option"
  t_compliance_id :: "address option"
  t_settlement_expiry :: "u64 option"
  t_signer_labels :: "address \<rightharpoonup> string"
  t_settlement_disputes :: "u64 \<rightharpoonup> u64 list"
  t_timelock_delay :: "u64 option"
  t_events :: "TreasuryEvent list"
  t_world :: 'w

definition empty_storage :: "'w \<Rightarrow> 'w treasury" where
  "empty_storage w = \<lparr> t_admin = None, t_threshold = None, t_settlement_count = None,
     t_settlements = Map.empty, t_signers = Map.empty, t_paused = None, t_dispute_count = None,
     t_disputes = Map.empty, t_balances = Map.empty, t_token_allowlist = None,
     t_rotation_count = None, t_rotations = Map.empty, t_payout_addresses = Map.empty,
     t_signer_list = None, t_withdrawal_allowlist = None,
     t_last_rotation_proposal = Map.empty, t_partial_approved = Map.empty,
     t_merchant_settlements = Map.empty, t_withdrawal_limit = None,
     t_withdrawal_window_secs = None, t_window_start = Map.empty, t_withdrawn = Map.empty,
     t_signer_change_count = None, t_signer_changes = Map.empty,
     t_partial_executed = Map.empty, t_payout_history = Map.empty, t_hold_expiry = Map.empty,
     t_pending_admin = None, t_token_total = Map.empty, t_deposit_refs = Map.empty,
     t_signer_last_active = Map.empty, t_pending_index = None, t_compliance_id = None,
     t_settlement_expiry = None, t_signer_labels = Map.empty,
     t_settlement_disputes = Map.empty, t_timelock_delay = None,
     t_events = [], t_world = w \<rparr>"

definition emit :: "TreasuryEvent \<Rightarrow> 'w treasury \<Rightarrow> 'w treasury" where
  "emit e s = s\<lparr>t_events := t_events s @ [e]\<rparr>"

lemma emit_frame:
  "t_admin (emit e s) = t_admin s"
  "t_threshold (emit e s) = t_threshold s"
  "t_settlement_count (emit e s) = t_settlement_count s"
  "t_settlements (emit e s) = t_settlements s"
  "t_signers (emit e s) = t_signers s"
  "t_paused (emit e s) = t_paused s"
  "t_dispute_count (emit e s) = t_dispute_count s"
  "t_disputes (emit e s) = t_disputes s"
  "t_balances (emit e s) = t_balances s"
  "t_token_allowlist (emit e s) = t_token_allowlist s"
  "t_rotation_count (emit e s) = t_rotation_count s"
  "t_rotations (emit e s) = t_rotations s"
  "t_payout_addresses (emit e s) = t_payout_addresses s"
  "t_signer_list (emit e s) = t_signer_list s"
  "t_withdrawal_allowlist (emit e s) = t_withdrawal_allowlist s"
  "t_last_rotation_proposal (emit e s) = t_last_rotation_proposal s"
  "t_partial_approved (emit e s) = t_partial_approved s"
  "t_merchant_settlements (emit e s) = t_merchant_settlements s"
  "t_withdrawal_limit (emit e s) = t_withdrawal_limit s"
  "t_withdrawal_window_secs (emit e s) = t_withdrawal_window_secs s"
  "t_window_start (emit e s) = t_window_start s"
  "t_withdrawn (emit e s) = t_withdrawn s"
  "t_signer_change_count (emit e s) = t_signer_change_count s"
  "t_signer_changes (emit e s) = t_signer_changes s"
  "t_partial_executed (emit e s) = t_partial_executed s"
  "t_payout_history (emit e s) = t_payout_history s"
  "t_hold_expiry (emit e s) = t_hold_expiry s"
  "t_pending_admin (emit e s) = t_pending_admin s"
  "t_token_total (emit e s) = t_token_total s"
  "t_deposit_refs (emit e s) = t_deposit_refs s"
  "t_signer_last_active (emit e s) = t_signer_last_active s"
  "t_pending_index (emit e s) = t_pending_index s"
  "t_compliance_id (emit e s) = t_compliance_id s"
  "t_settlement_expiry (emit e s) = t_settlement_expiry s"
  "t_signer_labels (emit e s) = t_signer_labels s"
  "t_settlement_disputes (emit e s) = t_settlement_disputes s"
  "t_timelock_delay (emit e s) = t_timelock_delay s"
  "t_world (emit e s) = t_world s"
  "t_events (emit e s) = t_events s @ [e]"
  by (simp_all add: emit_def)

section \<open>Quorum primitives\<close>

definition signer_weight :: "'w treasury \<Rightarrow> address \<Rightarrow> u32" where
  "signer_weight s signer = unwrap_or (t_signers s signer) 0"

definition require_authorized_signer ::
    "'w host \<Rightarrow> 'w treasury \<Rightarrow> address \<Rightarrow> (TreasuryError, unit) outcome" where
  "require_authorized_signer h s signer =
     andthen (require_auth h signer) (\<lambda>_.
     require (signer_weight s signer \<noteq> 0) (Err T_UnauthorizedSigner))"

text \<open>
  The two \<open>&mut\<close> arguments of \<open>record_approval\<close> are returned; the storage write is
  the signer's last-active time.
\<close>

definition record_approval ::
    "'w host \<Rightarrow> 'w treasury \<Rightarrow> address list \<Rightarrow> u32 \<Rightarrow> address \<Rightarrow>
      (TreasuryError, address list \<times> u32 \<times> 'w treasury) outcome" where
  "record_approval h s approvals weight signer =
     andthen
       (if signer \<notin> set approvals
        then andthen (ok_or (checked_add weight (signer_weight s signer)) (Err T_WeightOverflow))
               (\<lambda>w. Inr (approvals @ [signer], w))
        else Inr (approvals, weight))
     (\<lambda>(approvals', weight').
       Inr (approvals', weight',
            s\<lparr>t_signer_last_active := (t_signer_last_active s)(signer \<mapsto> h_now h)\<rparr>))"

text \<open>\<open>Vec::remove\<close> at the first index of the signer, written as \<open>remove1\<close>.\<close>

definition revoke_approval_book ::
    "'w treasury \<Rightarrow> address list \<Rightarrow> u32 \<Rightarrow> address \<Rightarrow>
      bool \<times> address list \<times> u32" where
  "revoke_approval_book s approvals weight signer =
     (if signer \<in> set approvals
      then (True, remove1 signer approvals, saturating_sub weight (signer_weight s signer))
      else (False, approvals, weight))"

definition approval_expiry ::
    "'w host \<Rightarrow> address \<Rightarrow> u64 \<Rightarrow> (TreasuryError, ApprovalExpiry) outcome" where
  "approval_expiry h signer ttl_seconds =
     andthen (if ttl_seconds = 0 then Inr 0
              else ok_or (checked_add (h_now h) ttl_seconds) (Err T_ArithmeticOverflow))
     (\<lambda>expires_at. Inr \<lparr> ae_signer = signer, ae_approved_at = h_now h,
                         ae_expires_at = expires_at \<rparr>)"

definition approval_is_active :: "'w host \<Rightarrow> ApprovalExpiry \<Rightarrow> bool" where
  "approval_is_active h approval \<longleftrightarrow>
     ae_expires_at approval = 0 \<or> h_now h \<le> ae_expires_at approval"

definition meets_threshold :: "u32 \<Rightarrow> u32 \<Rightarrow> bool" where
  "meets_threshold weight threshold \<longleftrightarrow> weight \<ge> threshold"

section \<open>Facts on the primitives\<close>

lemma require_authorized_signer_eq_Inr [result_simps]:
  "require_authorized_signer h s signer = Inr u \<longleftrightarrow> h_auth h signer \<and> signer_weight s signer \<noteq> 0"
  by (auto simp: require_authorized_signer_def result_simps)

text \<open>The weight a signer adds to a book: nothing when it has already approved.\<close>

definition added_weight :: "'w treasury \<Rightarrow> address list \<Rightarrow> address \<Rightarrow> nat" where
  "added_weight s as a = (if a \<in> set as then 0 else unat (signer_weight s a))"

lemma record_approval_eq_Inr [result_simps]:
  "record_approval h s as w a = Inr (as', w', s') \<longleftrightarrow>
     as' = push_new a as \<and>
     unat w' = unat w + added_weight s as a \<and>
     s' = s\<lparr>t_signer_last_active := (t_signer_last_active s)(a \<mapsto> h_now h)\<rparr>"
  by (auto simp: record_approval_def result_simps arith_simps added_weight_def word_eq_unat_iff [of w w'])

lemma record_approval_eq_Inl [result_simps]:
  "record_approval h s as w a = Inl f \<longleftrightarrow>
     a \<notin> set as \<and> 2 ^ 32 \<le> unat w + unat (signer_weight s a) \<and> f = Err T_WeightOverflow"
  by (auto simp: record_approval_def result_simps arith_simps)

lemma signer_weight_last_active [simp]:
  "signer_weight (s\<lparr>t_signer_last_active := m\<rparr>) a = signer_weight s a"
  by (simp add: signer_weight_def)

section \<open>Approval books\<close>

text \<open>
  What the primitives promise while the signer weights stand still: recording
  appends a new approver and adds its weight, or fails, and changes nothing for
  an approver already there; revoking drops the approver and subtracts its
  weight.
\<close>

locale approval_book =
  fixes weight_of :: "address \<Rightarrow> nat"
    and vote :: "address list \<Rightarrow> u32 \<Rightarrow> address \<Rightarrow> 'f + (address list \<times> u32)"
    and unvote :: "address list \<Rightarrow> u32 \<Rightarrow> address \<Rightarrow> bool \<times> address list \<times> u32"
  assumes vote_known: "a \<in> set as \<Longrightarrow> vote as w a = Inr (as, w)"
    and vote_new: "a \<notin> set as \<Longrightarrow>
      vote as w a = Inr (as', w') \<longleftrightarrow> as' = as @ [a] \<and> unat w' = unat w + weight_of a"
    and unvote_known: "a \<in> set as \<Longrightarrow>
      unvote as w a = (b, as', w') \<longleftrightarrow>
        b \<and> as' = remove1 a as \<and> unat w' = unat w - weight_of a"
    and unvote_unknown: "a \<notin> set as \<Longrightarrow> unvote as w a = (False, as, w)"
begin

definition tally_ok :: "address list \<Rightarrow> u32 \<Rightarrow> bool" where
  "tally_ok as w \<longleftrightarrow> distinct as \<and> unat w = (\<Sum>a\<leftarrow>as. weight_of a)"

lemma tally_ok_empty: "tally_ok [] 0"
  by (simp add: tally_ok_def)

lemma tally_ok_sum: "tally_ok as w \<Longrightarrow> unat w = sum weight_of (set as)"
  by (simp add: tally_ok_def sum_list_distinct_conv_sum_set)

lemma vote_ok: "vote as w a = Inr (as', w') \<Longrightarrow> tally_ok as w \<Longrightarrow> tally_ok as' w'"
  by (cases "a \<in> set as") (auto simp: vote_known vote_new tally_ok_def)

lemma vote_set: "vote as w a = Inr (as', w') \<Longrightarrow> set as' = insert a (set as)"
  by (cases "a \<in> set as") (auto simp: vote_known vote_new)

lemma unvote_ok: "unvote as w a = (b, as', w') \<Longrightarrow> tally_ok as w \<Longrightarrow> tally_ok as' w'"
proof (cases "a \<in> set as")
  case True
  assume u: "unvote as w a = (b, as', w')" and ok: "tally_ok as w"
  from True ok have "sum_list (map weight_of as) = weight_of a + sum_list (map weight_of as')"
    using u by (simp add: unvote_known [OF True] sum_list_map_remove1)
  with u ok True show ?thesis by (auto simp: unvote_known tally_ok_def)
qed (simp add: unvote_unknown)

lemma vote_unvote:
  assumes "a \<notin> set as" and "vote as w a = Inr (as', w')"
  shows "unvote as' w' a = (True, as, w)"
proof -
  from assms have "as' = as @ [a]" and w: "unat w' = unat w + weight_of a"
    by (simp_all add: vote_new)
  with assms(1) have "a \<in> set as'" "remove1 a as' = as" by (simp_all add: remove1_append)
  with w show ?thesis by (simp add: unvote_known)
qed

lemma votes_ok:
  "fold_result (\<lambda>a (as, w). vote as w a) sgs (as, w) = Inr (as', w') \<Longrightarrow> tally_ok as w \<Longrightarrow>
    tally_ok as' w' \<and> set as' = set as \<union> set sgs"
proof (induction sgs arbitrary: as w)
  case (Cons a sgs)
  from Cons.prems(1) obtain as1 w1 where v: "vote as w a = Inr (as1, w1)"
    and f: "fold_result (\<lambda>a (as, w). vote as w a) sgs (as1, w1) = Inr (as', w')"
    by (auto simp: result_simps)
  from Cons.IH [OF f vote_ok [OF v Cons.prems(2)]] vote_set [OF v] show ?case by auto
qed simp

end

text \<open>The primitives of the crate are such a book, at every storage and time.\<close>

definition vote_book ::
    "'w host \<Rightarrow> 'w treasury \<Rightarrow> address list \<Rightarrow> u32 \<Rightarrow> address \<Rightarrow>
      (TreasuryError, address list \<times> u32) outcome" where
  "vote_book h s as w a =
     andthen (record_approval h s as w a) (\<lambda>(as', w', s'). Inr (as', w'))"

interpretation msig: approval_book "\<lambda>a. unat (signer_weight s a)" "vote_book h s"
    "revoke_approval_book s" for h :: "'w host" and s :: "'w treasury"
proof
  show "vote_book h s as w a = Inr (as, w)" if "a \<in> set as" for a as w
    using that by (simp add: vote_book_def record_approval_def)
  show "vote_book h s as w a = Inr (as', w') \<longleftrightarrow>
      as' = as @ [a] \<and> unat w' = unat w + unat (signer_weight s a)"
    if "a \<notin> set as" for a as w as' w'
    using that by (auto simp: vote_book_def result_simps push_new_def added_weight_def)
  show "revoke_approval_book s as w a = (b, as', w') \<longleftrightarrow>
      b \<and> as' = remove1 a as \<and> unat w' = unat w - unat (signer_weight s a)"
    if "a \<in> set as" for a as w b as' w'
    using that by (auto simp: revoke_approval_book_def arith_simps
        word_eq_unat_iff [of "saturating_sub w (signer_weight s a)"])
  show "revoke_approval_book s as w a = (False, as, w)" if "a \<notin> set as" for a as w
    using that by (simp add: revoke_approval_book_def)
qed

end
