(* ===== verification/Treasury_State.thy ===== *)
theory Treasury_State
  imports Multisig
begin

text \<open>
  \<^verbatim>\<open>contracts/treasury/src/lib.rs\<close>: \<open>initialize\<close>, the guards every entrypoint uses
  (\<open>require_admin\<close>, \<open>require_not_paused\<close>, \<open>require_compliance_allowed\<close>), the
  settlement write path that keeps the pending index (\<open>write_settlement\<close>) and
  the deposit reference marker. The counting loops \<open>while id <= count\<close> of the
  contract are \<open>scan_ids\<close>, whose result is proved to be the bounded search it
  computes.
\<close>

section \<open>Guards\<close>

definition require_admin :: "'w host \<Rightarrow> 'w treasury \<Rightarrow> address \<Rightarrow> (TreasuryError, unit) outcome" where
  "require_admin h s admin =
     andthen (require_auth h admin) (\<lambda>_.
     require (t_admin s = Some admin) (Err T_Unauthorized))"

definition is_paused :: "'w treasury \<Rightarrow> bool" where
  "is_paused s = unwrap_or (t_paused s) False"

definition require_not_paused :: "'w treasury \<Rightarrow> (TreasuryError, unit) outcome" where
  "require_not_paused s = require (\<not> unwrap_or (t_paused s) False) (Err T_ContractPaused)"

definition require_compliance_allowed ::
    "'w host \<Rightarrow> 'w treasury \<Rightarrow> address \<Rightarrow> i128 \<Rightarrow> (TreasuryError, unit) outcome" where
  "require_compliance_allowed h s recipient amount =
     (case t_compliance_id s of
        None \<Rightarrow> Inr ()
      | Some compliance \<Rightarrow>
          andthen (ok_or (h_is_allowed_for_amount h compliance recipient amount (t_world s)) Trap)
            (\<lambda>allowed. require allowed (Err T_ComplianceCheckFailed)))"

text \<open>\<open>ComplianceClient::require_allowed_for_treasury\<close>.\<close>

definition require_allowed_for_treasury ::
    "'w host \<Rightarrow> address \<Rightarrow> 'w \<Rightarrow> address \<Rightarrow> (TreasuryError, unit) outcome" where
  "require_allowed_for_treasury h compliance w addr =
     andthen (ok_or (h_is_allowed h compliance addr w) Trap)
       (\<lambda>allowed. require allowed (Err T_ComplianceCheckFailed))"

text \<open>A call \<open>token_client.transfer\<close>: the token contract runs on the rest of the ledger.\<close>

definition token_transfer ::
    "'w host \<Rightarrow> address \<Rightarrow> address \<Rightarrow> address \<Rightarrow> i128 \<Rightarrow> 'w treasury \<Rightarrow>
      (TreasuryError, 'w treasury) outcome" where
  "token_transfer h token src dst amount s =
     andthen (ok_or (h_transfer h token src dst amount (t_world s)) Trap)
       (\<lambda>w. Inr (s\<lparr>t_world := w\<rparr>))"

section \<open>Initialisation\<close>

definition add_initial_signer ::
    "address \<times> u32 \<Rightarrow> (address \<rightharpoonup> u32) \<times> address list \<Rightarrow> (address \<rightharpoonup> u32) \<times> address list" where
  "add_initial_signer sw acc =
     (case (sw, acc) of ((signer, weight), (signers, signer_list)) \<Rightarrow>
        (signers(signer \<mapsto> weight),
         if weight > 0 \<and> signer \<notin> set signer_list then signer_list @ [signer] else signer_list))"

definition initialize ::
    "'w host \<Rightarrow> 'w treasury \<Rightarrow> address \<Rightarrow> u32 \<Rightarrow> (address \<times> u32) list \<Rightarrow>
      (TreasuryError, 'w treasury) outcome" where
  "initialize h s admin threshold signers =
     andthen (require (t_admin s = None) (Err T_AlreadyInitialized)) (\<lambda>_.
     andthen (require (threshold \<noteq> 0) (Err T_ZeroThreshold)) (\<lambda>_.
     andthen (require_auth h admin) (\<lambda>_.
       let (weights, signer_list) =
             fold add_initial_signer signers ((t_signers s)(admin \<mapsto> 1), [admin])
       in Inr (emit (Ev_treasury_initialized admin)
            (s\<lparr> t_admin := Some admin, t_threshold := Some threshold,
                t_settlement_count := Some 0, t_paused := Some False,
                t_dispute_count := Some 0, t_settlement_expiry := Some (7 * 24 * 60 * 60),
                t_signers := weights, t_signer_list := Some signer_list \<rparr>)))))"

lemma initialize_eq_Inr:
  "initialize h s a thr sgs = Inr s' \<longleftrightarrow>
     t_admin s = None \<and> thr \<noteq> 0 \<and> h_auth h a \<and>
     s' = emit (Ev_treasury_initialized a)
       (s\<lparr> t_admin := Some a, t_threshold := Some thr, t_settlement_count := Some 0,
           t_paused := Some False, t_dispute_count := Some 0,
           t_settlement_expiry := Some (7 * 24 * 60 * 60),
           t_signers := fst (fold add_initial_signer sgs ((t_signers s)(a \<mapsto> 1), [a])),
           t_signer_list := Some (snd (fold add_initial_signer sgs ((t_signers s)(a \<mapsto> 1), [a]))) \<rparr>)"
  by (cases "fold add_initial_signer sgs ((t_signers s)(a \<mapsto> 1), [a])")
    (auto simp: initialize_def result_simps)

section \<open>Writing a settlement\<close>

definition clear_hold_state :: "u64 \<Rightarrow> 'w treasury \<Rightarrow> 'w treasury" where
  "clear_hold_state i s = s\<lparr>t_hold_expiry := (t_hold_expiry s)(i := None)\<rparr>"

definition pending_index :: "'w treasury \<Rightarrow> u64 list" where
  "pending_index s = unwrap_or (t_pending_index s) []"

definition write_settlement :: "u64 \<Rightarrow> Settlement \<Rightarrow> 'w treasury \<Rightarrow> 'w treasury" where
  "write_settlement i settlement s0 =
     (let s1 = s0\<lparr>t_settlements := (t_settlements s0)(i \<mapsto> settlement)\<rparr>;
          index = pending_index s1;
          s2 = (if st_status settlement \<in> {SExecuted, SCancelled, SExpired}
                then clear_hold_state i s1 else s1);
          is_pending = (st_status settlement = SPending);
          already_indexed = (i \<in> set index)
      in if is_pending \<and> \<not> already_indexed then s2\<lparr>t_pending_index := Some (index @ [i])\<rparr>
         else if \<not> is_pending \<and> already_indexed
              then s2\<lparr>t_pending_index := Some (filter (\<lambda>existing. existing \<noteq> i) index)\<rparr>
              else s2)"

section \<open>Deposit references\<close>

definition MAX_ALLOWED_TOKENS :: nat where "MAX_ALLOWED_TOKENS = 20"

definition DEPOSIT_REF_TTL_LEDGERS :: nat where
  "DEPOSIT_REF_TTL_LEDGERS = 30 * 24 * 60 * 60 div 5"

text \<open>
  \<open>extend_ttl(key, t, t)\<close> on the fresh entry makes it live for \<open>t\<close> more ledgers
  than the current one, after which \<open>has\<close> no longer sees it.
\<close>

definition deposit_ref_live :: "'w host \<Rightarrow> 'w treasury \<Rightarrow> bytes \<Rightarrow> bool" where
  "deposit_ref_live h s ref_id =
     (case t_deposit_refs s ref_id of None \<Rightarrow> False | Some live_until \<Rightarrow> h_seq h \<le> live_until)"

definition record_deposit_reference ::
    "'w host \<Rightarrow> bytes \<Rightarrow> 'w treasury \<Rightarrow> (TreasuryError, 'w treasury) outcome" where
  "record_deposit_reference h ref_id s =
     andthen (require (\<not> deposit_ref_live h s ref_id) (Err T_DuplicateReferenceId)) (\<lambda>_.
       Inr (s\<lparr>t_deposit_refs := (t_deposit_refs s)(ref_id \<mapsto> h_seq h + DEPOSIT_REF_TTL_LEDGERS)\<rparr>))"

section \<open>Counting loops\<close>

text \<open>
  \<open>let mut id = start; while id <= count \{ if P(id) \{ return true \} id += 1 \} false\<close>;
  \<open>None\<close> is the overflow of \<open>id += 1\<close>.
\<close>

lemma unat_u64_less: "unat x < 2 ^ 64" for x :: u64
  using unsigned_less [of x] by simp

lemma unat_max_u64: "unat (- 1 :: u64) = 2 ^ 64 - 1"
  by (simp add: unsigned_minus_1_eq_mask mask_eq_exp_minus_1)

function scan_ids :: "(u64 \<Rightarrow> bool) \<Rightarrow> u64 \<Rightarrow> u64 \<Rightarrow> bool option" where
  "scan_ids P i count =
     (if i \<le> count
      then (if P i then Some True
            else (case checked_add i 1 of None \<Rightarrow> None | Some j \<Rightarrow> scan_ids P j count))
      else Some False)"
  by pat_completeness auto
termination
proof (relation "measure (\<lambda>(P, i, count). 2 ^ 64 - unat i)")
  fix P :: "u64 \<Rightarrow> bool" and i count j :: u64
  assume "checked_add i 1 = Some j"
  then have "unat j = unat i + 1" by (simp add: arith_simps)
  moreover have "unat j < 2 ^ 64" by (rule unat_u64_less)
  ultimately show "((P, j, count), (P, i, count)) \<in> measure (\<lambda>(P, i, count). 2 ^ 64 - unat i)"
    by simp
qed simp

declare scan_ids.simps [simp del]

lemma scan_ids_eval:
  "\<not> i \<le> count \<Longrightarrow> scan_ids P i count = Some False"
  "i \<le> count \<Longrightarrow> P i \<Longrightarrow> scan_ids P i count = Some True"
  "i \<le> count \<Longrightarrow> \<not> P i \<Longrightarrow> unat i + 1 < 2 ^ 64 \<Longrightarrow> scan_ids P i count = scan_ids P (i + 1) count"
  by (subst scan_ids.simps, simp add: checked_add_def)+

lemma scan_ids_range:
  assumes "count \<noteq> - 1"
  shows "scan_ids P i count = Some (\<exists>j. i \<le> j \<and> j \<le> count \<and> P j)"
  using assms
proof (induction P i count rule: scan_ids.induct)
  case (1 P i count)
  show ?case
  proof (cases "i \<le> count \<and> \<not> P i")
    case True
    have "i \<noteq> - 1" using True 1(2) by (auto simp: word_order.extremum_unique)
    then have "unat i \<noteq> 2 ^ 64 - 1" by (simp add: word_eq_unat_iff [of i] unat_max_u64)
    with unat_u64_less [of i] have "unat i + 1 < 2 ^ 64" by linarith
    then obtain j where j: "checked_add i 1 = Some j" by (simp add: checked_add_def)
    then have uj: "unat j = unat i + 1" by (simp add: arith_simps)
    have *: "i \<le> k \<longleftrightarrow> k = i \<or> j \<le> k" for k
      using uj by (auto simp: word_le_nat_alt word_eq_unat_iff [of k])
    show ?thesis using True 1(1) [OF _ _ j] 1(2) j
      by (subst scan_ids.simps) (auto simp: *)
  qed (subst scan_ids.simps, auto)
qed

section \<open>Facts on the guards and the write path\<close>

lemma require_admin_eq_Inr [result_simps]:
  "require_admin h s a = Inr u \<longleftrightarrow> h_auth h a \<and> t_admin s = Some a"
  by (auto simp: require_admin_def result_simps)

lemma require_not_paused_eq_Inr [result_simps]:
  "require_not_paused s = Inr u \<longleftrightarrow> \<not> is_paused s"
  by (simp add: require_not_paused_def is_paused_def result_simps)

lemma require_not_paused_eq_Inl [result_simps]:
  "require_not_paused s = Inl f \<longleftrightarrow> is_paused s \<and> f = Err T_ContractPaused"
  by (auto simp: require_not_paused_def is_paused_def result_simps)

lemma token_transfer_eq_Inr [result_simps]:
  "token_transfer h tok src dst amt s = Inr s' \<longleftrightarrow>
     (\<exists>w. h_transfer h tok src dst amt (t_world s) = Some w \<and> s' = s\<lparr>t_world := w\<rparr>)"
  by (auto simp: token_transfer_def result_simps)

lemma require_compliance_allowed_eq_Inr [result_simps]:
  "require_compliance_allowed h s a amt = Inr u \<longleftrightarrow>
     (\<forall>c. t_compliance_id s = Some c \<longrightarrow>
        h_is_allowed_for_amount h c a amt (t_world s) = Some True)"
  by (auto simp: require_compliance_allowed_def result_simps split: option.splits)

lemma require_allowed_for_treasury_eq_Inr [result_simps]:
  "require_allowed_for_treasury h c w a = Inr u \<longleftrightarrow> h_is_allowed h c a w = Some True"
  by (auto simp: require_allowed_for_treasury_def result_simps)

lemma record_deposit_reference_eq_Inr [result_simps]:
  "record_deposit_reference h r s = Inr s' \<longleftrightarrow>
     \<not> deposit_ref_live h s r \<and>
     s' = s\<lparr>t_deposit_refs := (t_deposit_refs s)(r \<mapsto> h_seq h + DEPOSIT_REF_TTL_LEDGERS)\<rparr>"
  by (auto simp: record_deposit_reference_def result_simps)

text \<open>
  The write path touches three fields only: the settlement, the pending index,
  and on a terminal status the hold expiry.
\<close>

definition index_after :: "u64 \<Rightarrow> SettlementStatus \<Rightarrow> u64 list \<Rightarrow> u64 list" where
  "index_after i status index =
     (if status = SPending then push_new i index else drop_value i index)"

lemma set_index_after:
  "set (index_after i status index) = (if status = SPending then insert i (set index) else set index - {i})"
  by (simp add: index_after_def)

lemma distinct_index_after: "distinct index \<Longrightarrow> distinct (index_after i status index)"
  by (simp add: index_after_def)

definition index_field_after :: "u64 \<Rightarrow> SettlementStatus \<Rightarrow> 'w treasury \<Rightarrow> u64 list option" where
  "index_field_after i status s =
     (if (status = SPending) = (i \<in> set (pending_index s)) then t_pending_index s
      else Some (index_after i status (pending_index s)))"

lemma write_settlement_eq:
  "write_settlement i st s =
     s\<lparr>t_settlements := (t_settlements s)(i \<mapsto> st),
       t_hold_expiry := (if st_status st \<in> {SExecuted, SCancelled, SExpired}
                         then (t_hold_expiry s)(i := None) else t_hold_expiry s),
       t_pending_index := index_field_after i (st_status st) s\<rparr>"
proof (cases "st_status st = SPending \<longleftrightarrow> i \<in> set (pending_index s)")
  case True
  then show ?thesis
    by (cases "st_status st = SPending")
      (simp_all add: write_settlement_def clear_hold_state_def pending_index_def index_field_after_def)
next
  case False
  then show ?thesis
    by (cases "st_status st = SPending")
      (simp_all add: write_settlement_def clear_hold_state_def pending_index_def
        index_field_after_def index_after_def push_new_def drop_value_def)
qed

lemma unwrap_index_field_after:
  "unwrap_or (index_field_after i status s) [] = index_after i status (pending_index s)"
  by (auto simp: index_field_after_def index_after_def push_new_def pending_index_def)

lemma pending_index_write [simp]:
  "pending_index (write_settlement i st s) = index_after i (st_status st) (pending_index s)"
  by (simp add: write_settlement_eq unwrap_index_field_after pending_index_def [of "_ \<lparr>t_pending_index := _\<rparr>"])

end
