(* ===== verification/Settlement_Book.thy ===== *)
theory Settlement_Book
  imports Treasury_State
begin

text \<open>
  The abstract specification of the settlement book: what the treasury promises
  about settlements, without storage keys, guards or token calls. A book holds
  the settlements, the id counter, the pending index, and how often each id was
  reported as executed; \<open>book_step\<close> lists the moves a settlement can make. The
  lemmas are the consequences of those moves; \<open>Treasury\<close> proves that every
  entrypoint of the contract refines them.
\<close>

record settlement_book =
  bk_entries :: "u64 \<rightharpoonup> Settlement"
  bk_count :: u64
  bk_index :: "u64 list"
  bk_executed :: "u64 \<Rightarrow> nat"

definition put :: "u64 \<Rightarrow> Settlement \<Rightarrow> settlement_book \<Rightarrow> settlement_book" where
  "put i st b = b\<lparr>bk_entries := (bk_entries b)(i \<mapsto> st),
                  bk_index := index_after i (st_status st) (bk_index b)\<rparr>"

definition report_executed :: "u64 \<Rightarrow> settlement_book \<Rightarrow> settlement_book" where
  "report_executed i b = b\<lparr>bk_executed := (bk_executed b)(i := Suc (bk_executed b i))\<rparr>"

text \<open>The terminal states, as the life cycle of a settlement documents them.\<close>

definition terminal :: "SettlementStatus \<Rightarrow> bool" where
  "terminal status \<longleftrightarrow> status \<in> {SExecuted, SCancelled, SExpired}"

inductive book_step :: "settlement_book \<Rightarrow> settlement_book \<Rightarrow> bool" where
  bs_propose: "unat i = unat (bk_count b) + 1 \<Longrightarrow> st_id st = i \<Longrightarrow> 0 < st_amount st \<Longrightarrow>
     st_status st = SPending \<Longrightarrow> length (st_approvals st) = 1 \<Longrightarrow>
     book_step b ((put i st b)\<lparr>bk_count := i\<rparr>)"
| bs_approve: "bk_entries b i = Some st \<Longrightarrow> st_status st = SPending \<Longrightarrow>
     book_step b (put i (st\<lparr>st_approvals := push_new a (st_approvals st), st_approval_weight := w\<rparr>) b)"
| bs_revoke: "bk_entries b i = Some st \<Longrightarrow> st_status st = SPending \<Longrightarrow> a \<in> set (st_approvals st) \<Longrightarrow>
     book_step b (put i (st\<lparr>st_approvals := remove1 a (st_approvals st), st_approval_weight := w\<rparr>) b)"
| bs_hold: "bk_entries b i = Some st \<Longrightarrow> st_status st \<in> {SPending, SOnHold} \<Longrightarrow>
     book_step b (put i (st\<lparr>st_status := SOnHold, st_hold_reason := r\<rparr>) b)"
| bs_release: "bk_entries b i = Some st \<Longrightarrow> st_status st = SOnHold \<Longrightarrow>
     book_step b (put i (st\<lparr>st_status := SPending, st_hold_reason := HNone\<rparr>) b)"
| bs_close: "bk_entries b i = Some st \<Longrightarrow> st_status st \<in> {SPending, SOnHold} \<Longrightarrow>
     status' \<in> {SCancelled, SExpired, SPartiallyExecuted} \<Longrightarrow>
     book_step b (put i (st\<lparr>st_status := status'\<rparr>) b)"
| bs_execute: "bk_entries b i = Some st \<Longrightarrow> st_status st \<in> {SPending, SOnHold} \<Longrightarrow>
     book_step b (report_executed i (put i (st\<lparr>st_status := SExecuted\<rparr>) b))"
| bs_execute_in_batch: "bk_entries b i = Some st \<Longrightarrow> st_status st = SPending \<Longrightarrow>
     book_step b (report_executed i
       (b\<lparr>bk_entries := (bk_entries b)(i \<mapsto> st\<lparr>st_status := SExecuted\<rparr>)\<rparr>))"

inductive_cases book_stepE: "book_step b b'"

section \<open>Well-formed books\<close>

definition entry_ok :: "settlement_book \<Rightarrow> u64 \<Rightarrow> Settlement \<Rightarrow> bool" where
  "entry_ok b i st \<longleftrightarrow>
     st_id st = i \<and> 1 \<le> unat i \<and> unat i \<le> unat (bk_count b) \<and> 0 < st_amount st \<and>
     distinct (st_approvals st) \<and> st_status st \<noteq> SPartiallySettled \<and>
     bk_executed b i = (if st_status st = SExecuted then 1 else 0) \<and>
     (st_status st = SPending \<longrightarrow> i \<in> set (bk_index b)) \<and>
     (i \<in> set (bk_index b) \<longrightarrow> st_status st \<in> {SPending, SExecuted})"

definition book_ok :: "settlement_book \<Rightarrow> bool" where
  "book_ok b \<longleftrightarrow>
     (\<forall>i st. bk_entries b i = Some st \<longrightarrow> entry_ok b i st) \<and>
     (\<forall>i. bk_entries b i = None \<longrightarrow> bk_executed b i = 0 \<and> i \<notin> set (bk_index b)) \<and>
     distinct (bk_index b)"

lemma book_okD: "book_ok b \<Longrightarrow> bk_entries b i = Some st \<Longrightarrow> entry_ok b i st"
  by (simp add: book_ok_def)

lemma book_ok_fresh:
  assumes "book_ok b" and "unat (bk_count b) < unat i"
  shows "bk_entries b i = None"
proof (rule ccontr)
  assume "bk_entries b i \<noteq> None"
  then obtain st where "bk_entries b i = Some st" by blast
  from book_okD [OF assms(1) this] assms(2) show False by (simp add: entry_ok_def)
qed

lemma book_ok_put:
  assumes ok: "book_ok b" and st: "bk_entries b i = Some st"
    and st': "st_id st' = st_id st" "st_amount st' = st_amount st"
    "distinct (st_approvals st')" "st_status st' \<notin> {SPartiallySettled, SExecuted}"
    and live: "st_status st \<noteq> SExecuted"
  shows "book_ok (put i st' b)"
  using book_okD [OF ok st] ok st' live
  by (auto simp: book_ok_def entry_ok_def put_def set_index_after distinct_index_after)

lemma book_ok_execute:
  assumes ok: "book_ok b" and st: "bk_entries b i = Some st"
    and live: "st_status st \<noteq> SExecuted" and index: "distinct index"
    and sub: "set (bk_index b) - {i} \<subseteq> set index" "set index \<subseteq> set (bk_index b)"
  shows "book_ok (report_executed i (b\<lparr>bk_entries := (bk_entries b)(i \<mapsto> st\<lparr>st_status := SExecuted\<rparr>),
            bk_index := index\<rparr>))"
  using book_okD [OF ok st] ok live index sub
  by (auto simp: book_ok_def entry_ok_def report_executed_def)

lemma book_ok_propose:
  assumes ok: "book_ok b" and i: "unat i = unat (bk_count b) + 1"
    and st: "st_id st = i" "0 < st_amount st" "st_status st = SPending" "distinct (st_approvals st)"
  shows "book_ok ((put i st b)\<lparr>bk_count := i\<rparr>)"
proof -
  have fresh: "bk_entries b i = None"
    by (rule book_ok_fresh [OF ok]) (simp add: i)
  have other: "entry_ok ((put i st b)\<lparr>bk_count := i\<rparr>) j u"
    if "bk_entries b j = Some u" for j u
  proof -
    from that fresh have "j \<noteq> i" by auto
    with book_okD [OF ok that] i show ?thesis
      by (auto simp: entry_ok_def put_def set_index_after)
  qed
  have "entry_ok ((put i st b)\<lparr>bk_count := i\<rparr>) i st"
    using ok fresh st i by (auto simp: book_ok_def entry_ok_def put_def set_index_after)
  with other ok show ?thesis
    by (auto simp: book_ok_def put_def set_index_after distinct_index_after split: if_splits)
qed

lemma book_step_ok: "book_step b b' \<Longrightarrow> book_ok b \<Longrightarrow> book_ok b'"
proof (induction rule: book_step.induct)
  case (bs_propose i b st)
  then show ?case by (intro book_ok_propose) (auto simp: length_Suc_conv)
next
  case (bs_approve b i st a w)
  with book_okD [OF bs_approve(3,1)] show ?case
    by (intro book_ok_put [of _ _ st]) (auto simp: entry_ok_def)
next
  case (bs_revoke b i st a w)
  with book_okD [OF bs_revoke(4,1)] show ?case
    by (intro book_ok_put [of _ _ st]) (auto simp: entry_ok_def)
next
  case (bs_hold b i st r)
  with book_okD [OF bs_hold(3,1)] show ?case
    by (intro book_ok_put [of _ _ st]) (auto simp: entry_ok_def)
next
  case (bs_release b i st)
  with book_okD [OF bs_release(3,1)] show ?case
    by (intro book_ok_put [of _ _ st]) (auto simp: entry_ok_def)
next
  case (bs_close b i st status')
  with book_okD [OF bs_close(4,1)] show ?case
    by (intro book_ok_put [of _ _ st]) (auto simp: entry_ok_def)
next
  case (bs_execute b i st)
  then have "book_ok (report_executed i (b\<lparr>bk_entries := (bk_entries b)(i \<mapsto> st\<lparr>st_status := SExecuted\<rparr>),
      bk_index := index_after i SExecuted (bk_index b)\<rparr>))"
    by (intro book_ok_execute) (auto simp: set_index_after distinct_index_after book_ok_def)
  then show ?case by (simp add: put_def)
next
  case (bs_execute_in_batch b i st)
  then have "book_ok (report_executed i (b\<lparr>bk_entries := (bk_entries b)(i \<mapsto> st\<lparr>st_status := SExecuted\<rparr>),
      bk_index := bk_index b\<rparr>))"
    by (intro book_ok_execute) (auto simp: book_ok_def)
  then show ?case by simp
qed

section \<open>What stays of a settlement\<close>

text \<open>
  What a later state keeps of a settlement: its identity, and all of it once it is
  terminal. A partially executed settlement is not among the documented terminal
  states, but it keeps everything too, because every entrypoint demands one of
  the statuses \<open>Pending\<close> and \<open>OnHold\<close>.
\<close>

definition settlement_le :: "Settlement \<Rightarrow> Settlement \<Rightarrow> bool" where
  "settlement_le st st' \<longleftrightarrow>
     st_id st' = st_id st \<and> st_merchant_address st' = st_merchant_address st \<and>
     st_amount st' = st_amount st \<and> st_proposed_at st' = st_proposed_at st \<and>
     st_execution_deadline st' = st_execution_deadline st \<and> st_token st' = st_token st \<and>
     (terminal (st_status st) \<longrightarrow> st' = st) \<and>
     (st_status st = SPartiallyExecuted \<longrightarrow> st' = st)"

definition book_le :: "settlement_book \<Rightarrow> settlement_book \<Rightarrow> bool" where
  "book_le b b' \<longleftrightarrow>
     (\<forall>i st. bk_entries b i = Some st \<longrightarrow> (\<exists>st'. bk_entries b' i = Some st' \<and> settlement_le st st'))"

lemma settlement_le_refl [simp]: "settlement_le st st"
  by (simp add: settlement_le_def)

lemma settlement_le_trans: "settlement_le a b \<Longrightarrow> settlement_le b c \<Longrightarrow> settlement_le a c"
  by (auto simp: settlement_le_def)

lemma book_le_refl: "book_le b b"
  by (simp add: book_le_def)

lemma book_le_trans: "book_le a b \<Longrightarrow> book_le b c \<Longrightarrow> book_le a c"
  unfolding book_le_def by (blast intro: settlement_le_trans)

lemma book_le_update:
  "bk_entries b i = Some st \<Longrightarrow> settlement_le st st' \<Longrightarrow> bk_entries b' = (bk_entries b)(i \<mapsto> st') \<Longrightarrow>
    book_le b b'"
  by (auto simp: book_le_def)

lemma book_step_le: "book_step b b' \<Longrightarrow> book_ok b \<Longrightarrow> book_le b b'"
proof (induction rule: book_step.induct)
  case (bs_propose i b st)
  then have "bk_entries b i = None"
    by (intro book_ok_fresh) simp_all
  then show ?case by (auto simp: book_le_def put_def)
qed (rule book_le_update; force simp: settlement_le_def terminal_def put_def report_executed_def)+

end
