(* ===== verification/Treasury_Settlements.thy ===== *)
theory Treasury_Settlements
  imports Treasury_State
begin

text \<open>
  \<^verbatim>\<open>contracts/treasury/src/settlements.rs\<close>: proposing, approving, executing,
  cancelling and expiring settlements, their batch forms, the pending views,
  merchant payout addresses and the token allowlist.
\<close>

section \<open>Proposing\<close>

definition MAX_BATCH_SIZE :: nat where "MAX_BATCH_SIZE = 50"

definition MAX_PAYOUT_HISTORY :: nat where "MAX_PAYOUT_HISTORY = 10"

definition MAX_MERCHANT_SETTLEMENTS :: nat where "MAX_MERCHANT_SETTLEMENTS = 50"

definition settlement_is_pending :: "'w treasury \<Rightarrow> u64 \<Rightarrow> bool" where
  "settlement_is_pending s i =
     (case t_settlements s i of None \<Rightarrow> False | Some st \<Rightarrow> st_status st = SPending)"

definition has_pending_settlement :: "'w treasury \<Rightarrow> (TreasuryError, bool) outcome" where
  "has_pending_settlement s =
     ok_or (scan_ids (settlement_is_pending s) 1 (unwrap_or (t_settlement_count s) 0)) Trap"

definition push_merchant_settlement :: "address \<Rightarrow> u64 \<Rightarrow> 'w treasury \<Rightarrow> 'w treasury" where
  "push_merchant_settlement merchant i s =
     (let ids = unwrap_or (t_merchant_settlements s merchant) [];
          ids1 = (if length ids \<ge> MAX_MERCHANT_SETTLEMENTS then tl ids else ids)
      in s\<lparr>t_merchant_settlements := (t_merchant_settlements s)(merchant \<mapsto> ids1 @ [i])\<rparr>)"

definition propose ::
    "'w host \<Rightarrow> 'w treasury \<Rightarrow> address \<Rightarrow> address \<Rightarrow> i128 \<Rightarrow> MaybeAddress \<Rightarrow> u64 \<Rightarrow>
      (TreasuryError, u64 \<times> 'w treasury) outcome" where
  "propose h s signer merchant_address amount token execution_deadline =
     andthen (require_not_paused s) (\<lambda>_.
     andthen (require_authorized_signer h s signer) (\<lambda>_.
     andthen (require (\<not> amount \<le> 0) (Err T_InvalidAmount)) (\<lambda>_.
     andthen (case t_compliance_id s of
                None \<Rightarrow> Inr ()
              | Some compliance_id \<Rightarrow>
                  require_allowed_for_treasury h compliance_id (t_world s) merchant_address) (\<lambda>_.
     andthen (ok_or (checked_add (unwrap_or (t_settlement_count s) 0) 1)
               (Err T_ArithmeticOverflow)) (\<lambda>i.
     andthen (record_approval h s [] 0 signer) (\<lambda>(approvals, weight, s1).
       let settlement =
             \<lparr> st_id = i, st_merchant_address = merchant_address, st_amount = amount,
               st_approvals = approvals, st_approval_weight = weight, st_status = SPending,
               st_hold_reason = HNone, st_proposed_at = h_now h,
               st_execution_deadline = execution_deadline, st_token = token \<rparr>;
           s2 = write_settlement i settlement s1;
           s3 = s2\<lparr>t_settlement_count := Some i\<rparr>;
           s4 = push_merchant_settlement merchant_address i s3
       in Inr (i, emit (Ev_settlement_proposed i settlement) s4)))))))"

definition propose_settlement ::
    "'w host \<Rightarrow> 'w treasury \<Rightarrow> address \<Rightarrow> address \<Rightarrow> i128 \<Rightarrow> u64 \<Rightarrow>
      (TreasuryError, u64 \<times> 'w treasury) outcome" where
  "propose_settlement h s signer merchant_address amount execution_deadline =
     propose h s signer merchant_address amount MNone execution_deadline"

definition propose_settlement_with_token ::
    "'w host \<Rightarrow> 'w treasury \<Rightarrow> address \<Rightarrow> address \<Rightarrow> i128 \<Rightarrow> MaybeAddress \<Rightarrow>
      (TreasuryError, u64 \<times> 'w treasury) outcome" where
  "propose_settlement_with_token h s signer merchant_address amount token =
     propose h s signer merchant_address amount token 0"

definition propose_partial_settlement ::
    "'w host \<Rightarrow> 'w treasury \<Rightarrow> address \<Rightarrow> address \<Rightarrow> i128 \<Rightarrow> u64 \<Rightarrow>
      (TreasuryError, u64 \<times> 'w treasury) outcome" where
  "propose_partial_settlement h s signer merchant_address amount execution_deadline =
     propose_settlement h s signer merchant_address amount execution_deadline"

section \<open>Approving\<close>

definition approve_settlement ::
    "'w host \<Rightarrow> 'w treasury \<Rightarrow> address \<Rightarrow> u64 \<Rightarrow> (TreasuryError, Settlement \<times> 'w treasury) outcome" where
  "approve_settlement h s signer settlement_id =
     andthen (require_not_paused s) (\<lambda>_.
     andthen (require_authorized_signer h s signer) (\<lambda>_.
     andthen (ok_or (t_settlements s settlement_id) (Err T_SettlementNotFound)) (\<lambda>settlement.
     andthen (require (st_status settlement = SPending) (Err T_AlreadyExecuted)) (\<lambda>_.
     andthen (record_approval h s (st_approvals settlement) (st_approval_weight settlement) signer)
       (\<lambda>(approvals, weight, s1).
       let settlement1 = settlement\<lparr>st_approvals := approvals, st_approval_weight := weight\<rparr>
       in Inr (settlement1, emit (Ev_settlement_approved settlement_id settlement1)
                              (write_settlement settlement_id settlement1 s1)))))))"

definition revoke_approval ::
    "'w host \<Rightarrow> 'w treasury \<Rightarrow> address \<Rightarrow> u64 \<Rightarrow> (TreasuryError, Settlement \<times> 'w treasury) outcome" where
  "revoke_approval h s signer settlement_id =
     andthen (require_not_paused s) (\<lambda>_.
     andthen (require_authorized_signer h s signer) (\<lambda>_.
     andthen (ok_or (t_settlements s settlement_id) (Err T_SettlementNotFound)) (\<lambda>settlement.
     andthen (require (st_status settlement = SPending) (Err T_AlreadyExecuted)) (\<lambda>_.
       let (revoked, approvals, weight) =
             revoke_approval_book s (st_approvals settlement) (st_approval_weight settlement) signer;
           settlement1 = settlement\<lparr>st_approvals := approvals, st_approval_weight := weight\<rparr>
       in andthen (require revoked (Err T_ApprovalNotFound)) (\<lambda>_.
            Inr (settlement1, emit (Ev_settlement_approval_revoked settlement_id signer settlement1)
                                (write_settlement settlement_id settlement1 s)))))))"

definition batch_approve_one ::
    "address \<Rightarrow> u32 \<Rightarrow> u64 \<Rightarrow> Settlement list \<times> 'w treasury \<Rightarrow>
      (TreasuryError, Settlement list \<times> 'w treasury) outcome" where
  "batch_approve_one signer weight i acc =
     (case acc of (approved, s) \<Rightarrow>
        case t_settlements s i of
          None \<Rightarrow> Inr (approved, s)
        | Some settlement \<Rightarrow>
            if st_status settlement = SPending
            then andthen
                   (if signer \<notin> set (st_approvals settlement)
                    then andthen (ok_or (checked_add (st_approval_weight settlement) weight)
                                   (Err T_WeightOverflow))
                           (\<lambda>w. Inr (settlement\<lparr>st_approval_weight := w,
                                      st_approvals := st_approvals settlement @ [signer]\<rparr>))
                    else Inr settlement)
                   (\<lambda>settlement1.
                     Inr (approved @ [settlement1],
                          emit (Ev_settlement_approved i settlement1)
                            (write_settlement i settlement1 s)))
            else Inr (approved, s))"

definition batch_approve_settlements ::
    "'w host \<Rightarrow> 'w treasury \<Rightarrow> address \<Rightarrow> u64 list \<Rightarrow>
      (TreasuryError, Settlement list \<times> 'w treasury) outcome" where
  "batch_approve_settlements h s signer ids =
     andthen (require_not_paused s) (\<lambda>_.
     andthen (require_authorized_signer h s signer) (\<lambda>_.
     andthen (require (\<not> length ids > MAX_BATCH_SIZE) (Err T_BatchTooLarge)) (\<lambda>_.
       fold_result (batch_approve_one signer (signer_weight s signer)) ids ([], s))))"

definition approve_partial_settlement ::
    "'w host \<Rightarrow> 'w treasury \<Rightarrow> address \<Rightarrow> u64 \<Rightarrow> i128 \<Rightarrow>
      (TreasuryError, Settlement \<times> 'w treasury) outcome" where
  "approve_partial_settlement h s signer settlement_id partial_amount =
     andthen (require_not_paused s) (\<lambda>_.
     andthen (require_authorized_signer h s signer) (\<lambda>_.
     andthen (ok_or (t_settlements s settlement_id) (Err T_SettlementNotFound)) (\<lambda>settlement.
     andthen (require (st_status settlement = SPending) (Err T_AlreadyExecuted)) (\<lambda>_.
     andthen (require (\<not> (partial_amount \<le> 0 \<or> partial_amount \<ge> st_amount settlement))
               (Err T_InvalidAmount)) (\<lambda>_.
     andthen (ok_or (checked_i128 (unwrap_or (t_partial_approved s settlement_id) 0
                                    + partial_amount)) Trap) (\<lambda>new_total.
     andthen (require (\<not> new_total > st_amount settlement) (Err T_InvalidAmount)) (\<lambda>_.
     let s1 = s\<lparr>t_partial_approved := (t_partial_approved s)(settlement_id \<mapsto> new_total)\<rparr> in
     andthen (record_approval h s1 (st_approvals settlement) (st_approval_weight settlement) signer)
       (\<lambda>(approvals, weight, s2).
       let settlement1 = settlement\<lparr>st_approvals := approvals, st_approval_weight := weight\<rparr>
       in Inr (settlement1, emit (Ev_settlement_partial_approved settlement_id settlement1)
                              (write_settlement settlement_id settlement1 s2))))))))))"

section \<open>Executing\<close>

definition token_allowlist :: "'w treasury \<Rightarrow> address list" where
  "token_allowlist s = unwrap_or (t_token_allowlist s) []"

definition payout_address :: "'w treasury \<Rightarrow> address \<Rightarrow> address" where
  "payout_address s merchant = unwrap_or (t_payout_addresses s merchant) merchant"

definition hold_expired :: "'w host \<Rightarrow> 'w treasury \<Rightarrow> u64 \<Rightarrow> bool" where
  "hold_expired h s settlement_id =
     (case t_hold_expiry s settlement_id of
        None \<Rightarrow> False | Some expires_at \<Rightarrow> h_now h \<ge> expires_at)"

definition execute_settlement ::
    "'w host \<Rightarrow> 'w treasury \<Rightarrow> address \<Rightarrow> u64 \<Rightarrow> address \<Rightarrow> (TreasuryError, 'w treasury) outcome" where
  "execute_settlement h s signer settlement_id token_contract =
     andthen (require_not_paused s) (\<lambda>_.
     andthen (require_authorized_signer h s signer) (\<lambda>_.
     andthen (ok_or (t_settlements s settlement_id) (Err T_SettlementNotFound)) (\<lambda>settlement.
     andthen (if st_status settlement = SOnHold
              then require (hold_expired h s settlement_id) (Err T_SettlementOnHold)
              else Inr ()) (\<lambda>_.
     andthen (require (\<not> (st_status settlement \<noteq> SPending \<and> st_status settlement \<noteq> SOnHold))
               (Err T_AlreadyExecuted)) (\<lambda>_.
     andthen (ok_or (t_threshold s) (Err T_ThresholdNotConfigured)) (\<lambda>threshold.
     andthen (require (threshold \<noteq> 0) (Err T_ThresholdNotConfigured)) (\<lambda>_.
     andthen (require (meets_threshold (st_approval_weight settlement) threshold)
               (Err T_ThresholdNotMet)) (\<lambda>_.
     andthen (require (\<not> (st_execution_deadline settlement > 0
                           \<and> h_now h > st_execution_deadline settlement))
               (Err T_ExecutionDeadlineExceeded)) (\<lambda>_.
     andthen (require (token_contract \<noteq> h_self h) (Err T_InvalidTokenContract)) (\<lambda>_.
     andthen (require (\<not> (token_allowlist s \<noteq> [] \<and> token_contract \<notin> set (token_allowlist s)))
               (Err T_TokenNotAllowed)) (\<lambda>_.
     andthen (require_compliance_allowed h s (st_merchant_address settlement)
               (st_amount settlement)) (\<lambda>_.
     andthen (token_transfer h token_contract (h_self h)
               (payout_address s (st_merchant_address settlement)) (st_amount settlement) s) (\<lambda>s1.
       let settlement1 = settlement\<lparr>st_status := SExecuted\<rparr>
       in Inr (emit (Ev_settlement_executed settlement_id settlement1)
                (write_settlement settlement_id settlement1 s1)))))))))))))))"

definition batch_execute_one ::
    "'w host \<Rightarrow> u32 \<Rightarrow> address \<Rightarrow> u64 \<Rightarrow> Settlement list \<times> 'w treasury \<Rightarrow>
      (TreasuryError, Settlement list \<times> 'w treasury) outcome" where
  "batch_execute_one h threshold token_contract i acc =
     (case acc of (executed, s) \<Rightarrow>
        case t_settlements s i of
          None \<Rightarrow> Inr (executed, s)
        | Some settlement \<Rightarrow>
            if st_status settlement = SPending
               \<and> meets_threshold (st_approval_weight settlement) threshold
            then andthen (token_transfer h token_contract (h_self h)
                           (payout_address s (st_merchant_address settlement))
                           (st_amount settlement) s) (\<lambda>s1.
                   let settlement1 = settlement\<lparr>st_status := SExecuted\<rparr>
                   in Inr (executed @ [settlement1],
                           emit (Ev_settlement_executed i settlement1)
                             (s1\<lparr>t_settlements := (t_settlements s1)(i \<mapsto> settlement1)\<rparr>)))
            else Inr (executed, s))"

definition batch_execute_settlements ::
    "'w host \<Rightarrow> 'w treasury \<Rightarrow> address \<Rightarrow> u64 list \<Rightarrow> address \<Rightarrow>
      (TreasuryError, Settlement list \<times> 'w treasury) outcome" where
  "batch_execute_settlements h s signer ids token_contract =
     andthen (require_not_paused s) (\<lambda>_.
     andthen (require_authorized_signer h s signer) (\<lambda>_.
     andthen (require (\<not> length ids > MAX_BATCH_SIZE) Trap) (\<lambda>_.
     andthen (ok_or (t_threshold s) Trap) (\<lambda>threshold.
     andthen (require (threshold \<noteq> 0) Trap) (\<lambda>_.
     andthen (require (token_contract \<noteq> h_self h) Trap) (\<lambda>_.
     andthen (require (\<not> (token_allowlist s \<noteq> [] \<and> token_contract \<notin> set (token_allowlist s)))
               Trap) (\<lambda>_.
       fold_result (batch_execute_one h threshold token_contract) ids ([], s))))))))"

definition get_partial_progress ::
    "'w treasury \<Rightarrow> u64 \<Rightarrow> (TreasuryError, i128 \<times> i128 \<times> i128) outcome" where
  "get_partial_progress s settlement_id =
     andthen (require (t_settlements s settlement_id \<noteq> None) (Err T_SettlementNotFound)) (\<lambda>_.
       let approved = unwrap_or (t_partial_approved s settlement_id) 0;
           executed = unwrap_or (t_partial_executed s settlement_id) 0
       in andthen (if approved > executed then ok_or (checked_i128 (approved - executed)) Trap
                   else Inr 0)
            (\<lambda>remaining. Inr (approved, executed, remaining)))"

definition partially_execute_settlement ::
    "'w host \<Rightarrow> 'w treasury \<Rightarrow> address \<Rightarrow> u64 \<Rightarrow> i128 \<Rightarrow> address \<Rightarrow>
      (TreasuryError, 'w treasury) outcome" where
  "partially_execute_settlement h s signer settlement_id partial_amount token_contract =
     andthen (require_not_paused s) (\<lambda>_.
     andthen (require_authorized_signer h s signer) (\<lambda>_.
     andthen (ok_or (t_settlements s settlement_id) (Err T_SettlementNotFound)) (\<lambda>settlement.
     andthen (require (st_status settlement = SPending) (Err T_AlreadyExecuted)) (\<lambda>_.
     andthen (require (\<not> (partial_amount \<le> 0 \<or> partial_amount \<ge> st_amount settlement))
               (Err T_InvalidAmount)) (\<lambda>_.
     andthen (ok_or (t_threshold s) (Err T_ThresholdNotConfigured)) (\<lambda>threshold.
     andthen (require (threshold \<noteq> 0) (Err T_ThresholdNotConfigured)) (\<lambda>_.
     andthen (require (meets_threshold (st_approval_weight settlement) threshold)
               (Err T_ThresholdNotMet)) (\<lambda>_.
     andthen (require (token_contract \<noteq> h_self h) (Err T_InvalidTokenContract)) (\<lambda>_.
     andthen (ok_or (checked_i128 (unwrap_or (t_partial_executed s settlement_id) 0
                                    + partial_amount)) (Err T_ArithmeticOverflow)) (\<lambda>new_executed.
     andthen (require (\<not> new_executed > st_amount settlement) (Err T_InvalidAmount)) (\<lambda>_.
     let s1 = s\<lparr>t_partial_executed := (t_partial_executed s)(settlement_id \<mapsto> new_executed)\<rparr> in
     andthen (token_transfer h token_contract (h_self h) (st_merchant_address settlement)
               partial_amount s1) (\<lambda>s2.
       let settlement1 = settlement\<lparr>st_status := SPartiallyExecuted\<rparr>
       in Inr (emit (Ev_settlement_partial_executed settlement_id settlement1)
                (write_settlement settlement_id settlement1 s2))))))))))))))"

section \<open>Cancelling and expiring\<close>

definition cancel_settlement ::
    "'w host \<Rightarrow> 'w treasury \<Rightarrow> address \<Rightarrow> u64 \<Rightarrow> (TreasuryError, 'w treasury) outcome" where
  "cancel_settlement h s signer settlement_id =
     andthen (require_not_paused s) (\<lambda>_.
     andthen (require_authorized_signer h s signer) (\<lambda>_.
     andthen (ok_or (t_settlements s settlement_id) (Err T_SettlementNotFound)) (\<lambda>settlement.
     andthen (require (st_status settlement = SPending) (Err T_SettlementNotCancellable)) (\<lambda>_.
       let settlement1 = settlement\<lparr>st_status := SCancelled\<rparr>
       in Inr (emit (Ev_settlement_cancelled settlement_id settlement1)
                (write_settlement settlement_id settlement1 s))))))"

definition batch_cancel_one :: "u64 \<Rightarrow> u64 list \<times> 'w treasury \<Rightarrow> u64 list \<times> 'w treasury" where
  "batch_cancel_one i acc =
     (case acc of (cancelled, s) \<Rightarrow>
        case t_settlements s i of
          None \<Rightarrow> (cancelled, s)
        | Some settlement \<Rightarrow>
            if st_status settlement = SPending
            then let settlement1 = settlement\<lparr>st_status := SCancelled\<rparr>
                 in (cancelled @ [i], emit (Ev_settlement_cancelled i settlement1)
                                        (write_settlement i settlement1 s))
            else (cancelled, s))"

definition batch_cancel_settlements ::
    "'w host \<Rightarrow> 'w treasury \<Rightarrow> address \<Rightarrow> u64 list \<Rightarrow>
      (TreasuryError, u64 list \<times> 'w treasury) outcome" where
  "batch_cancel_settlements h s admin ids =
     andthen (require_admin h s admin) (\<lambda>_. Inr (fold batch_cancel_one ids ([], s)))"

definition force_cancel_settlement ::
    "'w host \<Rightarrow> 'w treasury \<Rightarrow> address \<Rightarrow> u64 \<Rightarrow> (TreasuryError, 'w treasury) outcome" where
  "force_cancel_settlement h s admin settlement_id =
     andthen (require_admin h s admin) (\<lambda>_.
     andthen (ok_or (t_settlements s settlement_id) (Err T_SettlementNotFound)) (\<lambda>settlement.
     andthen (require (\<not> (st_status settlement \<noteq> SPending \<and> st_status settlement \<noteq> SOnHold))
               (Err T_ForceCancelNotAllowed)) (\<lambda>_.
       let settlement1 = settlement\<lparr>st_status := SCancelled\<rparr>
       in Inr (emit (Ev_settlement_force_cancelled settlement_id admin settlement1)
                (write_settlement settlement_id settlement1 s)))))"

definition expire_settlement ::
    "'w host \<Rightarrow> 'w treasury \<Rightarrow> address \<Rightarrow> u64 \<Rightarrow> (TreasuryError, 'w treasury) outcome" where
  "expire_settlement h s admin settlement_id =
     andthen (require_admin h s admin) (\<lambda>_.
     andthen (ok_or (t_settlements s settlement_id) (Err T_SettlementNotFound)) (\<lambda>settlement.
     andthen (require (st_status settlement = SPending) (Err T_AlreadyExecuted)) (\<lambda>_.
     andthen (ok_or (checked_add (st_proposed_at settlement)
                      (unwrap_or (t_settlement_expiry s) (7 * 24 * 60 * 60))) Trap) (\<lambda>expires.
     andthen (require (\<not> h_now h \<le> expires) (Err T_TtlNotElapsed)) (\<lambda>_.
       let settlement1 = settlement\<lparr>st_status := SExpired\<rparr>
       in Inr (emit (Ev_settlement_expired settlement_id settlement1)
                (write_settlement settlement_id settlement1 s)))))))"

section \<open>Views\<close>

definition get_settlement :: "'w treasury \<Rightarrow> u64 \<Rightarrow> (TreasuryError, Settlement) outcome" where
  "get_settlement s settlement_id = ok_or (t_settlements s settlement_id) (Err T_SettlementNotFound)"

definition get_pending_settlements :: "'w treasury \<Rightarrow> Settlement list" where
  "get_pending_settlements s = List.map_filter (t_settlements s) (pending_index s)"

text \<open>
  The loop of \<open>get_pending_settlements_page\<close> (\<open>u64\<close> bounds) and of
  \<open>get_settlements_by_merchant\<close> (\<open>u32\<close> bounds): skip \<open>start\<close> ids, then collect
  until the page holds \<open>limit\<close> settlements.
\<close>

fun page_loop ::
    "(u64 \<rightharpoonup> Settlement) \<Rightarrow> 'n::len word \<Rightarrow> 'n word \<Rightarrow> u64 list \<Rightarrow> 'n word \<Rightarrow>
      Settlement list \<Rightarrow> Settlement list" where
  "page_loop settlements start limit [] skipped page = page"
| "page_loop settlements start limit (i # ids) skipped page =
     (if skipped < start then page_loop settlements start limit ids (skipped + 1) page
      else if unat limit \<le> length page then page
      else (case settlements i of
              Some settlement \<Rightarrow> page_loop settlements start limit ids skipped (page @ [settlement])
            | None \<Rightarrow> page_loop settlements start limit ids skipped page))"

definition get_pending_settlements_page :: "'w treasury \<Rightarrow> u64 \<Rightarrow> u64 \<Rightarrow> Settlement list" where
  "get_pending_settlements_page s start limit =
     page_loop (t_settlements s) start limit (pending_index s) 0 []"

definition get_settlements_by_merchant ::
    "'w treasury \<Rightarrow> address \<Rightarrow> u32 \<Rightarrow> u32 \<Rightarrow> Settlement list" where
  "get_settlements_by_merchant s merchant start limit =
     page_loop (t_settlements s) start limit
       (unwrap_or (t_merchant_settlements s merchant) []) 0 []"

text \<open>
  The accumulator of \<open>get_pending_metrics\<close>: the first bucket with the token is
  bumped, or a new one is appended; \<open>None\<close> is an overflow of \<open>b_cnt + 1\<close> or
  \<open>b_val + amount\<close>.
\<close>

fun bump_bucket ::
    "MaybeAddress \<Rightarrow> i128 \<Rightarrow> (MaybeAddress \<times> u64 \<times> i128) list \<Rightarrow>
      (MaybeAddress \<times> u64 \<times> i128) list option" where
  "bump_bucket tok amount [] = Some [(tok, 1, amount)]"
| "bump_bucket tok amount ((b_tok, b_cnt, b_val) # buckets) =
     (if b_tok = tok
      then (case (checked_add b_cnt 1, checked_i128 (b_val + amount)) of
              (Some cnt, Some val) \<Rightarrow> Some ((b_tok, cnt, val) # buckets)
            | _ \<Rightarrow> None)
      else map_option (\<lambda>bs. (b_tok, b_cnt, b_val) # bs) (bump_bucket tok amount buckets))"

definition metrics_step ::
    "'w treasury \<Rightarrow> u64 \<Rightarrow> (MaybeAddress \<times> u64 \<times> i128) list \<Rightarrow>
      (TreasuryError, (MaybeAddress \<times> u64 \<times> i128) list) outcome" where
  "metrics_step s i buckets =
     (case t_settlements s i of
        None \<Rightarrow> Inr buckets
      | Some settlement \<Rightarrow>
          ok_or (bump_bucket (st_token settlement) (st_amount settlement) buckets) Trap)"

definition get_pending_metrics ::
    "'w treasury \<Rightarrow> (TreasuryError, (MaybeAddress \<times> u64 \<times> i128) list) outcome" where
  "get_pending_metrics s = fold_result (metrics_step s) (pending_index s) []"

definition settlement_approval_is_active :: "'w host \<Rightarrow> 'w treasury \<Rightarrow> Settlement \<Rightarrow> bool" where
  "settlement_approval_is_active h s settlement \<longleftrightarrow>
     st_status settlement = SPending \<and>
     h_now h \<le> saturating_add (st_proposed_at settlement)
                 (unwrap_or (t_settlement_expiry s) (7 * 24 * 60 * 60))"

definition add_signer_weight ::
    "'w treasury \<Rightarrow> address \<Rightarrow> address list \<times> u32 \<Rightarrow> (TreasuryError, address list \<times> u32) outcome" where
  "add_signer_weight s signer acc =
     (case acc of (signers, weight) \<Rightarrow>
        andthen (ok_or (checked_add weight (signer_weight s signer)) Trap)
          (\<lambda>w. Inr (signers @ [signer], w)))"

definition get_approvals ::
    "'w host \<Rightarrow> 'w treasury \<Rightarrow> u64 \<Rightarrow> (TreasuryError, address list \<times> u32) outcome" where
  "get_approvals h s settlement_id =
     andthen (ok_or (t_settlements s settlement_id) (Err T_SettlementNotFound)) (\<lambda>settlement.
       if \<not> settlement_approval_is_active h s settlement then Inr ([], 0)
       else fold_result (add_signer_weight s) (st_approvals settlement) ([], 0))"

section \<open>Payout addresses and the token allowlist\<close>

definition update_merchant_payout_address ::
    "'w host \<Rightarrow> 'w treasury \<Rightarrow> address \<Rightarrow> address \<Rightarrow> (TreasuryError, 'w treasury) outcome" where
  "update_merchant_payout_address h s merchant new_payout_address =
     andthen (require_not_paused s) (\<lambda>_.
     andthen (require_auth h merchant) (\<lambda>_.
       let s1 = s\<lparr>t_payout_addresses := (t_payout_addresses s)(merchant \<mapsto> new_payout_address)\<rparr>;
           history = unwrap_or (t_payout_history s1 merchant) [];
           history1 = (if length history \<ge> MAX_PAYOUT_HISTORY
                       then drop (length history - MAX_PAYOUT_HISTORY + 1) history else history);
           history2 = history1 @ [(new_payout_address, h_now h)]
       in Inr (emit (Ev_merchant_payout_updated merchant new_payout_address)
                (s1\<lparr>t_payout_history := (t_payout_history s1)(merchant \<mapsto> history2)\<rparr>))))"

definition get_merchant_payout_address :: "'w treasury \<Rightarrow> address \<Rightarrow> address option" where
  "get_merchant_payout_address s merchant = t_payout_addresses s merchant"

definition get_payout_address_history :: "'w treasury \<Rightarrow> address \<Rightarrow> (address \<times> u64) list" where
  "get_payout_address_history s merchant = unwrap_or (t_payout_history s merchant) []"

definition add_allowed_token ::
    "'w host \<Rightarrow> 'w treasury \<Rightarrow> address \<Rightarrow> address \<Rightarrow> (TreasuryError, 'w treasury) outcome" where
  "add_allowed_token h s admin token =
     andthen (require_admin h s admin) (\<lambda>_.
       let allowlist = unwrap_or (t_token_allowlist s) []
       in if token \<notin> set allowlist
          then andthen (require (\<not> length allowlist \<ge> MAX_ALLOWED_TOKENS) (Err T_AllowlistFull)) (\<lambda>_.
                 Inr (emit (Ev_token_allowed token)
                       (s\<lparr>t_token_allowlist := Some (allowlist @ [token])\<rparr>)))
          else Inr s)"

definition remove_allowed_token ::
    "'w host \<Rightarrow> 'w treasury \<Rightarrow> address \<Rightarrow> address \<Rightarrow> (TreasuryError, 'w treasury) outcome" where
  "remove_allowed_token h s admin token =
     andthen (require_admin h s admin) (\<lambda>_.
     let allowlist = unwrap_or (t_token_allowlist s) [] in
     andthen (if token \<in> set allowlist
              then andthen (has_pending_settlement s)
                     (\<lambda>pending. require (\<not> pending) (Err T_TokenHasPendingSettlements))
              else Inr ()) (\<lambda>_.
     let token_total = unwrap_or (t_token_total s token) 0 in
     andthen (require (\<not> (token \<in> set allowlist \<and> token_total > 0)) (Err T_TokenHasBalance)) (\<lambda>_.
       Inr (emit (Ev_token_removed token)
             (s\<lparr>t_token_allowlist := Some (filter (\<lambda>t. t \<noteq> token) allowlist)\<rparr>)))))"

definition get_allowed_tokens :: "'w treasury \<Rightarrow> address list" where
  "get_allowed_tokens s = unwrap_or (t_token_allowlist s) []"

text \<open>Inversion of \<open>execute_settlement\<close>: its guards, the transfer and the state it leaves.\<close>

lemma execute_settlement_eq_Inr:
  "execute_settlement h s signer i token = Inr s' \<longleftrightarrow>
     \<not> is_paused s \<and> h_auth h signer \<and> signer_weight s signer \<noteq> 0 \<and> token \<noteq> h_self h \<and>
     (token_allowlist s = [] \<or> token \<in> set (token_allowlist s)) \<and>
     (\<exists>st thr w. t_settlements s i = Some st \<and>
        (st_status st = SPending \<or> st_status st = SOnHold \<and> hold_expired h s i) \<and>
        t_threshold s = Some thr \<and> thr \<noteq> 0 \<and> thr \<le> st_approval_weight st \<and>
        (st_execution_deadline st = 0 \<or> h_now h \<le> st_execution_deadline st) \<and>
        (case t_compliance_id s of
           None \<Rightarrow> True
         | Some c \<Rightarrow> h_is_allowed_for_amount h c (st_merchant_address st) (st_amount st) (t_world s)
                       = Some True) \<and>
        h_transfer h token (h_self h) (payout_address s (st_merchant_address st)) (st_amount st)
          (t_world s) = Some w \<and>
        s' = emit (Ev_settlement_executed i (st\<lparr>st_status := SExecuted\<rparr>))
               (write_settlement i (st\<lparr>st_status := SExecuted\<rparr>) (s\<lparr>t_world := w\<rparr>)))"
proof (cases "t_settlements s i")
  case None
  then show ?thesis by (simp add: execute_settlement_def result_simps)
next
  case (Some st)
  note st = this
  show ?thesis
  proof (cases "t_threshold s")
    case None
    with st show ?thesis by (simp add: execute_settlement_def result_simps)
  next
    case (Some thr)
    have dl: "(d > 0 \<longrightarrow> \<not> n > d) = (d = 0 \<or> n \<le> d)" for d n :: u64
      by (auto simp: word_gt_0 not_less)
    have hold: "(if st_status st = SOnHold then require b (Err T_SettlementOnHold) else Inr ()) =
        require (st_status st = SOnHold \<longrightarrow> b) (Err T_SettlementOnHold)" for b
      by simp
    have compl: "(\<forall>c. t_compliance_id s = Some c \<longrightarrow> P c) =
        (case t_compliance_id s of None \<Rightarrow> True | Some c \<Rightarrow> P c)" for P
      by (simp split: option.splits)
    show ?thesis using st Some
      by (cases "h_transfer h token (h_self h) (payout_address s (st_merchant_address st))
            (st_amount st) (t_world s)")
        (auto simp: execute_settlement_def result_simps hold compl dl meets_threshold_def Let_def)
  qed
qed

end
