(* ===== verification/Treasury_Signers.thy ===== *)
theory Treasury_Signers
  imports Treasury_State
begin

text \<open>
  \<^verbatim>\<open>contracts/treasury/src/signers.rs\<close>: the signer registry (weights, the signer
  list, labels) and signer rotation by quorum.
\<close>

section \<open>Registry\<close>

definition MAX_SIGNER_LABEL_LEN :: nat where "MAX_SIGNER_LABEL_LEN = 64"

definition signer_list :: "'w treasury \<Rightarrow> address list" where
  "signer_list s = unwrap_or (t_signer_list s) []"

definition set_signer ::
    "'w host \<Rightarrow> 'w treasury \<Rightarrow> address \<Rightarrow> address \<Rightarrow> u32 \<Rightarrow> (TreasuryError, 'w treasury) outcome" where
  "set_signer h s admin signer weight =
     andthen (require_admin h s admin) (\<lambda>_.
     andthen (require (weight \<noteq> 0) (Err T_InvalidAmount)) (\<lambda>_.
       let s1 = s\<lparr>t_signers := (t_signers s)(signer \<mapsto> weight)\<rparr>;
           lst = signer_list s1;
           s2 = (if signer \<notin> set lst then s1\<lparr>t_signer_list := Some (lst @ [signer])\<rparr> else s1)
       in Inr (emit (Ev_signer_weight_set signer weight) s2)))"

definition set_signer_label ::
    "'w host \<Rightarrow> 'w treasury \<Rightarrow> address \<Rightarrow> address \<Rightarrow> string \<Rightarrow> (TreasuryError, 'w treasury) outcome" where
  "set_signer_label h s admin signer label =
     andthen (require_admin h s admin) (\<lambda>_.
     andthen (require (length label \<le> MAX_SIGNER_LABEL_LEN) (Err T_LabelTooLong)) (\<lambda>_.
       let s1 = (if label = [] then s\<lparr>t_signer_labels := (t_signer_labels s)(signer := None)\<rparr>
                 else s\<lparr>t_signer_labels := (t_signer_labels s)(signer \<mapsto> label)\<rparr>)
       in Inr (emit (Ev_signer_label_set signer label) s1)))"

definition remove_signer ::
    "'w host \<Rightarrow> 'w treasury \<Rightarrow> address \<Rightarrow> address \<Rightarrow> (TreasuryError, 'w treasury) outcome" where
  "remove_signer h s admin signer =
     andthen (require_admin h s admin) (\<lambda>_.
       let threshold = unwrap_or (t_threshold s) 0;
           weight = unwrap_or (t_signers s signer) 0;
           lst = signer_list s;
           total_weight = fold (\<lambda>x acc. saturating_add acc (unwrap_or (t_signers s x) 0)) lst 0;
           weight_after_removal = saturating_sub total_weight weight
       in andthen (require (\<not> weight_after_removal < threshold) (Err T_QuorumBreak)) (\<lambda>_.
            Inr (emit (Ev_signer_removed signer)
                  (s\<lparr>t_signers := (t_signers s)(signer := None),
                     t_signer_list := Some (filter (\<lambda>x. x \<noteq> signer) lst)\<rparr>))))"

definition get_signer_weight :: "'w treasury \<Rightarrow> address \<Rightarrow> u32" where
  "get_signer_weight s signer = signer_weight s signer"

definition get_all_signers :: "'w treasury \<Rightarrow> (address \<times> u32 \<times> string option) list" where
  "get_all_signers s =
     map (\<lambda>signer. (signer, unwrap_or (t_signers s signer) 0, t_signer_labels s signer))
       (signer_list s)"

text \<open>
  \<open>.map(|(_, weight, _)| weight).sum()\<close>: the iterator adds with the overflow
  checks of the profile, so an overflow panics (\<open>None\<close>).
\<close>

fun sum_u32 :: "u32 list \<Rightarrow> u32 \<Rightarrow> u32 option" where
  "sum_u32 [] acc = Some acc"
| "sum_u32 (x # xs) acc = (case checked_add acc x of None \<Rightarrow> None | Some y \<Rightarrow> sum_u32 xs y)"

definition total_signer_weight :: "'w treasury \<Rightarrow> u32 option" where
  "total_signer_weight s = sum_u32 (map (\<lambda>(_, weight, _). weight) (get_all_signers s)) 0"

section \<open>Rotation\<close>

definition get_rotation :: "'w treasury \<Rightarrow> u64 \<Rightarrow> SignerRotationProposal option" where
  "get_rotation s rotation_id = t_rotations s rotation_id"

definition get_signer_last_active :: "'w treasury \<Rightarrow> address \<Rightarrow> u64 option" where
  "get_signer_last_active s signer = t_signer_last_active s signer"

definition COOLDOWN_SECS :: u64 where "COOLDOWN_SECS = 60 * 60"

definition propose_signer_rotation ::
    "'w host \<Rightarrow> 'w treasury \<Rightarrow> address \<Rightarrow> address \<Rightarrow> address \<Rightarrow>
      (TreasuryError, u64 \<times> 'w treasury) outcome" where
  "propose_signer_rotation h s proposer old_signer new_signer =
     andthen (require_authorized_signer h s proposer) (\<lambda>_.
     andthen (case t_last_rotation_proposal s proposer of
                None \<Rightarrow> Inr ()
              | Some previous \<Rightarrow> require (\<not> h_now h < saturating_add previous COOLDOWN_SECS)
                               (Err T_RotationProposalCooldown)) (\<lambda>_.
     let s1 = s\<lparr>t_last_rotation_proposal := (t_last_rotation_proposal s)(proposer \<mapsto> h_now h)\<rparr>;
         count = unwrap_or (t_rotation_count s1) 0
     in
     andthen (ok_or (checked_add count 1) (Err T_ArithmeticOverflow)) (\<lambda>i.
     andthen (record_approval h s1 [] 0 proposer) (\<lambda>(approvals, weight, s2).
       let captured_old_weight = signer_weight s2 old_signer;
           proposal = \<lparr> rot_id = i, rot_old_signer = old_signer, rot_new_signer = new_signer,
                        rot_approvals = approvals, rot_approval_weight = weight,
                        rot_status = RPending, rot_captured_old_weight = captured_old_weight \<rparr>
       in Inr (i, emit (Ev_rotation_proposed i proposal)
                   (s2\<lparr>t_rotations := (t_rotations s2)(i \<mapsto> proposal),
                       t_rotation_count := Some i\<rparr>))))))"

text \<open>The part of \<open>approve_signer_rotation\<close> after the approval is recorded.\<close>

definition rotation_outcome ::
    "u64 \<Rightarrow> SignerRotationProposal \<Rightarrow> address list \<Rightarrow> u32 \<Rightarrow> 'w treasury \<Rightarrow>
      (TreasuryError, SignerRotationProposal \<times> 'w treasury) outcome" where
  "rotation_outcome rotation_id p approvals weight s1 =
     (let p1 = p\<lparr>rot_approvals := approvals, rot_approval_weight := weight\<rparr>;
          threshold = unwrap_or (t_threshold s1) 1;
          (p2, s2) =
            (if meets_threshold weight threshold
             then let q = p1\<lparr>rot_status := RExecuted\<rparr>
                  in (q, emit (Ev_rotation_executed rotation_id q)
                       (s1\<lparr>t_signers := ((t_signers s1)
                              (rot_new_signer p1 \<mapsto> rot_captured_old_weight p1))
                              (rot_old_signer p1 \<mapsto> 0)\<rparr>))
             else (p1, s1))
      in Inr (p2, emit (Ev_rotation_approved rotation_id p2)
                (s2\<lparr>t_rotations := (t_rotations s2)(rotation_id \<mapsto> p2)\<rparr>)))"

definition approve_signer_rotation ::
    "'w host \<Rightarrow> 'w treasury \<Rightarrow> address \<Rightarrow> u64 \<Rightarrow>
      (TreasuryError, SignerRotationProposal \<times> 'w treasury) outcome" where
  "approve_signer_rotation h s approver rotation_id =
     andthen (require_authorized_signer h s approver) (\<lambda>_.
     andthen (ok_or (t_rotations s rotation_id) (Err T_RotationNotFound)) (\<lambda>p.
     andthen (require (rot_status p = RPending) (Err T_RotationAlreadyExecuted)) (\<lambda>_.
     andthen (record_approval h s (rot_approvals p) (rot_approval_weight p) approver)
       (\<lambda>(approvals, weight, s1). rotation_outcome rotation_id p approvals weight s1))))"

definition cancel_rotation ::
    "'w host \<Rightarrow> 'w treasury \<Rightarrow> address \<Rightarrow> u64 \<Rightarrow>
      (TreasuryError, SignerRotationProposal \<times> 'w treasury) outcome" where
  "cancel_rotation h s admin rotation_id =
     andthen (require_admin h s admin) (\<lambda>_.
     andthen (ok_or (t_rotations s rotation_id) (Err T_RotationNotFound)) (\<lambda>p.
     andthen (require (rot_status p = RPending) (Err T_RotationAlreadyExecuted)) (\<lambda>_.
       let p1 = p\<lparr>rot_status := RCancelled\<rparr>
       in Inr (p1, emit (Ev_rotation_cancelled rotation_id p1)
                 (s\<lparr>t_rotations := (t_rotations s)(rotation_id \<mapsto> p1)\<rparr>)))))"

end
