(* ===== verification/Treasury_Deposits.thy ===== *)
theory Treasury_Deposits
  imports Treasury_Settlements Treasury_Signers
begin

text \<open>
  \<^verbatim>\<open>contracts/treasury/src/deposits.rs\<close>: deposits and withdrawals with the
  per-depositor and per-token accounts, the rolling withdrawal limit, and the
  two emergency drains.
\<close>

definition balance_of :: "'w treasury \<Rightarrow> address \<Rightarrow> address \<Rightarrow> i128" where
  "balance_of s holder token = unwrap_or (t_balances s (holder, token)) 0"

definition token_total_of :: "'w treasury \<Rightarrow> address \<Rightarrow> i128" where
  "token_total_of s token = unwrap_or (t_token_total s token) 0"

definition deposit_one ::
    "'w host \<Rightarrow> address \<Rightarrow> bytes option \<Rightarrow> address \<times> i128 \<Rightarrow> 'w treasury \<Rightarrow>
      (TreasuryError, 'w treasury) outcome" where
  "deposit_one h depositor reference tok_amount s =
     (case tok_amount of (token_contract, amount) \<Rightarrow>
     andthen (require (\<not> amount \<le> 0) (Err T_InvalidAmount)) (\<lambda>_.
     andthen (token_transfer h token_contract depositor (h_self h) amount s) (\<lambda>s1.
     andthen (ok_or (checked_i128 (balance_of s1 depositor token_contract + amount))
               (Err T_ArithmeticOverflow)) (\<lambda>balance.
     andthen (ok_or (checked_i128 (token_total_of s1 token_contract + amount))
               (Err T_ArithmeticOverflow)) (\<lambda>new_total.
       Inr (emit (Ev_deposit depositor amount reference)
             (s1\<lparr>t_balances := (t_balances s1)((depositor, token_contract) \<mapsto> balance),
                 t_token_total := (t_token_total s1)(token_contract \<mapsto> new_total)\<rparr>)))))))"

definition record_optional_reference ::
    "'w host \<Rightarrow> bytes option \<Rightarrow> 'w treasury \<Rightarrow> (TreasuryError, 'w treasury) outcome" where
  "record_optional_reference h reference s =
     (case reference of None \<Rightarrow> Inr s | Some ref_id \<Rightarrow> record_deposit_reference h ref_id s)"

definition deposit ::
    "'w host \<Rightarrow> 'w treasury \<Rightarrow> address \<Rightarrow> address \<Rightarrow> i128 \<Rightarrow> bytes option \<Rightarrow>
      (TreasuryError, 'w treasury) outcome" where
  "deposit h s depositor token_contract amount reference =
     andthen (require_not_paused s) (\<lambda>_.
     andthen (require_auth h depositor) (\<lambda>_.
     andthen (record_optional_reference h reference s) (\<lambda>s1.
       deposit_one h depositor reference (token_contract, amount) s1)))"

definition batch_deposit ::
    "'w host \<Rightarrow> 'w treasury \<Rightarrow> address \<Rightarrow> (address \<times> i128) list \<Rightarrow> bytes option \<Rightarrow>
      (TreasuryError, 'w treasury) outcome" where
  "batch_deposit h s depositor deposits reference =
     andthen (require_not_paused s) (\<lambda>_.
     andthen (require_auth h depositor) (\<lambda>_.
     andthen (record_optional_reference h reference s) (\<lambda>s1.
       fold_result (deposit_one h depositor reference) deposits s1)))"

definition enforce_withdrawal_limit ::
    "'w host \<Rightarrow> address \<Rightarrow> i128 \<Rightarrow> 'w treasury \<Rightarrow> (TreasuryError, 'w treasury) outcome" where
  "enforce_withdrawal_limit h addr amount s =
     (let limit = unwrap_or (t_withdrawal_limit s) 0 in
      if limit \<le> 0 then Inr s
      else
        let window_secs = unwrap_or (t_withdrawal_window_secs s) 0;
            now = h_now h;
            window_start = unwrap_or (t_window_start s addr) 0;
            used = unwrap_or (t_withdrawn s addr) 0;
            window_elapsed = (window_secs = 0 \<or> saturating_sub now window_start \<ge> window_secs);
            (current_start, prior_used) = (if window_elapsed then (now, 0) else (window_start, used))
        in andthen (ok_or (checked_i128 (prior_used + amount)) (Err T_ArithmeticOverflow)) (\<lambda>new_used.
           andthen (require (\<not> new_used > limit) (Err T_WithdrawalLimitExceeded)) (\<lambda>_.
             Inr (s\<lparr>t_window_start := (t_window_start s)(addr \<mapsto> current_start),
                    t_withdrawn := (t_withdrawn s)(addr \<mapsto> new_used)\<rparr>))))"

definition withdraw ::
    "'w host \<Rightarrow> 'w treasury \<Rightarrow> address \<Rightarrow> address \<Rightarrow> i128 \<Rightarrow> (TreasuryError, 'w treasury) outcome" where
  "withdraw h s dst token_contract amount =
     andthen (require_not_paused s) (\<lambda>_.
     andthen (require_auth h dst) (\<lambda>_.
     andthen (require (\<not> amount \<le> 0) (Err T_InvalidAmount)) (\<lambda>_.
     let allowlist = unwrap_or (t_withdrawal_allowlist s) [] in
     andthen (require (\<not> (allowlist \<noteq> [] \<and> dst \<notin> set allowlist)) (Err T_DestinationNotAllowed)) (\<lambda>_.
     let balance = balance_of s dst token_contract in
     andthen (require (\<not> balance < amount) (Err T_InsufficientBalance)) (\<lambda>_.
     andthen (enforce_withdrawal_limit h dst amount s) (\<lambda>s1.
     andthen (ok_or (checked_i128 (balance - amount)) (Err T_ArithmeticOverflow)) (\<lambda>new_balance.
     let s2 = s1\<lparr>t_balances := (t_balances s1)((dst, token_contract) \<mapsto> new_balance)\<rparr> in
     andthen (ok_or (checked_i128 (token_total_of s2 token_contract - amount))
               (Err T_ArithmeticOverflow)) (\<lambda>new_total.
     let s3 = s2\<lparr>t_token_total := (t_token_total s2)(token_contract \<mapsto> new_total)\<rparr> in
     andthen (token_transfer h token_contract (h_self h) dst amount s3) (\<lambda>s4.
       Inr (emit (Ev_withdraw dst amount) s4))))))))))"

definition get_balance :: "'w treasury \<Rightarrow> address \<Rightarrow> address \<Rightarrow> i128" where
  "get_balance s addr token_contract = unwrap_or (t_balances s (addr, token_contract)) 0"

definition get_all_balances :: "'w treasury \<Rightarrow> address \<Rightarrow> (address \<times> i128) list" where
  "get_all_balances s addr =
     map (\<lambda>token_contract. (token_contract, unwrap_or (t_balances s (addr, token_contract)) 0))
       (get_allowed_tokens s)"

definition withdraw_all ::
    "'w host \<Rightarrow> 'w treasury \<Rightarrow> address \<Rightarrow> address \<Rightarrow> address \<Rightarrow> (TreasuryError, 'w treasury) outcome" where
  "withdraw_all h s admin token_contract recipient =
     andthen (require_admin h s admin) (\<lambda>_.
     andthen (require (unwrap_or (t_paused s) False) (Err T_NotPaused)) (\<lambda>_.
     andthen (ok_or (h_balance h token_contract (h_self h) (t_world s)) Trap) (\<lambda>balance.
     andthen (if balance > 0
              then andthen (enforce_withdrawal_limit h recipient balance s) (\<lambda>s1.
                     token_transfer h token_contract (h_self h) recipient balance s1)
              else Inr s) (\<lambda>s2.
       Inr (emit (Ev_treasury_drained recipient) s2)))))"

definition require_registered_signer ::
    "'w host \<Rightarrow> 'w treasury \<Rightarrow> address list \<Rightarrow> address \<Rightarrow> unit \<Rightarrow> (TreasuryError, unit) outcome" where
  "require_registered_signer h s signers registered u =
     (if signer_weight s registered = 0 then Inr ()
      else andthen (require (registered \<in> set signers) (Err T_UnauthorizedSigner)) (\<lambda>_.
           require_auth h registered))"

definition emergency_withdraw ::
    "'w host \<Rightarrow> 'w treasury \<Rightarrow> address list \<Rightarrow> address \<Rightarrow> address \<Rightarrow>
      (TreasuryError, 'w treasury) outcome" where
  "emergency_withdraw h s signers token_contract recovery_address =
     andthen (require (unwrap_or (t_paused s) False) (Err T_NotPaused)) (\<lambda>_.
     andthen (fold_result (require_registered_signer h s signers) (signer_list s) ()) (\<lambda>_.
     andthen (ok_or (h_balance h token_contract (h_self h) (t_world s)) Trap) (\<lambda>balance.
     andthen (if balance > 0
              then token_transfer h token_contract (h_self h) recovery_address balance s
              else Inr s) (\<lambda>s1.
       Inr (emit (Ev_emergency_withdraw recovery_address balance) s1)))))"

end
