(* ===== verification/Protocol_Math.thy ===== *)
theory Protocol_Math
  imports Prelude
begin

text \<open>
  \<^verbatim>\<open>crates/protocol-math\<close>: the basis-point denominator and the ratio helpers that
  the dispute split uses, with their overflow behaviour.
\<close>

definition BPS_DENOMINATOR :: u32 where
  "BPS_DENOMINATOR = 10000"

definition bps_denominator_i128 :: i128 where
  "bps_denominator_i128 = int (unat BPS_DENOMINATOR)"

definition is_valid_bps :: "u32 \<Rightarrow> bool" where
  "is_valid_bps bps \<longleftrightarrow> bps \<le> BPS_DENOMINATOR"

text \<open>
  \<open>checked_mul\<close>, then \<open>checked_div\<close> by a positive constant, which never fails.
\<close>

definition apply_bps_i128 :: "i128 \<Rightarrow> u32 \<Rightarrow> i128 option" where
  "apply_bps_i128 amount bps =
     (case checked_i128 (amount * int (unat bps)) of
        None \<Rightarrow> None
      | Some p \<Rightarrow> checked_i128 (rust_div p bps_denominator_i128))"

definition split_bps_i128 :: "i128 \<Rightarrow> u32 \<Rightarrow> (i128 \<times> i128) option" where
  "split_bps_i128 amount bps =
     (case apply_bps_i128 amount bps of
        None \<Rightarrow> None
      | Some first \<Rightarrow>
          (case checked_i128 (amount - first) of
             None \<Rightarrow> None
           | Some rest \<Rightarrow> Some (first, rest)))"

lemma bps_denominator_i128_eq [simp]: "bps_denominator_i128 = 10000"
  by (simp add: bps_denominator_i128_def BPS_DENOMINATOR_def)

lemma is_valid_bps_unat: "is_valid_bps bps \<longleftrightarrow> unat bps \<le> 10000"
  by (simp add: is_valid_bps_def BPS_DENOMINATOR_def word_le_nat_alt)

lemma int_div_le: "0 \<le> a \<Longrightarrow> 0 < b \<Longrightarrow> a div b \<le> a" for a b :: int
  using zdiv_mono2 [of a 1 b] by simp

lemma rust_div_abs_le: "0 < b \<Longrightarrow> \<bar>rust_div a b\<bar> \<le> \<bar>a\<bar>"
proof (cases "0 \<le> a")
  case True
  assume "0 < b"
  with True have "0 \<le> a div b" "a div b \<le> a"
    by (simp_all add: pos_imp_zdiv_nonneg_iff int_div_le)
  with True show ?thesis by simp
next
  case False
  assume "0 < b"
  with False have "0 \<le> (- a) div b" "(- a) div b \<le> - a"
    by (simp_all add: pos_imp_zdiv_nonneg_iff int_div_le)
  with False show ?thesis by (simp add: rust_div_def)
qed

lemma apply_bps_nonneg:
  assumes "0 \<le> amount"
  shows "apply_bps_i128 amount bps = Some share \<longleftrightarrow>
    amount * int (unat bps) \<le> i128_MAX \<and> share = amount * int (unat bps) div 10000"
proof -
  have nonneg: "0 \<le> amount * int (unat bps)" using assms by simp
  moreover have "amount * int (unat bps) div 10000 \<le> amount * int (unat bps)"
    using nonneg by (rule int_div_le) simp
  moreover have "0 \<le> amount * int (unat bps) div 10000"
    using nonneg by (simp add: pos_imp_zdiv_nonneg_iff)
  ultimately show ?thesis
    by (auto simp: apply_bps_i128_def arith_simps i128_ok_def i128_MIN_def split: option.splits)
qed

lemma apply_bps_bounds:
  assumes "0 \<le> amount" and "is_valid_bps bps" and "apply_bps_i128 amount bps = Some share"
  shows "0 \<le> share" and "share \<le> amount"
proof -
  from assms have share: "share = amount * int (unat bps) div 10000"
    by (simp add: apply_bps_nonneg)
  from assms(1) show "0 \<le> share" by (simp add: share pos_imp_zdiv_nonneg_iff)
  have "int (unat bps) \<le> 10000"
    using assms(2) unfolding is_valid_bps_unat by linarith
  then have "amount * int (unat bps) \<le> amount * 10000"
    using assms(1) by (rule mult_left_mono)
  then have "share \<le> amount * 10000 div 10000"
    unfolding share by (rule zdiv_mono1) simp
  then show "share \<le> amount" by simp
qed

text \<open>
  A split creates and loses nothing: the two parts sum to the amount, and for a
  valid ratio of a non-negative amount both parts lie between zero and the amount.
\<close>

lemma split_bps_sum: "split_bps_i128 amount bps = Some (a, b) \<Longrightarrow> a + b = amount"
  by (auto simp: split_bps_i128_def arith_simps split: option.splits)

lemma split_bps_bounds:
  assumes "0 \<le> amount" and "is_valid_bps bps" and "split_bps_i128 amount bps = Some (a, b)"
  shows "0 \<le> a \<and> 0 \<le> b \<and> a \<le> amount \<and> b \<le> amount"
proof -
  from assms(3) have a: "apply_bps_i128 amount bps = Some a" and ab: "a + b = amount"
    by (auto simp: split_bps_sum split_bps_i128_def split: option.splits)
  have "0 \<le> a" "a \<le> amount" using apply_bps_bounds [OF assms(1,2) a] by blast+
  with ab show ?thesis by linarith
qed

end
