(* ===== verification/Treasury_Disputes.thy ===== *)
theory Treasury_Disputes
  imports Treasury_Settlements Protocol_Math
begin

text \<open>
  \<^verbatim>\<open>contracts/treasury/src/disputes.rs\<close>: disputes against settlements, their
  resolution by the admin, by a basis-point split or by signer votes, and the
  release of the settlement hold once no dispute is open.
\<close>

definition MAX_RESOLUTION_MEMO_LEN :: nat where "MAX_RESOLUTION_MEMO_LEN = 256"

definition validate_resolution_memo :: "string option \<Rightarrow> (TreasuryError, unit) outcome" where
  "validate_resolution_memo memo =
     (case memo of
        None \<Rightarrow> Inr ()
      | Some m \<Rightarrow> require (\<not> length m > MAX_RESOLUTION_MEMO_LEN) (Err T_LabelTooLong))"

definition raise_dispute ::
    "'w host \<Rightarrow> 'w treasury \<Rightarrow> address \<Rightarrow> u64 \<Rightarrow> address \<Rightarrow> i128 \<Rightarrow> u64 \<Rightarrow> bytes option \<Rightarrow>
      (TreasuryError, u64 \<times> 'w treasury) outcome" where
  "raise_dispute h s claimant settlement_id counterparty amount expires_at evidence_hash =
     andthen (require_not_paused s) (\<lambda>_.
     andthen (require_auth h claimant) (\<lambda>_.
     andthen (require (\<not> amount \<le> 0) (Err T_InvalidAmount)) (\<lambda>_.
     let s1 = (case t_settlements s settlement_id of
                 None \<Rightarrow> s
               | Some settlement \<Rightarrow>
                   if st_status settlement = SPending
                   then write_settlement settlement_id (settlement\<lparr>st_status := SOnHold\<rparr>) s
                   else s)
     in
     andthen (ok_or (checked_add (unwrap_or (t_dispute_count s1) 0) 1)
               (Err T_ArithmeticOverflow)) (\<lambda>i.
       let dispute =
             \<lparr> dp_id = i, dp_settlement_id = settlement_id, dp_claimant = claimant,
               dp_counterparty = counterparty, dp_amount = amount, dp_status = DRaised,
               dp_resolution_approvals = [], dp_resolution_weight = 0,
               dp_resolution_for_claimant = False, dp_dispute_expires_at = expires_at,
               dp_claimant_share_bps = 0, dp_evidence_hash = evidence_hash,
               dp_resolution_memo = None \<rparr>;
           by_settlement = unwrap_or (t_settlement_disputes s1 settlement_id) [] @ [i]
       in Inr (i, emit (Ev_dispute_raised i dispute)
                 (s1\<lparr>t_disputes := (t_disputes s1)(i \<mapsto> dispute),
                     t_dispute_count := Some i,
                     t_settlement_disputes :=
                       (t_settlement_disputes s1)(settlement_id \<mapsto> by_settlement)\<rparr>))))))"

definition is_open_against :: "'w treasury \<Rightarrow> u64 \<Rightarrow> u64 \<Rightarrow> bool" where
  "is_open_against s settlement_id i =
     (case t_disputes s i of
        None \<Rightarrow> False
      | Some d \<Rightarrow> dp_settlement_id d = settlement_id \<and> dp_status d = DRaised)"

definition release_settlement_hold_if_no_open_disputes ::
    "u64 \<Rightarrow> 'w treasury \<Rightarrow> (TreasuryError, 'w treasury) outcome" where
  "release_settlement_hold_if_no_open_disputes settlement_id s =
     (case t_settlements s settlement_id of
        None \<Rightarrow> Inr s
      | Some settlement \<Rightarrow>
          if st_status settlement = SOnHold
          then andthen (ok_or (scan_ids (is_open_against s settlement_id) 1
                                (unwrap_or (t_dispute_count s) 0)) Trap) (\<lambda>has_open.
                 if \<not> has_open
                 then Inr (write_settlement settlement_id
                        (settlement\<lparr>st_status := SPending, st_hold_reason := HNone\<rparr>) s)
                 else Inr s)
          else Inr s)"

definition expire_dispute ::
    "'w host \<Rightarrow> 'w treasury \<Rightarrow> address \<Rightarrow> u64 \<Rightarrow> (TreasuryError, 'w treasury) outcome" where
  "expire_dispute h s admin dispute_id =
     andthen (require_admin h s admin) (\<lambda>_.
     andthen (ok_or (t_disputes s dispute_id) (Err T_DisputeNotFound)) (\<lambda>dispute.
     andthen (require (dp_status dispute = DRaised) (Err T_DisputeAlreadyResolved)) (\<lambda>_.
     andthen (require (\<not> h_now h < dp_dispute_expires_at dispute) (Err T_DisputeNotExpired)) (\<lambda>_.
       let dispute1 = dispute\<lparr>dp_status := DExpired\<rparr>
       in release_settlement_hold_if_no_open_disputes (dp_settlement_id dispute)
            (emit (Ev_dispute_expired dispute_id dispute1)
              (s\<lparr>t_disputes := (t_disputes s)(dispute_id \<mapsto> dispute1)\<rparr>))))))"

definition get_dispute :: "'w treasury \<Rightarrow> u64 \<Rightarrow> (TreasuryError, Dispute) outcome" where
  "get_dispute s dispute_id = ok_or (t_disputes s dispute_id) (Err T_DisputeNotFound)"

definition get_disputes_by_settlement :: "'w treasury \<Rightarrow> u64 \<Rightarrow> Dispute list" where
  "get_disputes_by_settlement s settlement_id =
     List.map_filter (t_disputes s) (unwrap_or (t_settlement_disputes s settlement_id) [])"

definition resolve_dispute ::
    "'w host \<Rightarrow> 'w treasury \<Rightarrow> address \<Rightarrow> u64 \<Rightarrow> bool \<Rightarrow> string option \<Rightarrow>
      (TreasuryError, 'w treasury) outcome" where
  "resolve_dispute h s admin dispute_id in_favor_of_claimant memo =
     andthen (require_admin h s admin) (\<lambda>_.
     andthen (require_not_paused s) (\<lambda>_.
     andthen (validate_resolution_memo memo) (\<lambda>_.
     andthen (ok_or (t_disputes s dispute_id) (Err T_DisputeNotFound)) (\<lambda>dispute.
     andthen (require (dp_status dispute = DRaised) (Err T_DisputeAlreadyResolved)) (\<lambda>_.
       let dispute1 = dispute
             \<lparr>dp_status := (if in_favor_of_claimant then DResolvedClaimant
                            else DResolvedCounterparty),
              dp_resolution_memo := memo\<rparr>
       in release_settlement_hold_if_no_open_disputes (dp_settlement_id dispute)
            (emit (Ev_dispute_resolved dispute_id dispute1)
              (s\<lparr>t_disputes := (t_disputes s)(dispute_id \<mapsto> dispute1)\<rparr>)))))))"

text \<open>A transfer that is skipped when the amount is not positive.\<close>

definition transfer_if_positive ::
    "'w host \<Rightarrow> address \<Rightarrow> address \<Rightarrow> i128 \<Rightarrow> 'w treasury \<Rightarrow> (TreasuryError, 'w treasury) outcome" where
  "transfer_if_positive h token_contract dst amount s =
     (if amount > 0 then token_transfer h token_contract (h_self h) dst amount s else Inr s)"

definition resolve_dispute_split ::
    "'w host \<Rightarrow> 'w treasury \<Rightarrow> address \<Rightarrow> u64 \<Rightarrow> u32 \<Rightarrow> address \<Rightarrow> string option \<Rightarrow>
      (TreasuryError, 'w treasury) outcome" where
  "resolve_dispute_split h s admin dispute_id claimant_bps token_contract memo =
     andthen (require_admin h s admin) (\<lambda>_.
     andthen (require_not_paused s) (\<lambda>_.
     andthen (require (is_valid_bps claimant_bps) (Err T_InvalidSplitRatio)) (\<lambda>_.
     andthen (validate_resolution_memo memo) (\<lambda>_.
     andthen (ok_or (t_disputes s dispute_id) (Err T_DisputeNotFound)) (\<lambda>dispute.
     andthen (require (dp_status dispute = DRaised) (Err T_DisputeAlreadyResolved)) (\<lambda>_.
     andthen (ok_or (apply_bps_i128 (dp_amount dispute) claimant_bps)
               (Err T_ArithmeticOverflow)) (\<lambda>claimant_amount.
     andthen (ok_or (checked_i128 (dp_amount dispute - claimant_amount)) Trap)
       (\<lambda>counterparty_amount.
     andthen (transfer_if_positive h token_contract (dp_claimant dispute) claimant_amount s) (\<lambda>s1.
     andthen (transfer_if_positive h token_contract (dp_counterparty dispute)
               counterparty_amount s1) (\<lambda>s2.
       let dispute1 = dispute\<lparr>dp_status := DResolvedSplit, dp_claimant_share_bps := claimant_bps,
                              dp_resolution_memo := memo\<rparr>
       in release_settlement_hold_if_no_open_disputes (dp_settlement_id dispute)
            (emit (Ev_dispute_resolved_split dispute_id dispute1)
              (s2\<lparr>t_disputes := (t_disputes s2)(dispute_id \<mapsto> dispute1)\<rparr>))))))))))))"

definition vote_dispute_resolution ::
    "'w host \<Rightarrow> 'w treasury \<Rightarrow> address \<Rightarrow> u64 \<Rightarrow> bool \<Rightarrow> (TreasuryError, 'w treasury) outcome" where
  "vote_dispute_resolution h s signer dispute_id in_favor_of_claimant =
     andthen (require_not_paused s) (\<lambda>_.
     andthen (require_authorized_signer h s signer) (\<lambda>_.
     andthen (ok_or (t_disputes s dispute_id) (Err T_DisputeNotFound)) (\<lambda>dispute.
     andthen (require (dp_status dispute = DRaised) (Err T_DisputeAlreadyResolved)) (\<lambda>_.
     andthen (require (signer \<notin> set (dp_resolution_approvals dispute)) (Err T_DuplicateVote)) (\<lambda>_.
     andthen (if dp_resolution_weight dispute = 0
              then Inr (dispute\<lparr>dp_resolution_for_claimant := in_favor_of_claimant\<rparr>)
              else andthen (require (dp_resolution_for_claimant dispute = in_favor_of_claimant)
                             (Err T_ResolutionDirectionMismatch)) (\<lambda>_. Inr dispute)) (\<lambda>dispute0.
     andthen (record_approval h s (dp_resolution_approvals dispute0)
               (dp_resolution_weight dispute0) signer) (\<lambda>(approvals, weight, s1).
     andthen (ok_or (t_threshold s1) (Err T_ThresholdNotConfigured)) (\<lambda>threshold.
       let dispute1 = dispute0\<lparr>dp_resolution_approvals := approvals,
                               dp_resolution_weight := weight\<rparr>;
           dispute2 = (if meets_threshold weight threshold
                       then dispute1\<lparr>dp_status := (if dp_resolution_for_claimant dispute1
                              then DResolvedClaimant else DResolvedCounterparty)\<rparr>
                       else dispute1)
       in Inr (emit (Ev_dispute_resolution_voted dispute_id dispute2)
                (s1\<lparr>t_disputes := (t_disputes s1)(dispute_id \<mapsto> dispute2)\<rparr>))))))))))"

end
