(* ===== verification/Treasury_Holds.thy ===== *)
theory Treasury_Holds
  imports Treasury_Settlements
begin

text \<open>
  \<^verbatim>\<open>contracts/treasury/src/holds.rs\<close>: administrative holds on settlements, with an
  optional time at which the hold lapses.
\<close>

definition is_hold_active :: "'w host \<Rightarrow> 'w treasury \<Rightarrow> u64 \<Rightarrow> bool" where
  "is_hold_active h s settlement_id =
     (case t_hold_expiry s settlement_id of
        Some expires_at \<Rightarrow> h_now h < expires_at | None \<Rightarrow> True)"

definition hold_settlement ::
    "'w host \<Rightarrow> 'w treasury \<Rightarrow> address \<Rightarrow> u64 \<Rightarrow> SettlementHoldReason \<Rightarrow> u64 option \<Rightarrow>
      (TreasuryError, 'w treasury) outcome" where
  "hold_settlement h s admin settlement_id reason expires_at =
     andthen (require_admin h s admin) (\<lambda>_.
     andthen (ok_or (t_settlements s settlement_id) (Err T_SettlementNotFound)) (\<lambda>settlement.
     andthen (require (\<not> (st_status settlement = SOnHold \<and> is_hold_active h s settlement_id))
               (Err T_AlreadyOnHold)) (\<lambda>_.
     andthen (require (\<not> (st_status settlement \<noteq> SPending \<and> st_status settlement \<noteq> SOnHold))
               (Err T_AlreadyExecuted)) (\<lambda>_.
       let settlement1 = settlement\<lparr>st_status := SOnHold, st_hold_reason := reason\<rparr>;
           s1 = write_settlement settlement_id settlement1 s;
           s2 = (case expires_at of
                   Some ts \<Rightarrow> s1\<lparr>t_hold_expiry := (t_hold_expiry s1)(settlement_id \<mapsto> ts)\<rparr>
                 | None \<Rightarrow> s1\<lparr>t_hold_expiry := (t_hold_expiry s1)(settlement_id := None)\<rparr>)
       in Inr (emit (Ev_settlement_held settlement_id reason expires_at) s2)))))"

definition get_hold_reason ::
    "'w host \<Rightarrow> 'w treasury \<Rightarrow> u64 \<Rightarrow> (TreasuryError, SettlementHoldReason) outcome" where
  "get_hold_reason h s settlement_id =
     andthen (ok_or (t_settlements s settlement_id) (Err T_SettlementNotFound)) (\<lambda>settlement.
       if st_status settlement = SOnHold \<and> \<not> is_hold_active h s settlement_id then Inr HNone
       else Inr (st_hold_reason settlement))"

definition get_hold_expiry :: "'w treasury \<Rightarrow> u64 \<Rightarrow> (TreasuryError, u64 option) outcome" where
  "get_hold_expiry s settlement_id =
     andthen (ok_or (t_settlements s settlement_id) (Err T_SettlementNotFound)) (\<lambda>_.
       Inr (t_hold_expiry s settlement_id))"

definition release_hold ::
    "'w host \<Rightarrow> 'w treasury \<Rightarrow> address \<Rightarrow> u64 \<Rightarrow> (TreasuryError, 'w treasury) outcome" where
  "release_hold h s admin settlement_id =
     andthen (require_admin h s admin) (\<lambda>_.
     andthen (ok_or (t_settlements s settlement_id) (Err T_SettlementNotFound)) (\<lambda>settlement.
     andthen (require (st_status settlement = SOnHold) (Err T_NotOnHold)) (\<lambda>_.
       let settlement1 = settlement\<lparr>st_status := SPending, st_hold_reason := HNone\<rparr>;
           s1 = write_settlement settlement_id settlement1 s
       in Inr (emit (Ev_settlement_released settlement_id settlement1)
                (s1\<lparr>t_hold_expiry := (t_hold_expiry s1)(settlement_id := None)\<rparr>)))))"

end
