(* ===== verification/Treasury_Admin.thy ===== *)
theory Treasury_Admin
  imports Treasury_Signers
begin

text \<open>
  \<^verbatim>\<open>contracts/treasury/src/admin.rs\<close>: the threshold, the pause switch, the
  configuration entrypoints and the two-step admin handover.
\<close>

definition update_threshold ::
    "'w host \<Rightarrow> 'w treasury \<Rightarrow> address \<Rightarrow> u32 \<Rightarrow> (TreasuryError, 'w treasury) outcome" where
  "update_threshold h s admin new_threshold =
     andthen (require_admin h s admin) (\<lambda>_.
     andthen (require (new_threshold \<noteq> 0) (Err T_ZeroThreshold)) (\<lambda>_.
     andthen (ok_or (total_signer_weight s) Trap) (\<lambda>total_weight.
     andthen (require (\<not> new_threshold > total_weight) (Err T_ThresholdUnreachable)) (\<lambda>_.
       Inr (emit (Ev_threshold_updated new_threshold) (s\<lparr>t_threshold := Some new_threshold\<rparr>))))))"

definition pause :: "'w host \<Rightarrow> 'w treasury \<Rightarrow> address \<Rightarrow> (TreasuryError, 'w treasury) outcome" where
  "pause h s admin =
     andthen (require_admin h s admin) (\<lambda>_.
       Inr (emit (Ev_treasury_paused admin) (s\<lparr>t_paused := Some True\<rparr>)))"

definition unpause :: "'w host \<Rightarrow> 'w treasury \<Rightarrow> address \<Rightarrow> (TreasuryError, 'w treasury) outcome" where
  "unpause h s admin =
     andthen (require_admin h s admin) (\<lambda>_.
       Inr (emit (Ev_treasury_unpaused admin) (s\<lparr>t_paused := Some False\<rparr>)))"

definition get_threshold :: "'w treasury \<Rightarrow> u32" where
  "get_threshold s = unwrap_or (t_threshold s) 0"

definition get_admin :: "'w treasury \<Rightarrow> (TreasuryError, address) outcome" where
  "get_admin s = ok_or (t_admin s) Trap"

definition set_withdrawal_limit ::
    "'w host \<Rightarrow> 'w treasury \<Rightarrow> address \<Rightarrow> i128 \<Rightarrow> u64 \<Rightarrow> (TreasuryError, 'w treasury) outcome" where
  "set_withdrawal_limit h s admin limit window_secs =
     andthen (require_admin h s admin) (\<lambda>_.
       Inr (emit (Ev_withdrawal_limit_set limit window_secs)
             (s\<lparr>t_withdrawal_limit := Some limit, t_withdrawal_window_secs := Some window_secs\<rparr>)))"

definition get_withdrawal_limit :: "'w treasury \<Rightarrow> i128 \<times> u64" where
  "get_withdrawal_limit s =
     (unwrap_or (t_withdrawal_limit s) 0, unwrap_or (t_withdrawal_window_secs s) 0)"

definition set_settlement_expiry ::
    "'w host \<Rightarrow> 'w treasury \<Rightarrow> address \<Rightarrow> u64 \<Rightarrow> (TreasuryError, 'w treasury) outcome" where
  "set_settlement_expiry h s admin expiry_secs =
     andthen (require_admin h s admin) (\<lambda>_.
       Inr (emit (Ev_settlement_expiry_updated expiry_secs)
             (s\<lparr>t_settlement_expiry := Some expiry_secs\<rparr>)))"

definition get_settlement_expiry :: "'w treasury \<Rightarrow> u64" where
  "get_settlement_expiry s = unwrap_or (t_settlement_expiry s) (7 * 24 * 60 * 60)"

definition set_compliance_id ::
    "'w host \<Rightarrow> 'w treasury \<Rightarrow> address \<Rightarrow> address \<Rightarrow> (TreasuryError, 'w treasury) outcome" where
  "set_compliance_id h s admin compliance_id =
     andthen (require_admin h s admin) (\<lambda>_.
       Inr (emit (Ev_compliance_id_set compliance_id) (s\<lparr>t_compliance_id := Some compliance_id\<rparr>)))"

definition get_compliance_id :: "'w treasury \<Rightarrow> address option" where
  "get_compliance_id s = t_compliance_id s"

definition transfer_admin ::
    "'w host \<Rightarrow> 'w treasury \<Rightarrow> address \<Rightarrow> address \<Rightarrow> u64 \<Rightarrow> (TreasuryError, 'w treasury) outcome" where
  "transfer_admin h s admin new_admin expiry_secs =
     andthen (require_admin h s admin) (\<lambda>_.
       let expires_at = saturating_add (h_now h) expiry_secs
       in Inr (emit (Ev_admin_transfer_proposed new_admin expires_at)
                (s\<lparr>t_pending_admin := Some (new_admin, expires_at)\<rparr>)))"

definition get_pending_admin :: "'w host \<Rightarrow> 'w treasury \<Rightarrow> (address \<times> u64) option" where
  "get_pending_admin h s =
     (case t_pending_admin s of
        Some (new_admin, expires_at) \<Rightarrow>
          if h_now h < expires_at then Some (new_admin, expires_at) else None
      | None \<Rightarrow> None)"

text \<open>
  The code also removes \<open>PendingAdmin\<close> on the expired branch, but that branch
  returns an error, so the host discards the write.
\<close>

definition accept_admin ::
    "'w host \<Rightarrow> 'w treasury \<Rightarrow> address \<Rightarrow> (TreasuryError, 'w treasury) outcome" where
  "accept_admin h s new_admin =
     andthen (ok_or (get_pending_admin h s) (Err T_NoPendingAdmin)) (\<lambda>(pending, expires_at).
     andthen (require (\<not> h_now h \<ge> expires_at) (Err T_NoPendingAdmin)) (\<lambda>_.
     andthen (require_auth h new_admin) (\<lambda>_.
     andthen (require (pending = new_admin) (Err T_Unauthorized)) (\<lambda>_.
       Inr (emit (Ev_admin_transferred new_admin)
             (s\<lparr>t_admin := Some new_admin, t_pending_admin := None\<rparr>))))))"

definition cancel_transfer_admin ::
    "'w host \<Rightarrow> 'w treasury \<Rightarrow> address \<Rightarrow> (TreasuryError, 'w treasury) outcome" where
  "cancel_transfer_admin h s admin =
     andthen (require_admin h s admin) (\<lambda>_.
     andthen (require (get_pending_admin h s \<noteq> None) (Err T_NoPendingAdmin)) (\<lambda>_.
       Inr (emit (Ev_admin_transfer_cancelled admin) (s\<lparr>t_pending_admin := None\<rparr>))))"

section \<open>The shared interfaces\<close>

interpretation treasury_switch: pausable pause unpause is_paused t_admin
  by unfold_locales
    (auto simp: pause_def unpause_def require_admin_def is_paused_def emit_def result_simps)

interpretation treasury_handover: two_step_admin "\<lambda>h s a n. transfer_admin h s a n secs" accept_admin
    t_admin "\<lambda>s. map_option fst (t_pending_admin s)"
  by unfold_locales
    (auto simp: transfer_admin_def accept_admin_def get_pending_admin_def require_admin_def emit_def result_simps
      Let_def split: option.splits if_splits)

end
