(* ===== verification/Treasury_Timelock.thy ===== *)
theory Treasury_Timelock
  imports Treasury_Admin
begin

text \<open>
  \<^verbatim>\<open>contracts/treasury/src/timelock.rs\<close>: signer and threshold changes that are
  proposed, wait out the configured delay, and are then executed or cancelled.
\<close>

definition SIGNER_CHANGE_TIMELOCK_SECS :: u64 where
  "SIGNER_CHANGE_TIMELOCK_SECS = 24 * 60 * 60"

definition MAX_SIGNER_CHANGE_PAGE :: u32 where "MAX_SIGNER_CHANGE_PAGE = 50"

definition MIN_TIMELOCK_DELAY_SECS :: u64 where "MIN_TIMELOCK_DELAY_SECS = 60 * 60"

definition MAX_TIMELOCK_DELAY_SECS :: u64 where "MAX_TIMELOCK_DELAY_SECS = 30 * 24 * 60 * 60"

definition current_timelock_delay :: "'w treasury \<Rightarrow> u64" where
  "current_timelock_delay s = unwrap_or (t_timelock_delay s) SIGNER_CHANGE_TIMELOCK_SECS"

definition timelock_delay_ok :: "u64 \<Rightarrow> bool" where
  "timelock_delay_ok seconds \<longleftrightarrow>
     \<not> (seconds < MIN_TIMELOCK_DELAY_SECS \<or> seconds > MAX_TIMELOCK_DELAY_SECS)"

definition propose_signer_change ::
    "'w host \<Rightarrow> 'w treasury \<Rightarrow> address \<Rightarrow> SignerChangeKind \<Rightarrow>
      (TreasuryError, u64 \<times> 'w treasury) outcome" where
  "propose_signer_change h s admin kind =
     andthen (require_admin h s admin) (\<lambda>_.
     andthen (ok_or (checked_add (unwrap_or (t_signer_change_count s) 0) 1)
               (Err T_ArithmeticOverflow)) (\<lambda>i.
     andthen (case kind of
                UpdateTimelockDelay seconds \<Rightarrow>
                  require (timelock_delay_ok seconds) (Err T_InvalidTimelockDelay)
              | _ \<Rightarrow> Inr ()) (\<lambda>_.
     andthen (ok_or (checked_add (h_now h) (current_timelock_delay s))
               (Err T_ArithmeticOverflow)) (\<lambda>executable_at.
       let proposal = \<lparr> chg_id = i, chg_kind = kind, chg_proposed_at = h_now h,
                        chg_executable_at = executable_at, chg_status = CPending \<rparr>
       in Inr (i, emit (Ev_signer_change_proposed i proposal)
                 (s\<lparr>t_signer_changes := (t_signer_changes s)(i \<mapsto> proposal),
                    t_signer_change_count := Some i\<rparr>))))))"

text \<open>The \<open>match proposal.kind\<close> of \<open>execute_signer_change\<close>.\<close>

fun apply_signer_change ::
    "SignerChangeKind \<Rightarrow> 'w treasury \<Rightarrow> (TreasuryError, 'w treasury) outcome" where
  "apply_signer_change (SetSigner signer weight) s =
     (let s1 = s\<lparr>t_signers := (t_signers s)(signer \<mapsto> weight)\<rparr>; lst = signer_list s1
      in Inr (if weight > 0
              then (if signer \<notin> set lst then s1\<lparr>t_signer_list := Some (lst @ [signer])\<rparr> else s1)
              else s1\<lparr>t_signer_list := Some (filter (\<lambda>x. x \<noteq> signer) lst)\<rparr>))"
| "apply_signer_change (RemoveSigner signer) s =
     Inr (s\<lparr>t_signers := (t_signers s)(signer := None),
            t_signer_list := Some (filter (\<lambda>x. x \<noteq> signer) (signer_list s))\<rparr>)"
| "apply_signer_change (UpdateThreshold new_threshold) s =
     andthen (require (new_threshold \<noteq> 0) (Err T_ZeroThreshold)) (\<lambda>_.
     andthen (ok_or (total_signer_weight s) Trap) (\<lambda>total_weight.
     andthen (require (\<not> new_threshold > total_weight) (Err T_ThresholdUnreachable)) (\<lambda>_.
       Inr (s\<lparr>t_threshold := Some new_threshold\<rparr>))))"
| "apply_signer_change (UpdateTimelockDelay seconds) s =
     andthen (require (timelock_delay_ok seconds) (Err T_InvalidTimelockDelay)) (\<lambda>_.
       Inr (s\<lparr>t_timelock_delay := Some seconds\<rparr>))"

definition execute_signer_change ::
    "'w host \<Rightarrow> 'w treasury \<Rightarrow> address \<Rightarrow> u64 \<Rightarrow>
      (TreasuryError, SignerChangeProposal \<times> 'w treasury) outcome" where
  "execute_signer_change h s admin change_id =
     andthen (require_admin h s admin) (\<lambda>_.
     andthen (ok_or (t_signer_changes s change_id) (Err T_SignerChangeNotFound)) (\<lambda>p.
     andthen (require (chg_status p = CPending) (Err T_SignerChangeAlreadyFinalised)) (\<lambda>_.
     andthen (require (\<not> h_now h < chg_executable_at p) (Err T_SignerChangeTooEarly)) (\<lambda>_.
     andthen (apply_signer_change (chg_kind p) s) (\<lambda>s1.
       let p1 = p\<lparr>chg_status := CExecuted\<rparr>
       in Inr (p1, emit (Ev_signer_change_executed change_id p1)
                 (s1\<lparr>t_signer_changes := (t_signer_changes s1)(change_id \<mapsto> p1)\<rparr>)))))))"

definition cancel_signer_change ::
    "'w host \<Rightarrow> 'w treasury \<Rightarrow> address \<Rightarrow> u64 \<Rightarrow>
      (TreasuryError, SignerChangeProposal \<times> 'w treasury) outcome" where
  "cancel_signer_change h s admin change_id =
     andthen (require_admin h s admin) (\<lambda>_.
     andthen (ok_or (t_signer_changes s change_id) (Err T_SignerChangeNotFound)) (\<lambda>p.
     andthen (require (chg_status p = CPending) (Err T_SignerChangeAlreadyFinalised)) (\<lambda>_.
       let p1 = p\<lparr>chg_status := CCancelled\<rparr>
       in Inr (p1, emit (Ev_signer_change_cancelled change_id p1)
                 (s\<lparr>t_signer_changes := (t_signer_changes s)(change_id \<mapsto> p1)\<rparr>)))))"

definition get_signer_change :: "'w treasury \<Rightarrow> u64 \<Rightarrow> SignerChangeProposal option" where
  "get_signer_change s change_id = t_signer_changes s change_id"

text \<open>
  The page loop of \<open>list_pending_signer_changes\<close>, started at
  \<open>start_after.saturating_add(1)\<close>; \<open>None\<close> is the overflow of \<open>id += 1\<close>.
\<close>

function pending_changes_loop ::
    "(u64 \<rightharpoonup> SignerChangeProposal) \<Rightarrow> u64 \<Rightarrow> nat \<Rightarrow> u64 \<Rightarrow>
      SignerChangeProposal list \<Rightarrow> SignerChangeProposal list option" where
  "pending_changes_loop changes count capped_limit i page =
     (if i \<le> count \<and> length page < capped_limit
      then (let page' = (case changes i of
                           None \<Rightarrow> page
                         | Some p \<Rightarrow> if chg_status p = CPending then page @ [p] else page)
            in case checked_add i 1 of
                 None \<Rightarrow> None
               | Some j \<Rightarrow> pending_changes_loop changes count capped_limit j page')
      else Some page)"
  by pat_completeness auto
termination
proof (relation "measure (\<lambda>(changes, count, lim, i, page). 2 ^ 64 - unat i)")
  fix changes :: "u64 \<rightharpoonup> SignerChangeProposal" and count i j :: u64 and lim :: nat
    and page page' :: "SignerChangeProposal list"
  assume "checked_add i 1 = Some j"
  then have "unat j = unat i + 1" by (simp add: arith_simps)
  with unat_u64_less [of j]
  show "((changes, count, lim, j, page'), (changes, count, lim, i, page))
      \<in> measure (\<lambda>(changes, count, lim, i, page). 2 ^ 64 - unat i)" by simp
qed simp

declare pending_changes_loop.simps [simp del]

definition list_pending_signer_changes ::
    "'w treasury \<Rightarrow> u64 \<Rightarrow> u32 \<Rightarrow> (TreasuryError, SignerChangeProposal list) outcome" where
  "list_pending_signer_changes s start_after limit =
     (let capped_limit = (if limit > MAX_SIGNER_CHANGE_PAGE then MAX_SIGNER_CHANGE_PAGE else limit);
          count = unwrap_or (t_signer_change_count s) 0
      in ok_or (pending_changes_loop (t_signer_changes s) count (unat capped_limit)
                 (saturating_add start_after 1) []) Trap)"

definition get_timelock_delay :: "'w treasury \<Rightarrow> u64" where
  "get_timelock_delay s = current_timelock_delay s"

end
