(* ===== verification/Treasury_Refinement.thy ===== *)
theory Treasury_Refinement
  imports Settlement_Book Treasury_Deposits Treasury_Disputes Treasury_Holds Treasury_Timelock
begin

text \<open>
  Every treasury entrypoint refines the abstract settlement book: \<open>book_of\<close> reads
  the book off the storage, and each successful call is a (possibly empty)
  sequence of book steps. The entrypoints that do not deal with settlements
  leave the book alone.
\<close>

section \<open>The abstraction\<close>

definition is_executed_event :: "u64 \<Rightarrow> TreasuryEvent \<Rightarrow> bool" where
  "is_executed_event i e = (case e of Ev_settlement_executed j st \<Rightarrow> j = i | _ \<Rightarrow> False)"

definition executed_reports :: "'w treasury \<Rightarrow> u64 \<Rightarrow> nat" where
  "executed_reports s i = length (filter (is_executed_event i) (t_events s))"

definition book_of :: "'w treasury \<Rightarrow> settlement_book" where
  "book_of s = \<lparr> bk_entries = t_settlements s, bk_count = unwrap_or (t_settlement_count s) 0,
                 bk_index = pending_index s, bk_executed = executed_reports s \<rparr>"

lemmas book_of_defs = book_of_def executed_reports_def [abs_def] pending_index_def

lemma book_of_frame [simp]:
  "book_of (s\<lparr>t_admin := v1\<rparr>) = book_of s"
  "book_of (s\<lparr>t_threshold := v2\<rparr>) = book_of s"
  "book_of (s\<lparr>t_signers := v3\<rparr>) = book_of s"
  "book_of (s\<lparr>t_paused := v4\<rparr>) = book_of s"
  "book_of (s\<lparr>t_dispute_count := v5\<rparr>) = book_of s"
  "book_of (s\<lparr>t_disputes := v6\<rparr>) = book_of s"
  "book_of (s\<lparr>t_balances := v7\<rparr>) = book_of s"
  "book_of (s\<lparr>t_token_allowlist := v8\<rparr>) = book_of s"
  "book_of (s\<lparr>t_rotation_count := v9\<rparr>) = book_of s"
  "book_of (s\<lparr>t_rotations := v10\<rparr>) = book_of s"
  "book_of (s\<lparr>t_payout_addresses := v11\<rparr>) = book_of s"
  "book_of (s\<lparr>t_signer_list := v12\<rparr>) = book_of s"
  "book_of (s\<lparr>t_last_rotation_proposal := v13\<rparr>) = book_of s"
  "book_of (s\<lparr>t_partial_approved := v14\<rparr>) = book_of s"
  "book_of (s\<lparr>t_merchant_settlements := v15\<rparr>) = book_of s"
  "book_of (s\<lparr>t_withdrawal_limit := v16\<rparr>) = book_of s"
  "book_of (s\<lparr>t_withdrawal_window_secs := v17\<rparr>) = book_of s"
  "book_of (s\<lparr>t_window_start := v18\<rparr>) = book_of s"
  "book_of (s\<lparr>t_withdrawn := v19\<rparr>) = book_of s"
  "book_of (s\<lparr>t_signer_change_count := v20\<rparr>) = book_of s"
  "book_of (s\<lparr>t_signer_changes := v21\<rparr>) = book_of s"
  "book_of (s\<lparr>t_partial_executed := v22\<rparr>) = book_of s"
  "book_of (s\<lparr>t_payout_history := v23\<rparr>) = book_of s"
  "book_of (s\<lparr>t_hold_expiry := v24\<rparr>) = book_of s"
  "book_of (s\<lparr>t_pending_admin := v25\<rparr>) = book_of s"
  "book_of (s\<lparr>t_token_total := v26\<rparr>) = book_of s"
  "book_of (s\<lparr>t_deposit_refs := v27\<rparr>) = book_of s"
  "book_of (s\<lparr>t_signer_last_active := v28\<rparr>) = book_of s"
  "book_of (s\<lparr>t_compliance_id := v29\<rparr>) = book_of s"
  "book_of (s\<lparr>t_settlement_expiry := v30\<rparr>) = book_of s"
  "book_of (s\<lparr>t_signer_labels := v31\<rparr>) = book_of s"
  "book_of (s\<lparr>t_settlement_disputes := v32\<rparr>) = book_of s"
  "book_of (s\<lparr>t_timelock_delay := v33\<rparr>) = book_of s"
  "book_of (s\<lparr>t_world := v34\<rparr>) = book_of s"
  by (simp_all add: book_of_defs)

lemma book_of_emit [simp]:
  "book_of (emit e s) =
     (case e of Ev_settlement_executed i st \<Rightarrow> report_executed i (book_of s) | _ \<Rightarrow> book_of s)"
  by (cases e) (auto simp: book_of_defs emit_def is_executed_event_def report_executed_def fun_eq_iff)

lemma book_of_count [simp]:
  "book_of (s\<lparr>t_settlement_count := Some i\<rparr>) = (book_of s)\<lparr>bk_count := i\<rparr>"
  by (simp add: book_of_defs)

lemma book_of_write [simp]: "book_of (write_settlement i st s) = put i st (book_of s)"
proof -
  have "t_settlements (write_settlement i st s) = (t_settlements s)(i \<mapsto> st)"
    "t_settlement_count (write_settlement i st s) = t_settlement_count s"
    "executed_reports (write_settlement i st s) = executed_reports s"
    by (simp_all add: write_settlement_eq executed_reports_def fun_eq_iff)
  then show ?thesis by (simp add: book_of_def put_def)
qed

lemma book_of_push_merchant [simp]: "book_of (push_merchant_settlement m i s) = book_of s"
  by (simp add: push_merchant_settlement_def Let_def)

lemma book_of_settlements [simp]:
  "book_of (s\<lparr>t_settlements := m\<rparr>) = (book_of s)\<lparr>bk_entries := m\<rparr>"
  by (simp add: book_of_defs)

lemma bk_entries_book_of [simp]: "bk_entries (book_of s) = t_settlements s"
  and bk_count_book_of [simp]: "bk_count (book_of s) = unwrap_or (t_settlement_count s) 0"
  and bk_index_book_of [simp]: "bk_index (book_of s) = pending_index s"
  and bk_executed_book_of [simp]: "bk_executed (book_of s) = executed_reports s"
  by (simp_all add: book_of_def)

section \<open>Entrypoints that leave the book alone\<close>

lemma signer_ops_book:
  "set_signer h s a x wt = Inr s' \<Longrightarrow> book_of s' = book_of s"
  "set_signer_label h s a x l = Inr s' \<Longrightarrow> book_of s' = book_of s"
  "remove_signer h s a x = Inr s' \<Longrightarrow> book_of s' = book_of s"
  "propose_signer_rotation h s a x y = Inr (i, s') \<Longrightarrow> book_of s' = book_of s"
  "cancel_rotation h s a i = Inr (p, s') \<Longrightarrow> book_of s' = book_of s"
  by (auto simp: set_signer_def set_signer_label_def remove_signer_def propose_signer_rotation_def
      cancel_rotation_def result_simps Let_def split: if_splits)

lemma approve_signer_rotation_book:
  "approve_signer_rotation h s a i = Inr (p, s') \<Longrightarrow> book_of s' = book_of s"
  by (auto simp: approve_signer_rotation_def rotation_outcome_def result_simps Let_def split: if_splits)

lemma admin_ops_book:
  "update_threshold h s a wt = Inr s' \<Longrightarrow> book_of s' = book_of s"
  "pause h s a = Inr s' \<Longrightarrow> book_of s' = book_of s"
  "unpause h s a = Inr s' \<Longrightarrow> book_of s' = book_of s"
  "set_withdrawal_limit h s a l ws = Inr s' \<Longrightarrow> book_of s' = book_of s"
  "set_settlement_expiry h s a ws = Inr s' \<Longrightarrow> book_of s' = book_of s"
  "set_compliance_id h s a c = Inr s' \<Longrightarrow> book_of s' = book_of s"
  "transfer_admin h s a c ws = Inr s' \<Longrightarrow> book_of s' = book_of s"
  "accept_admin h s a = Inr s' \<Longrightarrow> book_of s' = book_of s"
  "cancel_transfer_admin h s a = Inr s' \<Longrightarrow> book_of s' = book_of s"
  by (auto simp: update_threshold_def pause_def unpause_def set_withdrawal_limit_def
      set_settlement_expiry_def set_compliance_id_def transfer_admin_def accept_admin_def
      cancel_transfer_admin_def result_simps Let_def)

lemma apply_signer_change_book: "apply_signer_change k s = Inr s' \<Longrightarrow> book_of s' = book_of s"
  by (cases k) (auto simp: result_simps Let_def split: if_splits)

lemma timelock_ops_book:
  "propose_signer_change h s a k = Inr (i, s') \<Longrightarrow> book_of s' = book_of s"
  "execute_signer_change h s a i = Inr (p, s') \<Longrightarrow> book_of s' = book_of s"
  "cancel_signer_change h s a i = Inr (p, s') \<Longrightarrow> book_of s' = book_of s"
  by (auto simp: propose_signer_change_def execute_signer_change_def cancel_signer_change_def
      result_simps Let_def dest: apply_signer_change_book)

lemma enforce_withdrawal_limit_book:
  "enforce_withdrawal_limit h a amt s = Inr s' \<Longrightarrow> book_of s' = book_of s"
  by (auto simp: enforce_withdrawal_limit_def result_simps Let_def split: if_splits)

lemma deposit_one_book: "deposit_one h a r ta s = Inr s' \<Longrightarrow> book_of s' = book_of s"
  by (auto simp: deposit_one_def result_simps split: prod.splits)

lemma record_optional_reference_book:
  "record_optional_reference h r s = Inr s' \<Longrightarrow> book_of s' = book_of s"
  by (auto simp: record_optional_reference_def result_simps split: option.splits)

lemma deposits_book:
  "fold_result (deposit_one h a r) ds s = Inr s' \<Longrightarrow> book_of s' = book_of s"
  by (rule fold_result_invariant [where P = "\<lambda>t. book_of t = book_of s"])
    (auto dest: deposit_one_book)

lemma deposit_ops_book:
  "deposit h s a tok amt r = Inr s' \<Longrightarrow> book_of s' = book_of s"
  "batch_deposit h s a ds r = Inr s' \<Longrightarrow> book_of s' = book_of s"
  by (auto simp: deposit_def batch_deposit_def result_simps
      dest!: deposits_book record_optional_reference_book deposit_one_book)

lemma withdraw_ops_book:
  "withdraw h s a tok amt = Inr s' \<Longrightarrow> book_of s' = book_of s"
  "withdraw_all h s a tok b = Inr s' \<Longrightarrow> book_of s' = book_of s"
  "emergency_withdraw h s sgs tok b = Inr s' \<Longrightarrow> book_of s' = book_of s"
  by (auto simp: withdraw_def withdraw_all_def emergency_withdraw_def result_simps Let_def
      split: if_splits dest!: enforce_withdrawal_limit_book)

lemma settlement_config_book:
  "update_merchant_payout_address h s m a = Inr s' \<Longrightarrow> book_of s' = book_of s"
  "add_allowed_token h s a tok = Inr s' \<Longrightarrow> book_of s' = book_of s"
  "remove_allowed_token h s a tok = Inr s' \<Longrightarrow> book_of s' = book_of s"
  by (auto simp: update_merchant_payout_address_def add_allowed_token_def remove_allowed_token_def
      result_simps Let_def split: if_splits)

lemma vote_dispute_resolution_book:
  "vote_dispute_resolution h s a i f = Inr s' \<Longrightarrow> book_of s' = book_of s"
  by (auto simp: vote_dispute_resolution_def result_simps Let_def)

lemmas untouched_book =
  signer_ops_book approve_signer_rotation_book admin_ops_book timelock_ops_book deposit_ops_book
  withdraw_ops_book settlement_config_book vote_dispute_resolution_book

section \<open>Entrypoints that move settlements\<close>

abbreviation book_steps :: "settlement_book \<Rightarrow> settlement_book \<Rightarrow> bool" where
  "book_steps \<equiv> book_step\<^sup>*\<^sup>*"

lemma propose_refines:
  assumes "propose h s a m amt tok dl = Inr (i, s')"
  shows "book_steps (book_of s) (book_of s')"
proof (rule r_into_rtranclp)
  let ?st = "\<lambda>w. \<lparr> st_id = i, st_merchant_address = m, st_amount = amt, st_approvals = [a],
    st_approval_weight = w, st_status = SPending, st_hold_reason = HNone, st_proposed_at = h_now h,
    st_execution_deadline = dl, st_token = tok \<rparr>"
  from assms obtain w where "0 < amt" and i: "unat i = unat (unwrap_or (t_settlement_count s) 0) + 1"
    and s': "book_of s' = (put i (?st w) (book_of s))\<lparr>bk_count := i\<rparr>"
    by (auto simp: propose_def result_simps arith_simps Let_def)
  then show "book_step (book_of s) (book_of s')"
    unfolding s' by (intro bs_propose) (simp_all add: i)
qed

lemma approve_settlement_refines:
  assumes "approve_settlement h s a i = Inr (st', s')"
  shows "book_steps (book_of s) (book_of s')"
proof (rule r_into_rtranclp)
  from assms obtain st w where "t_settlements s i = Some st" "st_status st = SPending"
    and s': "book_of s' = put i (st\<lparr>st_approvals := push_new a (st_approvals st),
                                   st_approval_weight := w\<rparr>) (book_of s)"
    by (auto simp: approve_settlement_def result_simps Let_def)
  then show "book_step (book_of s) (book_of s')" unfolding s' by (intro bs_approve) auto
qed

lemma approve_partial_settlement_refines:
  assumes "approve_partial_settlement h s a i amt = Inr (st', s')"
  shows "book_steps (book_of s) (book_of s')"
proof (rule r_into_rtranclp)
  from assms obtain st w where "t_settlements s i = Some st" "st_status st = SPending"
    and s': "book_of s' = put i (st\<lparr>st_approvals := push_new a (st_approvals st),
                                   st_approval_weight := w\<rparr>) (book_of s)"
    by (auto simp: approve_partial_settlement_def result_simps Let_def)
  then show "book_step (book_of s) (book_of s')" unfolding s' by (intro bs_approve) auto
qed

lemma revoke_approval_refines:
  assumes "revoke_approval h s a i = Inr (st', s')"
  shows "book_steps (book_of s) (book_of s')"
proof (rule r_into_rtranclp)
  from assms obtain st w where "t_settlements s i = Some st" "st_status st = SPending"
    "a \<in> set (st_approvals st)"
    and s': "book_of s' = put i (st\<lparr>st_approvals := remove1 a (st_approvals st),
                                   st_approval_weight := w\<rparr>) (book_of s)"
    by (auto simp: revoke_approval_def revoke_approval_book_def result_simps Let_def split: if_splits)
  then show "book_step (book_of s) (book_of s')"
    unfolding s' by (intro bs_revoke) auto
qed

lemma batch_approve_one_refines:
  assumes "batch_approve_one a wt i (approved, s) = Inr (approved', s')"
  shows "book_steps (book_of s) (book_of s')"
proof -
  from assms consider "s' = s"
    | st where "t_settlements s i = Some st" "st_status st = SPending"
        "a \<in> set (st_approvals st)" "book_of s' = put i st (book_of s)"
    | st w where "t_settlements s i = Some st" "st_status st = SPending" "a \<notin> set (st_approvals st)"
        "book_of s' = put i (st\<lparr>st_approval_weight := w, st_approvals := st_approvals st @ [a]\<rparr>) (book_of s)"
    by (auto simp: batch_approve_one_def result_simps split: option.splits if_splits)
  then show ?thesis
  proof cases
    case 2
    with bs_approve [where b = "book_of s" and i = i and st = st and a = a
        and w = "st_approval_weight st"] show ?thesis by auto
  next
    case 3
    have "st\<lparr>st_approval_weight := w, st_approvals := st_approvals st @ [a]\<rparr>
        = st\<lparr>st_approvals := push_new a (st_approvals st), st_approval_weight := w\<rparr>"
      using 3(3) by simp
    with 3 bs_approve [where b = "book_of s" and i = i and st = st and a = a and w = w]
    show ?thesis by auto
  qed simp
qed

text \<open>A loop whose body refines the book refines the book.\<close>

lemma fold_result_refines:
  assumes "fold_result f xs (acc, s) = Inr (acc', s')"
    and "\<And>x acc s acc' s'. f x (acc, s) = Inr (acc', s') \<Longrightarrow> book_steps (book_of s) (book_of s')"
  shows "book_steps (book_of s) (book_of s')"
proof -
  have "book_steps (book_of s) (book_of (snd (acc', s')))"
    by (rule fold_result_invariant [OF assms(1), where P = "\<lambda>p. book_steps (book_of s) (book_of (snd p))"])
      (auto dest: assms(2) elim: rtranclp_trans)
  then show ?thesis by simp
qed

lemma batch_approve_settlements_refines:
  assumes "batch_approve_settlements h s a ids = Inr (sts, s')"
  shows "book_steps (book_of s) (book_of s')"
  using assms by (auto simp: batch_approve_settlements_def result_simps
      elim!: fold_result_refines intro: batch_approve_one_refines)

lemma execute_settlement_refines:
  assumes "execute_settlement h s a i tok = Inr s'"
  shows "book_steps (book_of s) (book_of s')"
proof (rule r_into_rtranclp)
  from assms obtain st where "t_settlements s i = Some st" "st_status st \<in> {SPending, SOnHold}"
    and s': "book_of s' = report_executed i (put i (st\<lparr>st_status := SExecuted\<rparr>) (book_of s))"
    by (auto simp: execute_settlement_def result_simps Let_def)
  then show "book_step (book_of s) (book_of s')" unfolding s' by (intro bs_execute) auto
qed

lemma batch_execute_one_refines:
  assumes "batch_execute_one h thr tok i (executed, s) = Inr (executed', s')"
  shows "book_steps (book_of s) (book_of s')"
proof (cases "book_of s' = book_of s")
  case False
  with assms obtain st where "t_settlements s i = Some st" "st_status st = SPending"
    and s': "book_of s' = report_executed i
      ((book_of s)\<lparr>bk_entries := (t_settlements s)(i \<mapsto> st\<lparr>st_status := SExecuted\<rparr>)\<rparr>)"
    by (auto simp: batch_execute_one_def result_simps Let_def split: option.splits if_splits)
  then show ?thesis
    using bs_execute_in_batch [of "book_of s" i st] by auto
qed simp

lemma batch_execute_settlements_refines:
  assumes "batch_execute_settlements h s a ids tok = Inr (sts, s')"
  shows "book_steps (book_of s) (book_of s')"
  using assms by (auto simp: batch_execute_settlements_def result_simps
      elim!: fold_result_refines intro: batch_execute_one_refines)

text \<open>The five ways a settlement is closed without a full payout.\<close>

lemma close_refines:
  "t_settlements s i = Some st \<Longrightarrow> st_status st \<in> {SPending, SOnHold} \<Longrightarrow>
    status \<in> {SCancelled, SExpired, SPartiallyExecuted} \<Longrightarrow>
    book_steps (book_of s) (put i (st\<lparr>st_status := status\<rparr>) (book_of s))"
  by (intro r_into_rtranclp bs_close) auto

lemma close_ops_refine:
  "partially_execute_settlement h s a i amt tok = Inr s' \<Longrightarrow> book_steps (book_of s) (book_of s')"
  "cancel_settlement h s a i = Inr s' \<Longrightarrow> book_steps (book_of s) (book_of s')"
  "force_cancel_settlement h s a i = Inr s' \<Longrightarrow> book_steps (book_of s) (book_of s')"
  "expire_settlement h s a i = Inr s' \<Longrightarrow> book_steps (book_of s) (book_of s')"
  by (auto simp: partially_execute_settlement_def cancel_settlement_def force_cancel_settlement_def
      expire_settlement_def result_simps Let_def intro: close_refines)

lemma batch_cancel_one_refines:
  "book_steps (book_of s) (book_of (snd (batch_cancel_one i (cancelled, s))))"
  by (auto simp: batch_cancel_one_def Let_def intro: close_refines split: option.splits)

lemma batch_cancel_refines:
  "book_steps (book_of s) (book_of (snd (fold batch_cancel_one ids (cancelled, s))))"
proof (induction ids arbitrary: cancelled s)
  case (Cons i ids)
  obtain c1 s1 where 1: "batch_cancel_one i (cancelled, s) = (c1, s1)" by fastforce
  from batch_cancel_one_refines [of s i cancelled] Cons.IH [of s1 c1] show ?case
    by (simp add: 1)
qed simp

lemma batch_cancel_settlements_refines:
  "batch_cancel_settlements h s a ids = Inr (cs, s') \<Longrightarrow> book_steps (book_of s) (book_of s')"
  using batch_cancel_refines [of s ids "[]"]
  by (auto simp: batch_cancel_settlements_def result_simps)

lemma hold_settlement_refines:
  assumes "hold_settlement h s a i r e = Inr s'"
  shows "book_steps (book_of s) (book_of s')"
proof (rule r_into_rtranclp)
  from assms obtain st where "t_settlements s i = Some st" "st_status st \<in> {SPending, SOnHold}"
    and s': "book_of s' = put i (st\<lparr>st_status := SOnHold, st_hold_reason := r\<rparr>) (book_of s)"
    by (auto simp: hold_settlement_def result_simps Let_def split: option.splits)
  then show "book_step (book_of s) (book_of s')" unfolding s' by (intro bs_hold) auto
qed

lemma release_refines:
  "t_settlements s i = Some st \<Longrightarrow> st_status st = SOnHold \<Longrightarrow>
    book_steps (book_of s) (put i (st\<lparr>st_status := SPending, st_hold_reason := HNone\<rparr>) (book_of s))"
  by (intro r_into_rtranclp bs_release) auto

lemma release_hold_refines:
  "release_hold h s a i = Inr s' \<Longrightarrow> book_steps (book_of s) (book_of s')"
  by (auto simp: release_hold_def result_simps Let_def intro: release_refines)

lemma release_if_no_open_refines:
  "release_settlement_hold_if_no_open_disputes i s = Inr s' \<Longrightarrow> book_steps (book_of s) (book_of s')"
  by (auto simp: release_settlement_hold_if_no_open_disputes_def result_simps
      intro: release_refines split: option.splits if_splits)

lemma raise_dispute_refines:
  assumes "raise_dispute h s a i b amt e ev = Inr (d, s')"
  shows "book_steps (book_of s) (book_of s')"
proof (cases "book_of s' = book_of s")
  case False
  with assms obtain st where "t_settlements s i = Some st" "st_status st = SPending"
    and s': "book_of s' = put i (st\<lparr>st_status := SOnHold\<rparr>) (book_of s)"
    by (auto simp: raise_dispute_def result_simps Let_def split: option.splits if_splits)
  then show ?thesis
    using bs_hold [of "book_of s" i st "st_hold_reason st"] by auto
qed simp

lemma transfer_if_positive_book:
  "transfer_if_positive h tok dst amt s = Inr s' \<Longrightarrow> book_of s' = book_of s"
  by (auto simp: transfer_if_positive_def result_simps split: if_splits)

lemma dispute_ops_refine:
  "expire_dispute h s a i = Inr s' \<Longrightarrow> book_steps (book_of s) (book_of s')"
  "resolve_dispute h s a i f m = Inr s' \<Longrightarrow> book_steps (book_of s) (book_of s')"
  "resolve_dispute_split h s a i bps tok m = Inr s' \<Longrightarrow> book_steps (book_of s) (book_of s')"
  by (auto simp: expire_dispute_def resolve_dispute_def resolve_dispute_split_def result_simps Let_def
      dest!: release_if_no_open_refines transfer_if_positive_book)

lemmas settlement_ops_refine =
  propose_refines approve_settlement_refines approve_partial_settlement_refines
  revoke_approval_refines batch_approve_settlements_refines execute_settlement_refines
  batch_execute_settlements_refines close_ops_refine batch_cancel_settlements_refines
  hold_settlement_refines release_hold_refines raise_dispute_refines dispute_ops_refine

end
