(* ===== verification/Treasury_Frames.thy ===== *)
theory Treasury_Frames
  imports Treasury_Deposits Treasury_Disputes Treasury_Holds Treasury_Timelock
begin

text \<open>
  Which part of the storage each source file of the treasury can write. A \<open>view\<close>
  is any function of the state; each locale lists the fields that one group of
  entrypoints writes, as equations saying that the view does not look at them,
  and proves once that the whole group keeps the view. A component that owns
  some fields interprets the locales of the other groups with its own view, and
  so gets that nobody else touches its data.
\<close>

section \<open>Events and the rest of the ledger\<close>

locale ledger_view =
  fixes view :: "'w treasury \<Rightarrow> 'v"
  assumes view_ledger:
    "view (s\<lparr>t_events := v1\<rparr>) = view s"
    "view (s\<lparr>t_world := v2\<rparr>) = view s"
begin

lemma view_emit: "view (emit e s) = view s"
  by (simp add: emit_def view_ledger)

lemma view_transfer: "token_transfer h tok src dst amt s = Inr s' \<Longrightarrow> view s' = view s"
  by (auto simp: result_simps view_ledger)

lemma view_transfer_if_positive: "transfer_if_positive h tok dst amt s = Inr s' \<Longrightarrow> view s' = view s"
  by (auto simp: transfer_if_positive_def dest: view_transfer split: if_splits)

lemmas ledger_simps = view_ledger view_emit

end

section \<open>Administration\<close>

locale admin_view = ledger_view view for view :: "'w treasury \<Rightarrow> 'v" +
  assumes view_admin:
    "view (s\<lparr>t_threshold := v1\<rparr>) = view s"
    "view (s\<lparr>t_paused := v2\<rparr>) = view s"
    "view (s\<lparr>t_withdrawal_limit := v3\<rparr>) = view s"
    "view (s\<lparr>t_withdrawal_window_secs := v4\<rparr>) = view s"
    "view (s\<lparr>t_settlement_expiry := v5\<rparr>) = view s"
    "view (s\<lparr>t_compliance_id := v6\<rparr>) = view s"
begin

lemma admin_config_keeps:
  "update_threshold h s a wt = Inr s' \<Longrightarrow> view s' = view s"
  "pause h s a = Inr s' \<Longrightarrow> view s' = view s"
  "unpause h s a = Inr s' \<Longrightarrow> view s' = view s"
  "set_withdrawal_limit h s a l ws = Inr s' \<Longrightarrow> view s' = view s"
  "set_settlement_expiry h s a ws = Inr s' \<Longrightarrow> view s' = view s"
  "set_compliance_id h s a c = Inr s' \<Longrightarrow> view s' = view s"
  by (auto simp: update_threshold_def pause_def unpause_def set_withdrawal_limit_def
      set_settlement_expiry_def set_compliance_id_def result_simps view_admin ledger_simps)

end

locale handover_view = ledger_view view for view :: "'w treasury \<Rightarrow> 'v" +
  assumes view_handover:
    "view (s\<lparr>t_admin := v1\<rparr>) = view s"
    "view (s\<lparr>t_pending_admin := v2\<rparr>) = view s"
begin

lemma handover_keeps:
  "transfer_admin h s a c ws = Inr s' \<Longrightarrow> view s' = view s"
  "accept_admin h s a = Inr s' \<Longrightarrow> view s' = view s"
  "cancel_transfer_admin h s a = Inr s' \<Longrightarrow> view s' = view s"
  by (auto simp: transfer_admin_def accept_admin_def cancel_transfer_admin_def result_simps
      Let_def view_handover ledger_simps)

end

section \<open>Signers and timelocked changes\<close>

locale signer_view = ledger_view view for view :: "'w treasury \<Rightarrow> 'v" +
  assumes view_signer:
    "view (s\<lparr>t_signers := v1\<rparr>) = view s"
    "view (s\<lparr>t_signer_list := v2\<rparr>) = view s"
    "view (s\<lparr>t_signer_labels := v3\<rparr>) = view s"
begin

lemma registry_keeps:
  "set_signer h s a x wt = Inr s' \<Longrightarrow> view s' = view s"
  "set_signer_label h s a x l = Inr s' \<Longrightarrow> view s' = view s"
  "remove_signer h s a x = Inr s' \<Longrightarrow> view s' = view s"
  by (auto simp: set_signer_def set_signer_label_def remove_signer_def result_simps Let_def
      view_signer ledger_simps split: if_splits)

end

locale rotation_view = ledger_view view for view :: "'w treasury \<Rightarrow> 'v" +
  assumes view_rotation:
    "view (s\<lparr>t_rotations := v1\<rparr>) = view s"
    "view (s\<lparr>t_rotation_count := v2\<rparr>) = view s"
    "view (s\<lparr>t_last_rotation_proposal := v3\<rparr>) = view s"
    "view (s\<lparr>t_signer_last_active := v4\<rparr>) = view s"
begin

lemma rotation_keeps:
  "propose_signer_rotation h s a x y = Inr (i, s') \<Longrightarrow> view s' = view s"
  "cancel_rotation h s a i = Inr (p, s') \<Longrightarrow> view s' = view s"
  by (auto simp: propose_signer_rotation_def cancel_rotation_def result_simps Let_def
      view_rotation ledger_simps)

lemma approve_rotation_keeps:
  assumes "approve_signer_rotation h s a i = Inr (p, s')"
    and "\<And>u m. view (u\<lparr>t_signers := m\<rparr>) = view u"
  shows "view s' = view s"
  using assms
  by (auto simp: approve_signer_rotation_def rotation_outcome_def result_simps Let_def view_rotation
      ledger_simps split: if_splits)

end

locale change_view = ledger_view view for view :: "'w treasury \<Rightarrow> 'v" +
  assumes view_change:
    "view (s\<lparr>t_signer_changes := v1\<rparr>) = view s"
    "view (s\<lparr>t_signer_change_count := v2\<rparr>) = view s"
begin

lemma change_keeps:
  "propose_signer_change h s a k = Inr (i, s') \<Longrightarrow> view s' = view s"
  "cancel_signer_change h s a i = Inr (p, s') \<Longrightarrow> view s' = view s"
  by (auto simp: propose_signer_change_def cancel_signer_change_def result_simps Let_def
      view_change ledger_simps)

lemma execute_change_keeps:
  assumes "execute_signer_change h s a i = Inr (p, s')"
    and "\<And>u k u'. apply_signer_change k u = Inr u' \<Longrightarrow> view u' = view u"
  shows "view s' = view s"
  using assms by (auto simp: execute_signer_change_def result_simps Let_def view_change ledger_simps)

end

text \<open>A view of none of the fields a timelocked change can apply.\<close>

locale registry_view = signer_view view + admin_view view for view :: "'w treasury \<Rightarrow> 'v" +
  assumes view_delay: "view (s\<lparr>t_timelock_delay := v1\<rparr>) = view s"
begin

lemma apply_change_keeps: "apply_signer_change k s = Inr s' \<Longrightarrow> view s' = view s"
  by (cases k) (auto simp: result_simps Let_def view_signer view_admin view_delay split: if_splits)

end

section \<open>Deposits and withdrawals\<close>

locale limit_view = ledger_view view for view :: "'w treasury \<Rightarrow> 'v" +
  assumes view_limit:
    "view (s\<lparr>t_window_start := v1\<rparr>) = view s"
    "view (s\<lparr>t_withdrawn := v2\<rparr>) = view s"
begin

lemma enforce_withdrawal_limit_keeps:
  "enforce_withdrawal_limit h a amt s = Inr s' \<Longrightarrow> view s' = view s"
  by (auto simp: enforce_withdrawal_limit_def result_simps Let_def view_limit split: if_splits)

lemma drain_keeps:
  "withdraw_all h s a tok b = Inr s' \<Longrightarrow> view s' = view s"
  "emergency_withdraw h s sgs tok b = Inr s' \<Longrightarrow> view s' = view s"
  by (auto simp: withdraw_all_def emergency_withdraw_def result_simps
      ledger_simps split: if_splits dest!: enforce_withdrawal_limit_keeps)

end

locale deposit_view = limit_view view for view :: "'w treasury \<Rightarrow> 'v" +
  assumes view_deposit:
    "view (s\<lparr>t_balances := v1\<rparr>) = view s"
    "view (s\<lparr>t_token_total := v2\<rparr>) = view s"
    "view (s\<lparr>t_deposit_refs := v3\<rparr>) = view s"
begin

lemma deposit_one_keeps: "deposit_one h a r ta s = Inr s' \<Longrightarrow> view s' = view s"
  by (auto simp: deposit_one_def result_simps view_deposit ledger_simps split: prod.splits)

lemma record_optional_reference_keeps:
  "record_optional_reference h r s = Inr s' \<Longrightarrow> view s' = view s"
  by (auto simp: record_optional_reference_def result_simps view_deposit split: option.splits)

lemma deposits_keep: "fold_result (deposit_one h a r) ds s = Inr s' \<Longrightarrow> view s' = view s"
  by (rule fold_result_invariant [where P = "\<lambda>t. view t = view s"]) (auto dest: deposit_one_keeps)

lemma deposit_keeps:
  "deposit h s a tok amt r = Inr s' \<Longrightarrow> view s' = view s"
  "batch_deposit h s a ds r = Inr s' \<Longrightarrow> view s' = view s"
  by (auto simp: deposit_def batch_deposit_def result_simps
      dest!: deposits_keep record_optional_reference_keeps deposit_one_keeps)

lemma withdraw_keeps: "withdraw h s a tok amt = Inr s' \<Longrightarrow> view s' = view s"
  by (auto simp: withdraw_def result_simps Let_def
      view_deposit ledger_simps dest!: enforce_withdrawal_limit_keeps)

end

section \<open>Settlements\<close>

locale settlement_config_view = ledger_view view for view :: "'w treasury \<Rightarrow> 'v" +
  assumes view_config:
    "view (s\<lparr>t_payout_addresses := v1\<rparr>) = view s"
    "view (s\<lparr>t_payout_history := v2\<rparr>) = view s"
    "view (s\<lparr>t_token_allowlist := v3\<rparr>) = view s"
begin

lemma settlement_config_keeps:
  "update_merchant_payout_address h s m a = Inr s' \<Longrightarrow> view s' = view s"
  "add_allowed_token h s a tok = Inr s' \<Longrightarrow> view s' = view s"
  "remove_allowed_token h s a tok = Inr s' \<Longrightarrow> view s' = view s"
  by (auto simp: update_merchant_payout_address_def add_allowed_token_def remove_allowed_token_def
      result_simps Let_def view_config ledger_simps split: if_splits)

end

locale settlement_write_view = ledger_view view for view :: "'w treasury \<Rightarrow> 'v" +
  assumes view_write:
    "view (s\<lparr>t_settlements := v1\<rparr>) = view s"
    "view (s\<lparr>t_hold_expiry := v2\<rparr>) = view s"
    "view (s\<lparr>t_pending_index := v3\<rparr>) = view s"
begin

lemma write_settlement_keeps: "view (write_settlement i st s) = view s"
  by (simp add: write_settlement_eq view_write)

lemma hold_keeps:
  "hold_settlement h s a i r e = Inr s' \<Longrightarrow> view s' = view s"
  "release_hold h s a i = Inr s' \<Longrightarrow> view s' = view s"
  by (auto simp: hold_settlement_def release_hold_def result_simps Let_def view_write ledger_simps
      write_settlement_keeps split: option.splits)

lemma close_keeps:
  "cancel_settlement h s a i = Inr s' \<Longrightarrow> view s' = view s"
  "force_cancel_settlement h s a i = Inr s' \<Longrightarrow> view s' = view s"
  "expire_settlement h s a i = Inr s' \<Longrightarrow> view s' = view s"
  "execute_settlement h s a i tok = Inr s' \<Longrightarrow> view s' = view s"
  by (auto simp: cancel_settlement_def force_cancel_settlement_def expire_settlement_def
      execute_settlement_def result_simps Let_def ledger_simps write_settlement_keeps)

lemma revoke_keeps: "revoke_approval h s a i = Inr (st, s') \<Longrightarrow> view s' = view s"
  by (auto simp: revoke_approval_def revoke_approval_book_def result_simps Let_def ledger_simps
      write_settlement_keeps split: if_splits)

lemma fold_result_keeps:
  assumes "fold_result f xs (acc, s) = Inr (acc', s')"
    and "\<And>x acc s acc' s'. f x (acc, s) = Inr (acc', s') \<Longrightarrow> view s' = view s"
  shows "view s' = view s"
proof -
  have "view (snd (acc', s')) = view s"
    by (rule fold_result_invariant [OF assms(1), where P = "\<lambda>p. view (snd p) = view s"])
      (auto dest: assms(2))
  then show ?thesis by simp
qed

lemma batch_approve_keeps:
  "batch_approve_settlements h s a ids = Inr (sts, s') \<Longrightarrow> view s' = view s"
  by (auto simp: batch_approve_settlements_def batch_approve_one_def result_simps ledger_simps
      write_settlement_keeps elim!: fold_result_keeps split: option.splits if_splits)

lemma batch_execute_keeps:
  "batch_execute_settlements h s a ids tok = Inr (sts, s') \<Longrightarrow> view s' = view s"
  by (auto simp: batch_execute_settlements_def batch_execute_one_def result_simps ledger_simps
      view_write Let_def elim!: fold_result_keeps split: option.splits if_splits)

lemma batch_cancel_one_keeps: "view (snd (batch_cancel_one i (cs, s))) = view s"
  by (simp add: batch_cancel_one_def Let_def ledger_simps write_settlement_keeps split: option.splits)

lemma batch_cancel_loop_keeps: "view (snd (fold batch_cancel_one ids (cs, s))) = view s"
proof (induction ids arbitrary: cs s)
  case (Cons i ids)
  obtain c1 s1 where "batch_cancel_one i (cs, s) = (c1, s1)" by fastforce
  with Cons.IH [of c1 s1] batch_cancel_one_keeps [of i cs s] show ?case by simp
qed simp

lemma batch_cancel_keeps:
  "batch_cancel_settlements h s a ids = Inr (cs, s') \<Longrightarrow> view s' = view s"
  using batch_cancel_loop_keeps [of ids "[]" s] by (auto simp: batch_cancel_settlements_def result_simps)

lemma release_if_no_open_keeps:
  "release_settlement_hold_if_no_open_disputes i s = Inr s' \<Longrightarrow> view s' = view s"
  by (auto simp: release_settlement_hold_if_no_open_disputes_def result_simps write_settlement_keeps
      split: option.splits if_splits)

lemmas write_ops_keep = hold_keeps close_keeps revoke_keeps batch_approve_keeps batch_execute_keeps
  batch_cancel_keeps

end

locale settlement_view = settlement_write_view view + settlement_config_view view
  for view :: "'w treasury \<Rightarrow> 'v" +
  assumes view_settlement:
    "view (s\<lparr>t_settlement_count := v1\<rparr>) = view s"
    "view (s\<lparr>t_merchant_settlements := v2\<rparr>) = view s"
    "view (s\<lparr>t_partial_approved := v3\<rparr>) = view s"
    "view (s\<lparr>t_partial_executed := v4\<rparr>) = view s"
    "view (s\<lparr>t_signer_last_active := v5\<rparr>) = view s"
begin

lemma propose_keeps: "propose h s a m amt tok dl = Inr (i, s') \<Longrightarrow> view s' = view s"
  by (auto simp: propose_def result_simps Let_def push_merchant_settlement_def view_settlement
      ledger_simps write_settlement_keeps)

lemma approve_keeps:
  "approve_settlement h s a i = Inr (st, s') \<Longrightarrow> view s' = view s"
  "approve_partial_settlement h s a i amt = Inr (st, s') \<Longrightarrow> view s' = view s"
  "partially_execute_settlement h s a i amt tok = Inr s' \<Longrightarrow> view s' = view s"
  by (auto simp: approve_settlement_def approve_partial_settlement_def partially_execute_settlement_def
      result_simps Let_def view_settlement ledger_simps write_settlement_keeps)

lemmas settlement_ops_keep =
  propose_keeps approve_keeps write_ops_keep settlement_config_keeps

end

section \<open>Disputes\<close>

locale dispute_view = settlement_write_view view for view :: "'w treasury \<Rightarrow> 'v" +
  assumes view_dispute:
    "view (s\<lparr>t_disputes := v1\<rparr>) = view s"
    "view (s\<lparr>t_dispute_count := v2\<rparr>) = view s"
    "view (s\<lparr>t_settlement_disputes := v3\<rparr>) = view s"
    "view (s\<lparr>t_signer_last_active := v4\<rparr>) = view s"
begin

lemma raise_dispute_keeps: "raise_dispute h s a i b amt e ev = Inr (d, s') \<Longrightarrow> view s' = view s"
  by (auto simp: raise_dispute_def result_simps Let_def view_dispute ledger_simps
      write_settlement_keeps split: option.splits if_splits)

lemma resolve_keeps:
  "expire_dispute h s a i = Inr s' \<Longrightarrow> view s' = view s"
  "resolve_dispute h s a i f m = Inr s' \<Longrightarrow> view s' = view s"
  "resolve_dispute_split h s a i bps tok m = Inr s' \<Longrightarrow> view s' = view s"
  by (auto simp: expire_dispute_def resolve_dispute_def resolve_dispute_split_def result_simps Let_def
      view_dispute ledger_simps dest!: release_if_no_open_keeps view_transfer_if_positive)

lemma vote_dispute_keeps: "vote_dispute_resolution h s a i f = Inr s' \<Longrightarrow> view s' = view s"
  by (auto simp: vote_dispute_resolution_def result_simps Let_def view_dispute ledger_simps)

lemmas dispute_ops_keep = raise_dispute_keeps resolve_keeps vote_dispute_keeps

end

end
