(* ===== verification/Treasury_Calls.thy ===== *)
theory Treasury_Calls
  imports Treasury_Refinement Treasury_Frames
begin

text \<open>
  The treasury contract as a transition system: \<open>TreasuryCall\<close> is its exported
  interface, \<open>invoke\<close> runs one call, and \<open>treasury_step\<close> is a successful call by
  anyone at any time or a change of the rest of the ledger. A failed call
  leaves the storage as it was, so it is no step. The second half is the
  authorisation matrix: whose signature each entrypoint demands, and which
  entrypoints a pause stops.
\<close>

section \<open>Calls and steps\<close>

datatype (plugins only: code) TreasuryCall =
    C_initialize address u32 "(address \<times> u32) list"
  | C_update_threshold address u32
  | C_pause address
  | C_unpause address
  | C_set_withdrawal_limit address i128 u64
  | C_set_settlement_expiry address u64
  | C_set_compliance_id address address
  | C_transfer_admin address address u64
  | C_accept_admin address
  | C_cancel_transfer_admin address
  | C_set_signer address address u32
  | C_set_signer_label address address string
  | C_remove_signer address address
  | C_propose_signer_rotation address address address
  | C_approve_signer_rotation address u64
  | C_cancel_rotation address u64
  | C_propose_signer_change address SignerChangeKind
  | C_execute_signer_change address u64
  | C_cancel_signer_change address u64
  | C_propose_settlement address address i128 u64
  | C_propose_settlement_with_token address address i128 MaybeAddress
  | C_propose_partial_settlement address address i128 u64
  | C_approve_settlement address u64
  | C_revoke_approval address u64
  | C_batch_approve_settlements address "u64 list"
  | C_approve_partial_settlement address u64 i128
  | C_execute_settlement address u64 address
  | C_batch_execute_settlements address "u64 list" address
  | C_partially_execute_settlement address u64 i128 address
  | C_cancel_settlement address u64
  | C_batch_cancel_settlements address "u64 list"
  | C_force_cancel_settlement address u64
  | C_expire_settlement address u64
  | C_update_merchant_payout_address address address
  | C_add_allowed_token address address
  | C_remove_allowed_token address address
  | C_hold_settlement address u64 SettlementHoldReason "u64 option"
  | C_release_hold address u64
  | C_raise_dispute address u64 address i128 u64 "bytes option"
  | C_expire_dispute address u64
  | C_resolve_dispute address u64 bool "string option"
  | C_resolve_dispute_split address u64 u32 address "string option"
  | C_vote_dispute_resolution address u64 bool
  | C_deposit address address i128 "bytes option"
  | C_batch_deposit address "(address \<times> i128) list" "bytes option"
  | C_withdraw address address i128
  | C_withdraw_all address address address
  | C_emergency_withdraw "address list" address address

definition state_of :: "'e fault + 'r \<times> 'w treasury \<Rightarrow> 'e fault + 'w treasury" where
  "state_of m = andthen m (\<lambda>(_, s). Inr s)"

lemma state_of_eq_Inr [result_simps]: "state_of m = Inr s \<longleftrightarrow> (\<exists>r. m = Inr (r, s))"
  by (auto simp: state_of_def result_simps)

primrec invoke :: "'w host \<Rightarrow> 'w treasury \<Rightarrow> TreasuryCall \<Rightarrow> (TreasuryError, 'w treasury) outcome" where
  "invoke h s (C_initialize admin threshold signers) = initialize h s admin threshold signers"
| "invoke h s (C_update_threshold admin new_threshold) = update_threshold h s admin new_threshold"
| "invoke h s (C_pause admin) = pause h s admin"
| "invoke h s (C_unpause admin) = unpause h s admin"
| "invoke h s (C_set_withdrawal_limit admin limit window_secs) = set_withdrawal_limit h s admin limit window_secs"
| "invoke h s (C_set_settlement_expiry admin expiry_secs) = set_settlement_expiry h s admin expiry_secs"
| "invoke h s (C_set_compliance_id admin compliance_id) = set_compliance_id h s admin compliance_id"
| "invoke h s (C_transfer_admin admin new_admin expiry_secs) = transfer_admin h s admin new_admin expiry_secs"
| "invoke h s (C_accept_admin new_admin) = accept_admin h s new_admin"
| "invoke h s (C_cancel_transfer_admin admin) = cancel_transfer_admin h s admin"
| "invoke h s (C_set_signer admin signer weight) = set_signer h s admin signer weight"
| "invoke h s (C_set_signer_label admin signer label) = set_signer_label h s admin signer label"
| "invoke h s (C_remove_signer admin signer) = remove_signer h s admin signer"
| "invoke h s (C_propose_signer_rotation proposer old_signer new_signer) = state_of (propose_signer_rotation h s proposer old_signer new_signer)"
| "invoke h s (C_approve_signer_rotation approver rotation_id) = state_of (approve_signer_rotation h s approver rotation_id)"
| "invoke h s (C_cancel_rotation admin rotation_id) = state_of (cancel_rotation h s admin rotation_id)"
| "invoke h s (C_propose_signer_change admin kind) = state_of (propose_signer_change h s admin kind)"
| "invoke h s (C_execute_signer_change admin change_id) = state_of (execute_signer_change h s admin change_id)"
| "invoke h s (C_cancel_signer_change admin change_id) = state_of (cancel_signer_change h s admin change_id)"
| "invoke h s (C_propose_settlement signer merchant amount deadline) = state_of (propose_settlement h s signer merchant amount deadline)"
| "invoke h s (C_propose_settlement_with_token signer merchant amount token) = state_of (propose_settlement_with_token h s signer merchant amount token)"
| "invoke h s (C_propose_partial_settlement signer merchant amount deadline) = state_of (propose_partial_settlement h s signer merchant amount deadline)"
| "invoke h s (C_approve_settlement signer i) = state_of (approve_settlement h s signer i)"
| "invoke h s (C_revoke_approval signer i) = state_of (revoke_approval h s signer i)"
| "invoke h s (C_batch_approve_settlements signer ids) = state_of (batch_approve_settlements h s signer ids)"
| "invoke h s (C_approve_partial_settlement signer i amount) = state_of (approve_partial_settlement h s signer i amount)"
| "invoke h s (C_execute_settlement signer i token) = execute_settlement h s signer i token"
| "invoke h s (C_batch_execute_settlements signer ids token) = state_of (batch_execute_settlements h s signer ids token)"
| "invoke h s (C_partially_execute_settlement signer i amount token) = partially_execute_settlement h s signer i amount token"
| "invoke h s (C_cancel_settlement signer i) = cancel_settlement h s signer i"
| "invoke h s (C_batch_cancel_settlements admin ids) = state_of (batch_cancel_settlements h s admin ids)"
| "invoke h s (C_force_cancel_settlement admin i) = force_cancel_settlement h s admin i"
| "invoke h s (C_expire_settlement admin i) = expire_settlement h s admin i"
| "invoke h s (C_update_merchant_payout_address merchant payout) = update_merchant_payout_address h s merchant payout"
| "invoke h s (C_add_allowed_token admin token) = add_allowed_token h s admin token"
| "invoke h s (C_remove_allowed_token admin token) = remove_allowed_token h s admin token"
| "invoke h s (C_hold_settlement admin i reason expires_at) = hold_settlement h s admin i reason expires_at"
| "invoke h s (C_release_hold admin i) = release_hold h s admin i"
| "invoke h s (C_raise_dispute claimant i counterparty amount expires_at evidence) = state_of (raise_dispute h s claimant i counterparty amount expires_at evidence)"
| "invoke h s (C_expire_dispute admin i) = expire_dispute h s admin i"
| "invoke h s (C_resolve_dispute admin i for_claimant memo) = resolve_dispute h s admin i for_claimant memo"
| "invoke h s (C_resolve_dispute_split admin i bps token memo) = resolve_dispute_split h s admin i bps token memo"
| "invoke h s (C_vote_dispute_resolution signer i for_claimant) = vote_dispute_resolution h s signer i for_claimant"
| "invoke h s (C_deposit depositor token amount reference) = deposit h s depositor token amount reference"
| "invoke h s (C_batch_deposit depositor deposits reference) = batch_deposit h s depositor deposits reference"
| "invoke h s (C_withdraw dst token amount) = withdraw h s dst token amount"
| "invoke h s (C_withdraw_all admin token recipient) = withdraw_all h s admin token recipient"
| "invoke h s (C_emergency_withdraw signers token recovery) = emergency_withdraw h s signers token recovery"

inductive treasury_step :: "'w treasury \<Rightarrow> 'w treasury \<Rightarrow> bool" where
  step_call: "invoke h s c = Inr s' \<Longrightarrow> treasury_step s s'"
| step_ledger: "treasury_step s (s\<lparr>t_world := w\<rparr>)"

inductive_cases treasury_stepE: "treasury_step s s'"

definition deployed :: "'w treasury \<Rightarrow> bool" where
  "deployed s \<longleftrightarrow> (\<exists>w. s = empty_storage w)"

abbreviation treasury_reachable :: "'w treasury \<Rightarrow> bool" where
  "treasury_reachable \<equiv> reachable deployed treasury_step"

text \<open>A sequence of calls, each with its own host environment.\<close>

definition run_calls ::
    "('w host \<times> TreasuryCall) list \<Rightarrow> 'w treasury \<Rightarrow> (TreasuryError, 'w treasury) outcome" where
  "run_calls cs s = fold_result (\<lambda>(h, c) u. invoke h u c) cs s"

lemma run_calls_steps: "run_calls cs s = Inr s' \<Longrightarrow> treasury_step\<^sup>*\<^sup>* s s'"
  unfolding run_calls_def
  by (rule fold_result_invariant [where P = "\<lambda>t. treasury_step\<^sup>*\<^sup>* s t"])
    (auto intro: rtranclp.rtrancl_into_rtrancl step_call)

lemma run_calls_reachable:
  assumes "run_calls cs (empty_storage w) = Inr s" shows "treasury_reachable s"
proof -
  have "treasury_reachable t" if "treasury_step\<^sup>*\<^sup>* (empty_storage w) t" for t
    using that by (induction rule: rtranclp_induct)
      (auto intro: reachable.intros simp: deployed_def)
  with run_calls_steps [OF assms] show ?thesis by blast
qed

section \<open>Who may call what\<close>

text \<open>
  The admin, signer or party an entrypoint authenticates, and whether it is
  refused while the contract is paused.
\<close>

definition admin_of :: "TreasuryCall \<Rightarrow> address option" where
  "admin_of c = (case c of
     C_update_threshold a x \<Rightarrow> Some a | C_pause a \<Rightarrow> Some a | C_unpause a \<Rightarrow> Some a
   | C_set_withdrawal_limit a x y \<Rightarrow> Some a | C_set_settlement_expiry a x \<Rightarrow> Some a
   | C_set_compliance_id a x \<Rightarrow> Some a | C_transfer_admin a x y \<Rightarrow> Some a
   | C_cancel_transfer_admin a \<Rightarrow> Some a | C_set_signer a x y \<Rightarrow> Some a
   | C_set_signer_label a x y \<Rightarrow> Some a | C_remove_signer a x \<Rightarrow> Some a
   | C_cancel_rotation a x \<Rightarrow> Some a | C_propose_signer_change a x \<Rightarrow> Some a
   | C_execute_signer_change a x \<Rightarrow> Some a | C_cancel_signer_change a x \<Rightarrow> Some a
   | C_batch_cancel_settlements a x \<Rightarrow> Some a | C_force_cancel_settlement a x \<Rightarrow> Some a
   | C_expire_settlement a x \<Rightarrow> Some a | C_add_allowed_token a x \<Rightarrow> Some a
   | C_remove_allowed_token a x \<Rightarrow> Some a | C_hold_settlement a x y z \<Rightarrow> Some a
   | C_release_hold a x \<Rightarrow> Some a | C_expire_dispute a x \<Rightarrow> Some a
   | C_resolve_dispute a x y z \<Rightarrow> Some a | C_resolve_dispute_split a x y z v \<Rightarrow> Some a
   | C_withdraw_all a x y \<Rightarrow> Some a | _ \<Rightarrow> None)"

definition signer_of :: "TreasuryCall \<Rightarrow> address option" where
  "signer_of c = (case c of
     C_propose_signer_rotation a x y \<Rightarrow> Some a | C_approve_signer_rotation a x \<Rightarrow> Some a
   | C_propose_settlement a x y z \<Rightarrow> Some a | C_propose_settlement_with_token a x y z \<Rightarrow> Some a
   | C_propose_partial_settlement a x y z \<Rightarrow> Some a | C_approve_settlement a x \<Rightarrow> Some a
   | C_revoke_approval a x \<Rightarrow> Some a | C_batch_approve_settlements a x \<Rightarrow> Some a
   | C_approve_partial_settlement a x y \<Rightarrow> Some a | C_execute_settlement a x y \<Rightarrow> Some a
   | C_batch_execute_settlements a x y \<Rightarrow> Some a
   | C_partially_execute_settlement a x y z \<Rightarrow> Some a | C_cancel_settlement a x \<Rightarrow> Some a
   | C_vote_dispute_resolution a x y \<Rightarrow> Some a | _ \<Rightarrow> None)"

definition party_of :: "TreasuryCall \<Rightarrow> address option" where
  "party_of c = (case c of
     C_initialize a x y \<Rightarrow> Some a | C_accept_admin a \<Rightarrow> Some a
   | C_update_merchant_payout_address a x \<Rightarrow> Some a | C_raise_dispute a x y z u v \<Rightarrow> Some a
   | C_deposit a x y z \<Rightarrow> Some a | C_batch_deposit a x y \<Rightarrow> Some a
   | C_withdraw a x y \<Rightarrow> Some a | _ \<Rightarrow> None)"

definition pause_gated :: "TreasuryCall \<Rightarrow> bool" where
  "pause_gated c = (case c of
     C_propose_settlement a x y z \<Rightarrow> True | C_propose_settlement_with_token a x y z \<Rightarrow> True
   | C_propose_partial_settlement a x y z \<Rightarrow> True | C_approve_settlement a x \<Rightarrow> True
   | C_revoke_approval a x \<Rightarrow> True | C_batch_approve_settlements a x \<Rightarrow> True
   | C_approve_partial_settlement a x y \<Rightarrow> True | C_execute_settlement a x y \<Rightarrow> True
   | C_batch_execute_settlements a x y \<Rightarrow> True | C_partially_execute_settlement a x y z \<Rightarrow> True
   | C_cancel_settlement a x \<Rightarrow> True | C_update_merchant_payout_address a x \<Rightarrow> True
   | C_raise_dispute a x y z u v \<Rightarrow> True | C_resolve_dispute a x y z \<Rightarrow> True
   | C_resolve_dispute_split a x y z v \<Rightarrow> True | C_vote_dispute_resolution a x y \<Rightarrow> True
   | C_deposit a x y z \<Rightarrow> True | C_batch_deposit a x y \<Rightarrow> True | C_withdraw a x y \<Rightarrow> True
   | _ \<Rightarrow> False)"

lemmas propose_defs =
  propose_settlement_def propose_settlement_with_token_def propose_partial_settlement_def

lemmas guarded_ops =
  update_threshold_def pause_def unpause_def set_withdrawal_limit_def set_settlement_expiry_def
  set_compliance_id_def transfer_admin_def cancel_transfer_admin_def set_signer_def
  set_signer_label_def remove_signer_def cancel_rotation_def propose_signer_change_def
  execute_signer_change_def cancel_signer_change_def batch_cancel_settlements_def
  force_cancel_settlement_def expire_settlement_def add_allowed_token_def remove_allowed_token_def
  hold_settlement_def release_hold_def expire_dispute_def resolve_dispute_def
  resolve_dispute_split_def withdraw_all_def propose_signer_rotation_def
  approve_signer_rotation_def propose_defs propose_def approve_settlement_def revoke_approval_def
  batch_approve_settlements_def approve_partial_settlement_def execute_settlement_def
  batch_execute_settlements_def partially_execute_settlement_def cancel_settlement_def
  vote_dispute_resolution_def update_merchant_payout_address_def raise_dispute_def deposit_def
  batch_deposit_def withdraw_def

lemma admin_guard: "andthen (require_admin h s a) k = Inr r \<Longrightarrow> h_auth h a \<and> t_admin s = Some a"
  by (auto simp: result_simps)

lemma pause_guard: "andthen (require_not_paused s) k = Inr r \<Longrightarrow> \<not> is_paused s"
  by (auto simp: result_simps)

lemma admin_pause_guard:
  "andthen (require_admin h s a) (\<lambda>_. andthen (require_not_paused s) k) = Inr r \<Longrightarrow> \<not> is_paused s"
  by (auto simp: result_simps)

lemma signer_guard:
  "andthen (require_authorized_signer h s a) k = Inr r \<Longrightarrow> h_auth h a \<and> signer_weight s a \<noteq> 0"
  by (auto simp: result_simps)

lemma pause_signer_guard:
  "andthen (require_not_paused s) (\<lambda>_. andthen (require_authorized_signer h s a) k) = Inr r \<Longrightarrow>
    h_auth h a \<and> signer_weight s a \<noteq> 0"
  by (auto simp: result_simps)

lemma pause_party_guard:
  "andthen (require_not_paused s) (\<lambda>_. andthen (require_auth h a) k) = Inr r \<Longrightarrow> h_auth h a"
  by (auto simp: result_simps)

lemma invoke_admin:
  "invoke h s c = Inr s' \<Longrightarrow> admin_of c = Some a \<Longrightarrow> h_auth h a \<and> t_admin s = Some a"
  by (cases c) (auto simp: admin_of_def state_of_eq_Inr guarded_ops dest!: admin_guard)

lemma invoke_signer:
  "invoke h s c = Inr s' \<Longrightarrow> signer_of c = Some a \<Longrightarrow> h_auth h a \<and> signer_weight s a \<noteq> 0"
  by (cases c) (auto simp: signer_of_def state_of_eq_Inr guarded_ops
      dest!: signer_guard pause_signer_guard)

lemma invoke_party: "invoke h s c = Inr s' \<Longrightarrow> party_of c = Some a \<Longrightarrow> h_auth h a"
  by (cases c) (auto simp: party_of_def state_of_eq_Inr guarded_ops initialize_def accept_admin_def
      result_simps dest!: pause_party_guard)

lemma invoke_paused: "invoke h s c = Inr s' \<Longrightarrow> pause_gated c \<Longrightarrow> \<not> is_paused s"
  by (cases c) (auto simp: pause_gated_def state_of_eq_Inr guarded_ops
      dest!: pause_guard admin_pause_guard)

end
