(* ===== verification/Treasury_Accounts.thy ===== *)
theory Treasury_Accounts
  imports Treasury_Calls
begin

text \<open>
  The depositor accounts of the treasury: \<open>TokenTotal\<close> is the sum of the
  \<open>Balance\<close> entries of its token in every reachable state, no balance is
  negative, the withdrawal limit bounds what one address takes out within a
  window, and a deposit reference stays recorded until it expires.
\<close>

section \<open>Sums of balances\<close>

definition token_sum :: "(address \<times> address \<rightharpoonup> i128) \<Rightarrow> address \<Rightarrow> int" where
  "token_sum m tok = (\<Sum>k | k \<in> dom m \<and> snd k = tok. the (m k))"

definition accounts_ok :: "'w treasury \<Rightarrow> bool" where
  "accounts_ok s \<longleftrightarrow> finite (dom (t_balances s)) \<and>
     (\<forall>k v. t_balances s k = Some v \<longrightarrow> 0 \<le> v) \<and>
     (\<forall>tok. token_total_of s tok = token_sum (t_balances s) tok)"

lemma token_sum_update:
  assumes "finite (dom m)"
  shows "token_sum (m((a, tok) \<mapsto> v)) tok' =
    token_sum m tok' + (if tok' = tok then v - unwrap_or (m (a, tok)) 0 else 0)"
proof (cases "tok' = tok")
  case False
  then have "{k. k \<in> dom (m((a, tok) \<mapsto> v)) \<and> snd k = tok'} = {k. k \<in> dom m \<and> snd k = tok'}"
    by auto
  then show ?thesis using False unfolding token_sum_def by (auto intro!: sum.cong)
next
  case True
  let ?K = "{k. k \<in> dom m \<and> snd k = tok}"
  have dom': "{k. k \<in> dom (m((a, tok) \<mapsto> v)) \<and> snd k = tok} = insert (a, tok) (?K - {(a, tok)})"
    by auto
  have fin: "finite ?K" using assms by (rule rev_finite_subset) auto
  have rest: "(\<Sum>k\<in>?K - {(a, tok)}. the ((m((a, tok) \<mapsto> v)) k)) = (\<Sum>k\<in>?K - {(a, tok)}. the (m k))"
    by (rule sum.cong) auto
  have "token_sum m tok = (\<Sum>k\<in>?K - {(a, tok)}. the (m k)) + unwrap_or (m (a, tok)) 0"
  proof (cases "m (a, tok)")
    case None
    then have "?K - {(a, tok)} = ?K" by auto
    with None show ?thesis by (simp add: token_sum_def)
  next
    case (Some x)
    then have "(a, tok) \<in> ?K" by auto
    from sum.remove [OF fin this, of "\<lambda>k. the (m k)"] Some show ?thesis by (simp add: token_sum_def)
  qed
  moreover have "token_sum (m((a, tok) \<mapsto> v)) tok = v + (\<Sum>k\<in>?K - {(a, tok)}. the (m k))"
    unfolding token_sum_def dom' using fin rest by (subst sum.insert) simp_all
  ultimately show ?thesis using True by simp
qed

text \<open>Moving \<open>d\<close> on one account and on its token's total together keeps the books.\<close>

lemma accounts_ok_move:
  assumes ok: "accounts_ok s" and pos: "0 \<le> balance_of s a tok + d"
    and bal: "t_balances s' = (t_balances s)((a, tok) \<mapsto> balance_of s a tok + d)"
    and tot: "t_token_total s' = (t_token_total s)(tok \<mapsto> token_total_of s tok + d)"
  shows "accounts_ok s'"
proof -
  from ok have fin: "finite (dom (t_balances s))" by (simp add: accounts_ok_def)
  have "token_total_of s' t = token_sum (t_balances s') t" for t
    using ok token_sum_update [OF fin, of a tok "balance_of s a tok + d" t]
    unfolding bal by (auto simp: accounts_ok_def token_total_of_def tot balance_of_def)
  with ok pos show ?thesis by (auto simp: accounts_ok_def bal split: if_splits)
qed

lemma accounts_ok_cong:
  "accounts_ok s \<Longrightarrow> (t_balances s', t_token_total s') = (t_balances s, t_token_total s) \<Longrightarrow>
    accounts_ok s'"
  by (simp add: accounts_ok_def token_total_of_def)

section \<open>Deposits and withdrawals keep the books\<close>

lemma deposit_one_eq_Inr:
  "deposit_one h a r (tok, amt) s = Inr s' \<longleftrightarrow>
     (\<exists>w. 0 < amt \<and> h_transfer h tok a (h_self h) amt (t_world s) = Some w \<and>
       i128_ok (balance_of s a tok + amt) \<and> i128_ok (token_total_of s tok + amt) \<and>
       s' = emit (Ev_deposit a amt r)
         (s\<lparr>t_world := w, t_balances := (t_balances s)((a, tok) \<mapsto> balance_of s a tok + amt),
            t_token_total := (t_token_total s)(tok \<mapsto> token_total_of s tok + amt)\<rparr>))"
  by (auto simp: deposit_one_def result_simps arith_simps balance_of_def token_total_of_def)

lemma deposit_one_ok: "deposit_one h a r ta s = Inr s' \<Longrightarrow> accounts_ok s \<Longrightarrow> accounts_ok s'"
proof -
  assume d: "deposit_one h a r ta s = Inr s'" and ok: "accounts_ok s"
  obtain tok amt where ta: "ta = (tok, amt)" by fastforce
  have "0 \<le> balance_of s a tok"
    using ok by (cases "t_balances s (a, tok)") (auto simp: accounts_ok_def balance_of_def)
  with d ok show ?thesis unfolding ta deposit_one_eq_Inr
    by (elim exE conjE) (rule accounts_ok_move [where a = a and tok = tok and d = amt], auto simp: emit_frame)
qed

lemma record_optional_reference_ok:
  "record_optional_reference h r s = Inr s' \<Longrightarrow> accounts_ok s \<Longrightarrow> accounts_ok s'"
  by (auto simp: record_optional_reference_def result_simps accounts_ok_def token_total_of_def
      split: option.splits)

lemma deposit_ops_ok:
  "deposit h s a tok amt r = Inr s' \<Longrightarrow> accounts_ok s \<Longrightarrow> accounts_ok s'"
  "batch_deposit h s a ds r = Inr s' \<Longrightarrow> accounts_ok s \<Longrightarrow> accounts_ok s'"
  subgoal by (auto simp: deposit_def result_simps dest: deposit_one_ok record_optional_reference_ok)
  subgoal by (auto simp: batch_deposit_def result_simps dest: record_optional_reference_ok
        intro: fold_result_invariant [where P = accounts_ok] deposit_one_ok)
  done

lemma enforce_withdrawal_limit_accounts:
  "enforce_withdrawal_limit h a amt s = Inr s' \<Longrightarrow>
    t_balances s' = t_balances s \<and> t_token_total s' = t_token_total s \<and> t_world s' = t_world s"
  by (auto simp: enforce_withdrawal_limit_def result_simps Let_def split: if_splits)

lemma withdraw_moves:
  assumes "withdraw h s a tok amt = Inr s'"
  shows "0 < amt \<and> amt \<le> balance_of s a tok \<and>
    t_balances s' = (t_balances s)((a, tok) \<mapsto> balance_of s a tok - amt) \<and>
    t_token_total s' = (t_token_total s)(tok \<mapsto> token_total_of s tok - amt) \<and>
    h_transfer h tok (h_self h) a amt (t_world s) = Some (t_world s')"
  using assms
  by (auto simp: withdraw_def result_simps arith_simps Let_def emit_frame token_total_of_def
      dest!: enforce_withdrawal_limit_accounts)

lemma withdraw_ok: "withdraw h s a tok amt = Inr s' \<Longrightarrow> accounts_ok s \<Longrightarrow> accounts_ok s'"
  by (drule withdraw_moves, rule accounts_ok_move [where a = a and tok = tok and d = "- amt"]) auto

section \<open>Reachable states\<close>

locale account_owner =
  settlement_view view + dispute_view view + rotation_view view + change_view view +
  registry_view view + handover_view view + limit_view view
  for view :: "'w treasury \<Rightarrow> 'v"
begin

lemma keeps_account_fields:
  assumes "invoke h s c = Inr s'"
    and "\<And>a t sg. c \<noteq> C_initialize a t sg" "\<And>a x y z. c \<noteq> C_deposit a x y z"
    "\<And>a x y. c \<noteq> C_batch_deposit a x y" "\<And>a x y. c \<noteq> C_withdraw a x y"
  shows "view s' = view s"
  using assms by (cases c) (auto simp: state_of_eq_Inr propose_defs view_signer
      dest: settlement_ops_keep dispute_ops_keep rotation_keeps change_keeps registry_keeps
        admin_config_keeps handover_keeps drain_keeps apply_change_keeps
      dest!: approve_rotation_keeps execute_change_keeps)

end

interpretation accounts: account_owner "\<lambda>s. (t_balances s, t_token_total s)"
  by unfold_locales simp_all

lemma initialize_accounts:
  "initialize h s a thr sgs = Inr s' \<Longrightarrow>
    (t_balances s', t_token_total s') = (t_balances s, t_token_total s)"
  by (auto simp: initialize_eq_Inr emit_frame)

lemma invoke_accounts_ok:
  assumes c: "invoke h s c = Inr s'" and ok: "accounts_ok s"
  shows "accounts_ok s'"
proof (cases "(\<exists>a t sg. c = C_initialize a t sg) \<or> (\<exists>a x y z. c = C_deposit a x y z) \<or>
    (\<exists>a x y. c = C_batch_deposit a x y) \<or> (\<exists>a x y. c = C_withdraw a x y)")
  case True
  with c ok show ?thesis
    by (elim disjE exE) (auto dest: deposit_ops_ok withdraw_ok
        dest!: initialize_accounts accounts_ok_cong [OF ok])
next
  case False
  then have "(t_balances s', t_token_total s') = (t_balances s, t_token_total s)"
    by (intro accounts.keeps_account_fields [OF c]) blast+
  with ok show ?thesis by (rule accounts_ok_cong)
qed

interpretation account_books: invariant deployed treasury_step accounts_ok
proof
  show "accounts_ok s" if "deployed s" for s :: "'w treasury"
    using that by (auto simp: deployed_def accounts_ok_def empty_storage_def token_total_of_def
        token_sum_def)
  show "accounts_ok t" if "accounts_ok s" "treasury_step s t" for s t :: "'w treasury"
    using that(2,1)
  proof (induction rule: treasury_step.induct)
    case (step_call h s c s')
    then show ?case by (blast intro: invoke_accounts_ok)
  next
    case (step_ledger s w)
    then show ?case by (rule accounts_ok_cong) simp
  qed
qed

section \<open>The withdrawal limit\<close>

text \<open>
  The limit is per window: the first withdrawal after a window has elapsed opens
  a new one. Seen from time \<open>t0\<close>, \<open>window_end\<close> is the time up to which the
  window of \<open>a\<close> lasts at least, and \<open>window_budget\<close> what \<open>a\<close> can still take out in it.
\<close>

definition window_open :: "'w treasury \<Rightarrow> address \<Rightarrow> u64 \<Rightarrow> bool" where
  "window_open s a now \<longleftrightarrow>
     unat now - unat (unwrap_or (t_window_start s a) 0) < unat (unwrap_or (t_withdrawal_window_secs s) 0)"

definition window_end :: "'w treasury \<Rightarrow> address \<Rightarrow> u64 \<Rightarrow> nat" where
  "window_end s a t0 =
     (if window_open s a t0 then unat (unwrap_or (t_window_start s a) 0) else unat t0)
       + unat (unwrap_or (t_withdrawal_window_secs s) 0)"

definition window_budget :: "'w treasury \<Rightarrow> address \<Rightarrow> u64 \<Rightarrow> int" where
  "window_budget s a t0 =
     (if window_open s a t0
      then max 0 (unwrap_or (t_withdrawal_limit s) 0 - unwrap_or (t_withdrawn s a) 0)
      else unwrap_or (t_withdrawal_limit s) 0)"

text \<open>What a call takes out of the treasury against the window of \<open>a\<close>.\<close>

definition paid_out :: "address \<Rightarrow> 'w host \<Rightarrow> 'w treasury \<Rightarrow> TreasuryCall \<Rightarrow> int" where
  "paid_out a h s c = (case c of
     C_withdraw dst tok amt \<Rightarrow> if dst = a then amt else 0
   | C_withdraw_all adm tok dst \<Rightarrow>
       if dst = a then max 0 (unwrap_or (h_balance h tok (h_self h) (t_world s)) 0) else 0
   | _ \<Rightarrow> 0)"

text \<open>A sequence of transactions, where one that fails is rolled back and pays nothing.\<close>

fun paid_in_run :: "address \<Rightarrow> ('w host \<times> TreasuryCall) list \<Rightarrow> 'w treasury \<Rightarrow> int" where
  "paid_in_run a [] s = 0"
| "paid_in_run a ((h, c) # cs) s =
     (case invoke h s c of
        Inl _ \<Rightarrow> paid_in_run a cs s
      | Inr s' \<Rightarrow> paid_out a h s c + paid_in_run a cs s')"

definition window_fields :: "'w treasury \<Rightarrow> _" where
  "window_fields s = (t_window_start s, t_withdrawn s, t_withdrawal_limit s, t_withdrawal_window_secs s)"

lemma window_fields_cong:
  assumes "window_fields s' = window_fields s"
  shows "window_end s' a t0 = window_end s a t0" "window_budget s' a t0 = window_budget s a t0"
    "t_withdrawal_limit s' = t_withdrawal_limit s"
  using assms by (simp_all add: window_fields_def window_end_def window_budget_def window_open_def)

lemma enforce_budget:
  assumes e: "enforce_withdrawal_limit h b amt s = Inr s'" and pos: "0 < unwrap_or (t_withdrawal_limit s) 0"
    and amt: "0 < amt" and t: "t0 \<le> h_now h" "unat (h_now h) < window_end s a t0"
  shows "window_end s a t0 \<le> window_end s' a t0 \<and> t_withdrawal_limit s' = t_withdrawal_limit s \<and>
    (if b = a then amt else 0) + window_budget s' a t0 \<le> window_budget s a t0"
proof -
  let ?W = "unwrap_or (t_withdrawal_window_secs s) 0"
  let ?S = "unwrap_or (t_window_start s b) 0"
  let ?el = "?W = 0 \<or> saturating_sub (h_now h) ?S \<ge> ?W"
  from e pos have lim: "(if ?el then 0 else unwrap_or (t_withdrawn s b) 0) + amt
      \<le> unwrap_or (t_withdrawal_limit s) 0"
    and s': "s' = s\<lparr>t_window_start := (t_window_start s)(b \<mapsto> if ?el then h_now h else ?S),
       t_withdrawn := (t_withdrawn s)(b \<mapsto> (if ?el then 0 else unwrap_or (t_withdrawn s b) 0) + amt)\<rparr>"
    by (auto simp: enforce_withdrawal_limit_def result_simps arith_simps Let_def split: if_splits)
  have el: "?el \<longleftrightarrow> \<not> window_open s b (h_now h)"
    by (auto simp: window_open_def word_le_nat_alt arith_simps)
  show ?thesis
  proof (cases "b = a")
    case False
    then show ?thesis by (simp add: s' window_end_def window_budget_def window_open_def)
  next
    case True
    have "window_open s a (h_now h) = window_open s a t0"
      using t by (auto simp: window_end_def window_open_def word_le_nat_alt split: if_splits)
    with True el lim t amt show ?thesis
      by (cases "window_open s a t0")
        (auto simp: s' window_end_def window_budget_def window_open_def word_le_nat_alt split: if_splits)
  qed
qed

locale window_owner =
  settlement_view view + dispute_view view + rotation_view view + change_view view +
  signer_view view + handover_view view
  for view :: "'w treasury \<Rightarrow> 'v" +
  assumes view_windows:
    "view (s\<lparr>t_threshold := v1\<rparr>) = view s"
    "view (s\<lparr>t_paused := v2\<rparr>) = view s"
    "view (s\<lparr>t_settlement_expiry := v3\<rparr>) = view s"
    "view (s\<lparr>t_compliance_id := v4\<rparr>) = view s"
    "view (s\<lparr>t_timelock_delay := v5\<rparr>) = view s"
    "view (s\<lparr>t_balances := v6\<rparr>) = view s"
    "view (s\<lparr>t_token_total := v7\<rparr>) = view s"
    "view (s\<lparr>t_deposit_refs := v8\<rparr>) = view s"
begin

lemma window_config_keeps:
  "update_threshold h s a wt = Inr s' \<Longrightarrow> view s' = view s"
  "pause h s a = Inr s' \<Longrightarrow> view s' = view s"
  "unpause h s a = Inr s' \<Longrightarrow> view s' = view s"
  "set_settlement_expiry h s a ws = Inr s' \<Longrightarrow> view s' = view s"
  "set_compliance_id h s a c = Inr s' \<Longrightarrow> view s' = view s"
  "emergency_withdraw h s sgs tok b = Inr s' \<Longrightarrow> view s' = view s"
  by (auto simp: update_threshold_def pause_def unpause_def set_settlement_expiry_def
      set_compliance_id_def emergency_withdraw_def result_simps view_windows ledger_simps split: if_splits)

lemma window_apply_keeps: "apply_signer_change k s = Inr s' \<Longrightarrow> view s' = view s"
  by (cases k) (auto simp: result_simps Let_def view_signer view_windows split: if_splits)

lemma window_deposit_one_keeps: "deposit_one h a r ta s = Inr s' \<Longrightarrow> view s' = view s"
  by (auto simp: deposit_one_def result_simps view_windows ledger_simps split: prod.splits)

lemma window_reference_keeps: "record_optional_reference h r s = Inr s' \<Longrightarrow> view s' = view s"
  by (auto simp: record_optional_reference_def result_simps view_windows split: option.splits)

lemma window_deposits_keep: "fold_result (deposit_one h a r) ds s = Inr s' \<Longrightarrow> view s' = view s"
  by (rule fold_result_invariant [where P = "\<lambda>t. view t = view s"]) (auto dest: window_deposit_one_keeps)

lemma window_deposit_keeps:
  "deposit h s a tok amt r = Inr s' \<Longrightarrow> view s' = view s"
  "batch_deposit h s a ds r = Inr s' \<Longrightarrow> view s' = view s"
  by (auto simp: deposit_def batch_deposit_def result_simps
      dest!: window_deposits_keep window_reference_keeps window_deposit_one_keeps)

lemma window_initialize_keeps:
  "initialize h s a thr sgs = Inr s' \<Longrightarrow> view s' = view s"
  by (auto simp: initialize_eq_Inr view_windows view_signer view_handover view_dispute view_settlement
      ledger_simps)

lemma keeps_window_fields:
  assumes "invoke h s c = Inr s'" and "\<And>a l ws. c \<noteq> C_set_withdrawal_limit a l ws"
    "\<And>a x y. c \<noteq> C_withdraw a x y" "\<And>a x y. c \<noteq> C_withdraw_all a x y"
  shows "view s' = view s"
  using assms by (cases c) (auto simp: state_of_eq_Inr propose_defs view_signer
      dest: settlement_ops_keep dispute_ops_keep rotation_keeps change_keeps registry_keeps
        window_config_keeps handover_keeps window_apply_keeps window_deposit_keeps window_initialize_keeps
      dest!: approve_rotation_keeps execute_change_keeps)

end

interpretation windows: window_owner window_fields
  by unfold_locales (simp_all add: window_fields_def)

lemma withdraw_windows:
  assumes "withdraw h s dst tok amt = Inr s'"
  shows "0 < amt \<and> (\<exists>s1. enforce_withdrawal_limit h dst amt s = Inr s1 \<and> window_fields s' = window_fields s1)"
proof -
  from assms obtain s1 b t w where "0 < amt" and e: "enforce_withdrawal_limit h dst amt s = Inr s1"
    and s': "s' = emit (Ev_withdraw dst amt) (s1\<lparr>t_balances := b, t_token_total := t, t_world := w\<rparr>)"
    by (auto simp: withdraw_def result_simps Let_def)
  have "window_fields s' = window_fields s1" by (simp add: s' windows.ledger_simps windows.view_windows)
  with \<open>0 < amt\<close> e show ?thesis by blast
qed

lemma withdraw_all_windows:
  assumes "withdraw_all h s adm tok dst = Inr s'"
  shows "\<exists>amt. h_balance h tok (h_self h) (t_world s) = Some amt \<and>
    (if 0 < amt then \<exists>s1. enforce_withdrawal_limit h dst amt s = Inr s1 \<and> window_fields s' = window_fields s1
     else window_fields s' = window_fields s)"
proof -
  from assms obtain amt s2 where b: "h_balance h tok (h_self h) (t_world s) = Some amt"
    and m: "(if amt > 0 then andthen (enforce_withdrawal_limit h dst amt s)
        (\<lambda>s1. token_transfer h tok (h_self h) dst amt s1) else Inr s) = Inr s2"
    and s': "s' = emit (Ev_treasury_drained dst) s2"
    by (auto simp: withdraw_all_def result_simps)
  have [simp]: "window_fields s' = window_fields s2" by (simp add: s' windows.ledger_simps)
  show ?thesis
  proof (cases "0 < amt")
    case True
    with m obtain s1 w where "enforce_withdrawal_limit h dst amt s = Inr s1" "s2 = s1\<lparr>t_world := w\<rparr>"
      by (auto simp: result_simps)
    with True b show ?thesis by (auto simp: windows.ledger_simps)
  qed (use b m in simp)
qed

text \<open>One call: what it pays and what is left afterwards stay within the budget.\<close>

lemma invoke_budget:
  assumes c: "invoke h s c = Inr s'" and cfg: "\<And>adm l ws. c \<noteq> C_set_withdrawal_limit adm l ws"
    and pos: "0 < unwrap_or (t_withdrawal_limit s) 0"
    and t: "t0 \<le> h_now h" "unat (h_now h) < window_end s a t0"
  shows "window_end s a t0 \<le> window_end s' a t0 \<and> t_withdrawal_limit s' = t_withdrawal_limit s \<and>
    paid_out a h s c + window_budget s' a t0 \<le> window_budget s a t0"
proof (cases "(\<exists>dst tok amt. c = C_withdraw dst tok amt) \<or> (\<exists>adm tok dst. c = C_withdraw_all adm tok dst)")
  case False
  then have w: "window_fields s' = window_fields s"
    by (intro windows.keeps_window_fields [OF c] cfg) blast+
  from False have "paid_out a h s c = 0" by (cases c) (auto simp: paid_out_def)
  with window_fields_cong [OF w] show ?thesis by simp
next
  case True
  then show ?thesis
  proof (elim disjE exE)
    fix dst tok amt assume [simp]: "c = C_withdraw dst tok amt"
    from c withdraw_windows [of h s dst tok amt s'] obtain s1 where "0 < amt"
      and e: "enforce_withdrawal_limit h dst amt s = Inr s1" and w: "window_fields s' = window_fields s1" by auto
    from enforce_budget [OF e pos \<open>0 < amt\<close> t] window_fields_cong [OF w] show ?thesis
      by (auto simp: paid_out_def)
  next
    fix adm tok dst assume [simp]: "c = C_withdraw_all adm tok dst"
    from c withdraw_all_windows [of h s adm tok dst s'] obtain amt
      where b: "h_balance h tok (h_self h) (t_world s) = Some amt"
      and r: "if 0 < amt then \<exists>s1. enforce_withdrawal_limit h dst amt s = Inr s1 \<and>
          window_fields s' = window_fields s1 else window_fields s' = window_fields s" by auto
    show ?thesis
    proof (cases "0 < amt")
      case True
      with r obtain s1 where e: "enforce_withdrawal_limit h dst amt s = Inr s1"
        and w: "window_fields s' = window_fields s1" by auto
      from enforce_budget [OF e pos True t] window_fields_cong [OF w] True b show ?thesis
        by (auto simp: paid_out_def)
    next
      case False
      with r b window_fields_cong [of s' s] show ?thesis by (auto simp: paid_out_def)
    qed
  qed
qed

lemma budget_covers_run:
  assumes "0 < unwrap_or (t_withdrawal_limit s) 0"
    and "\<forall>(h, c)\<in>set cs. t0 \<le> h_now h \<and> unat (h_now h) < window_end s a t0 \<and>
      (\<forall>adm l ws. c \<noteq> C_set_withdrawal_limit adm l ws)"
  shows "paid_in_run a cs s \<le> window_budget s a t0"
  using assms
proof (induction cs arbitrary: s)
  case Nil
  then show ?case by (simp add: window_budget_def)
next
  case (Cons hc cs)
  obtain h c where hc: "hc = (h, c)" by fastforce
  show ?case
  proof (cases "invoke h s c")
    case (Inl e)
    with Cons.IH [of s] Cons.prems show ?thesis by (simp add: hc)
  next
    case (Inr s')
    from Cons.prems have b: "window_end s a t0 \<le> window_end s' a t0"
      "t_withdrawal_limit s' = t_withdrawal_limit s"
      "paid_out a h s c + window_budget s' a t0 \<le> window_budget s a t0"
      using invoke_budget [OF Inr] by (auto simp: hc)
    have "paid_in_run a cs s' \<le> window_budget s' a t0"
      using Cons.prems b(1,2) by (intro Cons.IH) (auto simp: hc)
    with Inr b(3) show ?thesis by (simp add: hc)
  qed
qed

section \<open>Deposit references\<close>

text \<open>A recorded reference never disappears, and its expiry never moves back.\<close>

definition refs_le :: "'w treasury \<Rightarrow> 'w treasury \<Rightarrow> bool" where
  "refs_le s s' \<longleftrightarrow> (\<forall>r e. t_deposit_refs s r = Some e \<longrightarrow> (\<exists>e'. t_deposit_refs s' r = Some e' \<and> e \<le> e'))"

lemma refs_le_trans: "refs_le s t \<Longrightarrow> refs_le t u \<Longrightarrow> refs_le s u"
  unfolding refs_le_def by (meson order_trans)

lemma refs_le_cong: "t_deposit_refs s' = t_deposit_refs s \<Longrightarrow> refs_le s s'"
  by (simp add: refs_le_def)

interpretation references: account_owner t_deposit_refs
  by unfold_locales simp_all

lemma record_reference_le: "record_optional_reference h r s = Inr s' \<Longrightarrow> refs_le s s'"
  by (auto simp: record_optional_reference_def result_simps refs_le_def deposit_ref_live_def
      split: option.splits)

lemma deposit_one_refs: "deposit_one h a r ta s = Inr s' \<Longrightarrow> t_deposit_refs s' = t_deposit_refs s"
  by (cases ta) (auto simp: deposit_one_eq_Inr emit_frame)

lemma deposits_refs:
  "fold_result (deposit_one h a r) ds s = Inr s' \<Longrightarrow> t_deposit_refs s' = t_deposit_refs s"
  by (rule fold_result_invariant [where P = "\<lambda>t. t_deposit_refs t = t_deposit_refs s"])
    (auto dest: deposit_one_refs)

lemma deposit_refs:
  "deposit h s a tok amt r = Inr s' \<Longrightarrow>
    \<exists>s1. record_optional_reference h r s = Inr s1 \<and> t_deposit_refs s' = t_deposit_refs s1"
  "batch_deposit h s a ds r = Inr s' \<Longrightarrow>
    \<exists>s1. record_optional_reference h r s = Inr s1 \<and> t_deposit_refs s' = t_deposit_refs s1"
  by (auto simp: deposit_def batch_deposit_def result_simps dest: deposit_one_refs deposits_refs)

lemma withdraw_refs: "withdraw h s dst tok amt = Inr s' \<Longrightarrow> t_deposit_refs s' = t_deposit_refs s"
  by (auto simp: withdraw_def result_simps Let_def emit_frame
      dest!: references.enforce_withdrawal_limit_keeps)

lemma invoke_refs_le:
  assumes c: "invoke h s c = Inr s'"
  shows "refs_le s s'"
proof (cases "(\<exists>a t sg. c = C_initialize a t sg) \<or> (\<exists>a x y z. c = C_deposit a x y z) \<or>
    (\<exists>a x y. c = C_batch_deposit a x y) \<or> (\<exists>a x y. c = C_withdraw a x y)")
  case True
  have "refs_le s s'" if "record_optional_reference h r s = Inr s1" "t_deposit_refs s' = t_deposit_refs s1" for r s1
    using record_reference_le [OF that(1)] that(2) by (simp add: refs_le_def)
  with True c show ?thesis
    by (elim disjE exE) (auto simp: initialize_eq_Inr emit_frame intro: refs_le_cong
        dest: withdraw_refs dest!: deposit_refs)
next
  case False
  then show ?thesis by (intro refs_le_cong references.keeps_account_fields [OF c]) blast+
qed

interpretation reference_run: monotone deployed treasury_step "\<lambda>_. True" refs_le
proof
  show "refs_le s t" if "treasury_step s t" for s t :: "'w treasury"
    using that by (induction rule: treasury_step.induct) (simp_all add: invoke_refs_le refs_le_cong)
qed (auto simp: refs_le_cong intro: refs_le_trans)

lemma live_reference_refused:
  assumes "deposit_ref_live h s r" and "\<not> is_paused s" and "h_auth h a"
  shows "deposit h s a tok amt (Some r) = Inl (Err T_DuplicateReferenceId)"
    "batch_deposit h s a ds (Some r) = Inl (Err T_DuplicateReferenceId)"
  using assms
  by (simp_all add: deposit_def batch_deposit_def record_optional_reference_def record_deposit_reference_def
      require_not_paused_def is_paused_def require_auth_def)

end
