(* ===== verification/Treasury_Governance.thy ===== *)
theory Treasury_Governance
  imports Treasury_Calls
begin

text \<open>
  Signer governance over whole runs: timelocked changes keep their content and
  cannot be applied before their delay, rotations keep the weight they captured,
  and the signer list stays duplicate-free, so that removing a signer never
  leaves the threshold out of reach.
\<close>

section \<open>Timelocked changes\<close>

locale change_owner =
  settlement_view view + dispute_view view + deposit_view view + rotation_view view +
  signer_view view + admin_view view + handover_view view
  for view :: "'w treasury \<Rightarrow> 'v"
begin

lemma keeps_change_fields:
  assumes "invoke h s c = Inr s'"
    and "\<And>a t sg. c \<noteq> C_initialize a t sg" "\<And>a k. c \<noteq> C_propose_signer_change a k"
    "\<And>a i. c \<noteq> C_execute_signer_change a i" "\<And>a i. c \<noteq> C_cancel_signer_change a i"
  shows "view s' = view s"
  using assms by (cases c) (auto simp: state_of_eq_Inr propose_defs view_signer
      dest: settlement_ops_keep dispute_ops_keep deposit_keeps withdraw_keeps drain_keeps
        rotation_keeps registry_keeps admin_config_keeps handover_keeps
      dest!: approve_rotation_keeps)

end

definition change_fields ::
    "'w treasury \<Rightarrow> (u64 \<rightharpoonup> SignerChangeProposal) \<times> u64 option \<times> u64 option" where
  "change_fields s = (t_signer_changes s, t_signer_change_count s, t_timelock_delay s)"

interpretation changes: change_owner change_fields
  by unfold_locales (simp_all add: change_fields_def)

definition change_ok :: "SignerChangeProposal \<Rightarrow> bool" where
  "change_ok p \<longleftrightarrow>
     unat (chg_proposed_at p) + unat MIN_TIMELOCK_DELAY_SECS \<le> unat (chg_executable_at p) \<and>
     unat (chg_executable_at p) \<le> unat (chg_proposed_at p) + unat MAX_TIMELOCK_DELAY_SECS"

definition changes_ok :: "'w treasury \<Rightarrow> bool" where
  "changes_ok s \<longleftrightarrow>
     (\<forall>i p. t_signer_changes s i = Some p \<longrightarrow>
        chg_id p = i \<and> unat i \<le> unat (unwrap_or (t_signer_change_count s) 0) \<and> change_ok p) \<and>
     timelock_delay_ok (current_timelock_delay s)"

definition change_le :: "SignerChangeProposal \<Rightarrow> SignerChangeProposal \<Rightarrow> bool" where
  "change_le p q \<longleftrightarrow>
     chg_id q = chg_id p \<and> chg_kind q = chg_kind p \<and> chg_proposed_at q = chg_proposed_at p \<and>
     chg_executable_at q = chg_executable_at p \<and> (chg_status p \<noteq> CPending \<longrightarrow> q = p)"

definition changes_le :: "'w treasury \<Rightarrow> 'w treasury \<Rightarrow> bool" where
  "changes_le s s' \<longleftrightarrow> (\<forall>i p. t_signer_changes s i = Some p \<longrightarrow>
     (\<exists>q. t_signer_changes s' i = Some q \<and> change_le p q))"

lemma change_fields_cong:
  "change_fields s' = change_fields s \<Longrightarrow> changes_ok s' = changes_ok s \<and> changes_le s s'"
  by (auto simp: change_fields_def changes_ok_def current_timelock_delay_def changes_le_def change_le_def)

lemma propose_change_ok:
  assumes "propose_signer_change h s a k = Inr (i, s')" and ok: "changes_ok s"
  shows "changes_ok s' \<and> changes_le s s'"
proof -
  from assms(1) obtain e where i: "unat i = unat (unwrap_or (t_signer_change_count s) 0) + 1"
    and e: "unat e = unat (h_now h) + unat (current_timelock_delay s)"
    and s': "t_signer_changes s' = (t_signer_changes s)(i \<mapsto> \<lparr>chg_id = i, chg_kind = k,
      chg_proposed_at = h_now h, chg_executable_at = e, chg_status = CPending\<rparr>)"
      "t_signer_change_count s' = Some i" "t_timelock_delay s' = t_timelock_delay s"
    by (auto simp: propose_signer_change_def result_simps arith_simps Let_def emit_frame)
  have fresh: "t_signer_changes s i = None"
    using ok i by (cases "t_signer_changes s i") (fastforce simp: changes_ok_def)+
  have delay: "timelock_delay_ok (current_timelock_delay s)" using ok by (simp add: changes_ok_def)
  then have "change_ok \<lparr>chg_id = i, chg_kind = k, chg_proposed_at = h_now h,
      chg_executable_at = e, chg_status = CPending\<rparr>"
    using e by (simp add: change_ok_def timelock_delay_ok_def not_less word_le_nat_alt)
  moreover have "unat j \<le> unat i" if "t_signer_changes s j = Some p" for j p
    using ok that i by (fastforce simp: changes_ok_def)
  ultimately show ?thesis using ok fresh
    by (auto simp: changes_ok_def s' current_timelock_delay_def changes_le_def change_le_def)
qed

lemma apply_signer_change_changes:
  "apply_signer_change k s = Inr s' \<Longrightarrow>
     t_signer_changes s' = t_signer_changes s \<and> t_signer_change_count s' = t_signer_change_count s \<and>
     (timelock_delay_ok (current_timelock_delay s) \<longrightarrow> timelock_delay_ok (current_timelock_delay s'))"
  by (cases k) (auto simp: result_simps Let_def current_timelock_delay_def split: if_splits)

lemma changes_ok_finalise:
  assumes "changes_ok s" and "t_signer_changes s i = Some p" and "chg_status p = CPending"
    and "t_signer_changes s' = (t_signer_changes s)(i \<mapsto> p\<lparr>chg_status := st\<rparr>)"
    and "t_signer_change_count s' = t_signer_change_count s"
    and "timelock_delay_ok (current_timelock_delay s) \<longrightarrow> timelock_delay_ok (current_timelock_delay s')"
  shows "changes_ok s' \<and> changes_le s s'"
  using assms by (auto simp: changes_ok_def changes_le_def change_le_def change_ok_def)

lemma cancel_change_ok:
  assumes "cancel_signer_change h s a i = Inr (q, s')" and ok: "changes_ok s"
  shows "changes_ok s' \<and> changes_le s s'"
proof -
  from assms(1) obtain p where p: "t_signer_changes s i = Some p" "chg_status p = CPending"
    and s': "s' = emit (Ev_signer_change_cancelled i (p\<lparr>chg_status := CCancelled\<rparr>))
      (s\<lparr>t_signer_changes := (t_signer_changes s)(i \<mapsto> p\<lparr>chg_status := CCancelled\<rparr>)\<rparr>)"
    by (auto simp: cancel_signer_change_def result_simps Let_def)
  show ?thesis
    by (rule changes_ok_finalise [OF ok p]) (simp_all add: s' emit_frame current_timelock_delay_def)
qed

lemma execute_change_parts:
  assumes "execute_signer_change h s a i = Inr (q, s')"
  obtains p s1 where "t_signer_changes s i = Some p" "chg_status p = CPending"
    "chg_executable_at p \<le> h_now h" "apply_signer_change (chg_kind p) s = Inr s1"
    "q = p\<lparr>chg_status := CExecuted\<rparr>"
    "s' = emit (Ev_signer_change_executed i q)
      (s1\<lparr>t_signer_changes := (t_signer_changes s1)(i \<mapsto> q)\<rparr>)"
  using assms by (auto simp: execute_signer_change_def result_simps Let_def not_less)

lemma execute_change_ok:
  assumes "execute_signer_change h s a i = Inr (q, s')" and ok: "changes_ok s"
  shows "changes_ok s' \<and> changes_le s s'"
proof -
  from assms(1) obtain p s1 where p: "t_signer_changes s i = Some p" "chg_status p = CPending"
    and ap: "apply_signer_change (chg_kind p) s = Inr s1" and q: "q = p\<lparr>chg_status := CExecuted\<rparr>"
    and s': "s' = emit (Ev_signer_change_executed i q)
      (s1\<lparr>t_signer_changes := (t_signer_changes s1)(i \<mapsto> q)\<rparr>)"
    by (rule execute_change_parts)
  from apply_signer_change_changes [OF ap] show ?thesis
    by (intro changes_ok_finalise [OF ok p]) (auto simp: s' q emit_frame current_timelock_delay_def)
qed

lemma initialize_change_fields:
  "initialize h s a thr sgs = Inr s' \<Longrightarrow> change_fields s' = change_fields s"
  by (auto simp: initialize_eq_Inr emit_frame change_fields_def)

lemma invoke_changes_ok:
  assumes c: "invoke h s c = Inr s'" and ok: "changes_ok s"
  shows "changes_ok s' \<and> changes_le s s'"
proof (cases "(\<exists>a t sg. c = C_initialize a t sg) \<or> (\<exists>a k. c = C_propose_signer_change a k) \<or>
    (\<exists>a i. c = C_execute_signer_change a i) \<or> (\<exists>a i. c = C_cancel_signer_change a i)")
  case True
  with c ok show ?thesis
    by (elim disjE exE) (auto simp: state_of_eq_Inr
        dest: propose_change_ok execute_change_ok cancel_change_ok
          initialize_change_fields [THEN change_fields_cong])
next
  case False
  then have "change_fields s' = change_fields s"
    by (intro changes.keeps_change_fields [OF c]) blast+
  with ok show ?thesis using change_fields_cong by blast
qed

lemma changes_le_trans: "changes_le s t \<Longrightarrow> changes_le t u \<Longrightarrow> changes_le s u"
  by (fastforce simp: changes_le_def change_le_def)

interpretation change_run: monotone deployed treasury_step changes_ok changes_le
proof
  show "changes_ok s" if "deployed s" for s :: "'w treasury"
    using that by (auto simp: deployed_def changes_ok_def empty_storage_def current_timelock_delay_def
        timelock_delay_ok_def SIGNER_CHANGE_TIMELOCK_SECS_def MIN_TIMELOCK_DELAY_SECS_def
        MAX_TIMELOCK_DELAY_SECS_def)
  have step: "changes_ok t \<and> changes_le s t" if "changes_ok s" "treasury_step s t"
    for s t :: "'w treasury"
    using that(2,1)
  proof (induction rule: treasury_step.induct)
    case (step_call h s c s')
    then show ?case by (intro invoke_changes_ok)
  next
    case (step_ledger s w)
    then show ?case using change_fields_cong [of "s\<lparr>t_world := w\<rparr>" s] by (simp add: change_fields_def)
  qed
  show "changes_ok t" if "changes_ok s" "treasury_step s t" for s t :: "'w treasury"
    using step [OF that] by simp
  show "changes_le s t" if "changes_ok s" "treasury_step s t" for s t :: "'w treasury"
    using step [OF that] by simp
  show "changes_le s s" for s :: "'w treasury" by (simp add: changes_le_def change_le_def)
  show "changes_le s u" if "changes_le s t" "changes_le t u" for s t u :: "'w treasury"
    using that by (rule changes_le_trans)
qed

text \<open>
  What the execution of a change of each kind does to the signers and the
  configuration, and that it does nothing else to the storage.
\<close>

definition change_applied :: "SignerChangeKind \<Rightarrow> 'w treasury \<Rightarrow> 'w treasury \<Rightarrow> bool" where
  "change_applied k t t' \<longleftrightarrow>
     (case k of
        SetSigner x w \<Rightarrow>
          signer_weight t' = (signer_weight t)(x := w) \<and> t_threshold t' = t_threshold t \<and>
          set (signer_list t') = (if w = 0 then set (signer_list t) - {x} else insert x (set (signer_list t))) \<and>
          t_timelock_delay t' = t_timelock_delay t
      | RemoveSigner x \<Rightarrow>
          signer_weight t' = (signer_weight t)(x := 0) \<and> t_threshold t' = t_threshold t \<and>
          set (signer_list t') = set (signer_list t) - {x} \<and> t_timelock_delay t' = t_timelock_delay t
      | UpdateThreshold n \<Rightarrow>
          t_threshold t' = Some n \<and> n \<noteq> 0 \<and> signer_weight t' = signer_weight t \<and>
          signer_list t' = signer_list t \<and> t_timelock_delay t' = t_timelock_delay t
      | UpdateTimelockDelay d \<Rightarrow>
          current_timelock_delay t' = d \<and> timelock_delay_ok d \<and> signer_weight t' = signer_weight t \<and>
          signer_list t' = signer_list t \<and> t_threshold t' = t_threshold t) \<and>
     t' = t\<lparr>t_signers := t_signers t', t_signer_list := t_signer_list t', t_threshold := t_threshold t',
            t_timelock_delay := t_timelock_delay t', t_signer_changes := t_signer_changes t',
            t_events := t_events t'\<rparr>"

lemma apply_change_applied: "apply_signer_change k t = Inr t' \<Longrightarrow> change_applied k t t'"
  by (cases k; cases t)
    (auto simp: change_applied_def result_simps Let_def signer_list_def signer_weight_def fun_eq_iff
      current_timelock_delay_def word_gt_0 split: if_splits)

lemma change_applied_finalise:
  "change_applied k t (emit e (t1\<lparr>t_signer_changes := m\<rparr>)) = change_applied k t t1"
  by (cases k; cases t; cases t1)
    (auto simp: change_applied_def emit_def signer_list_def signer_weight_def fun_eq_iff
      current_timelock_delay_def)

lemma executed_change_stays:
  assumes "treasury_reachable t" and "t_signer_changes t i = Some p" and "chg_status p \<noteq> CPending"
    and "treasury_step\<^sup>*\<^sup>* t u"
  shows "isl (execute_signer_change h u a i)"
proof -
  from change_run.reachable_le [OF assms(1,4)] assms(2,3) have "t_signer_changes u i = Some p"
    by (fastforce simp: changes_le_def change_le_def)
  with assms(3) have "execute_signer_change h u a i \<noteq> Inr (q, v)" for q v
    by (simp add: execute_signer_change_def result_simps)
  then show ?thesis by (cases "execute_signer_change h u a i") auto
qed

section \<open>Rotations\<close>

text \<open>What a successful approval of a rotation does, and when it executes.\<close>

lemma approve_signer_rotation_parts:
  assumes "approve_signer_rotation h s a i = Inr (q, s')"
  obtains p w where "t_rotations s i = Some p" "rot_status p = RPending"
    "h_auth h a" "signer_weight s a \<noteq> 0"
    "unat w = unat (rot_approval_weight p) + added_weight s (rot_approvals p) a"
    "let p1 = p\<lparr>rot_approvals := push_new a (rot_approvals p), rot_approval_weight := w\<rparr>;
        s1 = s\<lparr>t_signer_last_active := (t_signer_last_active s)(a \<mapsto> h_now h)\<rparr>
      in if meets_threshold w (unwrap_or (t_threshold s) 1)
        then q = p1\<lparr>rot_status := RExecuted\<rparr> \<and>
          s' = emit (Ev_rotation_approved i q)
            ((emit (Ev_rotation_executed i q)
              (s1\<lparr>t_signers := ((t_signers s)(rot_new_signer p \<mapsto> rot_captured_old_weight p))
                 (rot_old_signer p \<mapsto> 0)\<rparr>))\<lparr>t_rotations := (t_rotations s)(i \<mapsto> q)\<rparr>)
        else q = p1 \<and> s' = emit (Ev_rotation_approved i q) (s1\<lparr>t_rotations := (t_rotations s)(i \<mapsto> q)\<rparr>)"
proof -
  from assms obtain p w where p: "t_rotations s i = Some p" "rot_status p = RPending"
    and g: "h_auth h a" "signer_weight s a \<noteq> 0"
    and w: "unat w = unat (rot_approval_weight p) + added_weight s (rot_approvals p) a"
    and fin: "andthen (record_approval h s (rot_approvals p) (rot_approval_weight p) a)
       (\<lambda>(approvals, weight, s1). rotation_outcome i p approvals weight s1) = Inr (q, s')"
    and rec: "record_approval h s (rot_approvals p) (rot_approval_weight p) a =
      Inr (push_new a (rot_approvals p), w,
        s\<lparr>t_signer_last_active := (t_signer_last_active s)(a \<mapsto> h_now h)\<rparr>)"
    by (auto simp: approve_signer_rotation_def result_simps)
  have "t_rotations (emit e u) = t_rotations u" for e and u :: "'a treasury" by (simp add: emit_frame)
  with fin rec show thesis
    by (intro that [OF p g w]) (auto simp: rotation_outcome_def Let_def split: if_splits)
qed

lemma approve_signer_rotation_effect:
  assumes "approve_signer_rotation h s a i = Inr (q, s')"
  obtains p w where "h_auth h a" "signer_weight s a \<noteq> 0"
    "t_rotations s i = Some p" "rot_status p = RPending"
    "unat w = unat (rot_approval_weight p) + added_weight s (rot_approvals p) a"
    "q = p\<lparr>rot_approvals := push_new a (rot_approvals p), rot_approval_weight := w,
      rot_status := (if meets_threshold w (unwrap_or (t_threshold s) 1) then RExecuted else RPending)\<rparr>"
    "t_rotations s' = (t_rotations s)(i \<mapsto> q)" "t_rotation_count s' = t_rotation_count s"
    "t_signers s' = (if meets_threshold w (unwrap_or (t_threshold s) 1)
       then ((t_signers s)(rot_new_signer p \<mapsto> rot_captured_old_weight p))(rot_old_signer p \<mapsto> 0)
       else t_signers s)" "t_signer_list s' = t_signer_list s"
proof -
  from assms obtain p w where p: "t_rotations s i = Some p" "rot_status p = RPending"
    and g: "h_auth h a" "signer_weight s a \<noteq> 0"
    and w: "unat w = unat (rot_approval_weight p) + added_weight s (rot_approvals p) a"
    and rest: "let p1 = p\<lparr>rot_approvals := push_new a (rot_approvals p), rot_approval_weight := w\<rparr>;
        s1 = s\<lparr>t_signer_last_active := (t_signer_last_active s)(a \<mapsto> h_now h)\<rparr>
      in if meets_threshold w (unwrap_or (t_threshold s) 1)
        then q = p1\<lparr>rot_status := RExecuted\<rparr> \<and>
          s' = emit (Ev_rotation_approved i q)
            ((emit (Ev_rotation_executed i q)
              (s1\<lparr>t_signers := ((t_signers s)(rot_new_signer p \<mapsto> rot_captured_old_weight p))
                 (rot_old_signer p \<mapsto> 0)\<rparr>))\<lparr>t_rotations := (t_rotations s)(i \<mapsto> q)\<rparr>)
        else q = p1 \<and> s' = emit (Ev_rotation_approved i q) (s1\<lparr>t_rotations := (t_rotations s)(i \<mapsto> q)\<rparr>)"
    by (rule approve_signer_rotation_parts)
  show thesis
  proof (cases "meets_threshold w (unwrap_or (t_threshold s) 1)")
    case True
    with rest show ?thesis by (intro that [OF g p w]) (simp_all add: Let_def emit_frame)
  next
    case False
    with rest p(2) show ?thesis by (intro that [OF g p w]) (simp_all add: Let_def emit_frame)
  qed
qed

definition rotations_ok :: "'w treasury \<Rightarrow> bool" where
  "rotations_ok s \<longleftrightarrow> (\<forall>i p. t_rotations s i = Some p \<longrightarrow>
     rot_id p = i \<and> unat i \<le> unat (unwrap_or (t_rotation_count s) 0) \<and> distinct (rot_approvals p))"

definition rotation_le :: "SignerRotationProposal \<Rightarrow> SignerRotationProposal \<Rightarrow> bool" where
  "rotation_le p q \<longleftrightarrow>
     rot_id q = rot_id p \<and> rot_old_signer q = rot_old_signer p \<and> rot_new_signer q = rot_new_signer p \<and>
     rot_captured_old_weight q = rot_captured_old_weight p \<and> (rot_status p \<noteq> RPending \<longrightarrow> q = p)"

definition rotations_le :: "'w treasury \<Rightarrow> 'w treasury \<Rightarrow> bool" where
  "rotations_le s s' \<longleftrightarrow> (\<forall>i p. t_rotations s i = Some p \<longrightarrow>
     (\<exists>q. t_rotations s' i = Some q \<and> rotation_le p q))"

definition rotation_fields :: "'w treasury \<Rightarrow> (u64 \<rightharpoonup> SignerRotationProposal) \<times> u64 option" where
  "rotation_fields s = (t_rotations s, t_rotation_count s)"

lemma rotation_fields_cong:
  "rotation_fields s' = rotation_fields s \<Longrightarrow> rotations_ok s' = rotations_ok s \<and> rotations_le s s'"
  by (auto simp: rotation_fields_def rotations_ok_def rotations_le_def rotation_le_def)

lemma rotations_update:
  assumes "rotations_ok s" and "t_rotations s i = Some p" and "rotation_le p q"
    and "distinct (rot_approvals q)"
    and "t_rotations s' = (t_rotations s)(i \<mapsto> q)" "t_rotation_count s' = t_rotation_count s"
  shows "rotations_ok s' \<and> rotations_le s s'"
  using assms by (auto simp: rotations_ok_def rotations_le_def rotation_le_def)

lemma propose_rotation_ok:
  assumes "propose_signer_rotation h s a x y = Inr (i, s')" and ok: "rotations_ok s"
  shows "rotations_ok s' \<and> rotations_le s s'"
proof -
  let ?p = "\<lambda>w c. \<lparr> rot_id = i, rot_old_signer = x, rot_new_signer = y, rot_approvals = [a],
    rot_approval_weight = w, rot_status = RPending, rot_captured_old_weight = c \<rparr>"
  from assms(1) obtain w c where i: "unat i = unat (unwrap_or (t_rotation_count s) 0) + 1"
    and s': "t_rotations s' = (t_rotations s)(i \<mapsto> ?p w c)" "t_rotation_count s' = Some i"
    by (auto simp: propose_signer_rotation_def result_simps arith_simps Let_def emit_frame)
  have fresh: "t_rotations s i = None"
    using ok i by (cases "t_rotations s i") (fastforce simp: rotations_ok_def)+
  moreover have "unat j \<le> unat i" if "t_rotations s j = Some q" for j q
    using ok that i by (fastforce simp: rotations_ok_def)
  ultimately show ?thesis using ok
    by (auto simp: rotations_ok_def rotations_le_def rotation_le_def s')
qed

lemma approve_rotation_ok:
  assumes "approve_signer_rotation h s a i = Inr (q, s')" and ok: "rotations_ok s"
  shows "rotations_ok s' \<and> rotations_le s s'"
  using assms(1)
proof (rule approve_signer_rotation_effect)
  fix p w
  assume p: "t_rotations s i = Some p" "rot_status p = RPending"
    and q: "q = p\<lparr>rot_approvals := push_new a (rot_approvals p), rot_approval_weight := w,
      rot_status := (if meets_threshold w (unwrap_or (t_threshold s) 1) then RExecuted else RPending)\<rparr>"
    and s': "t_rotations s' = (t_rotations s)(i \<mapsto> q)" "t_rotation_count s' = t_rotation_count s"
  from ok p have "distinct (rot_approvals p)" by (auto simp: rotations_ok_def)
  with p q show ?thesis
    by (intro rotations_update [OF ok p(1) _ _ s']) (auto simp: rotation_le_def)
qed

lemma cancel_rotation_ok:
  assumes "cancel_rotation h s a i = Inr (q, s')" and ok: "rotations_ok s"
  shows "rotations_ok s' \<and> rotations_le s s'"
proof -
  from assms(1) obtain p where p: "t_rotations s i = Some p" "rot_status p = RPending"
    and s': "s' = emit (Ev_rotation_cancelled i (p\<lparr>rot_status := RCancelled\<rparr>))
      (s\<lparr>t_rotations := (t_rotations s)(i \<mapsto> p\<lparr>rot_status := RCancelled\<rparr>)\<rparr>)"
    by (auto simp: cancel_rotation_def result_simps Let_def)
  from ok p have "distinct (rot_approvals p)" by (auto simp: rotations_ok_def)
  with p show ?thesis
    by (intro rotations_update [OF ok p(1), of "p\<lparr>rot_status := RCancelled\<rparr>"])
      (auto simp: rotation_le_def s' emit_frame)
qed

locale rotation_owner =
  settlement_view view + dispute_view view + deposit_view view + registry_view view +
  change_view view + handover_view view
  for view :: "'w treasury \<Rightarrow> 'v"
begin

lemma keeps_rotation_fields:
  assumes "invoke h s c = Inr s'"
    and "\<And>a t sg. c \<noteq> C_initialize a t sg" "\<And>a x y. c \<noteq> C_propose_signer_rotation a x y"
    "\<And>a i. c \<noteq> C_approve_signer_rotation a i" "\<And>a i. c \<noteq> C_cancel_rotation a i"
  shows "view s' = view s"
  using assms by (cases c) (auto simp: state_of_eq_Inr propose_defs
      dest: settlement_ops_keep dispute_ops_keep deposit_keeps withdraw_keeps drain_keeps
        registry_keeps admin_config_keeps handover_keeps change_keeps apply_change_keeps
      dest!: execute_change_keeps)

end

interpretation rotations: rotation_owner rotation_fields
  by unfold_locales (simp_all add: rotation_fields_def)

lemma initialize_rotation_fields:
  "initialize h s a thr sgs = Inr s' \<Longrightarrow> rotation_fields s' = rotation_fields s"
  by (auto simp: initialize_eq_Inr emit_frame rotation_fields_def)

lemma invoke_rotations_ok:
  assumes c: "invoke h s c = Inr s'" and ok: "rotations_ok s"
  shows "rotations_ok s' \<and> rotations_le s s'"
proof (cases "(\<exists>a t sg. c = C_initialize a t sg) \<or> (\<exists>a x y. c = C_propose_signer_rotation a x y) \<or>
    (\<exists>a i. c = C_approve_signer_rotation a i) \<or> (\<exists>a i. c = C_cancel_rotation a i)")
  case True
  with c ok show ?thesis
    by (elim disjE exE) (auto simp: state_of_eq_Inr
        dest: propose_rotation_ok approve_rotation_ok cancel_rotation_ok
          initialize_rotation_fields [THEN rotation_fields_cong])
next
  case False
  then have "rotation_fields s' = rotation_fields s"
    by (intro rotations.keeps_rotation_fields [OF c]) blast+
  with ok show ?thesis using rotation_fields_cong by blast
qed

interpretation rotation_run: monotone deployed treasury_step rotations_ok rotations_le
proof
  show "rotations_ok s" if "deployed s" for s :: "'w treasury"
    using that by (auto simp: deployed_def rotations_ok_def empty_storage_def)
  have step: "rotations_ok t \<and> rotations_le s t" if "rotations_ok s" "treasury_step s t"
    for s t :: "'w treasury"
    using that(2,1)
  proof (induction rule: treasury_step.induct)
    case (step_call h s c s')
    then show ?case by (intro invoke_rotations_ok)
  next
    case (step_ledger s w)
    then show ?case using rotation_fields_cong [of "s\<lparr>t_world := w\<rparr>" s]
      by (simp add: rotation_fields_def)
  qed
  show "rotations_ok t" if "rotations_ok s" "treasury_step s t" for s t :: "'w treasury"
    using step [OF that] by simp
  show "rotations_le s t" if "rotations_ok s" "treasury_step s t" for s t :: "'w treasury"
    using step [OF that] by simp
  show "rotations_le s s" for s :: "'w treasury" by (simp add: rotations_le_def rotation_le_def)
  show "rotations_le s u" if "rotations_le s t" "rotations_le t u" for s t u :: "'w treasury"
    using that by (fastforce simp: rotations_le_def rotation_le_def)
qed

section \<open>The signer list\<close>

lemma sum_list_filter_neq:
  assumes "distinct xs"
  shows "sum_list (map f xs) \<le> sum_list (map f (filter (\<lambda>y. y \<noteq> x) xs)) + (f x :: nat)"
proof (cases "x \<in> set xs")
  case True
  with sum_list_drop_value [OF assms, of x f] show ?thesis by (simp add: drop_value_def)
next
  case False
  then have "filter (\<lambda>y. y \<noteq> x) xs = xs" by (auto simp: filter_id_conv)
  then show ?thesis by simp
qed

lemma fold_saturating_add:
  "unat (fold (\<lambda>x acc. saturating_add acc (g x)) xs acc) =
     min (unat acc + (\<Sum>x\<leftarrow>xs. unat (g x))) (2 ^ 32 - 1)"
  for g :: "'a \<Rightarrow> u32"
proof (induction xs arbitrary: acc)
  case Nil
  have "unat acc < 2 ^ 32" using unsigned_less [of acc] by simp
  then show ?case by simp
next
  case (Cons x xs)
  then show ?case by (simp add: arith_simps)
qed

lemma remove_signer_reachable:
  assumes "remove_signer h s a x = Inr s'" and "distinct (signer_list s)"
  shows "unat (unwrap_or (t_threshold s') 0) \<le> (\<Sum>y\<leftarrow>signer_list s'. unat (signer_weight s' y))"
proof -
  let ?f = "\<lambda>y. unat (signer_weight s y)"
  from assms(1) have s': "signer_list s' = filter (\<lambda>y. y \<noteq> x) (signer_list s)"
    "t_threshold s' = t_threshold s" "t_signers s' = (t_signers s)(x := None)"
    and thr: "unat (unwrap_or (t_threshold s) 0) \<le>
      min (\<Sum>y\<leftarrow>signer_list s. ?f y) (2 ^ 32 - 1) - ?f x"
    by (auto simp: remove_signer_def result_simps Let_def emit_frame signer_list_def not_less
        word_le_nat_alt arith_simps fold_saturating_add signer_weight_def)
  have "(\<Sum>y\<leftarrow>signer_list s'. unat (signer_weight s' y)) = (\<Sum>y\<leftarrow>signer_list s'. ?f y)"
    by (intro arg_cong [where f = sum_list] map_cong) (auto simp: s' signer_weight_def)
  moreover have "(\<Sum>y\<leftarrow>signer_list s. ?f y) \<le> (\<Sum>y\<leftarrow>signer_list s'. ?f y) + ?f x"
    unfolding s' by (rule sum_list_filter_neq [OF assms(2)])
  ultimately show ?thesis using thr by (simp add: s'(2))
qed

lemma sum_u32_Some: "sum_u32 xs acc = Some t \<longleftrightarrow> unat t = unat acc + (\<Sum>x\<leftarrow>xs. unat x)"
proof (induction xs arbitrary: acc)
  case Nil
  then show ?case by (auto simp: word_eq_unat_iff [of acc])
next
  case (Cons x xs)
  have "sum_u32 (x # xs) acc = Some t \<longleftrightarrow> (\<exists>y. unat y = unat acc + unat x \<and> sum_u32 xs y = Some t)"
    by (auto simp: arith_simps [symmetric] split: option.splits)
  also have "\<dots> \<longleftrightarrow> unat t = unat acc + (\<Sum>x\<leftarrow>x # xs. unat x)"
  proof
    assume eq: "unat t = unat acc + (\<Sum>x\<leftarrow>x # xs. unat x)"
    moreover have "unat t < 2 ^ 32" using unsigned_less [of t] by simp
    ultimately have "checked_add acc x = Some (acc + x)" by (simp add: checked_add_def)
    then have "unat (acc + x) = unat acc + unat x" by (simp add: arith_simps)
    with eq show "\<exists>y. unat y = unat acc + unat x \<and> sum_u32 xs y = Some t"
      by (intro exI [of _ "acc + x"]) (simp add: Cons.IH)
  qed (auto simp: Cons.IH)
  finally show ?case .
qed

lemma total_signer_weight_Some:
  "total_signer_weight s = Some t \<longleftrightarrow> unat t = (\<Sum>y\<leftarrow>signer_list s. unat (signer_weight s y))"
  by (simp add: total_signer_weight_def sum_u32_Some get_all_signers_def signer_weight_def comp_def)

locale list_owner =
  settlement_view view + dispute_view view + deposit_view view + rotation_view view +
  change_view view + admin_view view + handover_view view
  for view :: "'w treasury \<Rightarrow> 'v" +
  assumes view_weights:
    "view (s\<lparr>t_signers := v1\<rparr>) = view s"
    "view (s\<lparr>t_signer_labels := v2\<rparr>) = view s"
begin

lemma label_keeps: "set_signer_label h s a x l = Inr s' \<Longrightarrow> view s' = view s"
  by (auto simp: set_signer_label_def result_simps Let_def view_weights ledger_simps split: if_splits)

lemma keeps_signer_list:
  assumes "invoke h s c = Inr s'"
    and "\<And>a t sg. c \<noteq> C_initialize a t sg" "\<And>a x y. c \<noteq> C_set_signer a x y"
    "\<And>a x. c \<noteq> C_remove_signer a x" "\<And>a i. c \<noteq> C_execute_signer_change a i"
  shows "view s' = view s"
  using assms by (cases c) (auto simp: state_of_eq_Inr propose_defs view_weights
      dest: settlement_ops_keep dispute_ops_keep deposit_keeps withdraw_keeps drain_keeps
        rotation_keeps label_keeps admin_config_keeps handover_keeps change_keeps
      dest!: approve_rotation_keeps)

end

interpretation signer_lists: list_owner t_signer_list
  by unfold_locales simp_all

definition signer_list_ok :: "'w treasury \<Rightarrow> bool" where
  "signer_list_ok s \<longleftrightarrow> distinct (signer_list s)"

lemma signer_list_ok_emit: "signer_list_ok (emit e s) = signer_list_ok s"
  by (simp add: signer_list_ok_def signer_list_def emit_frame)

lemma add_initial_signer_distinct:
  "distinct (snd acc) \<Longrightarrow> distinct (snd (fold add_initial_signer sgs acc))"
proof (induction sgs arbitrary: acc)
  case (Cons x sgs)
  then show ?case by (cases x; cases acc) (auto simp: add_initial_signer_def)
qed simp

lemma initialize_signer_list: "initialize h s a thr sgs = Inr s' \<Longrightarrow> signer_list_ok s'"
  using add_initial_signer_distinct [of "((t_signers s)(a \<mapsto> 1), [a])" sgs]
  by (auto simp: initialize_eq_Inr signer_list_ok_emit)
    (simp add: signer_list_ok_def signer_list_def)

lemma registry_list_ok:
  "set_signer h s a x w = Inr s' \<Longrightarrow> signer_list_ok s \<Longrightarrow> signer_list_ok s'"
  "remove_signer h s a x = Inr s' \<Longrightarrow> signer_list_ok s \<Longrightarrow> signer_list_ok s'"
  by (auto simp: set_signer_def remove_signer_def result_simps Let_def signer_list_ok_emit)
    (simp_all add: signer_list_ok_def signer_list_def)

lemma apply_change_list_ok:
  "apply_signer_change k s = Inr s' \<Longrightarrow> signer_list_ok s \<Longrightarrow> signer_list_ok s'"
  by (cases k) (auto simp: result_simps Let_def signer_list_ok_def signer_list_def)

lemma execute_change_list_ok:
  assumes "execute_signer_change h s a i = Inr (q, s')" and ok: "signer_list_ok s"
  shows "signer_list_ok s'"
  using assms(1)
proof (rule execute_change_parts)
  fix p s1
  assume ap: "apply_signer_change (chg_kind p) s = Inr s1"
    and s': "s' = emit (Ev_signer_change_executed i q)
      (s1\<lparr>t_signer_changes := (t_signer_changes s1)(i \<mapsto> q)\<rparr>)"
  from apply_change_list_ok [OF ap ok] show "signer_list_ok s'"
    by (simp add: s' signer_list_ok_def signer_list_def emit_frame)
qed

lemma invoke_signer_list_ok:
  assumes c: "invoke h s c = Inr s'" and ok: "signer_list_ok s"
  shows "signer_list_ok s'"
proof (cases "(\<exists>a t sg. c = C_initialize a t sg) \<or> (\<exists>a x y. c = C_set_signer a x y) \<or>
    (\<exists>a x. c = C_remove_signer a x) \<or> (\<exists>a i. c = C_execute_signer_change a i)")
  case True
  with c ok show ?thesis
    by (elim disjE exE) (auto simp: state_of_eq_Inr
        dest: initialize_signer_list registry_list_ok execute_change_list_ok)
next
  case False
  then have "t_signer_list s' = t_signer_list s"
    by (intro signer_lists.keeps_signer_list [OF c]) blast+
  with ok show ?thesis by (simp add: signer_list_ok_def signer_list_def)
qed

interpretation signer_list_run: invariant deployed treasury_step signer_list_ok
proof
  show "signer_list_ok s" if "deployed s" for s :: "'w treasury"
    using that by (auto simp: deployed_def signer_list_ok_def signer_list_def empty_storage_def)
  show "signer_list_ok t" if "signer_list_ok s" "treasury_step s t" for s t :: "'w treasury"
    using that(2,1)
  proof (induction rule: treasury_step.induct)
    case (step_call h s c s')
    then show ?case by (rule invoke_signer_list_ok)
  next
    case (step_ledger s w)
    then show ?case by (simp add: signer_list_ok_def signer_list_def)
  qed
qed

end
