(* ===== verification/Treasury.thy ===== *)
theory Treasury
  imports Treasury_Calls
begin

text \<open>
  Invariants of the reachable states of the treasury and properties of its runs.
  They follow from the refinement of the settlement book and from the component
  lemmas; the interpretations of \<open>monotone\<close> and \<open>invariant\<close> turn the step-wise facts
  into facts on every run.
\<close>

section \<open>Before initialisation\<close>

text \<open>
  Until \<open>initialize\<close> has run there is no admin and no signer, so every guarded
  entrypoint fails; only deposits, withdrawals, disputes and payout addresses
  are open, and none of them touches signers or settlements.
\<close>

definition blank :: "'w treasury \<Rightarrow> bool" where
  "blank s \<longleftrightarrow> t_signers s = Map.empty \<and> t_settlements s = Map.empty \<and> t_pending_admin s = None"

lemma blank_no_signer: "blank s \<Longrightarrow> signer_weight s a = 0"
  by (simp add: blank_def signer_weight_def)

lemma invoke_refines:
  assumes "invoke h s c = Inr s'" and "\<And>a t sg. c \<noteq> C_initialize a t sg"
  shows "book_steps (book_of s) (book_of s')"
  using assms by (cases c)
    (auto simp: state_of_eq_Inr propose_defs dest!: untouched_book settlement_ops_refine)

lemma initialize_book:
  "initialize h s a thr sgs = Inr s' \<Longrightarrow> book_of s' = (book_of s)\<lparr>bk_count := 0\<rparr> \<and> t_admin s' \<noteq> None"
  by (auto simp: initialize_eq_Inr emit_frame)

section \<open>Who changes the admin\<close>

text \<open>
  The owner of the admin fields is \<open>admin.rs\<close>; every other group of entrypoints
  keeps any view of them.
\<close>

locale handover_owner =
  settlement_view view + dispute_view view + deposit_view view + rotation_view view +
  change_view view + registry_view view
  for view :: "'w treasury \<Rightarrow> 'v"
begin

lemma keeps_handover_fields:
  assumes "invoke h s c = Inr s'"
    and "\<And>a t sg. c \<noteq> C_initialize a t sg" "\<And>a x y. c \<noteq> C_transfer_admin a x y"
    "\<And>a. c \<noteq> C_accept_admin a" "\<And>a. c \<noteq> C_cancel_transfer_admin a"
  shows "view s' = view s"
  using assms by (cases c) (auto simp: state_of_eq_Inr propose_defs view_signer
      dest: settlement_ops_keep dispute_ops_keep deposit_keeps withdraw_keeps drain_keeps rotation_keeps
        change_keeps registry_keeps admin_config_keeps apply_change_keeps
      dest!: approve_rotation_keeps execute_change_keeps)

end

definition admin_fields :: "'w treasury \<Rightarrow> address option \<times> (address \<times> u64) option" where
  "admin_fields s = (t_admin s, t_pending_admin s)"

interpretation adm: handover_owner admin_fields
  by unfold_locales (simp_all add: admin_fields_def)

lemma invoke_admin_change:
  assumes "invoke h s c = Inr s'" and "t_admin s' \<noteq> t_admin s"
  shows "(\<exists>a t sg. c = C_initialize a t sg \<and> t_admin s = None) \<or>
    (\<exists>a e. c = C_accept_admin a \<and> h_auth h a \<and> t_pending_admin s = Some (a, e) \<and> h_now h < e \<and>
       t_admin s' = Some a \<and> t_pending_admin s' = None)"
proof (cases "(\<exists>a t sg. c = C_initialize a t sg) \<or> (\<exists>a x y. c = C_transfer_admin a x y) \<or>
    (\<exists>a. c = C_accept_admin a) \<or> (\<exists>a. c = C_cancel_transfer_admin a)")
  case True
  with assms show ?thesis
    by (auto simp: initialize_def transfer_admin_def accept_admin_def cancel_transfer_admin_def
        get_pending_admin_def result_simps Let_def emit_frame split: option.splits if_splits) blast+
next
  case False
  then have "admin_fields s' = admin_fields s"
    by (intro adm.keeps_handover_fields [OF assms(1)]) blast+
  with assms(2) show ?thesis by (simp add: admin_fields_def)
qed

lemma admin_stays: "invoke h s c = Inr s' \<Longrightarrow> t_admin s \<noteq> None \<Longrightarrow> t_admin s' \<noteq> None"
  using invoke_admin_change by (metis option.distinct(1))

locale open_view = deposit_view view + dispute_view view + settlement_config_view view
  for view :: "'w treasury \<Rightarrow> 'v"
begin

lemmas open_ops_keep = deposit_keeps withdraw_keeps drain_keeps raise_dispute_keeps settlement_config_keeps

end

interpretation open_ops: open_view "\<lambda>s. (t_signers s, t_pending_admin s)"
  by unfold_locales simp_all

lemma raise_dispute_blank:
  "raise_dispute h s a i b amt e ev = Inr (d, s') \<Longrightarrow> blank s \<Longrightarrow> book_of s' = book_of s"
  by (auto simp: raise_dispute_def blank_def result_simps Let_def)

lemma blank_step:
  assumes inv: "invoke h s c = Inr s'" and none: "t_admin s = None" and blank: "blank s"
    and none': "t_admin s' = None"
  shows "blank s'"
proof -
  have c: "admin_of c = None" "signer_of c = None"
    using invoke_admin [OF inv] invoke_signer [OF inv] none blank_no_signer [OF blank] by force+
  have keep: "t_signers s' = t_signers s \<and> t_pending_admin s' = t_pending_admin s"
    using inv c blank none'
    by (cases c) (auto simp: admin_of_def signer_of_def state_of_eq_Inr blank_def accept_admin_def
        get_pending_admin_def dest!: open_ops.open_ops_keep initialize_book)
  have "book_of s' = book_of s"
    using inv c blank none'
    by (cases c) (auto simp: admin_of_def signer_of_def state_of_eq_Inr
        dest: untouched_book raise_dispute_blank initialize_book)
  then have "t_settlements s' = t_settlements s" by (metis bk_entries_book_of)
  with keep blank show ?thesis by (simp add: blank_def)
qed

section \<open>The settlement invariant\<close>

definition treasury_ok :: "'w treasury \<Rightarrow> bool" where
  "treasury_ok s \<longleftrightarrow> book_ok (book_of s) \<and> (t_admin s = None \<longrightarrow> blank s)"

definition treasury_le :: "'w treasury \<Rightarrow> 'w treasury \<Rightarrow> bool" where
  "treasury_le s s' \<longleftrightarrow> book_le (book_of s) (book_of s')"

lemma book_steps_ok: "book_steps b b' \<Longrightarrow> book_ok b \<Longrightarrow> book_ok b' \<and> book_le b b'"
proof (induction rule: rtranclp_induct)
  case (step b' b'')
  then show ?case using book_step_ok book_step_le book_le_trans by blast
qed (simp add: book_le_refl)

lemma blank_book_ok:
  "blank s \<Longrightarrow> book_ok (book_of s) \<Longrightarrow> book_ok ((book_of s)\<lparr>bk_count := 0\<rparr>)"
  by (simp add: book_ok_def blank_def)

lemma treasury_step_ok:
  assumes "treasury_step s s'" and "treasury_ok s"
  shows "treasury_ok s' \<and> treasury_le s s'"
  using assms
proof (induction rule: treasury_step.induct)
  case (step_call h s c s')
  from step_call.prems have ok: "book_ok (book_of s)" by (simp add: treasury_ok_def)
  have book: "book_ok (book_of s') \<and> book_le (book_of s) (book_of s')"
  proof (cases "\<exists>a t sg. c = C_initialize a t sg")
    case True
    then obtain a t sg where c: "initialize h s a t sg = Inr s'" using step_call.hyps by auto
    have eq: "book_of s' = (book_of s)\<lparr>bk_count := 0\<rparr>" using initialize_book [OF c] by simp
    from c have "t_admin s = None" by (simp add: initialize_def result_simps)
    with step_call.prems have "blank s" by (simp add: treasury_ok_def)
    from blank_book_ok [OF this ok] show ?thesis by (simp add: eq book_le_def)
  next
    case False
    with step_call.hyps have "book_steps (book_of s) (book_of s')" by (blast intro: invoke_refines)
    from book_steps_ok [OF this ok] show ?thesis .
  qed
  have "blank s'" if "t_admin s' = None"
    using that blank_step [OF step_call.hyps _ _ that] admin_stays [OF step_call.hyps] step_call.prems
    by (auto simp: treasury_ok_def)
  with book show ?case by (simp add: treasury_ok_def treasury_le_def)
next
  case (step_ledger s w)
  then show ?case by (simp add: treasury_ok_def treasury_le_def book_le_refl blank_def)
qed

lemma deployed_ok: "deployed s \<Longrightarrow> treasury_ok s"
  by (auto simp: deployed_def treasury_ok_def book_ok_def blank_def book_of_defs empty_storage_def)

interpretation treasury_run: monotone deployed treasury_step treasury_ok treasury_le
proof
  show "treasury_ok s" if "deployed s" for s :: "'w treasury" using that by (rule deployed_ok)
  show "treasury_ok t" if "treasury_ok s" "treasury_step s t" for s t :: "'w treasury"
    using treasury_step_ok [OF that(2,1)] by simp
  show "treasury_le s s" for s :: "'w treasury" by (simp add: treasury_le_def book_le_refl)
  show "treasury_le s u" if "treasury_le s t" "treasury_le t u" for s t u :: "'w treasury"
    using that unfolding treasury_le_def by (rule book_le_trans)
  show "treasury_le s t" if "treasury_ok s" "treasury_step s t" for s t :: "'w treasury"
    using treasury_step_ok [OF that(2,1)] by simp
qed

interpretation treasury_calls: signed_admin invoke t_admin
proof
  fix h :: "'w host" and s t c
  assume c: "invoke h s c = Inr t"
  show "t_admin t = t_admin s \<or> (\<exists>a. t_admin t = Some a \<and> h_auth h a)"
  proof (rule ccontr)
    assume "\<not> ?thesis"
    with invoke_admin_change [OF c] obtain a thr sg where "c = C_initialize a thr sg" by auto
    with c \<open>\<not> ?thesis\<close> show False by (auto simp: initialize_eq_Inr emit_frame)
  qed
qed

end
