(* ===== verification/Treasury_Dispute_Rules.thy ===== *)
theory Treasury_Dispute_Rules
  imports Treasury
begin

text \<open>
  Disputes over whole runs. Once the contract is initialised, dispute ids are
  never reused, the parties, the amount and the settlement of a dispute are
  fixed, and a resolved or expired dispute never changes again. The hold of a
  settlement is released exactly when no dispute against it is open.
\<close>

section \<open>Releasing the hold\<close>

lemma release_loop_correct:
  assumes "unwrap_or (t_dispute_count s) 0 \<noteq> - 1"
  shows "release_settlement_hold_if_no_open_disputes i s =
    Inr (case t_settlements s i of
           Some st \<Rightarrow>
             if st_status st = SOnHold \<and>
                (\<forall>d. 1 \<le> d \<and> d \<le> unwrap_or (t_dispute_count s) 0 \<longrightarrow> \<not> is_open_against s i d)
             then write_settlement i (st\<lparr>st_status := SPending, st_hold_reason := HNone\<rparr>) s
             else s
         | None \<Rightarrow> s)"
  using assms
  by (auto simp: release_settlement_hold_if_no_open_disputes_def scan_ids_range split: option.splits)

section \<open>Life of a dispute\<close>

definition disputes_ok :: "'w treasury \<Rightarrow> bool" where
  "disputes_ok s \<longleftrightarrow> t_admin s \<noteq> None \<and> (\<forall>i d. t_disputes s i = Some d \<longrightarrow>
     dp_id d = i \<and> unat i \<le> unat (unwrap_or (t_dispute_count s) 0) \<and> 0 < dp_amount d \<and>
     distinct (dp_resolution_approvals d) \<and> unat (dp_claimant_share_bps d) \<le> 10000)"

definition dispute_le :: "Dispute \<Rightarrow> Dispute \<Rightarrow> bool" where
  "dispute_le d e \<longleftrightarrow>
     dp_id e = dp_id d \<and> dp_settlement_id e = dp_settlement_id d \<and> dp_claimant e = dp_claimant d \<and>
     dp_counterparty e = dp_counterparty d \<and> dp_amount e = dp_amount d \<and>
     dp_dispute_expires_at e = dp_dispute_expires_at d \<and> dp_evidence_hash e = dp_evidence_hash d \<and>
     set (dp_resolution_approvals d) \<subseteq> set (dp_resolution_approvals e) \<and>
     (dp_status d \<noteq> DRaised \<longrightarrow> e = d)"

definition disputes_le :: "'w treasury \<Rightarrow> 'w treasury \<Rightarrow> bool" where
  "disputes_le s s' \<longleftrightarrow> (\<forall>i d. t_disputes s i = Some d \<longrightarrow>
     (\<exists>e. t_disputes s' i = Some e \<and> dispute_le d e))"

definition dispute_fields :: "'w treasury \<Rightarrow> (u64 \<rightharpoonup> Dispute) \<times> u64 option" where
  "dispute_fields s = (t_disputes s, t_dispute_count s)"

lemma dispute_fields_cong:
  "dispute_fields s' = dispute_fields s \<Longrightarrow> t_admin s' \<noteq> None \<Longrightarrow> disputes_ok s \<Longrightarrow>
    disputes_ok s' \<and> disputes_le s s'"
  by (auto simp: dispute_fields_def disputes_ok_def disputes_le_def dispute_le_def)

definition dispute_call :: "TreasuryCall \<Rightarrow> bool" where
  "dispute_call c = (case c of
     C_initialize a t sg \<Rightarrow> True | C_raise_dispute a i b m e v \<Rightarrow> True | C_expire_dispute a i \<Rightarrow> True
   | C_resolve_dispute a i f m \<Rightarrow> True | C_resolve_dispute_split a i b t m \<Rightarrow> True
   | C_vote_dispute_resolution a i f \<Rightarrow> True | _ \<Rightarrow> False)"

locale dispute_owner =
  settlement_view view + deposit_view view + rotation_view view + registry_view view +
  change_view view + handover_view view
  for view :: "'w treasury \<Rightarrow> 'v"
begin

lemma keeps_dispute_fields:
  assumes "invoke h s c = Inr s'" and "\<not> dispute_call c"
  shows "view s' = view s"
  using assms unfolding dispute_call_def by (cases c) (auto simp: state_of_eq_Inr propose_defs view_signer
      dest: settlement_ops_keep deposit_keeps withdraw_keeps drain_keeps rotation_keeps
        registry_keeps admin_config_keeps handover_keeps change_keeps apply_change_keeps
      dest!: approve_rotation_keeps execute_change_keeps)

end

interpretation disputes: dispute_owner dispute_fields
  by unfold_locales (simp_all add: dispute_fields_def)

lemma disputes_update:
  assumes "disputes_ok s" and "t_disputes s i = Some d" and "dispute_le d e"
    and "distinct (dp_resolution_approvals e)" and "unat (dp_claimant_share_bps e) \<le> 10000"
    and "dispute_fields s' = ((t_disputes s)(i \<mapsto> e), t_dispute_count s)"
    and "t_admin s' \<noteq> None"
  shows "disputes_ok s' \<and> disputes_le s s'"
  using assms by (auto simp: disputes_ok_def disputes_le_def dispute_le_def dispute_fields_def)

lemma raise_dispute_ok:
  assumes "raise_dispute h s a i b amt e ev = Inr (k, s')" and ok: "disputes_ok s"
    and admin: "t_admin s' \<noteq> None"
  shows "disputes_ok s' \<and> disputes_le s s'"
proof -
  let ?d = "\<lparr> dp_id = k, dp_settlement_id = i, dp_claimant = a, dp_counterparty = b, dp_amount = amt,
    dp_status = DRaised, dp_resolution_approvals = [], dp_resolution_weight = 0,
    dp_resolution_for_claimant = False, dp_dispute_expires_at = e, dp_claimant_share_bps = 0,
    dp_evidence_hash = ev, dp_resolution_memo = None \<rparr>"
  from assms(1) have k: "unat k = unat (unwrap_or (t_dispute_count s) 0) + 1" and "0 < amt"
    and s': "t_disputes s' = (t_disputes s)(k \<mapsto> ?d)" "t_dispute_count s' = Some k"
    by (auto simp: raise_dispute_def result_simps arith_simps Let_def emit_frame write_settlement_eq
        split: option.splits if_splits)
  have fresh: "t_disputes s k = None"
    using ok k by (cases "t_disputes s k") (fastforce simp: disputes_ok_def)+
  moreover have "unat j \<le> unat k" if "t_disputes s j = Some q" for j q
    using ok that k by (fastforce simp: disputes_ok_def)
  ultimately show ?thesis using ok \<open>0 < amt\<close> admin
    by (auto simp: disputes_ok_def disputes_le_def dispute_le_def s')
qed

text \<open>
  The common tail of the three admin resolutions: the dispute is rewritten, and
  releasing the hold does not touch disputes.
\<close>

lemma release_dispute_fields:
  "release_settlement_hold_if_no_open_disputes i (emit e u) = Inr s' \<Longrightarrow>
    dispute_fields s' = dispute_fields u"
  by (drule disputes.release_if_no_open_keeps) (simp add: disputes.view_emit)

lemma expire_dispute_parts:
  assumes "expire_dispute h s a i = Inr s'"
  obtains d where "t_disputes s i = Some d" "dp_status d = DRaised"
    "dp_dispute_expires_at d \<le> h_now h"
    "dispute_fields s' = ((t_disputes s)(i \<mapsto> d\<lparr>dp_status := DExpired\<rparr>), t_dispute_count s)"
  using assms
  by (auto simp: expire_dispute_def result_simps Let_def not_less dest!: release_dispute_fields)
    (simp add: dispute_fields_def)

lemma resolve_dispute_parts:
  assumes "resolve_dispute h s a i f m = Inr s'"
  obtains d where "t_disputes s i = Some d" "dp_status d = DRaised"
    "dispute_fields s' = ((t_disputes s)(i \<mapsto> d\<lparr>dp_status := (if f then DResolvedClaimant
       else DResolvedCounterparty), dp_resolution_memo := m\<rparr>), t_dispute_count s)"
  using assms
  by (auto simp: resolve_dispute_def result_simps Let_def dest!: release_dispute_fields)
    (simp_all add: dispute_fields_def)

lemma resolve_dispute_split_parts:
  assumes "resolve_dispute_split h s a i bps tok m = Inr s'"
  obtains d ca s1 s2 where "t_disputes s i = Some d" "dp_status d = DRaised" "is_valid_bps bps"
    "apply_bps_i128 (dp_amount d) bps = Some ca" "i128_ok (dp_amount d - ca)"
    "transfer_if_positive h tok (dp_claimant d) ca s = Inr s1"
    "transfer_if_positive h tok (dp_counterparty d) (dp_amount d - ca) s1 = Inr s2"
    "t_world s' = t_world s2"
    "dispute_fields s' = ((t_disputes s)(i \<mapsto> d\<lparr>dp_status := DResolvedSplit,
       dp_claimant_share_bps := bps, dp_resolution_memo := m\<rparr>), t_dispute_count s)"
proof -
  from assms obtain d ca s1 s2 where d: "t_disputes s i = Some d" "dp_status d = DRaised"
    and bps: "is_valid_bps bps" "apply_bps_i128 (dp_amount d) bps = Some ca"
      "i128_ok (dp_amount d - ca)"
    and t: "transfer_if_positive h tok (dp_claimant d) ca s = Inr s1"
      "transfer_if_positive h tok (dp_counterparty d) (dp_amount d - ca) s1 = Inr s2"
    and rel: "release_settlement_hold_if_no_open_disputes (dp_settlement_id d)
        (emit (Ev_dispute_resolved_split i (d\<lparr>dp_status := DResolvedSplit,
             dp_claimant_share_bps := bps, dp_resolution_memo := m\<rparr>))
          (s2\<lparr>t_disputes := (t_disputes s2)(i \<mapsto> d\<lparr>dp_status := DResolvedSplit,
             dp_claimant_share_bps := bps, dp_resolution_memo := m\<rparr>)\<rparr>)) = Inr s'"
    by (auto simp: resolve_dispute_split_def result_simps arith_simps Let_def)
  have "dispute_fields s2 = dispute_fields s"
    using disputes.view_transfer_if_positive [OF t(1)]
      disputes.view_transfer_if_positive [OF t(2)] by simp
  moreover have "t_world s' = t_world s2"
    using rel by (auto simp: release_settlement_hold_if_no_open_disputes_def result_simps emit_frame
        write_settlement_eq split: option.splits if_splits)
  ultimately show thesis
    using release_dispute_fields [OF rel] by (intro that [OF d bps t]) (simp_all add: dispute_fields_def)
qed

lemma vote_dispute_parts:
  assumes "vote_dispute_resolution h s a i f = Inr s'"
  obtains d w thr where "h_auth h a" "signer_weight s a \<noteq> 0" "t_disputes s i = Some d"
    "dp_status d = DRaised" "a \<notin> set (dp_resolution_approvals d)"
    "dp_resolution_weight d = 0 \<or> dp_resolution_for_claimant d = f"
    "unat w = unat (dp_resolution_weight d) + unat (signer_weight s a)" "t_threshold s = Some thr"
    "dispute_fields s' = ((t_disputes s)(i \<mapsto> d\<lparr>dp_resolution_for_claimant := f,
       dp_resolution_approvals := dp_resolution_approvals d @ [a], dp_resolution_weight := w,
       dp_status := (if meets_threshold w thr then (if f then DResolvedClaimant
         else DResolvedCounterparty) else DRaised)\<rparr>), t_dispute_count s)"
proof -
  from assms obtain d d0 w thr where g: "h_auth h a" "signer_weight s a \<noteq> 0"
    and d: "t_disputes s i = Some d" "dp_status d = DRaised" "a \<notin> set (dp_resolution_approvals d)"
    and d0: "(if dp_resolution_weight d = 0 then Inr (d\<lparr>dp_resolution_for_claimant := f\<rparr>)
      else andthen (require (dp_resolution_for_claimant d = f) (Err T_ResolutionDirectionMismatch))
        (\<lambda>_. Inr d)) = (Inr d0 :: (TreasuryError, Dispute) outcome)"
    and w: "unat w = unat (dp_resolution_weight d0) + added_weight s (dp_resolution_approvals d0) a"
    and thr: "t_threshold s = Some thr"
    and s': "dispute_fields s' = ((t_disputes s)(i \<mapsto>
      (let d1 = d0\<lparr>dp_resolution_approvals := push_new a (dp_resolution_approvals d0),
            dp_resolution_weight := w\<rparr>
       in if meets_threshold w thr then d1\<lparr>dp_status := (if dp_resolution_for_claimant d1
            then DResolvedClaimant else DResolvedCounterparty)\<rparr> else d1)), t_dispute_count s)"
    by (auto simp: vote_dispute_resolution_def result_simps Let_def disputes.view_emit)
      (auto simp: dispute_fields_def)
  have eq: "d0 = d\<lparr>dp_resolution_for_claimant := f\<rparr>"
    and dir: "dp_resolution_weight d = 0 \<or> dp_resolution_for_claimant d = f"
    using d0 by (auto simp: result_simps split: if_splits)
  show thesis
  proof (rule that [OF g d dir _ thr])
    show "unat w = unat (dp_resolution_weight d) + unat (signer_weight s a)"
      using w d(3) by (simp add: eq added_weight_def)
    show "dispute_fields s' = ((t_disputes s)(i \<mapsto> d\<lparr>dp_resolution_for_claimant := f,
       dp_resolution_approvals := dp_resolution_approvals d @ [a], dp_resolution_weight := w,
       dp_status := (if meets_threshold w thr then (if f then DResolvedClaimant
         else DResolvedCounterparty) else DRaised)\<rparr>), t_dispute_count s)"
      using d(2,3) unfolding s' eq Let_def by (cases d) simp
  qed
qed

lemma dispute_calls_ok:
  assumes ok: "disputes_ok s" and admin: "t_admin s' \<noteq> None"
  shows "expire_dispute h s a i = Inr s' \<Longrightarrow> disputes_ok s' \<and> disputes_le s s'"
    and "resolve_dispute h s a i f m = Inr s' \<Longrightarrow> disputes_ok s' \<and> disputes_le s s'"
    and "resolve_dispute_split h s a i bps tok m = Inr s' \<Longrightarrow> disputes_ok s' \<and> disputes_le s s'"
    and "vote_dispute_resolution h s a i f = Inr s' \<Longrightarrow> disputes_ok s' \<and> disputes_le s s'"
proof -
  have old: "distinct (dp_resolution_approvals d) \<and> unat (dp_claimant_share_bps d) \<le> 10000"
    if "t_disputes s i = Some d" for d using ok that by (auto simp: disputes_ok_def)
  show "disputes_ok s' \<and> disputes_le s s'" if "expire_dispute h s a i = Inr s'"
    using that by (rule expire_dispute_parts)
      (rule disputes_update [OF ok _ _ _ _ _ admin], auto simp: dispute_le_def dest: old)
  show "disputes_ok s' \<and> disputes_le s s'" if "resolve_dispute h s a i f m = Inr s'"
    using that by (rule resolve_dispute_parts)
      (rule disputes_update [OF ok _ _ _ _ _ admin], auto simp: dispute_le_def dest: old)
  show "disputes_ok s' \<and> disputes_le s s'" if "resolve_dispute_split h s a i bps tok m = Inr s'"
    using that by (rule resolve_dispute_split_parts)
      (rule disputes_update [OF ok _ _ _ _ _ admin],
        auto simp: dispute_le_def is_valid_bps_unat dest: old)
  show "disputes_ok s' \<and> disputes_le s s'" if "vote_dispute_resolution h s a i f = Inr s'"
    using that by (rule vote_dispute_parts)
      (rule disputes_update [OF ok _ _ _ _ _ admin], auto simp: dispute_le_def dest: old)
qed

lemma invoke_disputes_ok:
  assumes c: "invoke h s c = Inr s'" and ok: "disputes_ok s"
  shows "disputes_ok s' \<and> disputes_le s s'"
proof -
  have admin: "t_admin s' \<noteq> None" using admin_stays [OF c] ok by (simp add: disputes_ok_def)
  show ?thesis
  proof (cases "dispute_call c")
    case True
    with c ok show ?thesis
      by (cases c) (auto simp: dispute_call_def state_of_eq_Inr initialize_def result_simps disputes_ok_def
          dest: raise_dispute_ok [OF _ ok admin] dispute_calls_ok [OF ok admin])
  next
    case False
    from disputes.keeps_dispute_fields [OF c False] admin ok show ?thesis
      by (rule dispute_fields_cong)
  qed
qed

text \<open>Runs that start right after a successful \<open>initialize\<close> of a fresh contract.\<close>

definition initialised :: "'w treasury \<Rightarrow> bool" where
  "initialised s \<longleftrightarrow> (\<exists>h w a thr sgs. initialize h (empty_storage w) a thr sgs = Inr s)"

interpretation dispute_run: monotone initialised treasury_step disputes_ok disputes_le
proof
  show "disputes_ok s" if "initialised s" for s :: "'w treasury"
    using that by (auto simp: initialised_def initialize_eq_Inr disputes_ok_def emit_frame
        empty_storage_def)
  have step: "disputes_ok t \<and> disputes_le s t" if "disputes_ok s" "treasury_step s t"
    for s t :: "'w treasury"
    using that(2,1)
  proof (induction rule: treasury_step.induct)
    case (step_call h s c s')
    then show ?case by (rule invoke_disputes_ok)
  next
    case (step_ledger s w)
    then show ?case by (intro dispute_fields_cong) (simp_all add: dispute_fields_def disputes_ok_def)
  qed
  show "disputes_ok t" if "disputes_ok s" "treasury_step s t" for s t :: "'w treasury"
    using step [OF that] by simp
  show "disputes_le s t" if "disputes_ok s" "treasury_step s t" for s t :: "'w treasury"
    using step [OF that] by simp
  show "disputes_le s s" for s :: "'w treasury" by (simp add: disputes_le_def dispute_le_def)
  show "disputes_le s u" if "disputes_le s t" "disputes_le t u" for s t u :: "'w treasury"
    using that by (fastforce simp: disputes_le_def dispute_le_def)
qed

end
