(* ===== verification/Treasury_Payouts.thy ===== *)
theory Treasury_Payouts
  imports Treasury_Calls
begin

text \<open>
  What a payout depends on: the approvals that signers collect on a pending
  settlement one call after the other, and the hold that a dispute puts on it.
\<close>

section \<open>A quorum forms\<close>

text \<open>Everything besides the settlement itself that an execution looks at.\<close>

definition payout_env :: "'w treasury \<Rightarrow> _" where
  "payout_env s = (t_paused s, t_signers s, t_threshold s, t_token_allowlist s, t_compliance_id s,
     t_payout_addresses s, t_world s)"

lemma payout_env_cong:
  assumes "payout_env u = payout_env s"
  shows "is_paused u = is_paused s" "signer_weight u a = signer_weight s a" "t_threshold u = t_threshold s"
    "token_allowlist u = token_allowlist s" "t_compliance_id u = t_compliance_id s"
    "payout_address u m = payout_address s m" "t_world u = t_world s"
  using assms by (simp_all add: payout_env_def is_paused_def signer_weight_def token_allowlist_def
      payout_address_def)

definition with_votes :: "address list \<Rightarrow> u32 \<Rightarrow> Settlement \<Rightarrow> Settlement" where
  "with_votes as w st = st\<lparr>st_approvals := st_approvals st @ as, st_approval_weight := w\<rparr>"

lemma approve_settlement_votes:
  assumes st: "t_settlements s i = Some st" "st_status st = SPending" "\<not> is_paused s"
    and a: "h_auth h a" "signer_weight s a \<noteq> 0" "a \<notin> set (st_approvals st)"
    and w: "unat (st_approval_weight st) + unat (signer_weight s a) < 2 ^ 32"
  shows "\<exists>u w. invoke h s (C_approve_settlement a i) = Inr u \<and> payout_env u = payout_env s \<and>
    t_settlements u i = Some (with_votes [a] w st) \<and>
    unat w = unat (st_approval_weight st) + unat (signer_weight s a)"
proof -
  obtain x where x: "checked_add (st_approval_weight st) (signer_weight s a) = Some x"
    "unat x = unat (st_approval_weight st) + unat (signer_weight s a)"
    using w by (cases "checked_add (st_approval_weight st) (signer_weight s a)") (simp_all add: arith_simps)
  with st a show ?thesis
    by (intro exI [of _ "projr (invoke h s (C_approve_settlement a i))"] exI [of _ x])
      (simp add: approve_settlement_def state_of_def require_not_paused_def is_paused_def
        require_authorized_signer_def require_auth_def record_approval_def Let_def payout_env_def
        write_settlement_eq emit_def signer_weight_def with_votes_def)
qed

lemma votes_collect:
  assumes "t_settlements s i = Some st" and "st_status st = SPending" and "\<not> is_paused s"
    and "distinct (map snd votes)" and "set (map snd votes) \<inter> set (st_approvals st) = {}"
    and "\<forall>(h, a)\<in>set votes. h_auth h a \<and> signer_weight s a \<noteq> 0"
    and "unat (st_approval_weight st) + (\<Sum>(h, a)\<leftarrow>votes. unat (signer_weight s a)) < 2 ^ 32"
  shows "\<exists>u w. run_calls (map (\<lambda>(h, a). (h, C_approve_settlement a i)) votes) s = Inr u \<and>
    payout_env u = payout_env s \<and> t_settlements u i = Some (with_votes (map snd votes) w st) \<and>
    unat w = unat (st_approval_weight st) + (\<Sum>(h, a)\<leftarrow>votes. unat (signer_weight s a))"
  using assms
proof (induction votes arbitrary: s st)
  case Nil
  then show ?case by (simp add: run_calls_def with_votes_def) (intro exI [of _ "st_approval_weight st"], simp)
next
  case (Cons ha votes)
  obtain h a where ha: "ha = (h, a)" by fastforce
  from approve_settlement_votes [OF Cons.prems(1,2,3), of h a] Cons.prems(5,6,7) obtain u x where
    u: "invoke h s (C_approve_settlement a i) = Inr u" "payout_env u = payout_env s"
      "t_settlements u i = Some (with_votes [a] x st)"
    and x: "unat x = unat (st_approval_weight st) + unat (signer_weight s a)" by (auto simp: ha)
  note env = payout_env_cong [OF u(2)]
  have "\<exists>v w. run_calls (map (\<lambda>(h, a). (h, C_approve_settlement a i)) votes) u = Inr v \<and>
    payout_env v = payout_env u \<and>
    t_settlements v i = Some (with_votes (map snd votes) w (with_votes [a] x st)) \<and>
    unat w = unat (st_approval_weight (with_votes [a] x st)) + (\<Sum>(h, a)\<leftarrow>votes. unat (signer_weight u a))"
    using Cons.prems by (intro Cons.IH [OF u(3)]) (auto simp: ha env x with_votes_def)
  then obtain v w where "run_calls (map (\<lambda>(h, a). (h, C_approve_settlement a i)) votes) u = Inr v"
    "payout_env v = payout_env u" "t_settlements v i = Some (with_votes (map snd (ha # votes)) w st)"
    "unat w = unat x + (\<Sum>(h, a)\<leftarrow>votes. unat (signer_weight s a))"
    by (auto simp: ha with_votes_def env)
  with u x show ?case
    by (intro exI [of _ v] exI [of _ w]) (simp add: ha run_calls_def)
qed

section \<open>Holds and disputes\<close>

lemma release_keeps_expiry:
  "release_settlement_hold_if_no_open_disputes i s = Inr s' \<Longrightarrow> t_hold_expiry s' = t_hold_expiry s"
  by (auto simp: release_settlement_hold_if_no_open_disputes_def result_simps write_settlement_eq
      split: option.splits if_splits)

lemma transfer_keeps_expiry:
  "transfer_if_positive h tok dst amt s = Inr s' \<Longrightarrow> t_hold_expiry s' = t_hold_expiry s"
  by (auto simp: transfer_if_positive_def result_simps split: if_splits)

lemma resolution_keeps_expiry:
  "resolve_dispute h s admin d f memo = Inr s' \<Longrightarrow> t_hold_expiry s' = t_hold_expiry s"
  "resolve_dispute_split h s admin d bps token memo = Inr s' \<Longrightarrow> t_hold_expiry s' = t_hold_expiry s"
  "expire_dispute h s admin d = Inr s' \<Longrightarrow> t_hold_expiry s' = t_hold_expiry s"
  subgoal by (auto simp: resolve_dispute_def result_simps Let_def emit_frame dest: release_keeps_expiry)
  subgoal by (auto simp: resolve_dispute_split_def result_simps Let_def)
      (drule release_keeps_expiry, (drule transfer_keeps_expiry)+, simp add: emit_frame)
  subgoal by (auto simp: expire_dispute_def result_simps Let_def emit_frame dest: release_keeps_expiry)
  done

lemma raise_dispute_on_pending:
  assumes "raise_dispute h s a i b amt ex ev = Inr (d, s')" and "t_settlements s i = Some st"
    and "st_status st = SPending"
  shows "t_settlements s' i = Some (st\<lparr>st_status := SOnHold\<rparr>) \<and> t_hold_expiry s' = t_hold_expiry s \<and>
    is_open_against s' i d \<and> payout_env s' = payout_env s"
  using assms
  by (auto simp: raise_dispute_def result_simps Let_def emit_def write_settlement_eq is_open_against_def
      payout_env_def)

lemma payout_iff_not_held:
  assumes "payout_env t = payout_env s" and "t_settlements s i = Some st" and "st_status st = SPending"
    and "t_settlements t i = Some (st\<lparr>st_status := SOnHold\<rparr>)"
  shows "\<not> isl (execute_settlement h t signer i token) \<longleftrightarrow>
    hold_expired h t i \<and> \<not> isl (execute_settlement h s signer i token)"
proof -
  have run: "\<not> isl m \<longleftrightarrow> (\<exists>u. m = Inr u)" for m :: "'x + 'y" by (cases m) auto
  show ?thesis
    unfolding run execute_settlement_eq_Inr payout_env_cong [OF assms(1)]
    using assms(2-4) by (auto split: option.splits)
qed

end
