(* ===== verification/Treasury_Views.thy ===== *)
theory Treasury_Views
  imports Treasury
begin

text \<open>
  The read-only views over pending settlements: the paging loop returns the
  requested slice, and the per-token metrics add up to the pending set.
\<close>

section \<open>Pages\<close>

lemma page_loop_collect:
  "\<not> skipped < start \<Longrightarrow> page_loop settlements start limit ids skipped page =
     page @ take (unat limit - length page) (List.map_filter settlements ids)"
proof (induction ids arbitrary: page)
  case (Cons i ids)
  show ?case
  proof (cases "unat limit \<le> length page")
    case False
    with Cons show ?thesis
      by (cases "settlements i") (simp_all add: List.map_filter_simps take_Cons' Suc_diff_le)
  qed (use Cons.prems in simp)
qed (simp add: List.map_filter_simps)

lemma page_loop_skip:
  fixes start :: "'n::len word"
  shows "skipped \<le> start \<Longrightarrow> page_loop settlements start limit ids skipped [] =
     take (unat limit) (List.map_filter settlements (drop (unat start - unat skipped) ids))"
proof (induction ids arbitrary: skipped)
  case (Cons i ids)
  show ?case
  proof (cases "skipped < start")
    case True
    then have lt: "unat skipped < unat start" by (simp add: word_less_nat_alt)
    have "unat start < 2 ^ LENGTH('n)" by (rule unsigned_less)
    with lt have "unat skipped + 1 < 2 ^ LENGTH('n)" by linarith
    then have "unat (skipped + 1) = unat skipped + 1" by (simp add: unat_word_ariths)
    with lt True Cons.IH [of "skipped + 1"] show ?thesis
      by (simp add: word_le_nat_alt drop_Cons' Suc_diff_Suc)
  next
    case False
    with Cons.prems have "skipped = start" by simp
    with page_loop_collect [OF False, of settlements limit "i # ids" "[]"] show ?thesis by simp
  qed
qed (simp add: List.map_filter_simps)

lemma page_loop_slice:
  "page_loop settlements start limit ids 0 [] =
     take (unat limit) (List.map_filter settlements (drop (unat start) ids))"
  using page_loop_skip [of 0 start settlements limit ids] by simp

lemma map_filter_total:
  "\<forall>x\<in>set xs. f x \<noteq> None \<Longrightarrow> List.map_filter f xs = map (the \<circ> f) xs"
  by (induction xs) (auto simp: List.map_filter_simps)

lemma map_filter_drop:
  assumes "\<forall>x\<in>set xs. f x \<noteq> None"
  shows "List.map_filter f (drop n xs) = drop n (List.map_filter f xs)"
proof -
  from assms have "\<forall>x\<in>set (drop n xs). f x \<noteq> None" using in_set_dropD by fastforce
  with assms show ?thesis by (simp add: map_filter_total drop_map)
qed

lemma pending_page_slice:
  assumes "\<forall>i\<in>set (pending_index s). t_settlements s i \<noteq> None"
  shows "get_pending_settlements_page s start limit =
    take (unat limit) (drop (unat start) (get_pending_settlements s))"
  using assms by (simp add: get_pending_settlements_page_def get_pending_settlements_def
      page_loop_slice map_filter_drop)

section \<open>Metrics\<close>

abbreviation with_token :: "MaybeAddress \<Rightarrow> Settlement list \<Rightarrow> Settlement list" where
  "with_token tok sts \<equiv> filter (\<lambda>st. st_token st = tok) sts"

definition buckets_ok :: "Settlement list \<Rightarrow> (MaybeAddress \<times> u64 \<times> i128) list \<Rightarrow> bool" where
  "buckets_ok sts bs \<longleftrightarrow> distinct (map fst bs) \<and> set (map fst bs) = st_token ` set sts \<and>
     (\<forall>(tok, c, v)\<in>set bs. unat c = length (with_token tok sts) \<and>
        v = (\<Sum>st\<leftarrow>with_token tok sts. st_amount st))"

lemma bump_bucket_cases:
  "bump_bucket tok amt bs = Some bs' \<Longrightarrow>
    (tok \<notin> fst ` set bs \<and> bs' = bs @ [(tok, 1, amt)]) \<or>
    (\<exists>xs c v c' ys. bs = xs @ (tok, c, v) # ys \<and> bs' = xs @ (tok, c', v + amt) # ys \<and>
       tok \<notin> fst ` set xs \<and> unat c' = unat c + 1)"
proof (induction bs arbitrary: bs')
  case (Cons b bs)
  obtain t c v where b: "b = (t, c, v)" by (cases b)
  show ?case
  proof (cases "t = tok")
    case True
    with Cons.prems obtain c' where "unat c' = unat c + 1" "bs' = (t, c', v + amt) # bs"
      by (auto simp: b arith_simps split: option.splits)
    with True show ?thesis unfolding b by (intro disjI2 exI [of _ "[]"]) auto
  next
    case False
    with Cons.prems obtain bs1 where bs1: "bump_bucket tok amt bs = Some bs1" "bs' = b # bs1"
      by (auto simp: b)
    from Cons.IH [OF bs1(1)] show ?thesis
    proof (elim disjE exE conjE)
      fix xs c2 v2 c' ys
      assume "bs = xs @ (tok, c2, v2) # ys" "bs1 = xs @ (tok, c', v2 + amt) # ys"
        "tok \<notin> fst ` set xs" "unat c' = unat c2 + 1"
      with False bs1 show ?thesis unfolding b by (intro disjI2 exI [of _ "(t, c, v) # xs"]) auto
    qed (use False bs1 b in auto)
  qed
qed simp

definition bucket_ok :: "Settlement list \<Rightarrow> MaybeAddress \<times> u64 \<times> i128 \<Rightarrow> bool" where
  "bucket_ok sts b = (case b of (tok, c, v) \<Rightarrow>
     unat c = length (with_token tok sts) \<and> v = (\<Sum>st\<leftarrow>with_token tok sts. st_amount st))"

lemma buckets_ok_alt:
  "buckets_ok sts bs \<longleftrightarrow> distinct (map fst bs) \<and> fst ` set bs = st_token ` set sts \<and>
     (\<forall>b\<in>set bs. bucket_ok sts b)"
  by (auto simp: buckets_ok_def bucket_ok_def)

lemma bucket_ok_other: "fst b \<noteq> st_token st \<Longrightarrow> bucket_ok (sts @ [st]) b = bucket_ok sts b"
  by (cases b) (auto simp: bucket_ok_def)

lemma bump_bucket_ok:
  assumes "bump_bucket (st_token st) (st_amount st) bs = Some bs'" and ok: "buckets_ok sts bs"
  shows "buckets_ok (sts @ [st]) bs'"
  using bump_bucket_cases [OF assms(1)]
proof (elim disjE exE conjE)
  assume new: "st_token st \<notin> fst ` set bs" and bs': "bs' = bs @ [(st_token st, 1, st_amount st)]"
  from ok have d: "distinct (map fst bs)" and f: "fst ` set bs = st_token ` set sts"
    by (simp_all add: buckets_ok_alt)
  have none: "with_token (st_token st) sts = []"
    using new unfolding f filter_empty_conv by (metis imageI)
  have old: "bucket_ok (sts @ [st]) b" if "b \<in> set bs" for b
  proof -
    from that new have "fst b \<noteq> st_token st" by (metis imageI)
    with that ok show ?thesis by (simp add: bucket_ok_other buckets_ok_alt)
  qed
  have "bucket_ok (sts @ [st]) (st_token st, 1, st_amount st)" by (simp add: bucket_ok_def none)
  with old have all: "\<forall>b\<in>set bs'. bucket_ok (sts @ [st]) b" unfolding bs' by auto
  have "distinct (map fst bs')" unfolding bs' using d new by auto
  moreover have "fst ` set bs' = st_token ` set (sts @ [st])" unfolding bs' using f by auto
  ultimately show ?thesis using all unfolding buckets_ok_alt by blast
next
  fix xs c v c' ys
  assume bs: "bs = xs @ (st_token st, c, v) # ys"
    and bs': "bs' = xs @ (st_token st, c', v + st_amount st) # ys" and c': "unat c' = unat c + 1"
  have old: "bucket_ok (sts @ [st]) b" if "b \<in> set xs \<union> set ys" for b
  proof -
    from ok have "st_token st \<notin> fst ` (set xs \<union> set ys)"
      by (simp add: buckets_ok_alt bs image_Un)
    with that have "fst b \<noteq> st_token st" by (metis imageI)
    with that ok show ?thesis by (auto simp: bucket_ok_other buckets_ok_alt bs)
  qed
  have "bucket_ok sts (st_token st, c, v)" using ok by (simp add: buckets_ok_alt bs)
  with c' have "bucket_ok (sts @ [st]) (st_token st, c', v + st_amount st)"
    by (simp add: bucket_ok_def)
  with old have all: "\<forall>b\<in>set bs'. bucket_ok (sts @ [st]) b" unfolding bs' by auto
  from ok have d: "distinct (map fst bs)" and f: "fst ` set bs = st_token ` set sts"
    by (simp_all add: buckets_ok_alt)
  have "map fst bs' = map fst bs" by (simp add: bs bs')
  then have m: "map fst bs' = map fst bs" "fst ` set bs' = fst ` set bs"
    by (simp, metis list.set_map)
  have "st_token st \<in> st_token ` set sts" unfolding f [symmetric] bs by simp
  then have "fst ` set bs' = st_token ` set (sts @ [st])" unfolding m(2) f by auto
  with d all show ?thesis unfolding buckets_ok_alt m(1) by blast
qed

lemma metrics_ok:
  "fold_result (metrics_step s) ids bs = Inr bs' \<Longrightarrow> buckets_ok sts bs \<Longrightarrow>
    buckets_ok (sts @ List.map_filter (t_settlements s) ids) bs'"
proof (induction ids arbitrary: bs sts)
  case (Cons i ids)
  from Cons.prems(1) obtain b1 where 1: "metrics_step s i bs = Inr b1"
    and rest: "fold_result (metrics_step s) ids b1 = Inr bs'" by (auto simp: result_simps)
  show ?case
  proof (cases "t_settlements s i")
    case None
    with 1 have "b1 = bs" by (simp add: metrics_step_def)
    with Cons.IH [OF rest, of sts] Cons.prems(2) None show ?thesis by (simp add: List.map_filter_simps)
  next
    case (Some st)
    with 1 have "bump_bucket (st_token st) (st_amount st) bs = Some b1"
      by (simp add: metrics_step_def result_simps)
    from Cons.IH [OF rest bump_bucket_ok [OF this Cons.prems(2)]] Some show ?thesis
      by (simp add: List.map_filter_simps)
  qed
qed (simp add: List.map_filter_simps)

end
