(* ===== verification/Treasury_Scenario.thy ===== *)
theory Treasury_Scenario
  imports Treasury_Calls
begin

text \<open>
  Concrete runs of the treasury, evaluated by the kernel, at which the theorems
  on reachable states are exercised. The token contract of the scenario is a
  ledger that logs each transfer and never refuses one.
\<close>

type_synonym transfers = "(address \<times> address \<times> address \<times> i128) list"

definition demo_host :: "u64 \<Rightarrow> transfers host" where
  "demo_host now = \<lparr> h_now = now, h_seq = 1, h_self = 99, h_auth = (\<lambda>_. True),
     h_transfer = (\<lambda>token src dst amount w. Some (w @ [(token, src, dst, amount)])),
     h_balance = (\<lambda>_ _ _. Some 1000), h_is_allowed = (\<lambda>_ _ _. Some True),
     h_is_allowed_for_amount = (\<lambda>_ _ _ _. Some True) \<rparr>"

text \<open>Admin 1 with signers 2 and 3, threshold 3; signer 2 proposes a payout of 50 to merchant 7.\<close>

definition demo_open :: "(transfers host \<times> TreasuryCall) list" where
  "demo_open = [(demo_host 10, C_initialize 1 3 [(2, 2), (3, 1)]),
                (demo_host 20, C_propose_settlement 2 7 50 0)]"

definition demo_approved :: "(transfers host \<times> TreasuryCall) list" where
  "demo_approved = demo_open @ [(demo_host 30, C_approve_settlement 3 1)]"

definition demo_executed :: "(transfers host \<times> TreasuryCall) list" where
  "demo_executed = demo_approved @ [(demo_host 40, C_execute_settlement 2 1 5)]"

definition state_after :: "(transfers host \<times> TreasuryCall) list \<Rightarrow> transfers treasury" where
  "state_after cs = projr (run_calls cs (empty_storage []))"

lemma state_afterI: "\<not> isl (run_calls cs (empty_storage [])) \<Longrightarrow>
    run_calls cs (empty_storage []) = Inr (state_after cs)"
  by (simp add: state_after_def)

lemmas demo_simps = word_le_nat_alt word_less_nat_alt Let_def run_calls_def state_of_def demo_host_def empty_storage_def emit_def
  initialize_def add_initial_signer_def propose_defs propose_def approve_settlement_def
  execute_settlement_def require_not_paused_def require_authorized_signer_def require_auth_def
  require_admin_def record_approval_def signer_weight_def checked_add_def write_settlement_def
  pending_index_def clear_hold_state_def push_merchant_settlement_def MAX_MERCHANT_SETTLEMENTS_def
  meets_threshold_def token_allowlist_def require_compliance_allowed_def token_transfer_def
  payout_address_def batch_execute_settlements_def batch_execute_one_def MAX_BATCH_SIZE_def
  hold_settlement_def is_hold_active_def hold_expired_def raise_dispute_def resolve_dispute_def
  validate_resolution_memo_def release_settlement_hold_if_no_open_disputes_def scan_ids_eval
  is_open_against_def vote_dispute_resolution_def deposit_def record_optional_reference_def
  deposit_one_def balance_of_def token_total_of_def checked_i128_def i128_defs
  propose_signer_change_def current_timelock_delay_def SIGNER_CHANGE_TIMELOCK_SECS_def
  propose_signer_rotation_def COOLDOWN_SECS_def saturating_add_def saturating_sub_def
  transfer_admin_def is_paused_def

lemmas demo_runs = demo_executed_def demo_approved_def demo_open_def

text \<open>The scenario states, as reachable states that the theorems can be applied to.\<close>

lemma demo_open_runs: "\<not> isl (run_calls demo_open (empty_storage []))"
  by (simp add: demo_runs demo_simps)

lemma demo_approved_runs: "\<not> isl (run_calls demo_approved (empty_storage []))"
  by (simp add: demo_runs demo_simps)

lemma demo_executed_runs: "\<not> isl (run_calls demo_executed (empty_storage []))"
  by (simp add: demo_runs demo_simps)

lemma reachable_after:
  "\<not> isl (run_calls cs (empty_storage [])) \<Longrightarrow> treasury_reachable (state_after cs)"
  by (rule run_calls_reachable [OF state_afterI])

lemma run_calls_append: "run_calls (cs @ ds) s = andthen (run_calls cs s) (run_calls ds)"
  by (simp add: run_calls_def [abs_def] fold_result_append)

lemma steps_after:
  assumes "\<not> isl (run_calls (cs @ ds) (empty_storage []))"
  shows "treasury_step\<^sup>*\<^sup>* (state_after cs) (state_after (cs @ ds))"
proof -
  from state_afterI [OF assms] obtain s where s: "run_calls cs (empty_storage []) = Inr s"
    and t: "run_calls ds s = Inr (state_after (cs @ ds))"
    by (auto simp: run_calls_append result_simps)
  from s have "state_after cs = s" by (simp add: state_after_def)
  with run_calls_steps [OF t] show ?thesis by simp
qed

lemma demo_open_settlement:
  "t_settlements (state_after demo_open) 1 = Some \<lparr> st_id = 1, st_merchant_address = 7, st_amount = 50,
     st_approvals = [2], st_approval_weight = 2, st_status = SPending, st_hold_reason = HNone,
     st_proposed_at = 20, st_execution_deadline = 0, st_token = MNone \<rparr>"
  by (simp add: state_after_def demo_runs demo_simps)

lemma demo_executed_settlement:
  "t_settlements (state_after demo_executed) 1 = Some \<lparr> st_id = 1, st_merchant_address = 7,
     st_amount = 50, st_approvals = [2, 3], st_approval_weight = 3, st_status = SExecuted,
     st_hold_reason = HNone, st_proposed_at = 20, st_execution_deadline = 0, st_token = MNone \<rparr>"
  by (simp add: state_after_def demo_runs demo_simps)

lemma demo_executed_world: "t_world (state_after demo_executed) = [(5, 99, 7, 50)]"
  by (simp add: state_after_def demo_runs demo_simps)

section \<open>Runs that show divergences\<close>

text \<open>The approved settlement is paid out through the batch entrypoint.\<close>

definition demo_batch :: "(transfers host \<times> TreasuryCall) list" where
  "demo_batch = demo_approved @ [(demo_host 40, C_batch_execute_settlements 2 [1] 5)]"

lemma demo_batch_runs: "\<not> isl (run_calls demo_batch (empty_storage []))"
  by (simp add: demo_batch_def demo_runs demo_simps)

lemma demo_batch_state:
  "t_settlements (state_after demo_batch) 1 = Some \<lparr> st_id = 1, st_merchant_address = 7,
     st_amount = 50, st_approvals = [2, 3], st_approval_weight = 3, st_status = SExecuted,
     st_hold_reason = HNone, st_proposed_at = 20, st_execution_deadline = 0, st_token = MNone \<rparr>"
  "t_pending_index (state_after demo_batch) = Some [1]"
  by (simp_all add: state_after_def demo_batch_def demo_runs demo_simps)

text \<open>The approved settlement is put on hold until 50, and a dispute is raised at 32.\<close>

definition demo_disputed :: "(transfers host \<times> TreasuryCall) list" where
  "demo_disputed = demo_approved @
     [(demo_host 31, C_hold_settlement 1 1 FraudCheck (Some 50)),
      (demo_host 32, C_raise_dispute 7 1 8 10 100 None)]"

text \<open>
  A hold until 50 is lifted early by the resolution of a first dispute; a second
  dispute is raised at 60.
\<close>

definition demo_redispute :: "(transfers host \<times> TreasuryCall) list" where
  "demo_redispute = demo_approved @
     [(demo_host 31, C_hold_settlement 1 1 FraudCheck (Some 50)),
      (demo_host 32, C_raise_dispute 7 1 8 10 100 None),
      (demo_host 33, C_resolve_dispute 1 1 True None),
      (demo_host 60, C_raise_dispute 7 1 8 20 100 None)]"

lemma demo_redispute_runs: "\<not> isl (run_calls demo_redispute (empty_storage []))"
  by (simp add: demo_redispute_def demo_runs demo_simps)

lemma demo_redispute_state:
  "t_settlements (state_after demo_redispute) 1 = Some \<lparr> st_id = 1, st_merchant_address = 7,
     st_amount = 50, st_approvals = [2, 3], st_approval_weight = 3, st_status = SOnHold,
     st_hold_reason = HNone, st_proposed_at = 20, st_execution_deadline = 0, st_token = MNone \<rparr>"
  "map_option dp_status (t_disputes (state_after demo_redispute) 2) = Some DRaised"
  "map_option dp_settlement_id (t_disputes (state_after demo_redispute) 2) = Some 1"
  by (simp_all add: state_after_def demo_redispute_def demo_runs demo_simps)

lemma demo_redispute_executes:
  "\<not> isl (execute_settlement (demo_host 60) (state_after demo_redispute) 2 1 5)"
  by (simp add: state_after_def demo_redispute_def demo_runs demo_simps)

text \<open>Two disputes, the first before and the second after \<open>initialize\<close>.\<close>

definition demo_early :: "(transfers host \<times> TreasuryCall) list" where
  "demo_early = [(demo_host 5, C_raise_dispute 7 1 8 10 100 None)]"

definition demo_late :: "(transfers host \<times> TreasuryCall) list" where
  "demo_late = demo_early @ [(demo_host 10, C_initialize 1 3 [(2, 2), (3, 1)]),
     (demo_host 20, C_raise_dispute 11 4 12 30 200 None)]"

lemma demo_late_runs: "\<not> isl (run_calls demo_late (empty_storage []))"
  by (simp add: demo_late_def demo_early_def demo_simps)

lemma demo_early_runs: "\<not> isl (run_calls demo_early (empty_storage []))"
  by (simp add: demo_early_def demo_simps)

lemma demo_late_state:
  "map_option dp_claimant (t_disputes (state_after demo_early) 1) = Some 7"
  "map_option dp_claimant (t_disputes (state_after demo_late) 1) = Some 11"
  by (simp_all add: state_after_def demo_late_def demo_early_def demo_simps)

end
