(* ===== verification/Treasury_Properties.thy ===== *)
theory Treasury_Properties
  imports Treasury_Accounts Treasury_Governance Treasury_Dispute_Rules Treasury_Payouts
    Treasury_Views Treasury_Scenario
begin

text \<open>
  The properties of the treasury, each stated over the definitions of the model
  and followed, where it has hypotheses, by an application to a concrete run.
\<close>

section \<open>Settlements\<close>

text \<open>
  C2. From any reachable state on, whatever calls follow, a settlement never
  disappears, it keeps its id, merchant, amount, proposal time, deadline and token,
  and once it is in one of the documented terminal states \<open>Executed\<close>,
  \<open>Cancelled\<close> and \<open>Expired\<close> it never changes again. The same holds of
  \<open>PartiallyExecuted\<close>, which the documentation does not call terminal: no
  entrypoint accepts a partially executed settlement, so a second partial call, whose
  amount the comment on \<open>partially_execute_settlement\<close> says would accumulate,
  never succeeds.
\<close>

theorem settlement_lifecycle:
  assumes "treasury_reachable s" and "treasury_step\<^sup>*\<^sup>* s t" and "t_settlements s i = Some st"
  shows "\<exists>st'. t_settlements t i = Some st' \<and> settlement_le st st'"
  using treasury_run.reachable_le [OF assms(1,2)] assms(3)
  by (simp add: treasury_le_def book_le_def)

theorem settlement_lifecycle_witness:
  "\<exists>st'. t_settlements (state_after demo_executed) 1 = Some st' \<and> settlement_le
     \<lparr> st_id = 1, st_merchant_address = 7, st_amount = 50, st_approvals = [2],
       st_approval_weight = 2, st_status = SPending, st_hold_reason = HNone, st_proposed_at = 20,
       st_execution_deadline = 0, st_token = MNone \<rparr> st'"
  using settlement_lifecycle [OF reachable_after [OF demo_open_runs] _ demo_open_settlement]
    steps_after [of demo_open "[(demo_host 30, C_approve_settlement 3 1), (demo_host 40, C_execute_settlement 2 1 5)]"]
    demo_executed_runs
  by (simp add: demo_executed_def demo_approved_def)

text \<open>
  C3. In every reachable state the number of \<open>settlement_executed\<close> events published
  for an id is one if the settlement has been executed, and zero otherwise: no
  settlement is paid in full twice, through no combination of entrypoints.
\<close>

theorem executed_exactly_once:
  assumes "treasury_reachable s"
  shows "executed_reports s i =
    (case t_settlements s i of
       None \<Rightarrow> 0 | Some st \<Rightarrow> if st_status st = SExecuted then 1 else 0)"
  using treasury_run.reachable_inv [OF assms]
  by (auto simp: treasury_ok_def book_ok_def entry_ok_def split: option.splits)

theorem executed_exactly_once_witness:
  "executed_reports (state_after demo_executed) 1 = 1"
  using executed_exactly_once [OF reachable_after [OF demo_executed_runs], of 1]
  by (simp add: demo_executed_settlement)

text \<open>
  C4. A quorum pays. Take a pending settlement of a treasury that is not paused, and
  let signers that have not approved it yet approve it one after the other, each
  with its own signature. All these calls succeed. If then a signer calls
  \<open>execute_settlement\<close> before the deadline with a permitted token, and compliance
  and the token contract agree, the outcome depends on the collected weight alone:
  with the threshold reached, the call succeeds, performs the one transfer of exactly
  the amount to the merchant's payout address, and leaves the settlement executed with
  all the voters recorded; below it, the call is refused with \<open>ThresholdNotMet\<close>.
\<close>

theorem quorum_pays:
  assumes "t_settlements s i = Some st" and "st_status st = SPending" and "\<not> is_paused s"
    and "distinct (map snd votes)" and "set (map snd votes) \<inter> set (st_approvals st) = {}"
    and "\<forall>(h, a)\<in>set votes. h_auth h a \<and> signer_weight s a \<noteq> 0"
    and "weight = unat (st_approval_weight st) + (\<Sum>(h, a)\<leftarrow>votes. unat (signer_weight s a))"
    and "weight < 2 ^ 32" and "t_threshold s = Some threshold" and "threshold \<noteq> 0"
    and "h_auth h signer" and "signer_weight s signer \<noteq> 0"
    and "st_execution_deadline st = 0 \<or> h_now h \<le> st_execution_deadline st"
    and "token \<noteq> h_self h" and "token_allowlist s = [] \<or> token \<in> set (token_allowlist s)"
    and "require_compliance_allowed h s (st_merchant_address st) (st_amount st) = Inr ()"
    and "h_transfer h token (h_self h) (payout_address s (st_merchant_address st)) (st_amount st)
      (t_world s) = Some paid"
  shows "\<exists>u. run_calls (map (\<lambda>(h, a). (h, C_approve_settlement a i)) votes) s = Inr u \<and>
    (if unat threshold \<le> weight
     then \<exists>s' st'. execute_settlement h u signer i token = Inr s' \<and> t_world s' = paid \<and>
       t_settlements s' i = Some st' \<and> st_status st' = SExecuted \<and> unat (st_approval_weight st') = weight \<and>
       st_approvals st' = st_approvals st @ map snd votes
     else execute_settlement h u signer i token = Inl (Err T_ThresholdNotMet))"
proof -
  from votes_collect [OF assms(1-6)] assms(7,8) obtain u w where
    u: "run_calls (map (\<lambda>(h, a). (h, C_approve_settlement a i)) votes) s = Inr u"
    and e: "payout_env u = payout_env s"
    and st': "t_settlements u i = Some (with_votes (map snd votes) w st)" and w: "unat w = weight" by auto
  note env = payout_env_cong [OF e]
  show ?thesis
  proof (cases "unat threshold \<le> weight")
    case True
    with w have "threshold \<le> w" by (simp add: word_le_nat_alt)
    with True assms st' u w show ?thesis
      by (auto simp: execute_settlement_eq_Inr env with_votes_def result_simps write_settlement_eq emit_frame
          split: option.splits)
  next
    case False
    with w have "\<not> threshold \<le> w" by (simp add: word_le_nat_alt)
    moreover have "require_not_paused u = Inr ()" using assms(3) by (simp add: result_simps env)
    ultimately show ?thesis using False assms st' u
      by (auto simp: execute_settlement_def env with_votes_def meets_threshold_def
          require_authorized_signer_def require_auth_def)
  qed
qed


theorem quorum_pays_witness:
  "\<exists>u s'. run_calls [(demo_host 30, C_approve_settlement 3 1)] (state_after demo_open) = Inr u \<and>
     execute_settlement (demo_host 40) u 2 1 5 = Inr s' \<and> t_world s' = [(5, 99, 7, 50)]"
proof -
  have h: "\<not> is_paused (state_after demo_open)" "signer_weight (state_after demo_open) 3 = 1"
    "signer_weight (state_after demo_open) 2 = 2" "t_threshold (state_after demo_open) = Some 3"
    "token_allowlist (state_after demo_open) = []" "t_compliance_id (state_after demo_open) = None"
    "payout_address (state_after demo_open) 7 = 7" "t_world (state_after demo_open) = []"
    by (simp_all add: state_after_def demo_runs demo_simps)
  from quorum_pays [OF demo_open_settlement, where votes = "[(demo_host 30, 3)]" and weight = 3
      and threshold = 3 and h = "demo_host 40" and signer = 2 and token = 5 and paid = "[(5, 99, 7, 50)]"]
  show ?thesis by (auto simp: h demo_host_def require_compliance_allowed_def)
qed

text \<open>
  C6. Refinement. The treasury implements an abstract settlement book with eight
  operations (propose, approve, revoke, hold, release, execute, execute in a
  batch, close): every successful call of any entrypoint other than \<open>initialize\<close>
  is, on the abstracted state, a sequence of these operations, and \<open>initialize\<close>
  only resets the counter.
\<close>

theorem treasury_refines_book:
  assumes "invoke h s c = Inr s'"
  shows "case c of C_initialize a thr sgs \<Rightarrow> book_of s' = (book_of s)\<lparr>bk_count := 0\<rparr>
    | _ \<Rightarrow> book_step\<^sup>*\<^sup>* (book_of s) (book_of s')"
proof (cases c)
  case (C_initialize a thr sgs)
  with assms initialize_book [of h s a thr sgs s'] show ?thesis by simp
qed (use invoke_refines [OF assms] in auto)

theorem treasury_refines_book_witness:
  "\<exists>s'. invoke (demo_host 40) (state_after demo_approved) (C_execute_settlement 2 1 5) = Inr s' \<and>
     book_step\<^sup>*\<^sup>* (book_of (state_after demo_approved)) (book_of s')"
proof -
  let ?run = "invoke (demo_host 40) (state_after demo_approved) (C_execute_settlement 2 1 5)"
  have "\<not> isl ?run" by (simp add: state_after_def demo_runs demo_simps)
  then obtain s' where "?run = Inr s'" by (cases ?run) simp_all
  with treasury_refines_book [OF this] show ?thesis by simp
qed

text \<open>
  C11. In every reachable state the pending index has no duplicates, contains
  every pending settlement, and contains besides those only settlements that
  were executed (through the batch entrypoint, which does not update it).
\<close>

theorem pending_index_complete:
  assumes "treasury_reachable s"
  shows "distinct (pending_index s) \<and>
    {i. settlement_is_pending s i} \<subseteq> set (pending_index s) \<and>
    set (pending_index s) \<subseteq>
      {i. \<exists>st. t_settlements s i = Some st \<and> st_status st \<in> {SPending, SExecuted}}"
proof -
  have ok: "book_ok (book_of s)"
    using treasury_run.reachable_inv [OF assms] by (simp add: treasury_ok_def)
  have "\<exists>st. t_settlements s i = Some st \<and> st_status st \<in> {SPending, SExecuted}"
    if "i \<in> set (pending_index s)" for i
    using ok that by (cases "t_settlements s i") (auto simp: book_ok_def entry_ok_def)
  moreover have "i \<in> set (pending_index s)" if "settlement_is_pending s i" for i
    using ok that by (auto simp: settlement_is_pending_def book_ok_def entry_ok_def split: option.splits)
  ultimately show ?thesis using ok by (auto simp: book_ok_def)
qed

theorem pending_index_complete_witness:
  "distinct (pending_index (state_after demo_open)) \<and>
    {i. settlement_is_pending (state_after demo_open) i} \<subseteq> set (pending_index (state_after demo_open))"
  using pending_index_complete [OF reachable_after [OF demo_open_runs]] by blast

text \<open>
  C12. In every reachable state each stored settlement sits under its own id,
  which lies between 1 and the settlement counter, has a positive amount and a
  duplicate-free approval list, and is never in the status \<open>PartiallySettled\<close>.
\<close>

theorem settlements_well_formed:
  assumes "treasury_reachable s" and "t_settlements s i = Some st"
  shows "st_id st = i \<and> 1 \<le> unat i \<and> unat i \<le> unat (unwrap_or (t_settlement_count s) 0) \<and>
    0 < st_amount st \<and> distinct (st_approvals st) \<and> st_status st \<noteq> SPartiallySettled"
  using treasury_run.reachable_inv [OF assms(1)] assms(2)
  by (auto simp: treasury_ok_def book_ok_def entry_ok_def)

theorem settlements_well_formed_witness:
  "st_id (the (t_settlements (state_after demo_executed) 1)) = 1 \<and>
    distinct (st_approvals (the (t_settlements (state_after demo_executed) 1)))"
  using settlements_well_formed [OF reachable_after [OF demo_executed_runs] demo_executed_settlement]
  by (simp add: demo_executed_settlement)

section \<open>Quorum\<close>

text \<open>
  C28. Collecting approvals from any list of callers, repetitions included,
  yields the duplicate-free list of those callers and exactly the sum of the
  weights of the distinct ones.
\<close>

theorem approvals_count_distinct_signers:
  assumes "fold_result (\<lambda>a (as, w). vote_book h s as w a) sgs ([], 0) = Inr (as, w)"
  shows "distinct as \<and> set as = set sgs \<and> unat w = (\<Sum>a\<in>set sgs. unat (signer_weight s a))"
  using msig.votes_ok [OF assms msig.tally_ok_empty] msig.tally_ok_sum
  by (force simp: msig.tally_ok_def)

theorem approvals_count_distinct_signers_witness:
  "let s = (empty_storage [] :: transfers treasury)\<lparr>t_signers := [2 \<mapsto> 2, 3 \<mapsto> 1]\<rparr>;
       result = fold_result (\<lambda>a (as, w). vote_book (demo_host 1) s as w a) [2, 3, 2] ([], 0)
   in result = Inr ([2, 3], 3) \<and> unat (3 :: u32) = (\<Sum>a\<in>{2, 3}. unat (signer_weight s a))"
proof -
  let ?s = "(empty_storage [] :: transfers treasury)\<lparr>t_signers := [2 \<mapsto> 2, 3 \<mapsto> 1]\<rparr>"
  have run: "fold_result (\<lambda>a (as, w). vote_book (demo_host 1) ?s as w a) [2, 3, 2] ([], 0) = Inr ([2, 3], 3)"
    by (simp add: vote_book_def demo_simps)
  have "set [2, 3, 2 :: address] = {2, 3}" by auto
  with approvals_count_distinct_signers [OF run] run show ?thesis by (simp only: Let_def)
qed

text \<open>
  A signer that approves and then revokes leaves the approval list and the
  weight as they were, as long as its weight does not change in between.
\<close>

theorem approve_revoke_roundtrip:
  assumes "a \<notin> set as" and "record_approval h s as w a = Inr (as', w', s')"
  shows "revoke_approval_book s' as' w' a = (True, as, w)"
proof -
  from assms(2) have "vote_book h s as w a = Inr (as', w')" by (simp add: vote_book_def)
  from msig.vote_unvote [OF assms(1) this] have "revoke_approval_book s as' w' a = (True, as, w)" .
  with assms(2) show ?thesis by (simp add: revoke_approval_book_def result_simps)
qed

theorem approve_revoke_roundtrip_witness:
  "revoke_approval_book ((state_after demo_open)\<lparr>t_signer_last_active :=
      (t_signer_last_active (state_after demo_open))(3 \<mapsto> 30)\<rparr>) [2, 3] 3 3 = (True, [2], 2)"
proof -
  have "record_approval (demo_host 30) (state_after demo_open) [2] 2 3 =
      Inr ([2, 3], 3, (state_after demo_open)\<lparr>t_signer_last_active :=
        (t_signer_last_active (state_after demo_open))(3 \<mapsto> 30)\<rparr>)"
    by (simp add: state_after_def demo_runs demo_simps)
  from approve_revoke_roundtrip [OF _ this] show ?thesis by simp
qed

section \<open>Authorisation\<close>

text \<open>
  C14. A call succeeds only with the authorisation the entrypoint demands: an
  admin entrypoint only with the signature of the stored admin, a signer
  entrypoint only with the signature of an address of non-zero weight, and an
  entrypoint acting for a party only with that party's signature.
\<close>

theorem calls_are_authorised:
  assumes "invoke h s c = Inr s'"
  shows "(admin_of c = Some a \<longrightarrow> h_auth h a \<and> t_admin s = Some a) \<and>
    (signer_of c = Some a \<longrightarrow> h_auth h a \<and> signer_weight s a \<noteq> 0) \<and>
    (party_of c = Some a \<longrightarrow> h_auth h a)"
  using invoke_admin [OF assms] invoke_signer [OF assms] invoke_party [OF assms] by blast

theorem calls_are_authorised_witness:
  "h_auth (demo_host 40) 2 \<and> signer_weight (state_after demo_approved) 2 \<noteq> 0"
proof -
  have "\<not> isl (invoke (demo_host 40) (state_after demo_approved) (C_execute_settlement 2 1 5))"
    by (simp add: state_after_def demo_runs demo_simps)
  then obtain s' where "invoke (demo_host 40) (state_after demo_approved) (C_execute_settlement 2 1 5) = Inr s'"
    by (cases "invoke (demo_host 40) (state_after demo_approved) (C_execute_settlement 2 1 5)") auto
  from calls_are_authorised [OF this, of 2] show ?thesis by (simp add: signer_of_def)
qed

text \<open>
  C15. While the contract is paused, none of the entrypoints that move funds,
  approvals, disputes or payout addresses can succeed.
\<close>

theorem pause_stops_gated_calls:
  assumes "is_paused s" and "pause_gated c"
  shows "isl (invoke h s c)"
  using invoke_paused [of h s c] assms by (cases "invoke h s c") auto

theorem pause_stops_gated_calls_witness:
  "isl (invoke (demo_host 40) ((state_after demo_approved)\<lparr>t_paused := Some True\<rparr>)
     (C_execute_settlement 2 1 5))"
  by (rule pause_stops_gated_calls) (simp_all add: is_paused_def pause_gated_def)

text \<open>
  C16. The admin of a reachable treasury changes only when the contract is
  first initialised, or when an address that the admin nominated, whose
  nomination has not expired, accepts with its own signature.
\<close>

theorem admin_changes_only_by_handover:
  assumes "invoke h s c = Inr s'" and "t_admin s' \<noteq> t_admin s"
  shows "(\<exists>a thr sgs. c = C_initialize a thr sgs \<and> t_admin s = None) \<or>
    (\<exists>a e. c = C_accept_admin a \<and> h_auth h a \<and> t_pending_admin s = Some (a, e) \<and> h_now h < e \<and>
       t_admin s' = Some a \<and> t_pending_admin s' = None)"
  by (rule invoke_admin_change [OF assms])

theorem admin_changes_only_by_handover_witness:
  "\<exists>s'. invoke (demo_host 10) (empty_storage []) (C_initialize 1 3 []) = Inr s' \<and>
     ((\<exists>a thr sgs. C_initialize 1 3 [] = C_initialize a thr sgs \<and>
         t_admin (empty_storage ([] :: transfers)) = None) \<or>
      (\<exists>a e. C_initialize 1 3 [] = C_accept_admin a \<and> h_auth (demo_host 10) a \<and>
         t_pending_admin (empty_storage ([] :: transfers)) = Some (a, e) \<and> h_now (demo_host 10) < e \<and>
         t_admin s' = Some a \<and> t_pending_admin s' = None))"
proof -
  have "\<not> isl (invoke (demo_host 10) (empty_storage []) (C_initialize 1 3 []))"
    by (simp add: demo_simps)
  then obtain s' where s': "invoke (demo_host 10) (empty_storage []) (C_initialize 1 3 []) = Inr s'"
    by (cases "invoke (demo_host 10) (empty_storage []) (C_initialize 1 3 [])") auto
  have "t_admin s' \<noteq> t_admin (empty_storage ([] :: transfers))"
    using s' by (auto simp: initialize_eq_Inr emit_frame empty_storage_def)
  from admin_changes_only_by_handover [OF s' this] s' show ?thesis by blast
qed

section \<open>Accounts\<close>

text \<open>
  C17. In every reachable state no depositor balance is negative, and the
  aggregate \<open>TokenTotal\<close> of each token is the sum of the balances held in it.
\<close>

theorem token_total_is_sum_of_balances:
  assumes "treasury_reachable s"
  shows "token_total_of s tok = token_sum (t_balances s) tok \<and> 0 \<le> balance_of s holder tok"
  using account_books.reachable_inv [OF assms]
  by (cases "t_balances s (holder, tok)") (auto simp: accounts_ok_def balance_of_def)

definition demo_deposit :: "(transfers host \<times> TreasuryCall) list" where
  "demo_deposit = [(demo_host 10, C_initialize 1 3 [(2, 2), (3, 1)]),
     (demo_host 11, C_deposit 4 5 100 None), (demo_host 12, C_deposit 6 5 30 None)]"

lemma demo_deposit_runs: "\<not> isl (run_calls demo_deposit (empty_storage []))"
  by (simp add: demo_deposit_def demo_simps)

lemma demo_deposit_total: "token_total_of (state_after demo_deposit) 5 = 130"
  by (simp add: state_after_def demo_deposit_def demo_simps)

theorem token_total_is_sum_of_balances_witness:
  "token_sum (t_balances (state_after demo_deposit)) 5 = 130"
  using token_total_is_sum_of_balances [OF reachable_after [OF demo_deposit_runs], of 5 4]
  by (simp add: demo_deposit_total)

text \<open>
  C29. A depositor can take out at most what its account holds, and a withdrawal
  moves exactly the requested amount: off the account, off the token's total,
  and from the treasury to the depositor on the token contract.
\<close>

theorem withdraw_moves_exactly:
  assumes "withdraw h s dst token amount = Inr s'"
  shows "0 < amount \<and> amount \<le> balance_of s dst token \<and>
    t_balances s' = (t_balances s)((dst, token) \<mapsto> balance_of s dst token - amount) \<and>
    t_token_total s' = (t_token_total s)(token \<mapsto> token_total_of s token - amount) \<and>
    h_transfer h token (h_self h) dst amount (t_world s) = Some (t_world s')"
  by (rule withdraw_moves [OF assms])

theorem withdraw_moves_exactly_witness:
  "\<exists>s'. withdraw (demo_host 20) (state_after demo_deposit) 4 5 40 = Inr s' \<and>
     40 \<le> balance_of (state_after demo_deposit) 4 5 \<and> t_world s' = [(5, 4, 99, 100), (5, 6, 99, 30), (5, 99, 4, 40)]"
proof -
  have "\<not> isl (withdraw (demo_host 20) (state_after demo_deposit) 4 5 40)"
    by (simp add: withdraw_def enforce_withdrawal_limit_def state_after_def demo_deposit_def demo_simps)
  then obtain s' where s': "withdraw (demo_host 20) (state_after demo_deposit) 4 5 40 = Inr s'"
    by (cases "withdraw (demo_host 20) (state_after demo_deposit) 4 5 40") auto
  have w: "t_world (state_after demo_deposit) = [(5, 4, 99, 100), (5, 6, 99, 30)]"
    by (simp add: state_after_def demo_deposit_def demo_simps)
  from withdraw_moves_exactly [OF s'] s' show ?thesis by (auto simp: w demo_host_def)
qed

text \<open>
  C30. The withdrawal limit. Take any sequence of transactions on a treasury with a
  positive limit, none of which reconfigures it, at times from \<open>t0\<close> on that lie in
  the window that is open for an address at \<open>t0\<close>, or in the one the address can open
  from \<open>t0\<close> on. What \<open>withdraw\<close> and \<open>withdraw_all\<close> pay to the address in all
  of them together is at most the limit less what was taken out in that window before
  (the whole limit for a new window). Failing transactions are included, as are
  all other entrypoints and withdrawals of other addresses in between. Windows start
  with the first withdrawal and are not rolling, as the comment on
  \<open>set_withdrawal_limit\<close> has it. \<open>emergency_withdraw\<close> has no limit.
\<close>

theorem withdrawal_limit_holds:
  assumes "0 < unwrap_or (t_withdrawal_limit s) 0"
    and "\<forall>(h, c)\<in>set calls. t0 \<le> h_now h \<and> unat (h_now h) < window_end s a t0 \<and>
      (\<forall>admin limit window_secs. c \<noteq> C_set_withdrawal_limit admin limit window_secs)"
  shows "paid_in_run a calls s \<le> window_budget s a t0"
  by (rule budget_covers_run [OF assms])

definition demo_limited :: "transfers treasury" where
  "demo_limited = state_after (demo_deposit @ [(demo_host 13, C_set_withdrawal_limit 1 60 100)])"

definition demo_withdrawals :: "(transfers host \<times> TreasuryCall) list" where
  "demo_withdrawals = [(demo_host 1000, C_withdraw 4 5 40), (demo_host 1010, C_withdraw 6 5 30),
     (demo_host 1050, C_withdraw 4 5 30), (demo_host 1099, C_withdraw 4 5 20)]"

lemmas withdraw_simps = withdraw_def enforce_withdrawal_limit_def set_withdrawal_limit_def

theorem withdrawal_limit_holds_witness:
  "paid_in_run 4 demo_withdrawals demo_limited = 60 \<and>
   paid_in_run 4 demo_withdrawals demo_limited \<le> window_budget demo_limited 4 1000 \<and>
   window_budget demo_limited 4 1000 = 60"
proof -
  have b: "window_end demo_limited 4 1000 = 1100" "window_budget demo_limited 4 1000 = 60"
    "unwrap_or (t_withdrawal_limit demo_limited) 0 = 60"
    by (simp_all add: window_end_def window_budget_def window_open_def demo_limited_def state_after_def
        demo_deposit_def withdraw_simps demo_simps)
  have "paid_in_run 4 demo_withdrawals demo_limited = 60"
    by (simp add: demo_withdrawals_def demo_limited_def state_after_def demo_deposit_def paid_out_def
        withdraw_simps demo_simps)
  moreover have "paid_in_run 4 demo_withdrawals demo_limited \<le> window_budget demo_limited 4 1000"
    by (rule withdrawal_limit_holds)
      (simp_all add: b demo_withdrawals_def demo_host_def word_le_nat_alt)
  ultimately show ?thesis by (simp add: b)
qed

text \<open>
  C31. A reference id recorded by a successful \<open>deposit\<close> or \<open>batch_deposit\<close> at
  ledger \<open>n\<close> stays taken: whatever calls follow, both entrypoints refuse it with
  \<open>DuplicateReferenceId\<close>, for every depositor, at every ledger up to
  \<open>n + DEPOSIT_REF_TTL_LEDGERS\<close> (given that the contract is not paused and the
  depositor signed, which are checked first).
\<close>

theorem deposit_reference_unique:
  assumes "deposit h s a tok amt (Some r) = Inr s1 \<or> batch_deposit h s a deposits (Some r) = Inr s1"
    and "treasury_step\<^sup>*\<^sup>* s1 t"
    and "h_seq h' \<le> h_seq h + DEPOSIT_REF_TTL_LEDGERS" and "\<not> is_paused t" and "h_auth h' b"
  shows "deposit h' t b tok' amt' (Some r) = Inl (Err T_DuplicateReferenceId) \<and>
    batch_deposit h' t b deposits' (Some r) = Inl (Err T_DuplicateReferenceId)"
proof -
  from assms(1) have "t_deposit_refs s1 r = Some (h_seq h + DEPOSIT_REF_TTL_LEDGERS)"
    by (elim disjE) (auto dest!: deposit_refs simp: record_optional_reference_def result_simps)
  with reference_run.steps_le [OF assms(2)] obtain e where
    "t_deposit_refs t r = Some e" "h_seq h + DEPOSIT_REF_TTL_LEDGERS \<le> e" by (auto simp: refs_le_def)
  with assms(3) have "deposit_ref_live h' t r" by (simp add: deposit_ref_live_def)
  with assms(4,5) live_reference_refused show ?thesis by blast
qed

theorem deposit_reference_unique_witness:
  "\<exists>s1 t. deposit (demo_host 20) (state_after demo_deposit) 4 5 10 (Some [1, 2]) = Inr s1 \<and>
     withdraw (demo_host 25) s1 4 5 60 = Inr t \<and>
     deposit (demo_host 30) t 6 5 10 (Some [1, 2]) = Inl (Err T_DuplicateReferenceId)"
proof -
  let ?dep = "deposit (demo_host 20) (state_after demo_deposit) 4 5 10 (Some [1, 2])"
  have "\<not> isl ?dep" and 2: "\<not> isl (withdraw (demo_host 25) (projr ?dep) 4 5 60)"
    and p: "\<not> is_paused (projr (withdraw (demo_host 25) (projr ?dep) 4 5 60))"
    by (simp_all add: state_after_def demo_deposit_def record_deposit_reference_def deposit_ref_live_def
        withdraw_simps demo_simps)
  then obtain s1 where s1: "?dep = Inr s1" by (cases ?dep) auto
  with 2 obtain t where t: "withdraw (demo_host 25) s1 4 5 60 = Inr t"
    by (cases "withdraw (demo_host 25) s1 4 5 60") auto
  have "treasury_step\<^sup>*\<^sup>* s1 t"
    using step_call [of "demo_host 25" s1 "C_withdraw 4 5 60" t] t by simp
  from deposit_reference_unique [OF disjI1 [OF s1] this] p s1 t show ?thesis
    by (auto simp: demo_host_def)
qed

lemma require_registered_all:
  "fold_result (require_registered_signer h s signers) xs () = Inr u \<longleftrightarrow>
     (\<forall>x\<in>set xs. signer_weight s x \<noteq> 0 \<longrightarrow> x \<in> set signers \<and> h_auth h x)"
proof (induction xs)
  case (Cons x xs)
  then show ?case
    by (cases "signer_weight s x = 0") (auto simp: require_registered_signer_def result_simps)
qed simp

text \<open>
  C32. \<open>emergency_withdraw\<close> succeeds only while paused and only if every listed
  signer of non-zero weight was supplied by the caller and has signed.
\<close>

theorem emergency_needs_every_signer:
  assumes "emergency_withdraw h s signers token recovery = Inr s'"
    and "x \<in> set (signer_list s)" and "signer_weight s x \<noteq> 0"
  shows "is_paused s \<and> x \<in> set signers \<and> h_auth h x"
  using assms by (auto simp: emergency_withdraw_def is_paused_def require_registered_all result_simps)

theorem emergency_needs_every_signer_witness:
  "is_paused ((state_after demo_open)\<lparr>t_paused := Some True\<rparr>) \<and> (2 :: address) \<in> set [1, 2, 3] \<and> h_auth (demo_host 40) 2"
proof -
  let ?s = "(state_after demo_open)\<lparr>t_paused := Some True\<rparr>"
  have "\<not> isl (emergency_withdraw (demo_host 40) ?s [1, 2, 3] 5 42)"
    by (simp add: emergency_withdraw_def require_registered_signer_def signer_list_def state_after_def
        demo_runs demo_simps)
  then obtain s' where "emergency_withdraw (demo_host 40) ?s [1, 2, 3] 5 42 = Inr s'"
    by (cases "emergency_withdraw (demo_host 40) ?s [1, 2, 3] 5 42") auto
  then show ?thesis
    by (rule emergency_needs_every_signer)
      (simp_all add: signer_list_def state_after_def demo_runs demo_simps)
qed

section \<open>Governance\<close>

text \<open>
  C33. A timelocked change that was stored in some reachable state and executes
  later, however many calls lie in between, executes at least
  \<open>MIN_TIMELOCK_DELAY_SECS\<close> after its proposal and applies exactly what was
  proposed: the weight and the listing of the one signer, the threshold, or the
  delay. It touches nothing else in storage than these and its own record, which is
  marked as executed, and it never executes again.
\<close>

theorem timelock_is_respected:
  assumes "treasury_reachable s" and "t_signer_changes s i = Some p" and "treasury_step\<^sup>*\<^sup>* s t"
    and "execute_signer_change h t admin i = Inr (q, t')"
  shows "unat (chg_proposed_at p) + unat MIN_TIMELOCK_DELAY_SECS \<le> unat (h_now h) \<and>
    change_applied (chg_kind p) t t' \<and>
    t_signer_changes t' = (t_signer_changes t)(i \<mapsto> p\<lparr>chg_status := CExecuted\<rparr>) \<and>
    (treasury_step\<^sup>*\<^sup>* t' u \<longrightarrow> isl (execute_signer_change h' u admin' i))"
proof -
  from change_run.reachable_le [OF assms(1,3)] assms(2) obtain p' where
    p': "t_signer_changes t i = Some p'" "change_le p p'" by (auto simp: changes_le_def)
  from change_run.reachable_inv [OF assms(1)] assms(2) have "change_ok p"
    by (auto simp: changes_ok_def)
  from assms(4) have ex: "invoke h t (C_execute_signer_change admin i) = Inr t'" by (simp add: state_of_def)
  from assms(4) obtain p1 t1 where p1: "t_signer_changes t i = Some p1" "chg_status p1 = CPending"
    "chg_executable_at p1 \<le> h_now h" "apply_signer_change (chg_kind p1) t = Inr t1"
    "q = p1\<lparr>chg_status := CExecuted\<rparr>"
    "t' = emit (Ev_signer_change_executed i q) (t1\<lparr>t_signer_changes := (t_signer_changes t1)(i \<mapsto> q)\<rparr>)"
    by (rule execute_change_parts)
  from p' p1(1,2) have [simp]: "p1 = p'" "p' = p" by (auto simp: change_le_def)
  from p1(3) \<open>change_ok p\<close> have "unat (chg_proposed_at p) + unat MIN_TIMELOCK_DELAY_SECS \<le> unat (h_now h)"
    by (simp add: change_ok_def word_le_nat_alt)
  moreover from apply_change_applied [OF p1(4)] p1(6) have "change_applied (chg_kind p) t t'"
    by (simp add: change_applied_finalise)
  moreover have "t_signer_changes t' = (t_signer_changes t)(i \<mapsto> p\<lparr>chg_status := CExecuted\<rparr>)"
    using p1(5,6) apply_signer_change_changes [OF p1(4)] by (simp add: emit_frame)
  moreover have "treasury_reachable t'"
    using assms(1,3) step_call [OF ex] by (blast intro: steps_reachable reachable_step)
  ultimately show ?thesis using executed_change_stays [of t' i "p\<lparr>chg_status := CExecuted\<rparr>"] by simp
qed


definition demo_change :: "(transfers host \<times> TreasuryCall) list" where
  "demo_change = [(demo_host 10, C_initialize 1 3 [(2, 2), (3, 1)]),
     (demo_host 20, C_propose_signer_change 1 (SetSigner 9 4))]"

lemma demo_change_runs: "\<not> isl (run_calls demo_change (empty_storage []))"
  by (simp add: demo_change_def demo_simps)

lemma demo_change_state:
  "t_signer_changes (state_after demo_change) 1 = Some \<lparr> chg_id = 1, chg_kind = SetSigner 9 4,
     chg_proposed_at = 20, chg_executable_at = 86420, chg_status = CPending \<rparr>"
  by (simp add: state_after_def demo_change_def demo_simps)

theorem timelock_is_respected_witness:
  "\<exists>q t'. execute_signer_change (demo_host 90000) (state_after demo_change) 1 1 = Inr (q, t') \<and>
     signer_weight t' 9 = 4 \<and> set (signer_list t') = {1, 2, 3, 9} \<and>
     unat (20 :: u64) + unat MIN_TIMELOCK_DELAY_SECS \<le> 90000 \<and>
     isl (execute_signer_change (demo_host 95000) t' 1 1)"
proof -
  have "\<not> isl (execute_signer_change (demo_host 90000) (state_after demo_change) 1 1)"
    by (simp add: execute_signer_change_def state_after_def demo_change_def demo_simps)
  then obtain q t' where e: "execute_signer_change (demo_host 90000) (state_after demo_change) 1 1 = Inr (q, t')"
    by (cases "execute_signer_change (demo_host 90000) (state_after demo_change) 1 1") auto
  have "set (signer_list (state_after demo_change)) = {1, 2, 3}"
    by (auto simp: signer_list_def state_after_def demo_change_def demo_simps)
  with timelock_is_respected [OF reachable_after [OF demo_change_runs] demo_change_state rtranclp.rtrancl_refl e,
      of t' "demo_host 95000" 1] e
  show ?thesis by (auto simp: demo_host_def change_applied_def)
qed

text \<open>
  A signer rotation hands over exactly the weight the old signer had when
  the rotation was proposed, no matter what happens to the signers before it
  executes, and it leaves the old signer with weight zero.
\<close>

theorem rotation_hands_over_captured_weight:
  assumes "treasury_reachable s" and "propose_signer_rotation h s a old new = Inr (i, s1)"
    and "treasury_step\<^sup>*\<^sup>* s1 t" and "approve_signer_rotation h' t b i = Inr (q, t')"
    and "rot_status q = RExecuted" and "new \<noteq> old"
  shows "signer_weight t' new = signer_weight s old \<and> signer_weight t' old = 0"
proof -
  have "treasury_step s s1"
    by (rule step_call [of h s "C_propose_signer_rotation a old new"]) (simp add: state_of_def assms(2))
  with assms(1) have r: "treasury_reachable s1" by (rule reachable_step)
  obtain p where p: "t_rotations s1 i = Some p" "rot_captured_old_weight p = signer_weight s old"
    "rot_old_signer p = old" "rot_new_signer p = new"
    using assms(2) by (auto simp: propose_signer_rotation_def result_simps Let_def emit_frame
        signer_weight_def)
  from rotation_run.reachable_le [OF r assms(3)] p(1) obtain p' where
    p': "t_rotations t i = Some p'" "rotation_le p p'" by (auto simp: rotations_le_def)
  from assms(4) show ?thesis
  proof (rule approve_signer_rotation_effect)
    fix p2 w
    assume "t_rotations t i = Some p2"
      and q: "q = p2\<lparr>rot_approvals := push_new b (rot_approvals p2), rot_approval_weight := w,
        rot_status := (if meets_threshold w (unwrap_or (t_threshold t) 1) then RExecuted else RPending)\<rparr>"
      and sg: "t_signers t' = (if meets_threshold w (unwrap_or (t_threshold t) 1)
         then ((t_signers t)(rot_new_signer p2 \<mapsto> rot_captured_old_weight p2))(rot_old_signer p2 \<mapsto> 0)
         else t_signers t)"
    moreover from q assms(5) have "meets_threshold w (unwrap_or (t_threshold t) 1)" by (simp split: if_splits)
    ultimately show ?thesis using p p' assms(6) by (auto simp: rotation_le_def signer_weight_def)
  qed
qed

theorem rotation_hands_over_captured_weight_witness:
  "\<exists>i s1 q t'. propose_signer_rotation (demo_host 50) (state_after demo_open) 2 3 8 = Inr (i, s1) \<and>
     approve_signer_rotation (demo_host 60) s1 1 i = Inr (q, t') \<and>
     signer_weight t' 8 = signer_weight (state_after demo_open) 3 \<and> signer_weight t' 3 = 0"
proof -
  obtain i s1 where pr: "propose_signer_rotation (demo_host 50) (state_after demo_open) 2 3 8 = Inr (i, s1)"
    and app: "\<exists>q t'. approve_signer_rotation (demo_host 60) s1 1 i = Inr (q, t') \<and> rot_status q = RExecuted"
    by (simp add: state_after_def demo_runs demo_simps approve_signer_rotation_def rotation_outcome_def)
  from app obtain q t' where q: "approve_signer_rotation (demo_host 60) s1 1 i = Inr (q, t')"
    "rot_status q = RExecuted" by blast
  from rotation_hands_over_captured_weight [OF reachable_after [OF demo_open_runs] pr _ q] pr q
  show ?thesis by auto
qed

text \<open>
  In a reachable state \<open>remove_signer\<close> never leaves the listed signers with
  less total weight than the approval threshold.
\<close>

theorem remove_signer_keeps_threshold_reachable:
  assumes "treasury_reachable s" and "remove_signer h s admin signer = Inr s'"
  shows "unat (get_threshold s') \<le> (\<Sum>x\<leftarrow>signer_list s'. unat (signer_weight s' x))"
  using remove_signer_reachable [OF assms(2)] signer_list_run.reachable_inv [OF assms(1)]
  by (simp add: signer_list_ok_def get_threshold_def)

theorem remove_signer_keeps_threshold_reachable_witness:
  "\<exists>s'. remove_signer (demo_host 50) (state_after demo_open) 1 3 = Inr s' \<and>
     unat (get_threshold s') \<le> (\<Sum>x\<leftarrow>signer_list s'. unat (signer_weight s' x))"
proof -
  have "\<not> isl (remove_signer (demo_host 50) (state_after demo_open) 1 3)"
    by (simp add: remove_signer_def signer_list_def state_after_def demo_runs demo_simps)
  then obtain s' where s': "remove_signer (demo_host 50) (state_after demo_open) 1 3 = Inr s'"
    by (cases "remove_signer (demo_host 50) (state_after demo_open) 1 3") auto
  from remove_signer_keeps_threshold_reachable [OF reachable_after [OF demo_open_runs] s'] s'
  show ?thesis by blast
qed

section \<open>Disputes\<close>

text \<open>
  C34. After initialisation, whatever calls follow, a dispute keeps its parties,
  amount, settlement, expiry and evidence, its list of voters only grows, and
  once resolved or expired it never changes again.
\<close>

theorem dispute_lifecycle:
  assumes "reachable initialised treasury_step s" and "treasury_step\<^sup>*\<^sup>* s t"
    and "t_disputes s i = Some d"
  shows "\<exists>e. t_disputes t i = Some e \<and> dispute_le d e"
  using dispute_run.reachable_le [OF assms(1,2)] assms(3) by (simp add: disputes_le_def)

lemma reachable_from_initialised:
  assumes "initialize h (empty_storage w) a thr sgs = Inr s0" and "treasury_step\<^sup>*\<^sup>* s0 s"
  shows "reachable initialised treasury_step s"
proof (rule steps_reachable [OF assms(2)])
  show "reachable initialised treasury_step s0"
    using assms(1) unfolding initialised_def by (blast intro: reachable_init)
qed

definition demo_started :: "transfers treasury" where
  "demo_started = state_after [(demo_host 10, C_initialize 1 3 [(2, 2), (3, 1)])]"

lemma demo_started_init:
  "initialize (demo_host 10) (empty_storage []) 1 3 [(2, 2), (3, 1)] = Inr demo_started"
proof -
  have "\<not> isl (run_calls [(demo_host 10, C_initialize 1 3 [(2, 2), (3, 1)])] (empty_storage []))"
    by (simp add: demo_simps)
  from state_afterI [OF this] show ?thesis by (simp add: demo_started_def run_calls_def result_simps)
qed

definition demo_raised :: "transfers treasury" where
  "demo_raised = projr (run_calls [(demo_host 20, C_raise_dispute 7 1 8 100 500 None)] demo_started)"

lemma demo_raised_run:
  "run_calls [(demo_host 20, C_raise_dispute 7 1 8 100 500 None)] demo_started = Inr demo_raised"
proof -
  have "\<not> isl (run_calls [(demo_host 20, C_raise_dispute 7 1 8 100 500 None)] demo_started)"
    by (simp add: demo_started_def state_after_def demo_simps)
  then show ?thesis by (simp add: demo_raised_def)
qed

lemma demo_raised_reachable: "reachable initialised treasury_step demo_raised"
  by (rule reachable_from_initialised [OF demo_started_init run_calls_steps [OF demo_raised_run]])

lemma demo_raised_dispute:
  "t_disputes demo_raised 1 = Some \<lparr> dp_id = 1, dp_settlement_id = 1, dp_claimant = 7,
     dp_counterparty = 8, dp_amount = 100, dp_status = DRaised, dp_resolution_approvals = [],
     dp_resolution_weight = 0, dp_resolution_for_claimant = False, dp_dispute_expires_at = 500,
     dp_claimant_share_bps = 0, dp_evidence_hash = None, dp_resolution_memo = None \<rparr>"
  by (simp add: demo_raised_def demo_started_def state_after_def demo_simps)

theorem dispute_lifecycle_witness:
  "\<exists>t e. treasury_step\<^sup>*\<^sup>* demo_raised t \<and> t_disputes t 1 = Some e \<and> dp_status e = DResolvedClaimant \<and>
     dp_amount e = 100"
proof -
  have "\<not> isl (run_calls [(demo_host 30, C_resolve_dispute 1 1 True None)] demo_raised)"
    by (simp add: demo_raised_def demo_started_def state_after_def demo_simps)
  then obtain t where t: "run_calls [(demo_host 30, C_resolve_dispute 1 1 True None)] demo_raised = Inr t"
    by (cases "run_calls [(demo_host 30, C_resolve_dispute 1 1 True None)] demo_raised") auto
  have st: "map_option dp_status (t_disputes t 1) = Some DResolvedClaimant"
    using t by (auto simp: demo_raised_def demo_started_def state_after_def demo_simps)
  from dispute_lifecycle [OF demo_raised_reachable run_calls_steps [OF t] demo_raised_dispute] st
    run_calls_steps [OF t]
  show ?thesis by (auto simp: dispute_le_def)
qed

text \<open>
  C35. \<open>resolve_dispute_split\<close> pays out exactly the disputed amount: the claimant
  receives \<open>amount * bps / 10000\<close> rounded down, the counterparty the rest, neither
  share is negative, and the two token transfers (skipped when a share is zero)
  are the only effect on the rest of the ledger.
\<close>

theorem dispute_split_conserves:
  assumes "resolve_dispute_split h s admin i bps token memo = Inr s'"
    and "t_disputes s i = Some d" and "0 < dp_amount d"
  shows "let ca = dp_amount d * int (unat bps) div 10000; co = dp_amount d - ca
    in 0 \<le> ca \<and> 0 \<le> co \<and> ca + co = dp_amount d \<and>
       (\<exists>s1 s2. transfer_if_positive h token (dp_claimant d) ca s = Inr s1 \<and>
          transfer_if_positive h token (dp_counterparty d) co s1 = Inr s2 \<and> t_world s' = t_world s2)"
  using assms(1)
proof (rule resolve_dispute_split_parts)
  fix d' ca s1 s2
  assume d': "t_disputes s i = Some d'" "is_valid_bps bps" "apply_bps_i128 (dp_amount d') bps = Some ca"
    and t: "transfer_if_positive h token (dp_claimant d') ca s = Inr s1"
      "transfer_if_positive h token (dp_counterparty d') (dp_amount d' - ca) s1 = Inr s2"
      "t_world s' = t_world s2"
  from d'(1) assms(2) have [simp]: "d' = d" by simp
  from d'(3) assms(3) have ca: "ca = dp_amount d * int (unat bps) div 10000"
    by (simp add: apply_bps_nonneg)
  from apply_bps_bounds [OF _ d'(2,3)] assms(3) have "0 \<le> ca \<and> ca \<le> dp_amount d" by simp
  with t show ?thesis unfolding Let_def ca [symmetric] by auto
qed

theorem dispute_split_conserves_witness:
  "\<exists>s'. resolve_dispute_split (demo_host 30) demo_raised 1 1 3333 5 None = Inr s' \<and>
     t_world s' = [(5, 99, 7, 33), (5, 99, 8, 67)]"
proof -
  have "\<not> isl (resolve_dispute_split (demo_host 30) demo_raised 1 1 3333 5 None)"
    by (simp add: resolve_dispute_split_def demo_raised_def demo_started_def state_after_def
        demo_simps is_valid_bps_unat apply_bps_i128_def transfer_if_positive_def)
  then obtain s' where s': "resolve_dispute_split (demo_host 30) demo_raised 1 1 3333 5 None = Inr s'"
    by (cases "resolve_dispute_split (demo_host 30) demo_raised 1 1 3333 5 None") auto
  have "t_world demo_raised = []"
    by (simp add: demo_raised_def demo_started_def state_after_def demo_simps)
  with dispute_split_conserves [OF s' demo_raised_dispute] s' show ?thesis
    by (auto simp: transfer_if_positive_def token_transfer_def demo_host_def Let_def result_simps)
qed

text \<open>
  The loop that decides whether a settlement hold is lifted computes its
  specification: the settlement returns to \<open>Pending\<close> exactly when it is on hold
  and no dispute with an id up to the dispute counter is still open against it.
\<close>

theorem hold_released_iff_no_open_dispute:
  assumes "unwrap_or (t_dispute_count s) 0 \<noteq> - 1"
  shows "release_settlement_hold_if_no_open_disputes i s =
    Inr (case t_settlements s i of
           Some st \<Rightarrow>
             if st_status st = SOnHold \<and>
                (\<forall>d. 1 \<le> d \<and> d \<le> unwrap_or (t_dispute_count s) 0 \<longrightarrow> \<not> is_open_against s i d)
             then write_settlement i (st\<lparr>st_status := SPending, st_hold_reason := HNone\<rparr>) s
             else s
         | None \<Rightarrow> s)"
  by (rule release_loop_correct [OF assms])

theorem hold_released_iff_no_open_dispute_witness:
  "release_settlement_hold_if_no_open_disputes 1 (state_after demo_redispute) =
     Inr (state_after demo_redispute)"
proof -
  have count: "t_dispute_count (state_after demo_redispute) = Some 2"
    and open2: "is_open_against (state_after demo_redispute) 1 2"
    by (simp_all add: state_after_def demo_redispute_def demo_runs demo_simps)
  then have "\<exists>d. 1 \<le> d \<and> d \<le> unwrap_or (t_dispute_count (state_after demo_redispute)) 0 \<and>
      is_open_against (state_after demo_redispute) 1 d"
    by (intro exI [of _ 2]) (simp add: word_le_nat_alt)
  with hold_released_iff_no_open_dispute [of "state_after demo_redispute" 1] count
  show ?thesis by (auto simp: demo_redispute_state)
qed

text \<open>
  A signer vote on a dispute succeeds only for an authenticated signer that
  has not voted before and agrees with the direction of the earlier votes; it
  adds the signer's weight, and it resolves the dispute in that direction
  exactly when the total reaches the threshold.
\<close>

theorem dispute_vote_effect:
  assumes "vote_dispute_resolution h s a i f = Inr s'" and "t_disputes s i = Some d"
  shows "\<exists>e w thr. t_disputes s' i = Some e \<and> t_threshold s = Some thr \<and>
    h_auth h a \<and> signer_weight s a \<noteq> 0 \<and> dp_status d = DRaised \<and>
    a \<notin> set (dp_resolution_approvals d) \<and>
    (dp_resolution_weight d = 0 \<or> dp_resolution_for_claimant d = f) \<and>
    unat w = unat (dp_resolution_weight d) + unat (signer_weight s a) \<and>
    dp_resolution_weight e = w \<and> dp_resolution_approvals e = dp_resolution_approvals d @ [a] \<and>
    dp_status e = (if thr \<le> w then (if f then DResolvedClaimant else DResolvedCounterparty) else DRaised)"
  using assms(1)
proof (rule vote_dispute_parts)
  fix d' w thr
  assume a: "h_auth h a" "signer_weight s a \<noteq> 0" "t_disputes s i = Some d'" "dp_status d' = DRaised"
    "a \<notin> set (dp_resolution_approvals d')" "dp_resolution_weight d' = 0 \<or> dp_resolution_for_claimant d' = f"
    "unat w = unat (dp_resolution_weight d') + unat (signer_weight s a)" "t_threshold s = Some thr"
    and s': "dispute_fields s' = ((t_disputes s)(i \<mapsto> d'\<lparr>dp_resolution_for_claimant := f,
       dp_resolution_approvals := dp_resolution_approvals d' @ [a], dp_resolution_weight := w,
       dp_status := (if meets_threshold w thr then (if f then DResolvedClaimant
         else DResolvedCounterparty) else DRaised)\<rparr>), t_dispute_count s)"
  from a(3) assms(2) have "d' = d" by simp
  with a s' show ?thesis
    by (intro exI [of _ "the (t_disputes s' i)"] exI [of _ w] exI [of _ thr])
      (simp add: dispute_fields_def meets_threshold_def)
qed

theorem dispute_vote_effect_witness:
  "\<exists>s' e. vote_dispute_resolution (demo_host 30) demo_raised 2 1 False = Inr s' \<and>
     t_disputes s' 1 = Some e \<and> dp_status e = DRaised \<and> dp_resolution_approvals e = [2]"
proof -
  have "\<not> isl (vote_dispute_resolution (demo_host 30) demo_raised 2 1 False)"
    by (simp add: demo_raised_def demo_started_def state_after_def demo_simps)
  then obtain s' where s': "vote_dispute_resolution (demo_host 30) demo_raised 2 1 False = Inr s'"
    by (cases "vote_dispute_resolution (demo_host 30) demo_raised 2 1 False") auto
  have "t_threshold demo_raised = Some 3" "signer_weight demo_raised 2 = 2"
    by (simp_all add: demo_raised_def demo_started_def state_after_def demo_simps)
  with dispute_vote_effect [OF s' demo_raised_dispute] s' show ?thesis
    by (auto simp: word_le_nat_alt)
qed

section \<open>Views\<close>

text \<open>
  In a reachable state, a page of pending settlements is the slice of the
  full pending list that starts at \<open>start\<close> and has at most \<open>limit\<close> entries.
\<close>

theorem pending_page_is_slice:
  assumes "treasury_reachable s"
  shows "get_pending_settlements_page s start limit =
    take (unat limit) (drop (unat start) (get_pending_settlements s))"
proof (rule pending_page_slice)
  show "\<forall>i\<in>set (pending_index s). t_settlements s i \<noteq> None"
    using treasury_run.reachable_inv [OF assms] by (auto simp: treasury_ok_def book_ok_def)
qed

theorem pending_page_is_slice_witness:
  "get_pending_settlements_page (state_after demo_open) 0 10 =
     take 10 (get_pending_settlements (state_after demo_open))"
  using pending_page_is_slice [OF reachable_after [OF demo_open_runs], of 0 10] by simp

text \<open>
  The per-token metrics of the pending set have one bucket per token that
  occurs, each with the number and the total amount of the listed settlements
  with that token.
\<close>

theorem pending_metrics_add_up:
  assumes "get_pending_metrics s = Inr buckets"
  shows "distinct (map fst buckets) \<and>
    set (map fst buckets) = st_token ` set (get_pending_settlements s) \<and>
    (\<forall>(tok, count, total)\<in>set buckets.
       unat count = length (with_token tok (get_pending_settlements s)) \<and>
       total = (\<Sum>st\<leftarrow>with_token tok (get_pending_settlements s). st_amount st))"
  using metrics_ok [of s "pending_index s" "[]" buckets "[]"] assms
  by (simp add: get_pending_metrics_def get_pending_settlements_def buckets_ok_def)

theorem pending_metrics_add_up_witness:
  "get_pending_metrics (state_after demo_open) = Inr [(MNone, 1, 50)] \<and>
   (50 :: int) = (\<Sum>st\<leftarrow>with_token MNone (get_pending_settlements (state_after demo_open)). st_amount st)"
proof -
  have "get_pending_metrics (state_after demo_open) = Inr [(MNone, 1, 50)]"
    by (simp add: get_pending_metrics_def metrics_step_def state_after_def demo_runs demo_simps)
  from pending_metrics_add_up [OF this] this show ?thesis by auto
qed

section \<open>Divergences between the code and its documentation\<close>

text \<open>
  The pending index can go stale: after a batch execution there is a
  reachable state whose \<open>get_pending_settlements\<close> reports a settlement that has
  already been executed.
\<close>

theorem batch_execution_leaves_stale_index:
  "\<exists>s :: transfers treasury. treasury_reachable s \<and>
     (\<exists>st\<in>set (get_pending_settlements s). st_status st = SExecuted)"
proof (intro exI conjI)
  show "treasury_reachable (state_after demo_batch)" by (rule reachable_after [OF demo_batch_runs])
  show "\<exists>st\<in>set (get_pending_settlements (state_after demo_batch)). st_status st = SExecuted"
    by (simp add: get_pending_settlements_def pending_index_def demo_batch_state List.map_filter_simps)
qed

text \<open>
  C37. The expiry of an administrative hold outlives the hold. When a settlement is
  on hold until \<open>e\<close> and the resolution, split or expiry of a dispute lifts the hold,
  the entry \<open>HoldExpiry\<close> stays in storage. A dispute raised against the settlement
  afterwards puts it on hold again, with the expiry \<open>e\<close> of the old hold. So the open
  dispute stops a payout only before \<open>e\<close>: at every time from \<open>e\<close> on, an
  \<open>execute_settlement\<close> that would have succeeded before the dispute was raised
  succeeds while it is open. Had the entry been removed with the hold, the payout
  would be refused at every time.
\<close>

theorem old_hold_expiry_lifts_dispute_hold:
  assumes "t_hold_expiry s i = Some e"
    and "resolve_dispute h s admin d favour memo = Inr s1 \<or>
      resolve_dispute_split h s admin d bps split_token memo = Inr s1 \<or> expire_dispute h s admin d = Inr s1"
    and "settlement_is_pending s1 i"
    and "raise_dispute h' s1 claimant i counterparty amount expires_at evidence = Inr (d', s2)"
  shows "is_open_against s2 i d' \<and> map_option st_status (t_settlements s2 i) = Some SOnHold \<and>
    t_hold_expiry s2 i = Some e \<and>
    (\<not> isl (execute_settlement h'' s2 signer i token) \<longleftrightarrow>
       e \<le> h_now h'' \<and> \<not> isl (execute_settlement h'' s1 signer i token)) \<and>
    isl (execute_settlement h'' (s2\<lparr>t_hold_expiry := (t_hold_expiry s2)(i := None)\<rparr>) signer i token)"
proof -
  from assms(3) obtain st where st: "t_settlements s1 i = Some st" "st_status st = SPending"
    by (auto simp: settlement_is_pending_def split: option.splits)
  from assms(1,2) have "t_hold_expiry s1 i = Some e" by (auto dest: resolution_keeps_expiry)
  with raise_dispute_on_pending [OF assms(4) st]
  have s2: "t_settlements s2 i = Some (st\<lparr>st_status := SOnHold\<rparr>)" "t_hold_expiry s2 i = Some e"
    "is_open_against s2 i d'" "payout_env s2 = payout_env s1" by auto
  let ?s3 = "s2\<lparr>t_hold_expiry := (t_hold_expiry s2)(i := None)\<rparr>"
  have "payout_env ?s3 = payout_env s1" "t_settlements ?s3 i = Some (st\<lparr>st_status := SOnHold\<rparr>)"
    using s2 by (simp_all add: payout_env_def)
  from payout_iff_not_held [OF this(1) st this(2), of h'' signer token]
  have "isl (execute_settlement h'' ?s3 signer i token)" by (auto simp: hold_expired_def)
  with s2 payout_iff_not_held [OF s2(4) st s2(1), of h'' signer token] show ?thesis
    by (auto simp: hold_expired_def)
qed


theorem old_hold_expiry_lifts_dispute_hold_witness:
  "\<exists>s1 d' s2 s3. resolve_dispute (demo_host 33) (state_after demo_disputed) 1 1 True None = Inr s1 \<and>
     raise_dispute (demo_host 60) s1 7 1 8 20 100 None = Inr (d', s2) \<and> is_open_against s2 1 d' \<and>
     execute_settlement (demo_host 60) s2 2 1 5 = Inr s3"
proof -
  let ?r = "resolve_dispute (demo_host 33) (state_after demo_disputed) 1 1 True None"
  let ?d = "raise_dispute (demo_host 60) (projr ?r) 7 1 8 20 100 None"
  have e: "t_hold_expiry (state_after demo_disputed) 1 = Some 50"
    and r: "\<not> isl ?r" and p: "settlement_is_pending (projr ?r) 1" and d: "\<not> isl ?d"
    and x: "\<not> isl (execute_settlement (demo_host 60) (projr ?r) 2 1 5)"
    by (simp_all add: settlement_is_pending_def state_after_def demo_disputed_def demo_runs demo_simps)
  from r obtain s1 where s1: "?r = Inr s1" by (cases ?r) auto
  with d obtain d' s2 where s2: "raise_dispute (demo_host 60) s1 7 1 8 20 100 None = Inr (d', s2)"
    by (cases "raise_dispute (demo_host 60) s1 7 1 8 20 100 None") auto
  from old_hold_expiry_lifts_dispute_hold [OF e disjI1 [OF s1] _ s2, of "demo_host 60" 2 5] p x s1 s2
  show ?thesis
    by (cases "execute_settlement (demo_host 60) s2 2 1 5") (auto simp: demo_host_def word_le_nat_alt)
qed

text \<open>
  A dispute raised before \<open>initialize\<close> can be overwritten: \<open>initialize\<close> resets
  the dispute counter, so a later dispute takes the same id and replaces it.
\<close>

theorem early_dispute_overwritten:
  "\<exists>s t :: transfers treasury. treasury_reachable s \<and> treasury_step\<^sup>*\<^sup>* s t \<and>
     map_option dp_claimant (t_disputes s 1) = Some 7 \<and>
     map_option dp_claimant (t_disputes t 1) = Some 11"
proof (intro exI conjI)
  show "treasury_reachable (state_after demo_early)" by (rule reachable_after [OF demo_early_runs])
  show "treasury_step\<^sup>*\<^sup>* (state_after demo_early) (state_after demo_late)"
    using steps_after [OF demo_late_runs [unfolded demo_late_def]] by (simp add: demo_late_def)
  show "map_option dp_claimant (t_disputes (state_after demo_early) 1) = Some 7"
    by (rule demo_late_state)
  show "map_option dp_claimant (t_disputes (state_after demo_late) 1) = Some 11"
    by (rule demo_late_state)
qed

end
