(* ===== verification/Compliance_State.thy ===== *)
theory Compliance_State
  imports Prelude
begin

text \<open>
  \<^verbatim>\<open>contracts/compliance/src/lib.rs\<close>: the storage of the compliance contract as a
  record (one field per \<open>DataKey\<close>), its data types and error codes, the guards of
  its entrypoints, the bounded status history and the paged address index.

  Fields of type \<open>option\<close> and partial maps are storage entries that may be
  absent; every read uses the default the code uses. \<open>DataKey::AddressIndex\<close> is
  declared but never read or written and has no field.
\<close>

section \<open>Data types\<close>

datatype ComplianceError =
    CE_AlreadyInitialized | CE_Unauthorized | CE_ContractPaused | CE_BatchTooLarge
  | CE_AddressIndexFull | CE_BulkOperationCooldown | CE_UnexpectedSchemaVersion
  | CE_OperatorCannotClearAdminBlock | CE_OperatorSetFull | CE_InvalidJurisdictionCode
  | CE_NoPendingAdmin

datatype AddressState = AS_Allowed | AS_Blocked | AS_Expired

record AddressStatus =
  as_allowed :: bool
  as_blocked :: bool
  as_expires_at :: "u64 option"
  as_tier :: u32
  as_is_currently_allowed :: bool

record StatusHistoryEntry =
  she_status :: AddressState
  she_timestamp :: u64
  she_actor :: address

datatype BlockReason = BR_Sanctions | BR_Fraud | BR_ManualReview | BR_CourtOrder | BR_Other

datatype ComplianceEvent =
    Ev_address_allowed address
  | Ev_address_blocked address
  | Ev_address_blocked_until address u64
  | Ev_address_allowed_until address u64
  | Ev_address_cleared address
  | Ev_address_revoked address
  | Ev_address_allow_expired address
  | Ev_tier_limit_set u32 i128
  | Ev_jurisdiction_set address bytes
  | Ev_schema_migrated u32 u32
  | Ev_admin_transfer_initiated address
  | Ev_admin_transfer_cancelled address
  | Ev_admin_transferred address
  | Ev_compliance_paused address string
  | Ev_compliance_unpaused address
  | Ev_blocklist_root_set bytes
  | Ev_operator_set address
  | Ev_operator_added address
  | Ev_operator_removed address

record compliance =
  c_admin :: "address option"
  c_pending_admin :: "address option"
  c_operator :: "address option"
  c_allowed :: "address \<rightharpoonup> bool"
  c_blocked :: "address \<rightharpoonup> bool"
  c_allowed_until :: "address \<rightharpoonup> u64"
  c_blocked_until :: "address \<rightharpoonup> u64"
  c_block_reason :: "address \<rightharpoonup> BlockReason"
  c_schema_version :: "u32 option"
  c_paused :: "bool option"
  c_allow_count :: "u64 option"
  c_block_count :: "u64 option"
  c_tier :: "address \<rightharpoonup> u32"
  c_jurisdiction :: "address \<rightharpoonup> bytes"
  c_last_bulk_allow :: "address \<rightharpoonup> u64"
  c_last_bulk_block :: "address \<rightharpoonup> u64"
  c_addr_tracked :: "address \<rightharpoonup> unit"
  c_index_page :: "u32 \<rightharpoonup> address list"
  c_index_count :: "u32 option"
  c_tier_limit :: "u32 \<rightharpoonup> i128"
  c_status_history :: "address \<rightharpoonup> StatusHistoryEntry list"
  c_pause_reason :: "string option"
  c_blocklist_root :: "bytes option"
  c_blocked_by :: "address \<rightharpoonup> address"
  c_operators :: "address list option"
  c_events :: "ComplianceEvent list"

definition empty_compliance :: compliance where
  "empty_compliance =
     \<lparr>c_admin = None, c_pending_admin = None, c_operator = None, c_allowed = Map.empty,
      c_blocked = Map.empty, c_allowed_until = Map.empty, c_blocked_until = Map.empty,
      c_block_reason = Map.empty, c_schema_version = None, c_paused = None,
      c_allow_count = None, c_block_count = None, c_tier = Map.empty,
      c_jurisdiction = Map.empty, c_last_bulk_allow = Map.empty,
      c_last_bulk_block = Map.empty, c_addr_tracked = Map.empty, c_index_page = Map.empty,
      c_index_count = None, c_tier_limit = Map.empty, c_status_history = Map.empty,
      c_pause_reason = None, c_blocklist_root = None, c_blocked_by = Map.empty,
      c_operators = None, c_events = []\<rparr>"

type_synonym 'a c_outcome = "(ComplianceError, 'a) outcome"

definition publish :: "ComplianceEvent \<Rightarrow> compliance \<Rightarrow> compliance" where
  "publish e s = s\<lparr>c_events := c_events s @ [e]\<rparr>"

section \<open>Constants\<close>

definition MAX_TRACKED_ADDRESSES :: u32 where "MAX_TRACKED_ADDRESSES = 2000"

definition ADDR_INDEX_PAGE_SIZE :: u32 where "ADDR_INDEX_PAGE_SIZE = 25"

definition MAX_BATCH_SIZE :: nat where "MAX_BATCH_SIZE = 50"

definition CURRENT_SCHEMA_VERSION :: u32 where "CURRENT_SCHEMA_VERSION = 2"

definition BULK_OP_COOLDOWN_SECS :: u64 where "BULK_OP_COOLDOWN_SECS = 60"

definition MAX_OPERATORS :: nat where "MAX_OPERATORS = 10"

definition MAX_STATUS_HISTORY :: nat where "MAX_STATUS_HISTORY = 10"

section \<open>Guards\<close>

definition require_admin :: "'w host \<Rightarrow> compliance \<Rightarrow> address \<Rightarrow> unit c_outcome" where
  "require_admin h s admin =
     andthen (require_auth h admin) (\<lambda>_.
     require (c_admin s = Some admin) (Err CE_Unauthorized))"

definition is_admin :: "compliance \<Rightarrow> address \<Rightarrow> bool" where
  "is_admin s caller \<longleftrightarrow> c_admin s = Some caller"

definition get_operators :: "compliance \<Rightarrow> address list" where
  "get_operators s = unwrap_or (c_operators s) []"

definition require_admin_or_operator :: "'w host \<Rightarrow> compliance \<Rightarrow> address \<Rightarrow> unit c_outcome" where
  "require_admin_or_operator h s caller =
     andthen (require_auth h caller) (\<lambda>_.
       if c_admin s = Some caller then Inr ()
       else if caller \<in> set (unwrap_or (c_operators s) []) then Inr ()
       else if c_operator s = Some caller then Inr ()
       else Inl (Err CE_Unauthorized))"

definition is_paused :: "compliance \<Rightarrow> bool" where
  "is_paused s = unwrap_or (c_paused s) False"

definition require_not_paused :: "compliance \<Rightarrow> unit c_outcome" where
  "require_not_paused s = require (\<not> unwrap_or (c_paused s) False) (Err CE_ContractPaused)"

definition is_blocked :: "compliance \<Rightarrow> address \<Rightarrow> bool" where
  "is_blocked s address = unwrap_or (c_blocked s address) False"

definition block_placer :: "compliance \<Rightarrow> address \<Rightarrow> address option" where
  "block_placer s address =
     (if \<not> unwrap_or (c_blocked s address) False then None
      else case c_blocked_by s address of
             Some placer \<Rightarrow> Some placer
           | None \<Rightarrow> c_admin s)"

definition require_operator_placed_block :: "compliance \<Rightarrow> address \<Rightarrow> address \<Rightarrow> unit c_outcome" where
  "require_operator_placed_block s caller address =
     (case block_placer s address of
        Some placer \<Rightarrow> if placer = caller then Inr () else Inl (Err CE_OperatorCannotClearAdminBlock)
      | None \<Rightarrow> Inl (Err CE_Unauthorized))"

definition record_block_placer :: "address \<Rightarrow> address \<Rightarrow> compliance \<Rightarrow> compliance" where
  "record_block_placer address placer s = s\<lparr>c_blocked_by := (c_blocked_by s)(address \<mapsto> placer)\<rparr>"

text \<open>
  \<open>check_bulk_op_cooldown\<close> takes the storage key as an argument; here the entry
  read under that key is the argument and the entry to write is the result.
\<close>

definition check_bulk_op_cooldown :: "'w host \<Rightarrow> u64 option \<Rightarrow> u64 c_outcome" where
  "check_bulk_op_cooldown h last_call =
     (let now = h_now h in
      case last_call of
        None \<Rightarrow> Inr now
      | Some t \<Rightarrow>
          if now < saturating_add t BULK_OP_COOLDOWN_SECS then Inl (Err CE_BulkOperationCooldown)
          else Inr now)"

section \<open>Status history\<close>

text \<open>\<open>while history.len() >= MAX_STATUS_HISTORY \{ history.pop_front(); \}\<close>\<close>

fun drop_oldest :: "'a list \<Rightarrow> 'a list" where
  "drop_oldest [] = []"
| "drop_oldest (x # xs) =
     (if length (x # xs) \<ge> MAX_STATUS_HISTORY then drop_oldest xs else x # xs)"

definition append_status_history ::
    "'w host \<Rightarrow> address \<Rightarrow> AddressState \<Rightarrow> address \<Rightarrow> compliance \<Rightarrow> compliance" where
  "append_status_history h address status actor s =
     s\<lparr>c_status_history := (c_status_history s)(address \<mapsto>
         drop_oldest (unwrap_or (c_status_history s address) []) @
         [\<lparr>she_status = status, she_timestamp = h_now h, she_actor = actor\<rparr>])\<rparr>"

definition get_address_history :: "compliance \<Rightarrow> address \<Rightarrow> StatusHistoryEntry list" where
  "get_address_history s address = unwrap_or (c_status_history s address) []"

section \<open>The paged address index\<close>

definition index_page :: "compliance \<Rightarrow> u32 \<Rightarrow> address list" where
  "index_page s p = unwrap_or (c_index_page s p) []"

definition track_address :: "address \<Rightarrow> compliance \<Rightarrow> compliance c_outcome" where
  "track_address address s =
     (if c_addr_tracked s address \<noteq> None then Inr s
      else
        let count = unwrap_or (c_index_count s) 0 in
        if count \<ge> MAX_TRACKED_ADDRESSES then Inl (Err CE_AddressIndexFull)
        else
          let page_key = count div ADDR_INDEX_PAGE_SIZE;
              page = index_page s page_key @ [address]
          in andthen (ok_or (checked_add count 1) Trap) (\<lambda>count'.
             Inr (s\<lparr>c_index_page := (c_index_page s)(page_key \<mapsto> page),
                    c_addr_tracked := (c_addr_tracked s)(address \<mapsto> ()),
                    c_index_count := Some count'\<rparr>)))"

text \<open>\<open>u32::div_ceil\<close>.\<close>

definition div_ceil :: "u32 \<Rightarrow> u32 \<Rightarrow> u32" where
  "div_ceil a b = (let d = a div b; r = a mod b in if r > 0 then d + 1 else d)"

definition address_index :: "compliance \<Rightarrow> address list" where
  "address_index s =
     (let count = unwrap_or (c_index_count s) 0;
          pages = div_ceil count ADDR_INDEX_PAGE_SIZE
      in concat (map (\<lambda>p. index_page s (word_of_nat p)) [0..<unat pages]))"

section \<open>Facts on the guards\<close>

lemma compliance_admin_eq_Inr [result_simps]:
  "require_admin h s a = Inr u \<longleftrightarrow> h_auth h a \<and> c_admin s = Some a"
  by (auto simp: require_admin_def result_simps)

lemma compliance_not_paused_eq_Inr [result_simps]:
  "require_not_paused s = Inr u \<longleftrightarrow> \<not> is_paused s"
  by (simp add: require_not_paused_def is_paused_def result_simps)

definition is_operator :: "compliance \<Rightarrow> address \<Rightarrow> bool" where
  "is_operator s a \<longleftrightarrow> a \<in> set (get_operators s) \<or> c_operator s = Some a"

lemma admin_or_operator_eq_Inr [result_simps]:
  "require_admin_or_operator h s a = Inr u \<longleftrightarrow>
     h_auth h a \<and> (c_admin s = Some a \<or> is_operator s a)"
  by (auto simp: require_admin_or_operator_def is_operator_def get_operators_def result_simps)

lemma operator_placed_block_eq_Inr [result_simps]:
  "require_operator_placed_block s caller a = Inr u \<longleftrightarrow> block_placer s a = Some caller"
  by (simp add: require_operator_placed_block_def split: option.split)

lemma cooldown_eq_Inr [result_simps]:
  "check_bulk_op_cooldown h last_call = Inr t \<longleftrightarrow>
     t = h_now h \<and> (\<forall>l. last_call = Some l \<longrightarrow> saturating_add l BULK_OP_COOLDOWN_SECS \<le> h_now h)"
  by (auto simp: check_bulk_op_cooldown_def Let_def split: option.splits if_splits)

lemma drop_oldest_eq: "drop_oldest xs = drop (length xs - (MAX_STATUS_HISTORY - 1)) xs"
proof (induction xs)
  case (Cons x xs)
  have "length xs - 8 = Suc (length xs - 9)" if "9 \<le> length xs" using that by simp
  with Cons show ?case by (auto simp: MAX_STATUS_HISTORY_def)
qed simp

lemma length_drop_oldest: "length (drop_oldest xs) < MAX_STATUS_HISTORY"
  by (simp add: drop_oldest_eq MAX_STATUS_HISTORY_def)

end
