(* ===== verification/Compliance_Ops.thy ===== *)
theory Compliance_Ops
  imports Compliance_State
begin

text \<open>
  \<^verbatim>\<open>contracts/compliance/src/lib.rs\<close>: the entrypoints of the compliance contract,
  in the order of the source. \<open>sha256\<close> and the XDR encoding of an address belong
  to the host and are arguments of the one entrypoint that uses them.
\<close>

definition initialize :: "'w host \<Rightarrow> compliance \<Rightarrow> address \<Rightarrow> compliance c_outcome" where
  "initialize h s admin =
     andthen (require (c_admin s = None) (Err CE_AlreadyInitialized)) (\<lambda>_.
     andthen (require_auth h admin) (\<lambda>_.
       Inr (s\<lparr>c_admin := Some admin, c_paused := Some False,
              c_schema_version := Some CURRENT_SCHEMA_VERSION\<rparr>)))"

section \<open>Shared write sequences\<close>

text \<open>
  The steps \<open>allow_address\<close> and the body of the \<open>bulk_allow_addresses\<close> loop both
  perform; the block steps of \<open>block_address\<close>, \<open>block_address_until\<close> and
  \<open>bulk_block_addresses\<close> after the flag is set.
\<close>

definition bump_allow_count :: "compliance \<Rightarrow> compliance" where
  "bump_allow_count s = s\<lparr>c_allow_count := Some (saturating_add (unwrap_or (c_allow_count s) 0) 1)\<rparr>"

definition record_allow :: "'w host \<Rightarrow> address \<Rightarrow> address \<Rightarrow> compliance \<Rightarrow> compliance c_outcome" where
  "record_allow h admin address s =
     (let was_allowed = unwrap_or (c_allowed s address) False;
          s1 = s\<lparr>c_allowed := (c_allowed s)(address \<mapsto> True),
                 c_allowed_until := (c_allowed_until s)(address := None)\<rparr>;
          s2 = (if \<not> was_allowed then bump_allow_count s1 else s1);
          s3 = append_status_history h address AS_Allowed admin s2
      in andthen (track_address address s3) (\<lambda>s4.
         Inr (publish (Ev_address_allowed address) s4)))"

definition bulk_allow_addresses ::
    "'w host \<Rightarrow> compliance \<Rightarrow> address \<Rightarrow> address list \<Rightarrow> compliance c_outcome" where
  "bulk_allow_addresses h s admin addresses =
     andthen (require_admin h s admin) (\<lambda>_.
     andthen (require_not_paused s) (\<lambda>_.
     andthen (check_bulk_op_cooldown h (c_last_bulk_allow s admin)) (\<lambda>now.
     let s1 = s\<lparr>c_last_bulk_allow := (c_last_bulk_allow s)(admin \<mapsto> now)\<rparr> in
     andthen (require (\<not> length addresses > MAX_BATCH_SIZE) (Err CE_BatchTooLarge)) (\<lambda>_.
       fold_result (record_allow h admin) addresses s1))))"

section \<open>Screening\<close>

definition is_allowed_at :: "compliance \<Rightarrow> address \<Rightarrow> u64 \<Rightarrow> bool" where
  "is_allowed_at s address now =
     (if \<not> unwrap_or (c_allowed s address) False then False
      else if unwrap_or (c_blocked s address) False \<and>
              \<not> (case c_blocked_until s address of Some unblock_at \<Rightarrow> now \<ge> unblock_at | None \<Rightarrow> False)
      then False
      else case c_allowed_until s address of
             Some expires_at \<Rightarrow> now < expires_at
           | None \<Rightarrow> True)"

definition bulk_check_addresses :: "'w host \<Rightarrow> compliance \<Rightarrow> address list \<Rightarrow> bool list c_outcome" where
  "bulk_check_addresses h s addresses =
     andthen (require (\<not> length addresses > MAX_BATCH_SIZE) (Err CE_BatchTooLarge)) (\<lambda>_.
       Inr (map (\<lambda>address. is_allowed_at s address (h_now h)) addresses))"

definition address_status_at :: "compliance \<Rightarrow> address \<Rightarrow> u64 \<Rightarrow> AddressStatus" where
  "address_status_at s address now =
     \<lparr>as_allowed = unwrap_or (c_allowed s address) False,
      as_blocked = unwrap_or (c_blocked s address) False,
      as_expires_at = c_allowed_until s address,
      as_tier = unwrap_or (c_tier s address) 0,
      as_is_currently_allowed = is_allowed_at s address now\<rparr>"

definition bulk_get_address_status ::
    "'w host \<Rightarrow> compliance \<Rightarrow> address list \<Rightarrow> AddressStatus list c_outcome" where
  "bulk_get_address_status h s addresses =
     andthen (require (\<not> length addresses > MAX_BATCH_SIZE) (Err CE_BatchTooLarge)) (\<lambda>_.
       Inr (map (\<lambda>address. address_status_at s address (h_now h)) addresses))"

definition is_allowed :: "'w host \<Rightarrow> compliance \<Rightarrow> address \<Rightarrow> bool" where
  "is_allowed h s address = is_allowed_at s address (h_now h)"

section \<open>Allowing\<close>

definition allow_address :: "'w host \<Rightarrow> compliance \<Rightarrow> address \<Rightarrow> address \<Rightarrow> compliance c_outcome" where
  "allow_address h s admin address =
     andthen (require_admin h s admin) (\<lambda>_.
     andthen (require_not_paused s) (\<lambda>_.
       record_allow h admin address s))"

definition allow_address_with_tier ::
    "'w host \<Rightarrow> compliance \<Rightarrow> address \<Rightarrow> address \<Rightarrow> u32 \<Rightarrow> compliance c_outcome" where
  "allow_address_with_tier h s admin address tier =
     andthen (require_admin h s admin) (\<lambda>_.
     andthen (require_not_paused s) (\<lambda>_.
     let s1 = s\<lparr>c_allowed := (c_allowed s)(address \<mapsto> True),
                c_allowed_until := (c_allowed_until s)(address := None),
                c_tier := (c_tier s)(address \<mapsto> tier)\<rparr>;
         s2 = append_status_history h address AS_Allowed admin s1
     in andthen (track_address address s2) (\<lambda>s3.
        Inr (publish (Ev_address_allowed address) s3))))"

definition get_address_tier :: "compliance \<Rightarrow> address \<Rightarrow> u32" where
  "get_address_tier s address = unwrap_or (c_tier s address) 0"

definition set_tier_limit ::
    "'w host \<Rightarrow> compliance \<Rightarrow> address \<Rightarrow> u32 \<Rightarrow> i128 \<Rightarrow> compliance c_outcome" where
  "set_tier_limit h s admin tier limit =
     andthen (require_admin h s admin) (\<lambda>_.
       Inr (publish (Ev_tier_limit_set tier limit)
             (s\<lparr>c_tier_limit := (c_tier_limit s)(tier \<mapsto> limit)\<rparr>)))"

definition get_tier_limit :: "compliance \<Rightarrow> u32 \<Rightarrow> i128 option" where
  "get_tier_limit s tier = c_tier_limit s tier"

definition is_allowed_for_amount :: "'w host \<Rightarrow> compliance \<Rightarrow> address \<Rightarrow> i128 \<Rightarrow> bool" where
  "is_allowed_for_amount h s address amount =
     (if \<not> is_allowed_at s address (h_now h) then False
      else case get_tier_limit s (get_address_tier s address) of
             Some limit \<Rightarrow> amount \<le> limit
           | None \<Rightarrow> True)"

text \<open>\<open>u8::is_ascii_uppercase\<close> and \<open>u8::is_ascii_digit\<close>.\<close>

definition is_ascii_uppercase :: "8 word \<Rightarrow> bool" where
  "is_ascii_uppercase b \<longleftrightarrow> 65 \<le> b \<and> b \<le> 90"

definition is_ascii_digit :: "8 word \<Rightarrow> bool" where
  "is_ascii_digit b \<longleftrightarrow> 48 \<le> b \<and> b \<le> 57"

definition set_jurisdiction ::
    "'w host \<Rightarrow> compliance \<Rightarrow> address \<Rightarrow> address \<Rightarrow> bytes \<Rightarrow> compliance c_outcome" where
  "set_jurisdiction h s admin address code =
     andthen (require_admin h s admin) (\<lambda>_.
     andthen (require (2 \<le> length code \<and> length code \<le> 3) (Err CE_InvalidJurisdictionCode)) (\<lambda>_.
     andthen (require (list_all (\<lambda>b. is_ascii_uppercase b \<or> is_ascii_digit b) code)
                (Err CE_InvalidJurisdictionCode)) (\<lambda>_.
       Inr (publish (Ev_jurisdiction_set address code)
             (s\<lparr>c_jurisdiction := (c_jurisdiction s)(address \<mapsto> code)\<rparr>)))))"

definition get_jurisdiction :: "compliance \<Rightarrow> address \<Rightarrow> bytes option" where
  "get_jurisdiction s address = c_jurisdiction s address"

section \<open>Blocking\<close>

definition record_bulk_block :: "'w host \<Rightarrow> address \<Rightarrow> address \<Rightarrow> compliance \<Rightarrow> compliance c_outcome" where
  "record_bulk_block h admin address s =
     (let s1 = s\<lparr>c_blocked := (c_blocked s)(address \<mapsto> True)\<rparr>;
          s2 = record_block_placer address admin s1;
          s3 = append_status_history h address AS_Blocked admin s2
      in andthen (track_address address s3) (\<lambda>s4.
         Inr (publish (Ev_address_blocked address) s4)))"

definition bulk_block_addresses ::
    "'w host \<Rightarrow> compliance \<Rightarrow> address \<Rightarrow> address list \<Rightarrow> compliance c_outcome" where
  "bulk_block_addresses h s admin addresses =
     andthen (require_admin h s admin) (\<lambda>_.
     andthen (check_bulk_op_cooldown h (c_last_bulk_block s admin)) (\<lambda>now.
     let s1 = s\<lparr>c_last_bulk_block := (c_last_bulk_block s)(admin \<mapsto> now)\<rparr> in
     andthen (require (\<not> length addresses > MAX_BATCH_SIZE) (Err CE_BatchTooLarge)) (\<lambda>_.
       fold_result (record_bulk_block h admin) addresses s1)))"

definition record_block_reason :: "address \<Rightarrow> BlockReason option \<Rightarrow> compliance \<Rightarrow> compliance" where
  "record_block_reason address reason s =
     (case reason of
        Some r \<Rightarrow> s\<lparr>c_block_reason := (c_block_reason s)(address \<mapsto> r)\<rparr>
      | None \<Rightarrow> s)"

definition block_address ::
    "'w host \<Rightarrow> compliance \<Rightarrow> address \<Rightarrow> address \<Rightarrow> BlockReason option \<Rightarrow> compliance c_outcome" where
  "block_address h s caller address reason =
     andthen (require_admin_or_operator h s caller) (\<lambda>_.
     let s1 = s\<lparr>c_blocked := (c_blocked s)(address \<mapsto> True)\<rparr>;
         s2 = record_block_placer address caller s1;
         s3 = record_block_reason address reason s2;
         s4 = append_status_history h address AS_Blocked caller s3
     in andthen (track_address address s4) (\<lambda>s5.
        Inr (publish (Ev_address_blocked address) s5)))"

definition block_address_until ::
    "'w host \<Rightarrow> compliance \<Rightarrow> address \<Rightarrow> address \<Rightarrow> u64 \<Rightarrow> BlockReason option \<Rightarrow> compliance c_outcome" where
  "block_address_until h s caller address unblock_at reason =
     andthen (require_admin_or_operator h s caller) (\<lambda>_.
     let s1 = s\<lparr>c_blocked := (c_blocked s)(address \<mapsto> True),
                c_blocked_until := (c_blocked_until s)(address \<mapsto> unblock_at)\<rparr>;
         s2 = record_block_placer address caller s1;
         s3 = record_block_reason address reason s2;
         s4 = append_status_history h address AS_Blocked caller s3
     in andthen (track_address address s4) (\<lambda>s5.
        Inr (publish (Ev_address_blocked_until address unblock_at) s5)))"

definition get_block_placer :: "compliance \<Rightarrow> address \<Rightarrow> address option" where
  "get_block_placer s address = c_blocked_by s address"

definition get_block_reason :: "compliance \<Rightarrow> address \<Rightarrow> BlockReason option" where
  "get_block_reason s address = c_block_reason s address"

section \<open>Schema version\<close>

definition get_schema_version :: "compliance \<Rightarrow> u32" where
  "get_schema_version s = unwrap_or (c_schema_version s) 1"

definition migrate :: "'w host \<Rightarrow> compliance \<Rightarrow> address \<Rightarrow> (u32 \<times> compliance) c_outcome" where
  "migrate h s admin =
     andthen (require_admin h s admin) (\<lambda>_.
     let from_version = get_schema_version s in
     if from_version = CURRENT_SCHEMA_VERSION then Inr (from_version, s)
     else andthen (require (from_version = CURRENT_SCHEMA_VERSION - 1) (Err CE_UnexpectedSchemaVersion)) (\<lambda>_.
       Inr (CURRENT_SCHEMA_VERSION,
            publish (Ev_schema_migrated from_version CURRENT_SCHEMA_VERSION)
              (s\<lparr>c_schema_version := Some CURRENT_SCHEMA_VERSION\<rparr>))))"

definition allow_address_until ::
    "'w host \<Rightarrow> compliance \<Rightarrow> address \<Rightarrow> address \<Rightarrow> u64 \<Rightarrow> compliance c_outcome" where
  "allow_address_until h s admin address expires_at =
     andthen (require_admin h s admin) (\<lambda>_.
     andthen (require_not_paused s) (\<lambda>_.
     let s1 = s\<lparr>c_allowed := (c_allowed s)(address \<mapsto> True),
                c_allowed_until := (c_allowed_until s)(address \<mapsto> expires_at)\<rparr>;
         s2 = append_status_history h address AS_Allowed admin s1
     in andthen (track_address address s2) (\<lambda>s3.
        Inr (publish (Ev_address_allowed_until address expires_at) s3))))"

section \<open>Admin handover\<close>

definition transfer_admin :: "'w host \<Rightarrow> compliance \<Rightarrow> address \<Rightarrow> address \<Rightarrow> compliance c_outcome" where
  "transfer_admin h s admin new_admin =
     andthen (require_admin h s admin) (\<lambda>_.
       Inr (publish (Ev_admin_transfer_initiated new_admin) (s\<lparr>c_pending_admin := Some new_admin\<rparr>)))"

definition cancel_admin_transfer :: "'w host \<Rightarrow> compliance \<Rightarrow> address \<Rightarrow> compliance c_outcome" where
  "cancel_admin_transfer h s admin =
     andthen (require_admin h s admin) (\<lambda>_.
     andthen (ok_or (c_pending_admin s) (Err CE_NoPendingAdmin)) (\<lambda>pending.
       Inr (publish (Ev_admin_transfer_cancelled pending) (s\<lparr>c_pending_admin := None\<rparr>))))"

definition accept_admin :: "'w host \<Rightarrow> compliance \<Rightarrow> address \<Rightarrow> compliance c_outcome" where
  "accept_admin h s new_admin =
     andthen (require_auth h new_admin) (\<lambda>_.
     andthen (ok_or (c_pending_admin s) (Err CE_NoPendingAdmin)) (\<lambda>pending.
     andthen (require (pending = new_admin) (Err CE_Unauthorized)) (\<lambda>_.
       Inr (publish (Ev_admin_transferred new_admin)
             (s\<lparr>c_admin := Some new_admin, c_pending_admin := None\<rparr>)))))"

section \<open>Clearing and revoking\<close>

definition clear_address :: "'w host \<Rightarrow> compliance \<Rightarrow> address \<Rightarrow> address \<Rightarrow> compliance c_outcome" where
  "clear_address h s caller address =
     andthen (require_admin_or_operator h s caller) (\<lambda>_.
     andthen (if \<not> is_admin s caller then require_operator_placed_block s caller address else Inr ()) (\<lambda>_.
     let was_blocked = unwrap_or (c_blocked s address) False;
         was_allowed = unwrap_or (c_allowed s address) False;
         s1 = s\<lparr>c_blocked := (c_blocked s)(address \<mapsto> False),
                c_blocked_until := (c_blocked_until s)(address := None),
                c_block_reason := (c_block_reason s)(address := None),
                c_blocked_by := (c_blocked_by s)(address := None),
                c_allowed := (c_allowed s)(address \<mapsto> True),
                c_allowed_until := (c_allowed_until s)(address := None),
                c_tier := (c_tier s)(address := None)\<rparr>;
         s2 = (if was_blocked
               then s1\<lparr>c_block_count := Some (saturating_sub (unwrap_or (c_block_count s1) 0) 1)\<rparr> else s1);
         s3 = (if \<not> was_allowed then bump_allow_count s2 else s2);
         s4 = append_status_history h address AS_Allowed caller s3
     in andthen (track_address address s4) (\<lambda>s5.
        Inr (publish (Ev_address_cleared address) s5))))"

definition revoke_allow :: "'w host \<Rightarrow> compliance \<Rightarrow> address \<Rightarrow> address \<Rightarrow> compliance c_outcome" where
  "revoke_allow h s admin address =
     andthen (require_admin h s admin) (\<lambda>_.
     andthen (require_not_paused s) (\<lambda>_.
     let s1 = s\<lparr>c_allowed := (c_allowed s)(address := None),
                c_allowed_until := (c_allowed_until s)(address := None)\<rparr>;
         s2 = append_status_history h address AS_Blocked admin s1
     in andthen (track_address address s2) (\<lambda>s3.
        Inr (publish (Ev_address_revoked address) s3))))"

section \<open>Pause switch\<close>

definition pause_with_reason :: "'w host \<Rightarrow> compliance \<Rightarrow> address \<Rightarrow> string \<Rightarrow> compliance c_outcome" where
  "pause_with_reason h s admin reason =
     andthen (require_admin h s admin) (\<lambda>_.
       Inr (publish (Ev_compliance_paused admin reason)
             (s\<lparr>c_paused := Some True, c_pause_reason := Some reason\<rparr>)))"

definition pause :: "'w host \<Rightarrow> compliance \<Rightarrow> address \<Rightarrow> compliance c_outcome" where
  "pause h s admin = pause_with_reason h s admin ''none''"

definition get_pause_reason :: "compliance \<Rightarrow> string option" where
  "get_pause_reason s = c_pause_reason s"

definition unpause :: "'w host \<Rightarrow> compliance \<Rightarrow> address \<Rightarrow> compliance c_outcome" where
  "unpause h s admin =
     andthen (require_admin h s admin) (\<lambda>_.
       Inr (publish (Ev_compliance_unpaused admin)
             (s\<lparr>c_paused := Some False, c_pause_reason := None\<rparr>)))"

section \<open>Merkle blocklist\<close>

definition set_blocklist_root :: "'w host \<Rightarrow> compliance \<Rightarrow> address \<Rightarrow> bytes \<Rightarrow> compliance c_outcome" where
  "set_blocklist_root h s admin root =
     andthen (require_admin h s admin) (\<lambda>_.
       Inr (publish (Ev_blocklist_root_set root) (s\<lparr>c_blocklist_root := Some root\<rparr>)))"

definition get_blocklist_root :: "compliance \<Rightarrow> bytes option" where
  "get_blocklist_root s = c_blocklist_root s"

text \<open>The lexicographic order \<open><=\<close> of byte arrays.\<close>

fun bytes_le :: "bytes \<Rightarrow> bytes \<Rightarrow> bool" where
  "bytes_le [] ys = True"
| "bytes_le (x # xs) [] = False"
| "bytes_le (x # xs) (y # ys) = (x < y \<or> x = y \<and> bytes_le xs ys)"

definition proof_step :: "(bytes \<Rightarrow> bytes) \<Rightarrow> bytes \<Rightarrow> bytes \<Rightarrow> bytes" where
  "proof_step sha256 node sibling =
     (case (if bytes_le node sibling then (node, sibling) else (sibling, node)) of
        (a, b) \<Rightarrow> sha256 (a @ b))"

definition is_blocked_with_proof ::
    "(bytes \<Rightarrow> bytes) \<Rightarrow> (address \<Rightarrow> bytes) \<Rightarrow> compliance \<Rightarrow> address \<Rightarrow> bytes list \<Rightarrow> bool" where
  "is_blocked_with_proof sha256 to_xdr s address proof_path =
     (if is_blocked s address then True
      else case c_blocklist_root s of
             None \<Rightarrow> False
           | Some root \<Rightarrow>
               foldl (proof_step sha256) (sha256 (to_xdr address)) proof_path = root)"

section \<open>Operators\<close>

definition set_operator :: "'w host \<Rightarrow> compliance \<Rightarrow> address \<Rightarrow> address \<Rightarrow> compliance c_outcome" where
  "set_operator h s admin operator =
     andthen (require_admin h s admin) (\<lambda>_.
       Inr (publish (Ev_operator_set operator) (s\<lparr>c_operator := Some operator\<rparr>)))"

definition get_operator :: "compliance \<Rightarrow> address option" where
  "get_operator s = c_operator s"

definition get_admin :: "compliance \<Rightarrow> address option" where
  "get_admin s = c_admin s"

definition get_pending_admin :: "compliance \<Rightarrow> address option" where
  "get_pending_admin s = c_pending_admin s"

definition add_operator :: "'w host \<Rightarrow> compliance \<Rightarrow> address \<Rightarrow> address \<Rightarrow> compliance c_outcome" where
  "add_operator h s admin operator =
     andthen (require_admin h s admin) (\<lambda>_.
     let operators = unwrap_or (c_operators s) [] in
     if operator \<in> set operators then Inr s
     else andthen (require (\<not> length operators \<ge> MAX_OPERATORS) (Err CE_OperatorSetFull)) (\<lambda>_.
       Inr (publish (Ev_operator_added operator) (s\<lparr>c_operators := Some (operators @ [operator])\<rparr>))))"

definition remove_operator :: "'w host \<Rightarrow> compliance \<Rightarrow> address \<Rightarrow> address \<Rightarrow> compliance c_outcome" where
  "remove_operator h s admin operator =
     andthen (require_admin h s admin) (\<lambda>_.
     let operators = unwrap_or (c_operators s) [];
         new_operators = drop_value operator operators
     in if operator \<in> set operators
        then Inr (publish (Ev_operator_removed operator) (s\<lparr>c_operators := Some new_operators\<rparr>))
        else Inr s)"

definition get_allow_expiry :: "compliance \<Rightarrow> address \<Rightarrow> u64 option" where
  "get_allow_expiry s address = c_allowed_until s address"

section \<open>Sweeping lapsed allowances\<close>

definition sweep_one :: "'w host \<Rightarrow> address \<Rightarrow> address \<Rightarrow> compliance \<Rightarrow> compliance" where
  "sweep_one h admin addr s =
     publish (Ev_address_allow_expired addr)
       (append_status_history h addr AS_Expired admin
         (s\<lparr>c_allowed := (c_allowed s)(addr \<mapsto> False),
            c_allowed_until := (c_allowed_until s)(addr := None),
            c_allow_count := Some (saturating_sub (unwrap_or (c_allow_count s) 0) 1)\<rparr>))"

definition allow_lapsed :: "'w host \<Rightarrow> compliance \<Rightarrow> address \<Rightarrow> bool" where
  "allow_lapsed h s addr =
     (unwrap_or (c_allowed s addr) False \<and>
      (case c_allowed_until s addr of Some expires_at \<Rightarrow> h_now h \<ge> expires_at | None \<Rightarrow> False))"

fun sweep_loop ::
    "'w host \<Rightarrow> address \<Rightarrow> u32 \<Rightarrow> address list \<Rightarrow> u32 \<Rightarrow> compliance \<Rightarrow> (u32 \<times> compliance) c_outcome" where
  "sweep_loop h admin limit [] swept s = Inr (swept, s)"
| "sweep_loop h admin limit (addr # addrs) swept s =
     (if limit > 0 \<and> swept \<ge> limit then Inr (swept, s)
      else if allow_lapsed h s addr
      then andthen (ok_or (checked_add swept 1) Trap) (\<lambda>swept'.
             sweep_loop h admin limit addrs swept' (sweep_one h admin addr s))
      else sweep_loop h admin limit addrs swept s)"

definition sweep_expired :: "'w host \<Rightarrow> compliance \<Rightarrow> address \<Rightarrow> u32 \<Rightarrow> (u32 \<times> compliance) c_outcome" where
  "sweep_expired h s admin limit =
     andthen (require_admin_or_operator h s admin) (\<lambda>_.
       sweep_loop h admin limit (address_index s) 0 s)"

section \<open>Snapshots\<close>

definition address_state :: "'w host \<Rightarrow> compliance \<Rightarrow> address \<Rightarrow> AddressState" where
  "address_state h s addr =
     (if unwrap_or (c_blocked s addr) False then AS_Blocked
      else if \<not> unwrap_or (c_allowed s addr) False then AS_Blocked
      else case c_allowed_until s addr of
             Some expires_at \<Rightarrow> if h_now h < expires_at then AS_Allowed else AS_Expired
           | None \<Rightarrow> AS_Allowed)"

definition address_status :: "'w host \<Rightarrow> compliance \<Rightarrow> address \<Rightarrow> address \<Rightarrow> AddressState c_outcome" where
  "address_status h s caller address =
     andthen (require_admin_or_operator h s caller) (\<lambda>_.
       Inr (if unwrap_or (c_blocked s address) False then AS_Blocked
            else if \<not> unwrap_or (c_allowed s address) False then AS_Blocked
            else case c_allowed_until s address of
                   Some expires_at \<Rightarrow> if h_now h < expires_at then AS_Allowed else AS_Expired
                 | None \<Rightarrow> AS_Allowed))"

text \<open>
  \<open>start + limit as usize\<close> is 32-bit arithmetic on the contract's target and is
  checked. An index past the end of a \<open>Vec\<close> traps in \<open>get_unchecked\<close>.
\<close>

definition export_snapshot ::
    "'w host \<Rightarrow> compliance \<Rightarrow> address \<Rightarrow> u32 \<Rightarrow> u32 \<Rightarrow> (address \<times> AddressState) list c_outcome" where
  "export_snapshot h s admin offset limit =
     andthen (require_admin h s admin) (\<lambda>_.
     let index = address_index s in
     andthen (if limit = 0 then Inr (length index)
              else andthen (ok_or (checked_add offset limit) Trap) (\<lambda>e. Inr (min (unat e) (length index)))) (\<lambda>end_idx.
       Inr (map (\<lambda>i. (index ! i, address_state h s (index ! i))) [unat offset..<end_idx])))"

definition get_unchecked :: "'a list \<Rightarrow> nat \<Rightarrow> 'a c_outcome" where
  "get_unchecked xs i = (if i < length xs then Inr (xs ! i) else Inl Trap)"

text \<open>
  The two nested \<open>while\<close> loops of \<open>export_snapshot_page\<close>. The loop counter stays
  below the stored \<open>u32\<close> count, so \<open>i\<close>, \<open>(i / page_size + 1) * page_size\<close> and the
  cast of the page number to \<open>u32\<close> cannot overflow and are natural numbers here.
\<close>

function page_items ::
    "'w host \<Rightarrow> compliance \<Rightarrow> AddressState option \<Rightarrow> address list \<Rightarrow> nat \<Rightarrow> nat \<Rightarrow>
     (address \<times> AddressState) list \<Rightarrow> (address \<times> AddressState) list c_outcome" where
  "page_items h s state page i page_end result =
     (if i < page_end
      then andthen (get_unchecked page (i mod unat ADDR_INDEX_PAGE_SIZE)) (\<lambda>addr.
             let addr_state = address_state h s addr in
             page_items h s state page (i + 1) page_end
               (if (case state of None \<Rightarrow> True | Some st \<Rightarrow> st = addr_state)
                then result @ [(addr, addr_state)] else result))
      else Inr result)"
  by pat_completeness auto
termination by (relation "measure (\<lambda>(h, s, state, page, i, page_end, result). page_end - i)") auto

function snapshot_pages ::
    "'w host \<Rightarrow> compliance \<Rightarrow> AddressState option \<Rightarrow> nat \<Rightarrow> nat \<Rightarrow>
     (address \<times> AddressState) list \<Rightarrow> (address \<times> AddressState) list c_outcome" where
  "snapshot_pages h s state i end_idx result =
     (if i < end_idx
      then let page_size = unat ADDR_INDEX_PAGE_SIZE;
               page = index_page s (word_of_nat (i div page_size));
               page_end = min ((i div page_size + 1) * page_size) end_idx
           in andthen (page_items h s state page i page_end result) (\<lambda>result'.
              snapshot_pages h s state page_end end_idx result')
      else Inr result)"
  by pat_completeness auto
termination
proof (relation "measure (\<lambda>(h, s, state, i, end_idx, result). end_idx - i)")
  fix i end_idx :: nat
  assume "i < end_idx"
  moreover have "i < (i div 25 + 1) * 25" by (simp add: dividend_less_div_times)
  ultimately have "i < min ((i div 25 + 1) * 25) end_idx" by simp
  then show "((h, s, state, page_end, end_idx, r), (h, s, state, i, end_idx, result))
      \<in> measure (\<lambda>(h, s, state, i, end_idx, result). end_idx - i)"
    if "page_size = unat ADDR_INDEX_PAGE_SIZE" "page_end = min ((i div page_size + 1) * page_size) end_idx"
    for h :: "'w host" and s :: compliance and state :: "AddressState option" and page_size page_end
      and r result :: "(address \<times> AddressState) list"
    using that \<open>i < end_idx\<close> by (simp add: ADDR_INDEX_PAGE_SIZE_def)
qed simp

definition export_snapshot_page ::
    "'w host \<Rightarrow> compliance \<Rightarrow> address \<Rightarrow> u64 \<Rightarrow> u64 \<Rightarrow> AddressState option \<Rightarrow>
     (address \<times> AddressState) list c_outcome" where
  "export_snapshot_page h s admin start limit state =
     andthen (require_admin h s admin) (\<lambda>_.
     let total = unat (unwrap_or (c_index_count s) 0) in
     if limit = 0 \<or> unat start \<ge> total then Inr []
     else
       let end_idx = min (unat (saturating_add start limit)) total in
       snapshot_pages h s state (unat start) end_idx [])"

declare page_items.simps [simp del] snapshot_pages.simps [simp del]

section \<open>The shared interfaces\<close>

interpretation compliance_switch: pausable pause unpause is_paused c_admin
  by unfold_locales
    (auto simp: pause_def pause_with_reason_def unpause_def require_admin_def is_paused_def publish_def result_simps)

interpretation compliance_handover: two_step_admin transfer_admin accept_admin c_admin c_pending_admin
  by unfold_locales
    (auto simp: transfer_admin_def accept_admin_def require_admin_def publish_def result_simps)

end
