(* ===== verification/Compliance_Index.thy ===== *)
theory Compliance_Index
  imports Compliance_Ops
begin

text \<open>
  The paged address index of the compliance contract is a bounded, insertion
  ordered set. \<open>bounded_registry\<close> is the interface the entrypoints rely on; its
  laws are proved for \<open>track_address\<close> and \<open>address_index\<close>, and the client facts (what
  a batch of insertions leaves behind) are proved once inside it.
\<close>

section \<open>The interface\<close>

locale bounded_registry =
  fixes ok :: "'s \<Rightarrow> bool"
    and items :: "'s \<Rightarrow> 'a list"
    and track :: "'a \<Rightarrow> 's \<Rightarrow> 'f + 's"
    and capacity :: nat
    and full :: 'f
  assumes items_distinct: "ok s \<Longrightarrow> distinct (items s)"
    and items_bounded: "ok s \<Longrightarrow> length (items s) \<le> capacity"
    and track_ok: "ok s \<Longrightarrow> track a s = Inr t \<Longrightarrow> ok t \<and> items t = push_new a (items s)"
    and track_fails: "ok s \<Longrightarrow>
      track a s = Inl f \<longleftrightarrow> a \<notin> set (items s) \<and> length (items s) = capacity \<and> f = full"
begin

lemma track_succeeds:
  "ok s \<Longrightarrow> a \<in> set (items s) \<or> length (items s) < capacity \<Longrightarrow> \<exists>t. track a s = Inr t"
  using track_fails by (cases "track a s") auto

lemma track_all:
  "ok s \<Longrightarrow> fold_result track as s = Inr t \<Longrightarrow> ok t \<and> items t = fold push_new as (items s)"
proof (induction "as" arbitrary: s)
  case (Cons a "as")
  then obtain u where "track a s = Inr u" "fold_result track as u = Inr t"
    by (auto simp: result_simps)
  with track_ok [of s a u] Cons.prems Cons.IH [of u] show ?case by simp
qed simp

lemma track_keeps_members: "ok s \<Longrightarrow> track a s = Inr t \<Longrightarrow> set (items t) = insert a (set (items s))"
  using track_ok by simp

end

section \<open>Chunks of a list\<close>

definition chunk :: "nat \<Rightarrow> 'a list \<Rightarrow> nat \<Rightarrow> 'a list" where
  "chunk k xs n = take k (drop (k * n) xs)"

lemma concat_chunks: "concat (map (chunk k xs) [0..<n]) = take (k * n) xs"
proof (induction n)
  case (Suc n)
  have "take (k * n + k) xs = take (k * n) xs @ take k (drop (k * n) xs)"
    by (rule take_add)
  with Suc show ?case by (simp add: chunk_def add.commute)
qed simp

lemma chunk_append_same: "n = length xs div k \<Longrightarrow> 0 < k \<Longrightarrow> chunk k (xs @ [x]) n = chunk k xs n @ [x]"
proof -
  assume n: "n = length xs div k" and k: "0 < k"
  have "length xs - k * n < k" "k * n \<le> length xs"
    using k by (simp_all add: n minus_mult_div_eq_mod)
  then show ?thesis by (simp add: chunk_def)
qed

lemma chunk_append_other:
  assumes "n \<noteq> length xs div k" and "0 < k"
  shows "chunk k (xs @ [x]) n = chunk k xs n"
proof (cases "n < length xs div k")
  case True
  then have "(n + 1) * k \<le> (length xs div k) * k" by (intro mult_le_mono1) simp
  also have "\<dots> \<le> length xs" by simp
  finally show ?thesis by (simp add: chunk_def algebra_simps)
next
  case False
  with assms have "length xs div k + 1 \<le> n" by simp
  then have "(length xs div k + 1) * k \<le> n * k" by (rule mult_le_mono1)
  moreover have "length xs < (length xs div k + 1) * k"
    using assms(2) by (metis dividend_less_div_times mult.commute add.commute mult_Suc Suc_eq_plus1)
  ultimately have "length xs < k * n" by (simp add: mult.commute)
  then show ?thesis by (simp add: chunk_def)
qed

lemma chunk_nth: "i < length xs \<Longrightarrow> 0 < k \<Longrightarrow> i mod k < length (chunk k xs (i div k)) \<and>
    chunk k xs (i div k) ! (i mod k) = xs ! i"
proof -
  assume i: "i < length xs" and k: "0 < k"
  have "k * (i div k) + i mod k = i" by simp
  with i have "i mod k < length xs - k * (i div k)" by linarith
  with i k show ?thesis by (simp add: chunk_def nth_drop)
qed

section \<open>What the pages hold\<close>

definition index_fields :: "compliance \<Rightarrow> _" where
  "index_fields s = (c_index_page s, c_index_count s, c_addr_tracked s)"

definition index_holds :: "compliance \<Rightarrow> address list \<Rightarrow> bool" where
  "index_holds s xs \<longleftrightarrow>
     distinct xs \<and> length xs \<le> 2000 \<and> unat (unwrap_or (c_index_count s) 0) = length xs \<and>
     dom (c_addr_tracked s) = set xs \<and> (\<forall>p. index_page s p = chunk 25 xs (unat p))"

definition index_ok :: "compliance \<Rightarrow> bool" where
  "index_ok s \<longleftrightarrow> index_holds s (address_index s)"

lemma index_fields_cong:
  "index_fields t = index_fields s \<Longrightarrow> index_holds t xs = index_holds s xs"
  "index_fields t = index_fields s \<Longrightarrow> address_index t = address_index s"
  "index_fields t = index_fields s \<Longrightarrow> index_ok t = index_ok s"
  "index_fields t = index_fields s \<Longrightarrow> index_page t p = index_page s p"
  by (simp_all add: index_ok_def index_fields_def index_holds_def address_index_def index_page_def)

lemma div_ceil_25: "(n + 24) div 25 = (if n mod 25 > 0 then n div 25 + 1 else n div 25)" for n :: nat
proof -
  have "n + 24 = n div 25 * 25 + (n mod 25 + 24)" by simp
  then have "(n + 24) div 25 = n div 25 + (n mod 25 + 24) div 25"
    by (metis add.commute div_mult_self3 zero_neq_numeral)
  moreover have "(n mod 25 + 24) div 25 = 1" if "n mod 25 > 0"
    using that by (intro div_nat_eqI) simp_all
  ultimately show ?thesis by simp
qed

lemma unat_word_of_nat_u32: "n < 2 ^ 32 \<Longrightarrow> unat (word_of_nat n :: u32) = n"
  by (simp add: unat_of_nat)

lemma div_ceil_page:
  assumes "unat count \<le> 2000"
  shows "unat (div_ceil count ADDR_INDEX_PAGE_SIZE) = (unat count + 24) div 25"
proof -
  let ?n = "unat count"
  have d: "unat (count div ADDR_INDEX_PAGE_SIZE) = ?n div 25" "unat (count mod ADDR_INDEX_PAGE_SIZE) = ?n mod 25"
    by (simp_all add: ADDR_INDEX_PAGE_SIZE_def unat_div unat_mod)
  have "unat (count div ADDR_INDEX_PAGE_SIZE + 1) = ?n div 25 + 1"
    using assms d(1) by (subst unat_word_ariths) simp
  moreover have "count mod ADDR_INDEX_PAGE_SIZE > 0 \<longleftrightarrow> ?n mod 25 > 0"
    using d(2) by (simp add: word_less_nat_alt)
  moreover note div_ceil_25 [of ?n]
  ultimately show ?thesis using d by (simp add: div_ceil_def Let_def)
qed

lemma index_holds_address_index: "index_holds s xs \<Longrightarrow> address_index s = xs"
proof -
  assume *: "index_holds s xs"
  let ?count = "unwrap_or (c_index_count s) 0"
  let ?n = "(length xs + 24) div 25"
  from * have len: "unat ?count = length xs" "length xs \<le> 2000" by (simp_all add: index_holds_def)
  have pages: "unat (div_ceil ?count ADDR_INDEX_PAGE_SIZE) = ?n" using div_ceil_page [of ?count] len by simp
  have page: "index_page s (word_of_nat p) = chunk 25 xs p" if "p < ?n" for p
  proof -
    from that len have "p < 2 ^ 32" by simp
    then have "unat (word_of_nat p :: u32) = p" by (rule unat_word_of_nat_u32)
    with * show ?thesis by (simp add: index_holds_def)
  qed
  have "address_index s = concat (map (\<lambda>p. index_page s (word_of_nat p)) [0..<?n])"
    by (simp add: address_index_def pages)
  also have "map (\<lambda>p. index_page s (word_of_nat p)) [0..<?n] = map (chunk 25 xs) [0..<?n]"
    using page by simp
  also have "concat (map (chunk 25 xs) [0..<?n]) = take (25 * ?n) xs" by (rule concat_chunks)
  also have "25 * ?n + (length xs + 24) mod 25 = length xs + 24" "(length xs + 24) mod 25 < 25" by simp_all
  then have "length xs \<le> 25 * ?n" by linarith
  then have "take (25 * ?n) xs = xs" by simp
  finally show ?thesis .
qed

lemma index_ok_iff: "index_ok s \<longleftrightarrow> (\<exists>xs. index_holds s xs)"
  using index_holds_address_index by (auto simp: index_ok_def)

lemma empty_index_ok: "index_ok empty_compliance"
  by (auto simp: index_ok_iff index_holds_def empty_compliance_def index_page_def chunk_def intro!: exI [of _ "[]"])

section \<open>Tracking an address\<close>

lemma tracked_iff: "index_ok s \<Longrightarrow> c_addr_tracked s a \<noteq> None \<longleftrightarrow> a \<in> set (address_index s)"
  by (auto simp: index_ok_def index_holds_def)

lemma track_new:
  assumes "index_ok s" and new: "c_addr_tracked s a = None"
  shows "track_address a s =
     (if length (address_index s) = 2000 then Inl (Err CE_AddressIndexFull)
      else Inr (s\<lparr>c_index_page := (c_index_page s)(word_of_nat (length (address_index s) div 25) \<mapsto>
                   chunk 25 (address_index s) (length (address_index s) div 25) @ [a]),
                  c_addr_tracked := (c_addr_tracked s)(a \<mapsto> ()),
                  c_index_count := Some (word_of_nat (length (address_index s) + 1))\<rparr>))"
proof -
  let ?xs = "address_index s" and ?count = "unwrap_or (c_index_count s) 0"
  from assms have h: "index_holds s ?xs" by (simp add: index_ok_def)
  then have len: "unat ?count = length ?xs" "length ?xs \<le> 2000" by (simp_all add: index_holds_def)
  have count: "?count = word_of_nat (length ?xs)"
    by (simp flip: len(1))
  have key: "?count div ADDR_INDEX_PAGE_SIZE = word_of_nat (length ?xs div 25)"
    using len by (simp add: word_eq_unat_iff ADDR_INDEX_PAGE_SIZE_def unat_div unat_of_nat)
  have full: "MAX_TRACKED_ADDRESSES \<le> ?count \<longleftrightarrow> length ?xs = 2000"
    using len by (auto simp: MAX_TRACKED_ADDRESSES_def word_le_nat_alt)
  have page: "index_page s (word_of_nat (length ?xs div 25)) = chunk 25 ?xs (length ?xs div 25)"
    using h len by (simp add: index_holds_def unat_of_nat)
  have next_count: "checked_add ?count 1 = Some (word_of_nat (length ?xs + 1))" if "length ?xs \<noteq> 2000"
    unfolding checked_add_Some using len that by (subst unat_word_of_nat_u32) simp_all
  show ?thesis
    using new full key page next_count by (simp add: track_address_def Let_def)
qed

lemma track_holds:
  assumes ok: "index_ok s" and t: "track_address a s = Inr t"
  shows "index_holds t (push_new a (address_index s))"
proof (cases "c_addr_tracked s a = None")
  case False
  with ok t have "t = s" "a \<in> set (address_index s)" using tracked_iff [OF ok, of a] by (simp_all add: track_address_def)
  with ok show ?thesis by (simp add: index_ok_def)
next
  case True
  let ?xs = "address_index s"
  from ok have h: "index_holds s ?xs" by (simp add: index_ok_def)
  from True ok have new: "a \<notin> set ?xs" using tracked_iff [of s a] by simp
  from t track_new [OF ok True] have len: "length ?xs < 2000"
    using h by (auto simp: index_holds_def split: if_splits)
  with t track_new [OF ok True] have t: "t = s\<lparr>c_index_page := (c_index_page s)(word_of_nat (length ?xs div 25) \<mapsto>
                   chunk 25 ?xs (length ?xs div 25) @ [a]),
                  c_addr_tracked := (c_addr_tracked s)(a \<mapsto> ()),
                  c_index_count := Some (word_of_nat (length ?xs + 1))\<rparr>" by simp
  have pages: "index_page t p = chunk 25 (?xs @ [a]) (unat p)" for p
  proof (cases "unat p = length ?xs div 25")
    case True
    then have "p = word_of_nat (length ?xs div 25)" by (simp flip: True)
    then show ?thesis using True by (simp add: t index_page_def chunk_append_same)
  next
    case False
    then have "p \<noteq> word_of_nat (length ?xs div 25)" using len by (auto simp: unat_of_nat)
    with False h show ?thesis by (simp add: t index_page_def index_holds_def chunk_append_other)
  qed
  have "unat (word_of_nat (length ?xs + 1) :: u32) = length ?xs + 1"
    using len by (subst unat_of_nat) simp
  with new len h pages show ?thesis by (simp add: index_holds_def t)
qed

interpretation address_registry:
  bounded_registry index_ok address_index track_address 2000 "Err CE_AddressIndexFull"
proof
  fix s t :: compliance and a :: address and f :: "ComplianceError fault"
  show "distinct (address_index s)" "length (address_index s) \<le> 2000" if "index_ok s"
    using that by (simp_all add: index_ok_def index_holds_def)
  show "index_ok t \<and> address_index t = push_new a (address_index s)"
    if "index_ok s" "track_address a s = Inr t"
    using track_holds [OF that] index_holds_address_index index_ok_iff by blast
  show "track_address a s = Inl f \<longleftrightarrow>
      a \<notin> set (address_index s) \<and> length (address_index s) = 2000 \<and> f = Err CE_AddressIndexFull"
    if "index_ok s"
    using that tracked_iff [OF that, of a] track_new [OF that, of a]
    by (cases "c_addr_tracked s a = None") (auto simp: track_address_def)
qed

text \<open>Tracking changes the index and nothing else.\<close>

lemma track_address_frame:
  "track_address a s = Inr t \<Longrightarrow>
    \<exists>pages count tracked. t = s\<lparr>c_index_page := pages, c_addr_tracked := tracked, c_index_count := count\<rparr>"
proof -
  assume "track_address a s = Inr t"
  then consider "t = s" | pages count tracked where
      "t = s\<lparr>c_index_page := pages, c_addr_tracked := tracked, c_index_count := count\<rparr>"
    by (auto simp: track_address_def Let_def result_simps split: if_splits)
  then show ?thesis
  proof cases
    case 1
    then have "t = s\<lparr>c_index_page := c_index_page s, c_addr_tracked := c_addr_tracked s, c_index_count := c_index_count s\<rparr>"
      by simp
    then show ?thesis by blast
  qed blast
qed

section \<open>Paged export\<close>

text \<open>
  The two nested loops of \<open>export_snapshot_page\<close> compute a slice of the index,
  filtered by state.
\<close>

definition snapshot_slice ::
    "'w host \<Rightarrow> compliance \<Rightarrow> AddressState option \<Rightarrow> nat \<Rightarrow> nat \<Rightarrow> (address \<times> AddressState) list" where
  "snapshot_slice h s state i j =
     filter (\<lambda>(a, st). state = None \<or> state = Some st)
       (map (\<lambda>a. (a, address_state h s a)) (take (j - i) (drop i (address_index s))))"

lemma snapshot_slice_empty [simp]: "\<not> i < j \<Longrightarrow> snapshot_slice h s state i j = []"
  by (simp add: snapshot_slice_def)

lemma snapshot_slice_Cons:
  assumes "i < j" "i < length (address_index s)"
  shows "snapshot_slice h s state i j =
    (if state = None \<or> state = Some (address_state h s (address_index s ! i))
     then [(address_index s ! i, address_state h s (address_index s ! i))] else []) @
    snapshot_slice h s state (i + 1) j"
proof -
  have "take (j - i) (drop i (address_index s)) =
      address_index s ! i # take (j - (i + 1)) (drop (i + 1) (address_index s))"
    using assms by (simp flip: Cons_nth_drop_Suc add: take_Cons' diff_diff_left)
  then show ?thesis by (simp add: snapshot_slice_def)
qed

lemma snapshot_slice_append:
  assumes "i \<le> j" "j \<le> k"
  shows "snapshot_slice h s state i k = snapshot_slice h s state i j @ snapshot_slice h s state j k"
proof -
  have "take (k - i) (drop i xs) = take (j - i) (drop i xs) @ take (k - j) (drop j xs)" for xs :: "address list"
    using assms take_add [of "j - i" "k - j" "drop i xs"] by simp
  then show ?thesis by (simp add: snapshot_slice_def)
qed

lemma page_items_slice:
  assumes ok: "index_ok s" and "page_end \<le> length (address_index s)"
    and "page_end \<le> (p + 1) * 25" and "p * 25 \<le> i"
  shows "page_items h s state (chunk 25 (address_index s) p) i page_end result =
    Inr (result @ snapshot_slice h s state i page_end)"
  using assms(2-)
proof (induction "page_end - i" arbitrary: i result)
  case 0
  then show ?case by (simp add: page_items.simps)
next
  case (Suc n)
  then have i: "i < page_end" "i < length (address_index s)" by simp_all
  with Suc.prems have "i div 25 = p" by (simp add: div_nat_eqI mult.commute)
  with chunk_nth [OF i(2), of 25] have
    "get_unchecked (chunk 25 (address_index s) p) (i mod 25) = Inr (address_index s ! i)"
    by (simp add: get_unchecked_def)
  with i Suc(1) [of "i + 1"] Suc(2-) show ?case
    by (subst page_items.simps)
      (auto simp: ADDR_INDEX_PAGE_SIZE_def Let_def snapshot_slice_Cons split: option.splits)
qed

lemma snapshot_pages_slice:
  assumes ok: "index_ok s" and e: "end_idx \<le> length (address_index s)"
  shows "snapshot_pages h s state i end_idx result = Inr (result @ snapshot_slice h s state i end_idx)"
proof (induction "end_idx - i" arbitrary: i result rule: less_induct)
  case less
  show ?case
  proof (cases "i < end_idx")
    case True
    let ?p = "i div 25" and ?e = "min ((i div 25 + 1) * 25) end_idx"
    have bounds: "i < ?e" "?e \<le> end_idx" "?p * 25 \<le> i"
      using True by (auto simp: dividend_less_div_times)
    have "length (address_index s) \<le> 2000" by (rule address_registry.items_bounded [OF ok])
    with True e have "i < 2000" by linarith
    then have "?p < 2 ^ 32" by simp
    then have page: "index_page s (word_of_nat ?p) = chunk 25 (address_index s) ?p"
      using ok unat_word_of_nat_u32 [of ?p] by (simp add: index_ok_def index_holds_def)
    have items: "page_items h s state (chunk 25 (address_index s) ?p) i ?e result =
        Inr (result @ snapshot_slice h s state i ?e)"
      using bounds e by (intro page_items_slice [OF ok]) auto
    have rest: "snapshot_pages h s state ?e end_idx r = Inr (r @ snapshot_slice h s state ?e end_idx)" for r
      using bounds True by (intro less.hyps) linarith
    show ?thesis
      using True items rest bounds snapshot_slice_append [of i ?e end_idx h s state]
      by (subst snapshot_pages.simps) (simp add: page ADDR_INDEX_PAGE_SIZE_def Let_def)
  qed (simp add: snapshot_pages.simps)
qed

lemma export_snapshot_page_slice:
  assumes ok: "index_ok s" and "export_snapshot_page h s admin start limit state = Inr r"
  shows "r = snapshot_slice h s state (unat start)
    (min (unat start + unat limit) (length (address_index s)))"
proof -
  let ?n = "length (address_index s)"
  have n: "unat (unwrap_or (c_index_count s) 0) = ?n" "?n \<le> 2000"
    using ok by (simp_all add: index_ok_def index_holds_def)
  have m: "min (unat (saturating_add start limit)) ?n = min (unat start + unat limit) ?n"
    using n(2) by (auto simp: arith_simps min_def)
  have limit: "limit = 0 \<longleftrightarrow> unat limit = 0" by (rule unat_eq_0 [symmetric])
  show ?thesis
    using assms(2) snapshot_pages_slice [OF ok, of "min (unat start + unat limit) ?n" h state "unat start" "[]"]
    by (auto simp: export_snapshot_page_def result_simps Let_def n m limit split: if_splits)
qed

end
