(* ===== verification/Compliance_Calls.thy ===== *)
theory Compliance_Calls
  imports Compliance_Index
begin

text \<open>
  The compliance contract as a state machine: one constructor per entrypoint that
  can change storage, the dispatcher, the reachable states, and the invariant
  \<open>compliance_ok\<close> that every call keeps.
\<close>

datatype (plugins only: code) ComplianceCall =
    K_initialize address
  | K_bulk_allow_addresses address "address list"
  | K_allow_address address address
  | K_allow_address_with_tier address address u32
  | K_set_tier_limit address u32 i128
  | K_set_jurisdiction address address bytes
  | K_bulk_block_addresses address "address list"
  | K_block_address address address "BlockReason option"
  | K_block_address_until address address u64 "BlockReason option"
  | K_migrate address
  | K_allow_address_until address address u64
  | K_transfer_admin address address
  | K_cancel_admin_transfer address
  | K_accept_admin address
  | K_clear_address address address
  | K_revoke_allow address address
  | K_pause address
  | K_pause_with_reason address string
  | K_unpause address
  | K_set_blocklist_root address bytes
  | K_set_operator address address
  | K_add_operator address address
  | K_remove_operator address address
  | K_sweep_expired address u32

definition snd_of :: "('b \<times> compliance) c_outcome \<Rightarrow> compliance c_outcome" where
  "snd_of r = andthen r (\<lambda>(_, s). Inr s)"

lemma snd_of_eq_Inr: "snd_of r = Inr s' \<longleftrightarrow> (\<exists>x. r = Inr (x, s'))"
  by (auto simp: snd_of_def result_simps)

fun compliance_invoke :: "'w host \<Rightarrow> compliance \<Rightarrow> ComplianceCall \<Rightarrow> compliance c_outcome" where
  "compliance_invoke h s (K_initialize a) = initialize h s a"
| "compliance_invoke h s (K_bulk_allow_addresses a xs) = bulk_allow_addresses h s a xs"
| "compliance_invoke h s (K_allow_address a x) = allow_address h s a x"
| "compliance_invoke h s (K_allow_address_with_tier a x t) = allow_address_with_tier h s a x t"
| "compliance_invoke h s (K_set_tier_limit a t l) = set_tier_limit h s a t l"
| "compliance_invoke h s (K_set_jurisdiction a x c) = set_jurisdiction h s a x c"
| "compliance_invoke h s (K_bulk_block_addresses a xs) = bulk_block_addresses h s a xs"
| "compliance_invoke h s (K_block_address a x r) = block_address h s a x r"
| "compliance_invoke h s (K_block_address_until a x t r) = block_address_until h s a x t r"
| "compliance_invoke h s (K_migrate a) = snd_of (migrate h s a)"
| "compliance_invoke h s (K_allow_address_until a x t) = allow_address_until h s a x t"
| "compliance_invoke h s (K_transfer_admin a n) = transfer_admin h s a n"
| "compliance_invoke h s (K_cancel_admin_transfer a) = cancel_admin_transfer h s a"
| "compliance_invoke h s (K_accept_admin a) = accept_admin h s a"
| "compliance_invoke h s (K_clear_address a x) = clear_address h s a x"
| "compliance_invoke h s (K_revoke_allow a x) = revoke_allow h s a x"
| "compliance_invoke h s (K_pause a) = pause h s a"
| "compliance_invoke h s (K_pause_with_reason a r) = pause_with_reason h s a r"
| "compliance_invoke h s (K_unpause a) = unpause h s a"
| "compliance_invoke h s (K_set_blocklist_root a r) = set_blocklist_root h s a r"
| "compliance_invoke h s (K_set_operator a x) = set_operator h s a x"
| "compliance_invoke h s (K_add_operator a x) = add_operator h s a x"
| "compliance_invoke h s (K_remove_operator a x) = remove_operator h s a x"
| "compliance_invoke h s (K_sweep_expired a l) = snd_of (sweep_expired h s a l)"

definition compliance_step :: "compliance \<Rightarrow> compliance \<Rightarrow> bool" where
  "compliance_step s t \<longleftrightarrow> (\<exists>(h :: unit host) c. compliance_invoke h s c = Inr t)"

definition compliance_reachable :: "compliance \<Rightarrow> bool" where
  "compliance_reachable = reachable (\<lambda>s. s = empty_compliance) compliance_step"

text \<open>A run of calls, each with its own host environment.\<close>

definition compliance_run :: "(unit host \<times> ComplianceCall) list \<Rightarrow> compliance \<Rightarrow> compliance c_outcome" where
  "compliance_run = fold_result (\<lambda>(h, c) s. compliance_invoke h s c)"

lemma compliance_run_steps: "compliance_run cs s = Inr t \<Longrightarrow> compliance_step\<^sup>*\<^sup>* s t"
  unfolding compliance_run_def
  by (erule fold_result_invariant)
    (auto simp: compliance_step_def intro: rtranclp.rtrancl_into_rtrancl)

lemma compliance_run_reachable: "compliance_run cs empty_compliance = Inr t \<Longrightarrow> compliance_reachable t"
proof -
  assume "compliance_run cs empty_compliance = Inr t"
  then have "compliance_step\<^sup>*\<^sup>* empty_compliance t" by (rule compliance_run_steps)
  then show ?thesis unfolding compliance_reachable_def
    by (auto intro: steps_reachable reachable_init)
qed

section \<open>The invariant\<close>

definition addr_entry :: "compliance \<Rightarrow> address \<Rightarrow> _" where
  "addr_entry s a = (c_allowed s a, c_allowed_until s a, c_blocked s a, c_blocked_until s a, c_blocked_by s a)"

definition compliance_ok :: "compliance \<Rightarrow> bool" where
  "compliance_ok s \<longleftrightarrow>
     index_ok s \<and>
     (\<forall>a. length (get_address_history s a) \<le> MAX_STATUS_HISTORY) \<and>
     distinct (get_operators s) \<and> length (get_operators s) \<le> MAX_OPERATORS \<and>
     (\<forall>a. a \<notin> set (address_index s) \<longrightarrow> addr_entry s a = (None, None, None, None, None)) \<and>
     (\<forall>a. is_blocked s a \<longrightarrow> c_blocked_by s a \<noteq> None)"

lemma compliance_ok_cong:
  assumes "compliance_ok s" and "index_fields t = index_fields s" and "addr_entry t = addr_entry s"
    and "c_status_history t = c_status_history s" and "c_operators t = c_operators s"
  shows "compliance_ok t"
proof -
  have "c_blocked t = c_blocked s \<and> c_blocked_by t = c_blocked_by s"
    using fun_cong [OF assms(3)] by (auto simp: addr_entry_def fun_eq_iff)
  with assms index_fields_cong [OF assms(2)] show ?thesis
    by (simp add: compliance_ok_def get_address_history_def get_operators_def is_blocked_def)
qed

lemma history_bound:
  "(\<forall>a. length (get_address_history s a) \<le> MAX_STATUS_HISTORY) \<Longrightarrow>
    \<forall>b. length (get_address_history (append_status_history h a st actor s) b) \<le> MAX_STATUS_HISTORY"
  using length_drop_oldest [of "unwrap_or (c_status_history s a) []"]
  by (simp add: get_address_history_def append_status_history_def)

text \<open>
  Every entrypoint that touches the entry of an address \<open>a\<close> ends by appending to
  its history, tracking it and publishing an event.
\<close>

lemma tracked_write_ok:
  assumes ok: "compliance_ok s"
    and frame: "index_fields u = index_fields s" "c_operators u = c_operators s"
      "c_status_history u = c_status_history s"
    and others: "\<And>b. b \<noteq> a \<Longrightarrow> addr_entry u b = addr_entry s b"
    and placer: "(c_blocked u a = c_blocked s a \<and> c_blocked_by u a = c_blocked_by s a) \<or>
      c_blocked u a = Some False \<or> c_blocked_by u a \<noteq> None"
    and track: "track_address a (append_status_history h a st actor u) = Inr t"
  shows "compliance_ok (publish e t)"
proof -
  let ?v = "append_status_history h a st actor u"
  have v: "index_fields ?v = index_fields s" "c_operators ?v = c_operators s" "addr_entry ?v = addr_entry u"
    using frame by (simp_all add: append_status_history_def index_fields_def addr_entry_def fun_eq_iff)
  have hist: "\<forall>b. length (get_address_history ?v b) \<le> MAX_STATUS_HISTORY"
    using ok frame(3) by (intro history_bound) (simp add: compliance_ok_def get_address_history_def)
  have vok: "index_ok ?v" using ok index_fields_cong(3) [OF v(1)] by (simp add: compliance_ok_def)
  from address_registry.track_ok [OF vok track]
  have t: "index_ok t" "address_index t = push_new a (address_index s)"
    using index_fields_cong(2) [OF v(1)] by simp_all
  from track_address_frame [OF track] obtain pages count tracked where
    "t = ?v\<lparr>c_index_page := pages, c_addr_tracked := tracked, c_index_count := count\<rparr>" by blast
  then have t': "addr_entry t = addr_entry u" "c_status_history t = c_status_history ?v"
      "c_operators t = c_operators s" "c_blocked t = c_blocked u" "c_blocked_by t = c_blocked_by u"
    using v by (simp_all add: addr_entry_def fun_eq_iff get_address_history_def append_status_history_def)
  have p: "index_ok (publish e t) = index_ok t" "address_index (publish e t) = address_index t"
    by (rule index_fields_cong, simp add: publish_def index_fields_def)+
  have blk: "c_blocked_by u b \<noteq> None" if "is_blocked u b" for b
  proof (cases "b = a")
    case False
    with others [OF False] have "c_blocked u b = c_blocked s b" "c_blocked_by u b = c_blocked_by s b"
      by (simp_all add: addr_entry_def)
    with that ok show ?thesis by (simp add: compliance_ok_def is_blocked_def)
  qed (use that placer ok in \<open>auto simp: compliance_ok_def is_blocked_def\<close>)
  have ent: "addr_entry (publish e t) = addr_entry u" using t'(1) by (simp add: publish_def addr_entry_def fun_eq_iff)
  have "addr_entry u b = (None, None, None, None, None)" if "b \<notin> set (address_index t)" for b
    using that t(2) others [of b] ok by (simp add: compliance_ok_def)
  with t(1) t' hist blk ok show ?thesis
    unfolding compliance_ok_def p ent
    by (simp add: publish_def get_address_history_def get_operators_def is_blocked_def)
qed

lemmas write_defs = Let_def result_simps index_fields_def addr_entry_def bump_allow_count_def
  record_block_placer_def record_block_reason_def

lemma record_allow_ok: "record_allow h admin a s = Inr t \<Longrightarrow> compliance_ok s \<Longrightarrow> compliance_ok t"
  by (auto simp: record_allow_def write_defs elim!: tracked_write_ok [of s, rotated -1] split: if_splits)

lemma record_bulk_block_ok: "record_bulk_block h admin a s = Inr t \<Longrightarrow> compliance_ok s \<Longrightarrow> compliance_ok t"
  by (auto simp: record_bulk_block_def write_defs elim!: tracked_write_ok [of s, rotated -1])

lemma sweep_one_ok:
  assumes "compliance_ok s" "a \<in> set (address_index s)"
  shows "compliance_ok (sweep_one h admin a s)" "address_index (sweep_one h admin a s) = address_index s"
proof -
  let ?u = "s\<lparr>c_allowed := (c_allowed s)(a \<mapsto> False), c_allowed_until := (c_allowed_until s)(a := None),
      c_allow_count := Some (saturating_sub (unwrap_or (c_allow_count s) 0) 1)\<rparr>"
  let ?v = "append_status_history h a AS_Expired admin ?u"
  have ok: "index_ok s" using assms by (simp add: compliance_ok_def)
  have v: "index_fields ?v = index_fields s" by (simp add: index_fields_def append_status_history_def)
  have "track_address a ?v = Inr ?v"
    using tracked_iff [OF ok, of a] assms(2) by (simp add: track_address_def append_status_history_def)
  then have "compliance_ok (publish (Ev_address_allow_expired a) ?v)"
    using assms(1) by (rule tracked_write_ok [rotated -1]) (simp_all add: index_fields_def addr_entry_def)
  then show "compliance_ok (sweep_one h admin a s)" by (simp add: sweep_one_def)
  show "address_index (sweep_one h admin a s) = address_index s"
    by (rule index_fields_cong) (simp add: sweep_one_def publish_def index_fields_def append_status_history_def)
qed

lemma sweep_loop_ok:
  "sweep_loop h admin limit xs n s = Inr (m, t) \<Longrightarrow> compliance_ok s \<Longrightarrow> set xs \<subseteq> set (address_index s) \<Longrightarrow>
    compliance_ok t"
  by (induction h admin limit xs n s rule: sweep_loop.induct)
    (auto simp: result_simps sweep_one_ok split: if_splits)

lemma entry_ops_ok:
  "allow_address h s admin a = Inr t \<Longrightarrow> compliance_ok s \<Longrightarrow> compliance_ok t"
  "allow_address_with_tier h s admin a tier = Inr t \<Longrightarrow> compliance_ok s \<Longrightarrow> compliance_ok t"
  "allow_address_until h s admin a exp = Inr t \<Longrightarrow> compliance_ok s \<Longrightarrow> compliance_ok t"
  "block_address h s caller a reason = Inr t \<Longrightarrow> compliance_ok s \<Longrightarrow> compliance_ok t"
  "block_address_until h s caller a until reason = Inr t \<Longrightarrow> compliance_ok s \<Longrightarrow> compliance_ok t"
  "clear_address h s caller a = Inr t \<Longrightarrow> compliance_ok s \<Longrightarrow> compliance_ok t"
  "revoke_allow h s admin a = Inr t \<Longrightarrow> compliance_ok s \<Longrightarrow> compliance_ok t"
  subgoal by (auto simp: allow_address_def result_simps intro: record_allow_ok)
  subgoal by (auto simp: allow_address_with_tier_def write_defs elim!: tracked_write_ok [of s, rotated -1])
  subgoal by (auto simp: allow_address_until_def write_defs elim!: tracked_write_ok [of s, rotated -1])
  subgoal by (auto simp: block_address_def write_defs elim!: tracked_write_ok [of s, rotated -1]
      split: option.splits)
  subgoal by (auto simp: block_address_until_def write_defs elim!: tracked_write_ok [of s, rotated -1]
      split: option.splits)
  subgoal by (auto simp: clear_address_def write_defs elim!: tracked_write_ok [of s, rotated -1]
      split: if_splits)
  subgoal by (auto simp: revoke_allow_def write_defs elim!: tracked_write_ok [of s, rotated -1])
  done

lemma config_ops_ok:
  "initialize h s a = Inr t \<Longrightarrow> compliance_ok s \<Longrightarrow> compliance_ok t"
  "set_tier_limit h s a tier limit = Inr t \<Longrightarrow> compliance_ok s \<Longrightarrow> compliance_ok t"
  "set_jurisdiction h s a x code = Inr t \<Longrightarrow> compliance_ok s \<Longrightarrow> compliance_ok t"
  "snd_of (migrate h s a) = Inr t \<Longrightarrow> compliance_ok s \<Longrightarrow> compliance_ok t"
  "transfer_admin h s a x = Inr t \<Longrightarrow> compliance_ok s \<Longrightarrow> compliance_ok t"
  "cancel_admin_transfer h s a = Inr t \<Longrightarrow> compliance_ok s \<Longrightarrow> compliance_ok t"
  "accept_admin h s a = Inr t \<Longrightarrow> compliance_ok s \<Longrightarrow> compliance_ok t"
  "pause_with_reason h s a r = Inr t \<Longrightarrow> compliance_ok s \<Longrightarrow> compliance_ok t"
  "pause h s a = Inr t \<Longrightarrow> compliance_ok s \<Longrightarrow> compliance_ok t"
  "unpause h s a = Inr t \<Longrightarrow> compliance_ok s \<Longrightarrow> compliance_ok t"
  "set_blocklist_root h s a root = Inr t \<Longrightarrow> compliance_ok s \<Longrightarrow> compliance_ok t"
  "set_operator h s a x = Inr t \<Longrightarrow> compliance_ok s \<Longrightarrow> compliance_ok t"
  by (erule compliance_ok_cong; auto simp: initialize_def set_tier_limit_def set_jurisdiction_def
      migrate_def transfer_admin_def cancel_admin_transfer_def accept_admin_def pause_with_reason_def
      pause_def unpause_def set_blocklist_root_def set_operator_def snd_of_eq_Inr publish_def
      index_fields_def addr_entry_def result_simps Let_def fun_eq_iff split: if_splits)+

lemma ok_operators: "compliance_ok s \<Longrightarrow> distinct (get_operators s)"
  "compliance_ok s \<Longrightarrow> length (get_operators s) \<le> MAX_OPERATORS"
  by (simp_all add: compliance_ok_def)

lemma operators_change_ok:
  assumes "compliance_ok s" "distinct ops" "length ops \<le> MAX_OPERATORS"
  shows "compliance_ok (publish e (s\<lparr>c_operators := Some ops\<rparr>))"
proof -
  let ?t = "publish e (s\<lparr>c_operators := Some ops\<rparr>)"
  have "index_fields ?t = index_fields s" by (simp add: index_fields_def publish_def)
  note index_fields_cong(2,3) [OF this]
  with assms show ?thesis
    by (simp add: compliance_ok_def get_address_history_def get_operators_def addr_entry_def
        is_blocked_def publish_def)
qed

lemma compliance_invoke_ok:
  assumes ok: "compliance_ok s" and inv: "compliance_invoke h s c = Inr t"
  shows "compliance_ok t"
proof (cases c)
  case (K_bulk_allow_addresses a xs)
  let ?s1 = "s\<lparr>c_last_bulk_allow := (c_last_bulk_allow s)(a \<mapsto> h_now h)\<rparr>"
  from inv K_bulk_allow_addresses have "fold_result (record_allow h a) xs ?s1 = Inr t"
    by (auto simp: bulk_allow_addresses_def result_simps Let_def)
  moreover have "compliance_ok ?s1"
    by (rule compliance_ok_cong [OF ok]) (simp_all add: index_fields_def addr_entry_def fun_eq_iff)
  ultimately show ?thesis by (rule fold_result_invariant) (rule record_allow_ok)
next
  case (K_bulk_block_addresses a xs)
  let ?s1 = "s\<lparr>c_last_bulk_block := (c_last_bulk_block s)(a \<mapsto> h_now h)\<rparr>"
  from inv K_bulk_block_addresses have "fold_result (record_bulk_block h a) xs ?s1 = Inr t"
    by (auto simp: bulk_block_addresses_def result_simps Let_def)
  moreover have "compliance_ok ?s1"
    by (rule compliance_ok_cong [OF ok]) (simp_all add: index_fields_def addr_entry_def fun_eq_iff)
  ultimately show ?thesis by (rule fold_result_invariant) (rule record_bulk_block_ok)
next
  case (K_add_operator a x)
  with inv ok show ?thesis
    by (auto simp: add_operator_def result_simps Let_def ok_operators get_operators_def [symmetric]
        intro!: operators_change_ok split: if_splits)
next
  case (K_remove_operator a x)
  with inv ok show ?thesis
    by (auto simp: remove_operator_def result_simps Let_def ok_operators get_operators_def [symmetric]
        intro!: operators_change_ok intro: order_trans [OF length_drop_value_le] split: if_splits)
next
  case (K_sweep_expired a l)
  with inv ok show ?thesis
    by (auto simp: snd_of_eq_Inr sweep_expired_def result_simps intro: sweep_loop_ok)
qed (use inv entry_ops_ok [OF _ ok] config_ops_ok [OF _ ok] in auto)

interpretation compliance_runs: invariant "\<lambda>s. s = empty_compliance" compliance_step compliance_ok
proof
  show "compliance_ok s" if "s = empty_compliance" for s
    using empty_index_ok that
    by (simp add: compliance_ok_def get_address_history_def get_operators_def addr_entry_def
        is_blocked_def empty_compliance_def)
  show "compliance_ok t" if "compliance_ok s" "compliance_step s t" for s t
    using that compliance_invoke_ok by (auto simp: compliance_step_def)
qed

section \<open>What a call reads of its environment\<close>

text \<open>
  A call depends on the host only through the time and the authorisations, so a
  call made on any ledger is a step of the contract.
\<close>

lemma invoke_reads_host:
  assumes "h_now h = h_now h'" "h_auth h = h_auth h'" 
  shows "compliance_invoke h s c = compliance_invoke h' s c"
proof -
  have g: "require_auth h = (require_auth h' :: _ \<Rightarrow> unit c_outcome)" 
    "require_admin h = require_admin h'" "require_admin_or_operator h = require_admin_or_operator h'"
    "check_bulk_op_cooldown h = check_bulk_op_cooldown h'" 
    "append_status_history h = append_status_history h'"
    using assms by (simp_all add: fun_eq_iff require_auth_def require_admin_def require_admin_or_operator_def check_bulk_op_cooldown_def append_status_history_def)
  then have r: "record_allow h = record_allow h'" "record_bulk_block h = record_bulk_block h'"
     "sweep_one h = sweep_one h'" "allow_lapsed h = allow_lapsed h'"
    using assms by (simp_all add: fun_eq_iff record_allow_def record_bulk_block_def sweep_one_def allow_lapsed_def split: option.split)
  have l: "sweep_loop h a l xs n s = sweep_loop h' a l xs n s" for a l xs n s
    by (induction xs arbitrary: n s) (simp_all add: r)
  show ?thesis
    by (cases c) (simp_all add: g r l assms initialize_def bulk_allow_addresses_def allow_address_def
      allow_address_with_tier_def set_tier_limit_def set_jurisdiction_def bulk_block_addresses_def
      block_address_def block_address_until_def migrate_def allow_address_until_def transfer_admin_def
      cancel_admin_transfer_def accept_admin_def clear_address_def revoke_allow_def pause_def
      pause_with_reason_def unpause_def set_blocklist_root_def set_operator_def add_operator_def
      remove_operator_def sweep_expired_def Let_def cong: if_cong)
qed

lemma call_is_step:
  assumes "compliance_invoke h s c = Inr t"
  shows "compliance_step s t"
proof -
  let ?h = "\<lparr>h_now = h_now h, h_seq = 0, h_self = 0, h_auth = h_auth h, h_transfer = (\<lambda>_ _ _ _ _. None),
    h_balance = (\<lambda>_ _ _. None), h_is_allowed = (\<lambda>_ _ _. None), h_is_allowed_for_amount = (\<lambda>_ _ _ _. None)\<rparr> :: unit host"
  have "compliance_invoke ?h s c = Inr t" using assms invoke_reads_host [of ?h h s c] by simp
  then show ?thesis unfolding compliance_step_def by blast
qed

section \<open>Who becomes admin\<close>

lemma admin_frame [simp]:
  "c_admin (publish e s) = c_admin s" "c_admin (append_status_history h a st actor s) = c_admin s"
  "c_admin (bump_allow_count s) = c_admin s" "c_admin (record_block_placer a b s) = c_admin s"
  "c_admin (record_block_reason a r s) = c_admin s" "c_admin (sweep_one h b a s) = c_admin s"
  by (simp_all add: publish_def append_status_history_def bump_allow_count_def record_block_placer_def
      record_block_reason_def sweep_one_def split: option.split)

lemma track_admin: "track_address a s = Inr t \<Longrightarrow> c_admin t = c_admin s"
  by (auto simp: track_address_def result_simps Let_def split: if_splits)

lemma loops_admin:
  "record_allow h b a s = Inr t \<Longrightarrow> c_admin t = c_admin s"
  "record_bulk_block h b a s = Inr t \<Longrightarrow> c_admin t = c_admin s"
  "sweep_loop h b l xs n s = Inr (m, t) \<Longrightarrow> c_admin t = c_admin s"
  subgoal by (auto simp: record_allow_def result_simps Let_def dest!: track_admin split: if_splits)
  subgoal by (auto simp: record_bulk_block_def result_simps Let_def dest!: track_admin split: if_splits)
  subgoal by (induction h b l xs n s rule: sweep_loop.induct) (auto simp: result_simps split: if_splits)
  done

lemma fold_admin:
  "fold_result (record_allow h b) xs s = Inr t \<Longrightarrow> c_admin t = c_admin s"
  "fold_result (record_bulk_block h b) xs s = Inr t \<Longrightarrow> c_admin t = c_admin s"
  by (erule fold_result_invariant; simp add: loops_admin)+

interpretation compliance_calls: signed_admin compliance_invoke c_admin
proof
  fix h :: "'w host" and s t c
  assume inv: "compliance_invoke h s c = Inr t"
  show "c_admin t = c_admin s \<or> (\<exists>a. c_admin t = Some a \<and> h_auth h a)"
  proof (cases c)
    case (K_sweep_expired a l)
    with inv show ?thesis by (auto simp: snd_of_eq_Inr sweep_expired_def result_simps dest: loops_admin(3))
  qed (use inv in \<open>auto simp: snd_of_eq_Inr initialize_def bulk_allow_addresses_def allow_address_def
      allow_address_with_tier_def set_tier_limit_def set_jurisdiction_def bulk_block_addresses_def
      block_address_def block_address_until_def migrate_def allow_address_until_def transfer_admin_def
      cancel_admin_transfer_def accept_admin_def clear_address_def revoke_allow_def pause_def
      pause_with_reason_def unpause_def set_blocklist_root_def set_operator_def add_operator_def
      remove_operator_def result_simps Let_def dest!: track_admin loops_admin(1) fold_admin
      split: if_splits option.splits\<close>)
qed

end
