(* ===== verification/Compliance_Rules.thy ===== *)
theory Compliance_Rules
  imports Compliance_Calls
begin

text \<open>
  What the compliance decisions mean: the precedence of blocks, allowances and
  expiries as a reference predicate, who can lift a block, what a sweep does, and
  the Merkle tree whose proofs \<open>is_blocked_with_proof\<close> checks.
\<close>

section \<open>Screening\<close>

text \<open>
  The documented precedence, block first: an active block wins over everything;
  otherwise the address needs an allowance that has not expired.
\<close>

definition screening_reference ::
    "bool \<Rightarrow> u64 option \<Rightarrow> bool \<Rightarrow> u64 option \<Rightarrow> u64 \<Rightarrow> bool" where
  "screening_reference blocked blocked_until allowed allowed_until now \<longleftrightarrow>
     (if blocked \<and> (case blocked_until of None \<Rightarrow> True | Some t \<Rightarrow> now < t) then False
      else allowed \<and> (case allowed_until of None \<Rightarrow> True | Some t \<Rightarrow> now < t))"

lemma is_allowed_at_reference:
  "is_allowed_at s a now = screening_reference (is_blocked s a) (c_blocked_until s a)
     (unwrap_or (c_allowed s a) False) (c_allowed_until s a) now"
  by (auto simp: is_allowed_at_def screening_reference_def is_blocked_def split: option.splits)

section \<open>Lifting a block\<close>

lemma record_allow_blocked: "record_allow h admin a s = Inr t \<Longrightarrow> c_blocked t = c_blocked s"
  by (auto simp: record_allow_def Let_def result_simps bump_allow_count_def append_status_history_def
      publish_def dest!: track_address_frame split: if_splits)

lemma record_bulk_block_blocked:
  "record_bulk_block h admin a s = Inr t \<Longrightarrow> c_blocked t = (c_blocked s)(a \<mapsto> True)"
  by (auto simp: record_bulk_block_def Let_def result_simps append_status_history_def
      record_block_placer_def publish_def dest!: track_address_frame)

lemma bulk_allow_blocked: "bulk_allow_addresses h s admin xs = Inr t \<Longrightarrow> c_blocked t = c_blocked s"
  by (auto simp: bulk_allow_addresses_def result_simps Let_def
      elim!: fold_result_invariant [where P = "\<lambda>u. c_blocked u = c_blocked s"] dest!: record_allow_blocked)

lemma bulk_block_blocked: "bulk_block_addresses h s admin xs = Inr t \<Longrightarrow> is_blocked s a \<Longrightarrow> is_blocked t a"
  by (auto simp: bulk_block_addresses_def result_simps Let_def is_blocked_def
      elim!: fold_result_invariant [where P = "\<lambda>u. unwrap_or (c_blocked u a) False"]
      dest!: record_bulk_block_blocked)

lemma sweep_blocked: "sweep_loop h admin limit xs n s = Inr (m, t) \<Longrightarrow> c_blocked t = c_blocked s"
  by (induction h admin limit xs n s rule: sweep_loop.induct)
    (auto simp: result_simps sweep_one_def publish_def append_status_history_def split: if_splits)

lemma entry_ops_blocked:
  "allow_address h s admin a = Inr t \<Longrightarrow> c_blocked t = c_blocked s"
  "allow_address_with_tier h s admin a tier = Inr t \<Longrightarrow> c_blocked t = c_blocked s"
  "allow_address_until h s admin a exp = Inr t \<Longrightarrow> c_blocked t = c_blocked s"
  "block_address h s caller a reason = Inr t \<Longrightarrow> c_blocked t = (c_blocked s)(a \<mapsto> True)"
  "block_address_until h s caller a until reason = Inr t \<Longrightarrow> c_blocked t = (c_blocked s)(a \<mapsto> True)"
  "clear_address h s caller a = Inr t \<Longrightarrow> c_blocked t = (c_blocked s)(a \<mapsto> False)"
  "revoke_allow h s admin a = Inr t \<Longrightarrow> c_blocked t = c_blocked s"
  by (auto simp: allow_address_def allow_address_with_tier_def allow_address_until_def block_address_def
      block_address_until_def clear_address_def revoke_allow_def Let_def result_simps bump_allow_count_def
      append_status_history_def record_block_placer_def record_block_reason_def publish_def
      dest!: track_address_frame record_allow_blocked split: if_splits option.splits)

lemma config_ops_blocked:
  "initialize h s a = Inr t \<Longrightarrow> c_blocked t = c_blocked s"
  "set_tier_limit h s a tier limit = Inr t \<Longrightarrow> c_blocked t = c_blocked s"
  "set_jurisdiction h s a x code = Inr t \<Longrightarrow> c_blocked t = c_blocked s"
  "snd_of (migrate h s a) = Inr t \<Longrightarrow> c_blocked t = c_blocked s"
  "transfer_admin h s a x = Inr t \<Longrightarrow> c_blocked t = c_blocked s"
  "cancel_admin_transfer h s a = Inr t \<Longrightarrow> c_blocked t = c_blocked s"
  "accept_admin h s a = Inr t \<Longrightarrow> c_blocked t = c_blocked s"
  "pause_with_reason h s a r = Inr t \<Longrightarrow> c_blocked t = c_blocked s"
  "pause h s a = Inr t \<Longrightarrow> c_blocked t = c_blocked s"
  "unpause h s a = Inr t \<Longrightarrow> c_blocked t = c_blocked s"
  "set_blocklist_root h s a root = Inr t \<Longrightarrow> c_blocked t = c_blocked s"
  "set_operator h s a x = Inr t \<Longrightarrow> c_blocked t = c_blocked s"
  "add_operator h s a x = Inr t \<Longrightarrow> c_blocked t = c_blocked s"
  "remove_operator h s a x = Inr t \<Longrightarrow> c_blocked t = c_blocked s"
  "snd_of (sweep_expired h s a l) = Inr t \<Longrightarrow> c_blocked t = c_blocked s"
  by (auto simp: initialize_def set_tier_limit_def set_jurisdiction_def migrate_def transfer_admin_def
      cancel_admin_transfer_def accept_admin_def pause_with_reason_def pause_def unpause_def
      set_blocklist_root_def set_operator_def add_operator_def remove_operator_def sweep_expired_def
      snd_of_eq_Inr publish_def result_simps Let_def dest!: sweep_blocked split: if_splits)

lemma unblocked_by_clear:
  assumes "compliance_invoke h s c = Inr t" and "is_blocked s a" and "\<not> is_blocked t a"
  obtains caller where "c = K_clear_address caller a"
  using assms
  by (cases c) (auto simp: is_blocked_def bulk_block_blocked [unfolded is_blocked_def]
      dest!: entry_ops_blocked config_ops_blocked bulk_allow_blocked split: if_splits)

section \<open>Sweeping\<close>

lemma sweep_one_lapsed: "allow_lapsed h (sweep_one h admin b s) a \<longleftrightarrow> a \<noteq> b \<and> allow_lapsed h s a"
  by (simp add: allow_lapsed_def sweep_one_def publish_def append_status_history_def)

lemma sweep_one_allowed:
  "allow_lapsed h s b \<Longrightarrow> h_now h \<le> now \<Longrightarrow> is_allowed_at (sweep_one h admin b s) a now = is_allowed_at s a now"
  by (auto simp: allow_lapsed_def sweep_one_def publish_def append_status_history_def is_allowed_at_def
      split: option.splits)

lemma sweep_loop_effect:
  assumes "sweep_loop h admin limit xs k s = Inr (m, t)" and "distinct xs"
  shows "(\<forall>a. allow_lapsed h t a \<longrightarrow> allow_lapsed h s a) \<and>
    {a. allow_lapsed h s a \<and> \<not> allow_lapsed h t a} \<subseteq> set xs \<and>
    unat m = unat k + card {a. allow_lapsed h s a \<and> \<not> allow_lapsed h t a} \<and>
    (limit = 0 \<or> m < limit \<longrightarrow> (\<forall>a\<in>set xs. \<not> allow_lapsed h t a)) \<and>
    (\<forall>a now. h_now h \<le> now \<longrightarrow> is_allowed_at t a now = is_allowed_at s a now)"
  using assms
proof (induction h admin limit xs k s rule: sweep_loop.induct)
  case (2 h admin limit b xs k s)
  consider (stop) "limit > 0 \<and> k \<ge> limit" | (sweep) "\<not> (limit > 0 \<and> k \<ge> limit)" "allow_lapsed h s b"
    | (skip) "\<not> (limit > 0 \<and> k \<ge> limit)" "\<not> allow_lapsed h s b" by blast
  then show ?case
  proof cases
    case stop
    with 2(3) have "m = k" "t = s" "0 < limit" "limit \<le> m" by simp_all
    then show ?thesis by (auto simp: not_less)
  next
    case skip
    with 2(3) have eq: "sweep_loop h admin limit xs k s = Inr (m, t)" by (simp split: if_splits)
    with 2(2) [OF skip] 2(4) skip(2) show ?thesis by auto
  next
    case sweep
    with 2(3) obtain k' where k': "checked_add k 1 = Some k'"
        "sweep_loop h admin limit xs k' (sweep_one h admin b s) = Inr (m, t)"
      by (auto simp: result_simps split: if_splits)
    let ?u = "sweep_one h admin b s"
    let ?gone = "\<lambda>u. {a. allow_lapsed h u a \<and> \<not> allow_lapsed h t a}"
    note IH = 2(1) [OF sweep k'(2)] 
    have IH: "(\<forall>a. allow_lapsed h t a \<longrightarrow> allow_lapsed h ?u a)" "?gone ?u \<subseteq> set xs"
      "unat m = unat k' + card (?gone ?u)"
      "limit = 0 \<or> m < limit \<Longrightarrow> \<forall>a\<in>set xs. \<not> allow_lapsed h t a"
      "\<forall>a now. h_now h \<le> now \<longrightarrow> is_allowed_at t a now = is_allowed_at ?u a now"
      using IH 2(4) by auto
    have b: "\<not> allow_lapsed h t b" using IH(1) by (auto simp: sweep_one_lapsed)
    have gone: "?gone s = insert b (?gone ?u)" using sweep(2) b by (auto simp: sweep_one_lapsed)
    have "finite (?gone ?u)" using IH(2) finite_subset by blast
    then have "card (?gone s) = Suc (card (?gone ?u))" unfolding gone by (simp add: sweep_one_lapsed)
    with IH gone b k'(1) sweep(2) show ?thesis by (auto simp: sweep_one_lapsed sweep_one_allowed arith_simps)
  qed
qed auto

section \<open>Merkle blocklist\<close>

datatype merkle = MLeaf address | MNode merkle merkle

fun merkle_root :: "(bytes \<Rightarrow> bytes) \<Rightarrow> (address \<Rightarrow> bytes) \<Rightarrow> merkle \<Rightarrow> bytes" where
  "merkle_root sha256 to_xdr (MLeaf a) = sha256 (to_xdr a)"
| "merkle_root sha256 to_xdr (MNode l r) =
     proof_step sha256 (merkle_root sha256 to_xdr l) (merkle_root sha256 to_xdr r)"

fun merkle_leaves :: "merkle \<Rightarrow> address set" where
  "merkle_leaves (MLeaf a) = {a}"
| "merkle_leaves (MNode l r) = merkle_leaves l \<union> merkle_leaves r"

fun merkle_proof :: "(bytes \<Rightarrow> bytes) \<Rightarrow> (address \<Rightarrow> bytes) \<Rightarrow> merkle \<Rightarrow> address \<Rightarrow> bytes list option" where
  "merkle_proof sha256 to_xdr (MLeaf b) a = (if a = b then Some [] else None)"
| "merkle_proof sha256 to_xdr (MNode l r) a =
     (case merkle_proof sha256 to_xdr l a of
        Some p \<Rightarrow> Some (p @ [merkle_root sha256 to_xdr r])
      | None \<Rightarrow> (case merkle_proof sha256 to_xdr r a of
                   Some p \<Rightarrow> Some (p @ [merkle_root sha256 to_xdr l])
                 | None \<Rightarrow> None))"

lemma bytes_le_total: "bytes_le xs ys \<or> bytes_le ys xs"
  by (induction xs ys rule: bytes_le.induct) auto

lemma bytes_le_antisym: "bytes_le xs ys \<Longrightarrow> bytes_le ys xs \<Longrightarrow> xs = ys"
proof (induction xs ys rule: bytes_le.induct)
  case (1 ys)
  then show ?case by (cases ys) auto
qed auto

lemma proof_step_commute: "proof_step sha256 a b = proof_step sha256 b a"
  using bytes_le_total [of a b] bytes_le_antisym [of a b] by (auto simp: proof_step_def)

lemma merkle_proof_complete: "a \<in> merkle_leaves tr \<Longrightarrow> merkle_proof sha256 to_xdr tr a \<noteq> None"
  by (induction tr) (auto split: option.split)

lemma merkle_proof_verifies:
  "merkle_proof sha256 to_xdr tr a = Some p \<Longrightarrow>
    foldl (proof_step sha256) (sha256 (to_xdr a)) p = merkle_root sha256 to_xdr tr"
  by (induction tr arbitrary: p)
    (auto split: option.splits if_splits simp: proof_step_commute)

end
