(* ===== verification/Compliance_Properties.thy ===== *)
theory Compliance_Properties
  imports Compliance_Rules
begin

text \<open>
  The properties of the compliance contract, and the concrete runs that show
  their hypotheses can hold.
\<close>

section \<open>Concrete runs\<close>

text \<open>An invocation at time \<open>now\<close> that only \<open>who\<close> has signed.\<close>

definition screen_host :: "u64 \<Rightarrow> address \<Rightarrow> unit host" where
  "screen_host now who =
     \<lparr>h_now = now, h_seq = 0, h_self = 50, h_auth = (\<lambda>a. a = who),
      h_transfer = (\<lambda>_ _ _ _ w. Some w), h_balance = (\<lambda>_ _ _. Some 0),
      h_is_allowed = (\<lambda>_ _ _. Some True), h_is_allowed_for_amount = (\<lambda>_ _ _ _. Some True)\<rparr>"

lemma screen_host_simps [simp]: "h_now (screen_host now who) = now" "h_auth (screen_host now who) = (\<lambda>a. a = who)"
  by (simp_all add: screen_host_def)

definition compliance_after :: "(unit host \<times> ComplianceCall) list \<Rightarrow> compliance" where
  "compliance_after cs = (case compliance_run cs empty_compliance of Inr s \<Rightarrow> s | Inl _ \<Rightarrow> empty_compliance)"

text \<open>Admin 1 sets up operator 2 and allows address 9 until time 100; then blocks it.\<close>

definition screen_setup :: "(unit host \<times> ComplianceCall) list" where
  "screen_setup =
     [(screen_host 10 1, K_initialize 1),
      (screen_host 10 1, K_add_operator 1 2),
      (screen_host 10 1, K_allow_address_until 1 9 100)]"

definition screen_blocked :: "(unit host \<times> ComplianceCall) list" where
  "screen_blocked = screen_setup @ [(screen_host 20 1, K_block_address 1 9 (Some BR_Sanctions))]"

lemmas screen_eval = compliance_run_def empty_compliance_def
  initialize_def add_operator_def allow_address_until_def block_address_def clear_address_def
  require_admin_def require_admin_or_operator_def require_not_paused_def require_auth_def
  require_operator_placed_block_def block_placer_def is_admin_def
  append_status_history_def track_address_def publish_def record_block_placer_def
  record_block_reason_def bump_allow_count_def index_page_def Let_def
  MAX_TRACKED_ADDRESSES_def ADDR_INDEX_PAGE_SIZE_def MAX_OPERATORS_def CURRENT_SCHEMA_VERSION_def
  checked_add_def saturating_add_def saturating_sub_def word_le_nat_alt word_less_nat_alt

lemma screen_blocked_run: "compliance_run screen_blocked empty_compliance = Inr (compliance_after screen_blocked)"
proof -
  have "\<not> isl (compliance_run screen_blocked empty_compliance)"
    by (simp add: screen_blocked_def screen_setup_def screen_eval)
  then show ?thesis by (auto simp: compliance_after_def split: sum.split)
qed

lemma screen_setup_run: "compliance_run screen_setup empty_compliance = Inr (compliance_after screen_setup)"
proof -
  have "\<not> isl (compliance_run screen_setup empty_compliance)"
    by (simp add: screen_setup_def screen_eval)
  then show ?thesis by (auto simp: compliance_after_def split: sum.split)
qed

lemma screen_blocked_state:
  "c_admin (compliance_after screen_blocked) = Some 1" "c_operators (compliance_after screen_blocked) = Some [2]"
  "c_blocked (compliance_after screen_blocked) = [9 \<mapsto> True]"
  "c_allowed (compliance_after screen_blocked) = [9 \<mapsto> True]"
  "c_blocked_by (compliance_after screen_blocked) = [9 \<mapsto> 1]"
  "c_addr_tracked (compliance_after screen_blocked) = [9 \<mapsto> ()]"
  "c_allowed_until (compliance_after screen_blocked) = [9 \<mapsto> 100]"
  by (simp_all add: compliance_after_def screen_blocked_def screen_setup_def screen_eval)

lemma screen_setup_state:
  "c_admin (compliance_after screen_setup) = Some 1" 
  "c_allowed (compliance_after screen_setup) = [9 \<mapsto> True]"
  "c_allowed_until (compliance_after screen_setup) = [9 \<mapsto> 100]"
  "address_index (compliance_after screen_setup) = [9]"
  by (simp_all add: compliance_after_def screen_setup_def screen_eval address_index_def div_ceil_def)

lemmas screen_reachable = compliance_run_reachable [OF screen_blocked_run] compliance_run_reachable [OF screen_setup_run]

section \<open>Screening\<close>

text \<open>
  C8. Reading the allow flag first is equivalent to the documented block-first
  precedence, and the batch endpoints give the single-address decision for every
  address of the batch, in order, refusing batches of more than 50.
\<close>

theorem screening_precedence:
  "is_allowed_at s a now =
     screening_reference (is_blocked s a) (c_blocked_until s a)
       (unwrap_or (c_allowed s a) False) (c_allowed_until s a) now \<and>
   bulk_check_addresses h s xs =
     (if length xs \<le> 50 then Inr (map (is_allowed h s) xs) else Inl (Err CE_BatchTooLarge)) \<and>
   bulk_get_address_status h s xs =
     (if length xs \<le> 50 then Inr (map (\<lambda>b. address_status_at s b (h_now h)) xs)
      else Inl (Err CE_BatchTooLarge)) \<and>
   as_is_currently_allowed (address_status_at s a (h_now h)) = is_allowed h s a"
  by (simp add: is_allowed_at_reference [symmetric] bulk_check_addresses_def bulk_get_address_status_def
      is_allowed_def address_status_at_def MAX_BATCH_SIZE_def require_def)

section \<open>The address index\<close>

lemma take_bounded_slice: "take (min (i + l) (length xs) - i) (drop i xs) = take l (drop i xs)"
  by (cases "i + l \<le> length xs") simp_all

text \<open>
  C18. In every reachable state the paged index stands for one duplicate-free
  list of at most 2000 addresses that contains every address with a stored
  allowance or block; tracking an address appends it to that list unless it is
  there, failing exactly when the list is full; and an exported page is the
  requested slice of that list, filtered by state.
\<close>

theorem paged_index_refines_list:
  assumes "compliance_reachable s"
  shows "distinct (address_index s) \<and> length (address_index s) \<le> 2000 \<and>
    (\<forall>a. addr_entry s a \<noteq> (None, None, None, None, None) \<longrightarrow> a \<in> set (address_index s)) \<and>
    (\<forall>a t. track_address a s = Inr t \<longrightarrow> address_index t = push_new a (address_index s)) \<and>
    (\<forall>a f. track_address a s = Inl f \<longleftrightarrow>
       a \<notin> set (address_index s) \<and> length (address_index s) = 2000 \<and> f = Err CE_AddressIndexFull) \<and>
    (\<forall>(h :: 'w host) admin start limit state r. export_snapshot_page h s admin start limit state = Inr r \<longrightarrow>
       r = filter (\<lambda>(a, st). state = None \<or> state = Some st)
             (map (\<lambda>a. (a, address_state h s a)) (take (unat limit) (drop (unat start) (address_index s)))))"
proof -
  have ok: "compliance_ok s" "index_ok s"
    using compliance_runs.reachable_inv assms by (auto simp: compliance_reachable_def compliance_ok_def)
  have page: "r = filter (\<lambda>(a, st). state = None \<or> state = Some st)
        (map (\<lambda>a. (a, address_state h s a)) (take (unat limit) (drop (unat start) (address_index s))))"
    if "export_snapshot_page h s admin start limit state = Inr r"
    for h :: "'w host" and admin start limit state r
    using export_snapshot_page_slice [OF ok(2) that]
    by (simp add: snapshot_slice_def take_bounded_slice)
  show ?thesis
    using ok address_registry.items_distinct [OF ok(2)] address_registry.items_bounded [OF ok(2)]
      address_registry.track_ok [OF ok(2)] address_registry.track_fails [OF ok(2)]
    by (auto simp: compliance_ok_def dest: page)
qed

theorem paged_index_refines_list_witness:
  "address_index (compliance_after screen_setup) = [9] \<and>
   track_address 9 (compliance_after screen_setup) = Inr (compliance_after screen_setup) \<and>
   (\<exists>t. track_address 7 (compliance_after screen_setup) = Inr t \<and> address_index t = [9, 7])"
proof -
  let ?s = "compliance_after screen_setup"
  note refines = paged_index_refines_list [OF screen_reachable(2)]
  have "c_addr_tracked ?s = [9 \<mapsto> ()]"
    by (simp add: compliance_after_def screen_setup_def screen_eval)
  then have "track_address 9 ?s = Inr ?s" by (simp add: track_address_def)
  moreover from refines have "\<not> (\<exists>f. track_address 7 ?s = Inl f)" by (auto simp: screen_setup_state)
  then obtain t where "track_address 7 ?s = Inr t" by (cases "track_address 7 ?s") auto
  moreover from this refines have "address_index t = [9, 7]" by (auto simp: screen_setup_state)
  ultimately show ?thesis by (simp add: screen_setup_state)
qed

section \<open>Sweeping lapsed allowances\<close>

text \<open>
  C26. \<open>sweep_expired\<close> clears only allowances that have lapsed, reports exactly how
  many it cleared, leaves none behind when it was not cut off by its limit, and
  changes no screening decision from then on.
\<close>

theorem sweep_clears_lapsed:
  assumes "compliance_reachable s" and "sweep_expired h s admin limit = Inr (n, t)"
  shows "(\<forall>a. allow_lapsed h t a \<longrightarrow> allow_lapsed h s a) \<and>
    unat n = card {a. allow_lapsed h s a \<and> \<not> allow_lapsed h t a} \<and>
    (limit = 0 \<or> n < limit \<longrightarrow> (\<forall>a. \<not> allow_lapsed h t a)) \<and>
    (\<forall>a now. h_now h \<le> now \<longrightarrow> is_allowed_at t a now = is_allowed_at s a now)"
proof -
  have ok: "compliance_ok s" "index_ok s"
    using compliance_runs.reachable_inv assms(1) by (auto simp: compliance_reachable_def compliance_ok_def)
  have loop: "sweep_loop h admin limit (address_index s) 0 s = Inr (n, t)"
    using assms(2) by (simp add: sweep_expired_def result_simps)
  note effect = sweep_loop_effect [OF loop address_registry.items_distinct [OF ok(2)]]
  have "a \<in> set (address_index s)" if "allow_lapsed h s a" for a
  proof (rule ccontr)
    assume "a \<notin> set (address_index s)"
    with ok have "c_allowed s a = None" by (simp add: compliance_ok_def addr_entry_def)
    with that show False by (simp add: allow_lapsed_def)
  qed
  with effect show ?thesis by auto
qed

theorem sweep_clears_lapsed_witness:
  "\<exists>t. sweep_expired (screen_host 200 2) (compliance_after screen_setup) 2 0 = Inr (1, t) \<and>
     allow_lapsed (screen_host 200 2) (compliance_after screen_setup) 9 \<and>
     \<not> allow_lapsed (screen_host 200 2) t 9"
proof -
  let ?s = "compliance_after screen_setup" and ?h = "screen_host 200 2"
  have lapsed: "allow_lapsed ?h ?s 9"
    by (simp add: allow_lapsed_def screen_setup_state word_le_nat_alt)
  have "c_operators ?s = Some [2]" by (simp add: compliance_after_def screen_setup_def screen_eval)
  then obtain t where t: "sweep_expired ?h ?s 2 0 = Inr (1, t)"
    using lapsed by (simp add: sweep_expired_def screen_setup_state require_admin_or_operator_def
        require_auth_def checked_add_def)
  with sweep_clears_lapsed [OF screen_reachable(2) t] lapsed show ?thesis by auto
qed

section \<open>Lifting blocks\<close>

text \<open>
  C27. A block is lifted only by \<open>clear_address\<close>, signed by the admin or by an
  operator whom the contract records as the placer of that block.
\<close>

theorem only_placer_or_admin_unblocks:
  assumes "compliance_invoke h s c = Inr t" and "is_blocked s a" and "\<not> is_blocked t a"
  shows "\<exists>caller. c = K_clear_address caller a \<and> h_auth h caller \<and>
    (c_admin s = Some caller \<or> is_operator s caller \<and> block_placer s a = Some caller)"
proof -
  from assms obtain caller where c: "c = K_clear_address caller a" by (rule unblocked_by_clear)
  with assms(1) show ?thesis
    by (auto simp: clear_address_def result_simps is_admin_def split: if_splits)
qed

theorem only_placer_or_admin_unblocks_witness:
  "\<exists>t caller. compliance_invoke (screen_host 30 1) (compliance_after screen_blocked) (K_clear_address 1 9) = Inr t \<and>
     \<not> is_blocked t 9 \<and> K_clear_address 1 9 = K_clear_address caller 9 \<and>
     (c_admin (compliance_after screen_blocked) = Some caller \<or>
      is_operator (compliance_after screen_blocked) caller \<and>
      block_placer (compliance_after screen_blocked) 9 = Some caller)"
proof -
  let ?s = "compliance_after screen_blocked" and ?h = "screen_host 30 1"
  have "\<not> isl (compliance_invoke ?h ?s (K_clear_address 1 9))"
    by (simp add: clear_address_def require_admin_or_operator_def require_auth_def is_admin_def
        screen_blocked_state track_address_def append_status_history_def bump_allow_count_def Let_def)
  then obtain t where t: "compliance_invoke ?h ?s (K_clear_address 1 9) = Inr t"
    by (cases "compliance_invoke ?h ?s (K_clear_address 1 9)") auto
  moreover from t have "\<not> is_blocked t 9" by (auto simp: is_blocked_def dest!: entry_ops_blocked)
  moreover have "is_blocked ?s 9" by (simp add: is_blocked_def screen_blocked_state)
  ultimately show ?thesis using only_placer_or_admin_unblocks [OF t] by blast
qed

text \<open>
  C39. The rule that an operator cannot lift an admin's block has a gap: blocking
  an address again overwrites the recorded placer. From a reachable state in
  which the admin has blocked an address, an operator alone can block it once
  more and then clear it, after which the address passes screening.
\<close>

theorem operator_lifts_admin_block:
  "\<exists>s (h :: unit host) operator a t. compliance_reachable s \<and>
     is_blocked s a \<and> block_placer s a = c_admin s \<and>
     c_admin s \<noteq> Some operator \<and> h_auth h = (\<lambda>x. x = operator) \<and>
     clear_address h s operator a = Inl (Err CE_OperatorCannotClearAdminBlock) \<and>
     compliance_run [(h, K_block_address operator a None), (h, K_clear_address operator a)] s = Inr t \<and>
     is_allowed h t a"
proof -
  let ?s = "compliance_after screen_blocked" and ?h = "screen_host 30 2"
  let ?run = "compliance_run [(?h, K_block_address 2 9 None), (?h, K_clear_address 2 9)] ?s"
  have run: "?run = Inr t \<Longrightarrow> c_blocked t = [9 \<mapsto> False] \<and> c_allowed t = [9 \<mapsto> True] \<and> c_allowed_until t 9 = None" for t
    by (auto simp: screen_eval screen_blocked_state)
  have "\<not> isl ?run" by (simp add: screen_eval screen_blocked_state)
  then obtain t where t: "?run = Inr t" by (cases ?run) auto
  with run [OF t] have "is_allowed ?h t 9" by (simp add: is_allowed_def is_allowed_at_def)
  moreover have "clear_address ?h ?s 2 9 = Inl (Err CE_OperatorCannotClearAdminBlock)"
    by (simp add: clear_address_def require_admin_or_operator_def require_auth_def is_admin_def
        require_operator_placed_block_def block_placer_def screen_blocked_state)
  moreover have "is_blocked ?s 9" "block_placer ?s 9 = c_admin ?s" "c_admin ?s \<noteq> Some 2" "h_auth ?h = (\<lambda>x. x = 2)"
    by (simp_all add: is_blocked_def block_placer_def screen_blocked_state)
  ultimately show ?thesis using screen_reachable(1) t by blast
qed

section \<open>Merkle blocklist\<close>

text \<open>
  Whatever the hash function: when the committed root is that of a Merkle
  tree, every address of the tree has a proof that \<open>is_blocked_with_proof\<close>
  accepts, namely its siblings from the leaf to the root.
\<close>

theorem merkle_members_are_blocked:
  assumes "a \<in> merkle_leaves tr" and "get_blocklist_root s = Some (merkle_root sha256 to_xdr tr)"
  shows "\<exists>p. merkle_proof sha256 to_xdr tr a = Some p \<and> is_blocked_with_proof sha256 to_xdr s a p"
proof -
  from merkle_proof_complete [OF assms(1)] obtain p where p: "merkle_proof sha256 to_xdr tr a = Some p" by blast
  with assms(2) merkle_proof_verifies [OF p] show ?thesis
    by (simp add: is_blocked_with_proof_def get_blocklist_root_def)
qed

theorem merkle_members_are_blocked_witness:
  "\<exists>p. merkle_proof id (\<lambda>a. [word_of_nat a]) (MNode (MLeaf 1) (MNode (MLeaf 2) (MLeaf 3))) 2 = Some p \<and>
     is_blocked_with_proof id (\<lambda>a. [word_of_nat a])
       (empty_compliance\<lparr>c_blocklist_root := Some [1, 2, 3]\<rparr>) 2 p"
  by (rule merkle_members_are_blocked)
    (simp_all add: get_blocklist_root_def proof_step_def word_less_nat_alt)

end
