(* ===== verification/Invoice_State.thy ===== *)
theory Invoice_State
  imports Prelude
begin

text \<open>
  \<^verbatim>\<open>contracts/invoice/src/invoice.rs\<close>, \<^verbatim>\<open>template.rs\<close>, \<^verbatim>\<open>events.rs\<close>, \<^verbatim>\<open>validation.rs\<close> and
  \<^verbatim>\<open>lib.rs\<close>: the storage of the invoice contract as a record, its data types and error
  codes, the events it publishes, the validation helpers and the index and
  history writes shared by the entrypoints.

  \<open>DataKey::CreationCooldown\<close> and \<open>DataKey::LastCreatedAt\<close> are declared but never
  read or written, and have no field. \<open>extend_ttl\<close> only prolongs the life of an
  entry and is not modelled.
\<close>

section \<open>Data types\<close>

datatype (plugins only: code) InvoiceError =
    IE_Unauthorized | IE_ContractPaused | IE_InvalidAmount | IE_NotPending | IE_Expired
  | IE_NotFound | IE_AlreadyInitialized | IE_ZeroDuration | IE_ExpiryOverflow | IE_NotPaid
  | IE_NotReleased | IE_AmountPrecision | IE_DuplicateNonce | IE_ExpiryTooLong
  | IE_MetadataMismatch | IE_NoPendingAdmin | IE_InvalidPaymentLinkHash | IE_NotRefundRequested
  | IE_TokenMismatch | IE_BatchTooLarge | IE_CooldownActive | IE_InvoiceCountOverflow
  | IE_HashTooLong | IE_PaymentStateInconsistent | IE_RefundTransferFailed | IE_RefundTokenNotSet
  | IE_RefundFeeTooHigh | IE_ArithmeticOverflow | IE_DiscountExceedsAmount
  | IE_DiscountDeadlineAfterExpiry | IE_MemoTooLong | IE_RefundWindowClosed
  | IE_SelfPayNotAllowed | IE_TemplateDisabled | IE_InvalidLateFee

datatype InvoiceStatus =
    IPending | IPaid | IExpired | ICancelled | IRefundRequested | IReleased | IRefunded

fun is_terminal :: "InvoiceStatus \<Rightarrow> bool" where
  "is_terminal IPending = False"
| "is_terminal IPaid = False"
| "is_terminal IExpired = True"
| "is_terminal ICancelled = True"
| "is_terminal IRefundRequested = False"
| "is_terminal IReleased = True"
| "is_terminal IRefunded = True"

datatype MaybeAddress = MA_None | MA_Some address

datatype MaybeBytes = MB_None | MB_Some bytes

datatype MaybeU64 = MU_None | MU_Some u64

record Invoice =
  inv_id :: u64
  inv_merchant :: address
  inv_amount_usdc :: i128
  inv_gross_usdc :: i128
  inv_status :: InvoiceStatus
  inv_expires_at :: u64
  inv_paid_at :: "u64 option"
  inv_payer :: MaybeAddress
  inv_metadata_hash :: MaybeBytes
  inv_payment_link_hash :: MaybeBytes
  inv_merchant_nonce :: u64
  inv_token_address :: MaybeAddress

definition collected_usdc :: "Invoice \<Rightarrow> i128" where
  "collected_usdc invoice = (case inv_status invoice of
     IPaid \<Rightarrow> inv_gross_usdc invoice
   | IRefundRequested \<Rightarrow> inv_gross_usdc invoice
   | IReleased \<Rightarrow> inv_gross_usdc invoice
   | IRefunded \<Rightarrow> inv_gross_usdc invoice
   | IPending \<Rightarrow> 0 | IExpired \<Rightarrow> 0 | ICancelled \<Rightarrow> 0)"

definition outstanding_usdc :: "Invoice \<Rightarrow> i128" where
  "outstanding_usdc invoice = (case inv_status invoice of
     IExpired \<Rightarrow> 0 | ICancelled \<Rightarrow> 0
   | _ \<Rightarrow> max (inv_gross_usdc invoice - collected_usdc invoice) 0)"

record InvoiceSummary =
  sum_id :: u64
  sum_status :: InvoiceStatus
  sum_amount_usdc :: i128
  sum_gross_usdc :: i128
  sum_paid_usdc :: i128
  sum_remaining_usdc :: i128
  sum_expires_at :: u64

definition summary_from :: "Invoice \<Rightarrow> InvoiceSummary" where
  "summary_from invoice =
     \<lparr>sum_id = inv_id invoice, sum_status = inv_status invoice,
      sum_amount_usdc = inv_amount_usdc invoice, sum_gross_usdc = inv_gross_usdc invoice,
      sum_paid_usdc = collected_usdc invoice, sum_remaining_usdc = outstanding_usdc invoice,
      sum_expires_at = inv_expires_at invoice\<rparr>"

record BatchInvoiceParams =
  bp_amount_usdc :: i128
  bp_gross_usdc :: i128
  bp_expires_in_seconds :: u64
  bp_metadata_hash :: MaybeBytes
  bp_payment_link_hash :: MaybeBytes
  bp_merchant_nonce :: u64
  bp_token_address :: MaybeAddress

record StatusTransition =
  tr_from :: InvoiceStatus
  tr_to :: InvoiceStatus
  tr_timestamp :: u64

record NetRefund =
  nr_gross_amount :: i128
  nr_processing_fee :: i128
  nr_network_fee :: i128
  nr_net_amount :: i128

record RefundStatus =
  rs_status :: InvoiceStatus
  rs_requested_at :: MaybeU64
  rs_gross_amount :: i128
  rs_processing_fee :: i128
  rs_network_fee :: i128
  rs_net_amount :: i128

datatype RecurrenceInterval = Daily | Weekly | Monthly

fun period_seconds :: "RecurrenceInterval \<Rightarrow> u64" where
  "period_seconds Daily = 86400"
| "period_seconds Weekly = 604800"
| "period_seconds Monthly = 2592000"

record InvoiceTemplate =
  tpl_id :: u64
  tpl_merchant :: address
  tpl_amount_usdc :: i128
  tpl_gross_usdc :: i128
  tpl_interval :: RecurrenceInterval
  tpl_expires_in_seconds :: u64
  tpl_metadata_hash :: MaybeBytes
  tpl_payment_link_hash :: MaybeBytes
  tpl_active :: bool
  tpl_next_run_at :: u64

datatype (plugins only: code) InvoiceEvent =
    Ev_invoice_created u64 address i128 i128 u64 u64 MaybeAddress
  | Ev_invoice_paid u64 Invoice
  | Ev_invoice_expired u64 Invoice
  | Ev_invoice_cancelled u64 Invoice
  | Ev_invoice_refund_requested u64 Invoice
  | Ev_refund_approved u64 Invoice
  | Ev_refund_rejected u64 Invoice
  | Ev_refund_processed u64 address i128 i128 i128 i128 u64
  | Ev_escrow_released u64 address i128 u64
  | Ev_contract_paused address
  | Ev_contract_unpaused address
  | Ev_grace_window_updated u64 u64
  | Ev_max_open_invoices_updated u32 u32
  | Ev_merchant_max_open_invoices_updated address "u32 option"
  | Ev_invoice_amended u64 i128 i128 i128 i128
  | Ev_invoice_expiry_extended u64 u64 u64
  | Ev_late_fee_updated u32 u32
  | Ev_template_created u64 InvoiceTemplate
  | Ev_template_activated u64 bool
  | Ev_template_generated u64 u64
  | Ev_refund_network_fee_updated i128 i128
  | Ev_invoice_transferred u64 address address

record 'w invoice_store =
  i_invoices :: "u64 \<rightharpoonup> Invoice"
  i_count :: "u64 option"
  i_admin :: "address option"
  i_pending_admin :: "address option"
  i_paused :: "bool option"
  i_grace_window :: "u64 option"
  i_merchant_nonce :: "address \<times> u64 \<rightharpoonup> bool"
  i_merchant_count :: "address \<rightharpoonup> u64"
  i_merchant_index :: "address \<times> u64 \<rightharpoonup> u64"
  i_history :: "u64 \<rightharpoonup> StatusTransition list"
  i_pending_index :: "u64 list option"
  i_refund_breakdown :: "u64 \<rightharpoonup> NetRefund"
  i_max_open :: "u32 option"
  i_merchant_max_open :: "address \<rightharpoonup> u32"
  i_late_fee :: "u32 option"
  i_templates :: "u64 \<rightharpoonup> InvoiceTemplate"
  i_template_count :: "u64 option"
  i_merchant_templates :: "address \<rightharpoonup> u64 list"
  i_refund_network_fee :: "i128 option"
  i_refund_window :: "u64 option"
  i_refund_requested_at :: "u64 \<rightharpoonup> u64"
  i_payer_count :: "address \<rightharpoonup> u64"
  i_payer_index :: "address \<times> u64 \<rightharpoonup> u64"
  i_world :: 'w
  i_events :: "InvoiceEvent list"

definition empty_invoice_store :: "'w \<Rightarrow> 'w invoice_store" where
  "empty_invoice_store w =
     \<lparr>i_invoices = Map.empty, i_count = None, i_admin = None, i_pending_admin = None,
      i_paused = None, i_grace_window = None, i_merchant_nonce = Map.empty,
      i_merchant_count = Map.empty, i_merchant_index = Map.empty, i_history = Map.empty,
      i_pending_index = None, i_refund_breakdown = Map.empty, i_max_open = None,
      i_merchant_max_open = Map.empty, i_late_fee = None, i_templates = Map.empty,
      i_template_count = None, i_merchant_templates = Map.empty, i_refund_network_fee = None,
      i_refund_window = None, i_refund_requested_at = Map.empty, i_payer_count = Map.empty,
      i_payer_index = Map.empty, i_world = w, i_events = []\<rparr>"

type_synonym 'a i_outcome = "(InvoiceError, 'a) outcome"

section \<open>Constants\<close>

definition USDC_FACTOR :: i128 where "USDC_FACTOR = 10000000"

definition MAX_BATCH_SIZE :: nat where "MAX_BATCH_SIZE = 50"

definition MAX_BATCH_EXPIRE :: nat where "MAX_BATCH_EXPIRE = 100"

definition MAX_HASH_BYTES :: nat where "MAX_HASH_BYTES = 64"

definition MAX_PAGE_LIMIT :: u32 where "MAX_PAGE_LIMIT = 100"

definition MAX_PAYER_INDEX_ENTRIES :: u64 where "MAX_PAYER_INDEX_ENTRIES = 500"

definition MAX_EXPIRY_SECONDS :: u64 where "MAX_EXPIRY_SECONDS = 5 * 365 * 24 * 60 * 60"

definition MAX_MEMO_BYTES :: nat where "MAX_MEMO_BYTES = 256"

definition TEMPLATE_PAGE_LIMIT :: u32 where "TEMPLATE_PAGE_LIMIT = 50"

definition TEMPLATE_KEEPER_BATCH_SIZE :: nat where "TEMPLATE_KEEPER_BATCH_SIZE = 20"

section \<open>Validation\<close>

definition require_not_paused :: "'w invoice_store \<Rightarrow> unit i_outcome" where
  "require_not_paused s = require (\<not> unwrap_or (i_paused s) False) (Err IE_ContractPaused)"

definition require_admin :: "'w host \<Rightarrow> 'w invoice_store \<Rightarrow> address \<Rightarrow> unit i_outcome" where
  "require_admin h s admin =
     andthen (require_auth h admin) (\<lambda>_.
     require (i_admin s = Some admin) (Err IE_Unauthorized))"

definition require_positive_amount :: "i128 \<Rightarrow> i128 \<Rightarrow> unit i_outcome" where
  "require_positive_amount amount_usdc gross_usdc =
     require (\<not> (amount_usdc \<le> 0 \<or> gross_usdc < amount_usdc)) (Err IE_InvalidAmount)"

definition require_usdc_precision :: "i128 \<Rightarrow> i128 \<Rightarrow> unit i_outcome" where
  "require_usdc_precision amount_usdc gross_usdc =
     require (\<not> (amount_usdc < USDC_FACTOR \<or> gross_usdc < USDC_FACTOR)) (Err IE_AmountPrecision)"

definition require_expiry_not_too_long :: "u64 \<Rightarrow> unit i_outcome" where
  "require_expiry_not_too_long expires_in_seconds =
     require (\<not> expires_in_seconds > MAX_EXPIRY_SECONDS) (Err IE_ExpiryTooLong)"

definition require_hash_not_too_long :: "MaybeBytes \<Rightarrow> unit i_outcome" where
  "require_hash_not_too_long hash = (case hash of
     MB_Some bytes \<Rightarrow> require (\<not> length bytes > MAX_HASH_BYTES) (Err IE_HashTooLong)
   | MB_None \<Rightarrow> Inr ())"

definition require_payer_not_merchant :: "address \<Rightarrow> address \<Rightarrow> unit i_outcome" where
  "require_payer_not_merchant payer merchant = require (payer \<noteq> merchant) (Err IE_SelfPayNotAllowed)"

definition require_valid_payment_link_hash :: "MaybeBytes \<Rightarrow> unit i_outcome" where
  "require_valid_payment_link_hash hash = (case hash of
     MB_Some bytes \<Rightarrow> require (length bytes = 32) (Err IE_InvalidPaymentLinkHash)
   | MB_None \<Rightarrow> Inr ())"

definition require_valid_discount :: "i128 \<Rightarrow> i128 \<Rightarrow> u64 \<Rightarrow> u64 \<Rightarrow> unit i_outcome" where
  "require_valid_discount discount_amount amount_usdc discount_deadline expires_at =
     andthen (require (\<not> discount_amount \<ge> amount_usdc) (Err IE_DiscountExceedsAmount)) (\<lambda>_.
     require (\<not> discount_deadline > expires_at) (Err IE_DiscountDeadlineAfterExpiry))"

definition require_memo_not_too_long :: "MaybeBytes \<Rightarrow> unit i_outcome" where
  "require_memo_not_too_long memo = (case memo of
     MB_Some bytes \<Rightarrow> require (\<not> length bytes > MAX_MEMO_BYTES) (Err IE_MemoTooLong)
   | MB_None \<Rightarrow> Inr ())"

section \<open>Events\<close>

definition publish :: "InvoiceEvent \<Rightarrow> 'w invoice_store \<Rightarrow> 'w invoice_store" where
  "publish e s = s\<lparr>i_events := i_events s @ [e]\<rparr>"

definition invoice_created :: "u64 \<Rightarrow> Invoice \<Rightarrow> 'w invoice_store \<Rightarrow> 'w invoice_store" where
  "invoice_created i invoice = publish (Ev_invoice_created i (inv_merchant invoice)
     (inv_amount_usdc invoice) (inv_gross_usdc invoice) (inv_expires_at invoice)
     (inv_merchant_nonce invoice) (inv_token_address invoice))"

definition invoice_paid :: "u64 \<Rightarrow> Invoice \<Rightarrow> 'w invoice_store \<Rightarrow> 'w invoice_store" where
  "invoice_paid i invoice = publish (Ev_invoice_paid i invoice)"

definition invoice_expired :: "u64 \<Rightarrow> Invoice \<Rightarrow> 'w invoice_store \<Rightarrow> 'w invoice_store" where
  "invoice_expired i invoice = publish (Ev_invoice_expired i invoice)"

definition invoice_cancelled :: "u64 \<Rightarrow> Invoice \<Rightarrow> 'w invoice_store \<Rightarrow> 'w invoice_store" where
  "invoice_cancelled i invoice = publish (Ev_invoice_cancelled i invoice)"

definition invoice_refund_requested :: "u64 \<Rightarrow> Invoice \<Rightarrow> 'w invoice_store \<Rightarrow> 'w invoice_store" where
  "invoice_refund_requested i invoice = publish (Ev_invoice_refund_requested i invoice)"

definition refund_approved :: "u64 \<Rightarrow> Invoice \<Rightarrow> 'w invoice_store \<Rightarrow> 'w invoice_store" where
  "refund_approved i invoice = publish (Ev_refund_approved i invoice)"

definition refund_rejected :: "u64 \<Rightarrow> Invoice \<Rightarrow> 'w invoice_store \<Rightarrow> 'w invoice_store" where
  "refund_rejected i invoice = publish (Ev_refund_rejected i invoice)"

definition refund_processed ::
    "'w host \<Rightarrow> u64 \<Rightarrow> address \<Rightarrow> NetRefund \<Rightarrow> 'w invoice_store \<Rightarrow> 'w invoice_store" where
  "refund_processed h i payer refund = publish (Ev_refund_processed i payer
     (nr_gross_amount refund) (nr_processing_fee refund) (nr_network_fee refund)
     (nr_net_amount refund) (h_now h))"

definition escrow_released :: "'w host \<Rightarrow> u64 \<Rightarrow> Invoice \<Rightarrow> 'w invoice_store \<Rightarrow> 'w invoice_store" where
  "escrow_released h i invoice =
     publish (Ev_escrow_released i (inv_merchant invoice) (inv_amount_usdc invoice) (h_now h))"

section \<open>Indices and history\<close>

definition pending_index_add :: "u64 \<Rightarrow> 'w invoice_store \<Rightarrow> 'w invoice_store" where
  "pending_index_add i s = s\<lparr>i_pending_index := Some (unwrap_or (i_pending_index s) [] @ [i])\<rparr>"

definition pending_index_remove :: "u64 \<Rightarrow> 'w invoice_store \<Rightarrow> 'w invoice_store" where
  "pending_index_remove i s = (case i_pending_index s of
     None \<Rightarrow> s
   | Some ids \<Rightarrow> s\<lparr>i_pending_index := Some (drop_value i ids)\<rparr>)"

definition payer_index_add :: "address \<Rightarrow> u64 \<Rightarrow> 'w invoice_store \<Rightarrow> 'w invoice_store" where
  "payer_index_add payer i s =
     (let count = unwrap_or (i_payer_count s payer) 0 in
      if count \<ge> MAX_PAYER_INDEX_ENTRIES then s
      else s\<lparr>i_payer_index := (i_payer_index s)((payer, count) \<mapsto> i),
             i_payer_count := (i_payer_count s)(payer \<mapsto> count + 1)\<rparr>)"

definition append_history ::
    "'w host \<Rightarrow> u64 \<Rightarrow> InvoiceStatus \<Rightarrow> InvoiceStatus \<Rightarrow> 'w invoice_store \<Rightarrow> 'w invoice_store" where
  "append_history h i from to s =
     s\<lparr>i_history := (i_history s)(i \<mapsto> unwrap_or (i_history s i) [] @
         [\<lparr>tr_from = from, tr_to = to, tr_timestamp = h_now h\<rparr>])\<rparr>"

definition put_invoice :: "u64 \<Rightarrow> Invoice \<Rightarrow> 'w invoice_store \<Rightarrow> 'w invoice_store" where
  "put_invoice i invoice s = s\<lparr>i_invoices := (i_invoices s)(i \<mapsto> invoice)\<rparr>"

definition get_invoice :: "'w invoice_store \<Rightarrow> u64 \<Rightarrow> Invoice i_outcome" where
  "get_invoice s i = ok_or (i_invoices s i) (Err IE_NotFound)"

section \<open>Facts on the guards\<close>

definition is_paused :: "'w invoice_store \<Rightarrow> bool" where
  "is_paused s = unwrap_or (i_paused s) False"

lemma invoice_admin_eq_Inr [result_simps]:
  "require_admin h s a = Inr u \<longleftrightarrow> h_auth h a \<and> i_admin s = Some a"
  by (auto simp: require_admin_def result_simps)

lemma invoice_not_paused_eq_Inr [result_simps]: "require_not_paused s = Inr u \<longleftrightarrow> \<not> is_paused s"
  by (simp add: require_not_paused_def is_paused_def result_simps)

lemma get_invoice_eq_Inr [result_simps]: "get_invoice s i = Inr v \<longleftrightarrow> i_invoices s i = Some v"
  by (simp add: get_invoice_def result_simps)

lemma amount_guards_eq_Inr [result_simps]:
  "require_positive_amount a g = Inr u \<longleftrightarrow> 0 < a \<and> a \<le> g"
  "require_usdc_precision a g = Inr u \<longleftrightarrow> USDC_FACTOR \<le> a \<and> USDC_FACTOR \<le> g"
  "require_expiry_not_too_long t = Inr u \<longleftrightarrow> t \<le> MAX_EXPIRY_SECONDS"
  "require_payer_not_merchant p m = Inr u \<longleftrightarrow> p \<noteq> m"
  by (auto simp: require_positive_amount_def require_usdc_precision_def require_expiry_not_too_long_def
      require_payer_not_merchant_def result_simps)

lemma period_positive: "0 < unat (period_seconds r)"
  by (cases r) simp_all

end
