(* ===== verification/Invoice_Refund.thy ===== *)
theory Invoice_Refund
  imports Invoice_State
begin

text \<open>
  \<^verbatim>\<open>contracts/invoice/src/refund.rs\<close> and \<^verbatim>\<open>entrypoints/refund.rs\<close>: the fee arithmetic of a
  refund, the payout through the token contract, and the refund entrypoints. The
  arithmetic is decomposed so that the product of amount and rate is never formed;
  it is proved to be the exact floor of that product.
\<close>

definition BPS_DENOMINATOR :: u32 where "BPS_DENOMINATOR = 10000"

definition MAX_REFUND_FEE_BPS :: u32 where "MAX_REFUND_FEE_BPS = BPS_DENOMINATOR"

definition REFUND_NETWORK_FEE :: i128 where "REFUND_NETWORK_FEE = 100"

definition MAX_REFUND_NETWORK_FEE :: i128 where "MAX_REFUND_NETWORK_FEE = 100000000"

definition configured_network_fee :: "'w invoice_store \<Rightarrow> i128" where
  "configured_network_fee s = unwrap_or (i_refund_network_fee s) REFUND_NETWORK_FEE"

definition verify_payment_state :: "Invoice \<Rightarrow> unit i_outcome" where
  "verify_payment_state invoice =
     andthen (require (inv_paid_at invoice \<noteq> None) (Err IE_PaymentStateInconsistent)) (\<lambda>_.
     andthen (require (inv_payer invoice \<noteq> MA_None) (Err IE_PaymentStateInconsistent)) (\<lambda>_.
     require (\<not> (inv_amount_usdc invoice \<le> 0 \<or> inv_gross_usdc invoice < inv_amount_usdc invoice))
       (Err IE_PaymentStateInconsistent)))"

definition refund_recipient :: "Invoice \<Rightarrow> address i_outcome" where
  "refund_recipient invoice = (case inv_payer invoice of
     MA_Some payer \<Rightarrow> Inr payer
   | MA_None \<Rightarrow> Inl (Err IE_PaymentStateInconsistent))"

definition calculate_net_refund_with_network_fee :: "i128 \<Rightarrow> u32 \<Rightarrow> i128 \<Rightarrow> NetRefund i_outcome" where
  "calculate_net_refund_with_network_fee gross_amount fee_bps network_fee =
     andthen (require (\<not> network_fee < 0) (Err IE_InvalidAmount)) (\<lambda>_.
     andthen (require (\<not> fee_bps > MAX_REFUND_FEE_BPS) (Err IE_RefundFeeTooHigh)) (\<lambda>_.
     andthen (require (\<not> gross_amount \<le> 0) (Err IE_InvalidAmount)) (\<lambda>_.
     let bps = int (unat fee_bps);
         denominator = int (unat BPS_DENOMINATOR) in
     andthen (ok_or (checked_i128 (rust_div gross_amount denominator * bps)) (Err IE_ArithmeticOverflow)) (\<lambda>whole.
     andthen (ok_or (checked_i128 (rust_rem gross_amount denominator * bps)) (Err IE_ArithmeticOverflow)) (\<lambda>rem_product.
     let partial = rust_div rem_product denominator in
     andthen (ok_or (checked_i128 (whole + partial)) (Err IE_ArithmeticOverflow)) (\<lambda>processing_fee.
     let network_fee' = min gross_amount network_fee;
         after_processing = (if processing_fee \<ge> gross_amount then 0 else gross_amount - processing_fee);
         net_amount = (if network_fee' \<ge> after_processing then 0 else after_processing - network_fee')
     in Inr \<lparr>nr_gross_amount = gross_amount, nr_processing_fee = processing_fee,
             nr_network_fee = network_fee', nr_net_amount = net_amount\<rparr>))))))"

definition calculate_net_refund :: "i128 \<Rightarrow> u32 \<Rightarrow> NetRefund i_outcome" where
  "calculate_net_refund gross_amount fee_bps =
     calculate_net_refund_with_network_fee gross_amount fee_bps REFUND_NETWORK_FEE"

text \<open>
  \<open>try_transfer\<close> turns every failure of the token contract into a value; the
  callee's own writes are rolled back by the host.
\<close>

definition transfer_net_refund ::
    "'w host \<Rightarrow> address \<Rightarrow> address \<Rightarrow> i128 \<Rightarrow> 'w invoice_store \<Rightarrow> 'w invoice_store i_outcome" where
  "transfer_net_refund h token_contract recipient amount s =
     (case h_transfer h token_contract (h_self h) recipient amount (i_world s) of
        Some w \<Rightarrow> Inr (s\<lparr>i_world := w\<rparr>)
      | None \<Rightarrow> Inl (Err IE_RefundTransferFailed))"

section \<open>Refund entrypoints\<close>

definition refund_window_open :: "'w host \<Rightarrow> 'w invoice_store \<Rightarrow> Invoice \<Rightarrow> bool" where
  "refund_window_open h s invoice =
     (let refund_window = unwrap_or (i_refund_window s) 0 in
      if refund_window > 0
      then (case inv_paid_at invoice of
              Some paid_at \<Rightarrow> \<not> h_now h \<ge> saturating_add paid_at refund_window
            | None \<Rightarrow> True)
      else True)"

definition request_refund ::
    "'w host \<Rightarrow> 'w invoice_store \<Rightarrow> address \<Rightarrow> u64 \<Rightarrow> 'w invoice_store i_outcome" where
  "request_refund h s payer i =
     andthen (require_auth h payer) (\<lambda>_.
     andthen (require_not_paused s) (\<lambda>_.
     andthen (get_invoice s i) (\<lambda>invoice.
     andthen (require (inv_status invoice = IPaid) (Err IE_NotPaid)) (\<lambda>_.
     andthen (require (inv_payer invoice = MA_Some payer) (Err IE_Unauthorized)) (\<lambda>_.
     andthen (require (refund_window_open h s invoice) (Err IE_RefundWindowClosed)) (\<lambda>_.
     let invoice' = invoice\<lparr>inv_status := IRefundRequested\<rparr>;
         s1 = put_invoice i invoice' s;
         s2 = s1\<lparr>i_refund_requested_at := (i_refund_requested_at s1)(i \<mapsto> h_now h)\<rparr>;
         s3 = append_history h i IPaid IRefundRequested s2
     in Inr (invoice_refund_requested i invoice' s3)))))))"

definition approve_refund ::
    "'w host \<Rightarrow> 'w invoice_store \<Rightarrow> address \<Rightarrow> u64 \<Rightarrow> 'w invoice_store i_outcome" where
  "approve_refund h s admin i =
     andthen (require_admin h s admin) (\<lambda>_.
     andthen (require_not_paused s) (\<lambda>_.
     andthen (get_invoice s i) (\<lambda>invoice.
     andthen (require (inv_status invoice = IRefundRequested) (Err IE_NotRefundRequested)) (\<lambda>_.
     andthen (verify_payment_state invoice) (\<lambda>_.
     let invoice' = invoice\<lparr>inv_status := IRefunded\<rparr>;
         s1 = put_invoice i invoice' s;
         s2 = append_history h i IRefundRequested IRefunded s1
     in Inr (refund_approved i invoice' s2))))))"

definition process_refund ::
    "'w host \<Rightarrow> 'w invoice_store \<Rightarrow> address \<Rightarrow> u64 \<Rightarrow> u32 \<Rightarrow> (NetRefund \<times> 'w invoice_store) i_outcome" where
  "process_refund h s admin i fee_bps =
     andthen (require_admin h s admin) (\<lambda>_.
     andthen (require_not_paused s) (\<lambda>_.
     andthen (get_invoice s i) (\<lambda>invoice.
     andthen (require (inv_status invoice = IRefundRequested) (Err IE_NotRefundRequested)) (\<lambda>_.
     andthen (verify_payment_state invoice) (\<lambda>_.
     andthen (refund_recipient invoice) (\<lambda>payer.
     andthen (case inv_token_address invoice of
                MA_Some token_id \<Rightarrow> Inr token_id
              | MA_None \<Rightarrow> Inl (Err IE_RefundTokenNotSet)) (\<lambda>token_id.
     andthen (calculate_net_refund_with_network_fee (inv_amount_usdc invoice) fee_bps
                (configured_network_fee s)) (\<lambda>refund.
     andthen (transfer_net_refund h token_id payer (nr_net_amount refund) s) (\<lambda>s1.
     let invoice' = invoice\<lparr>inv_status := IRefunded\<rparr>;
         s2 = put_invoice i invoice' s1;
         s3 = s2\<lparr>i_refund_breakdown := (i_refund_breakdown s2)(i \<mapsto> refund)\<rparr>;
         s4 = append_history h i IRefundRequested IRefunded s3;
         s5 = refund_approved i invoice' s4
     in Inr (refund, refund_processed h i payer refund s5))))))))))"

definition quote_net_refund :: "'w invoice_store \<Rightarrow> i128 \<Rightarrow> u32 \<Rightarrow> NetRefund i_outcome" where
  "quote_net_refund s gross_amount fee_bps =
     calculate_net_refund_with_network_fee gross_amount fee_bps (configured_network_fee s)"

definition get_refund_breakdown :: "'w invoice_store \<Rightarrow> u64 \<Rightarrow> NetRefund i_outcome" where
  "get_refund_breakdown s i = ok_or (i_refund_breakdown s i) (Err IE_NotFound)"

definition get_refund_status :: "'w invoice_store \<Rightarrow> u64 \<Rightarrow> RefundStatus i_outcome" where
  "get_refund_status s i =
     andthen (get_invoice s i) (\<lambda>invoice.
     let requested_at = (case i_refund_requested_at s i of Some t \<Rightarrow> MU_Some t | None \<Rightarrow> MU_None)
     in case (case i_refund_breakdown s i of
                None \<Rightarrow> (0, 0, 0, 0)
              | Some b \<Rightarrow> (nr_gross_amount b, nr_processing_fee b, nr_network_fee b, nr_net_amount b)) of
          (gross_amount, processing_fee, network_fee, net_amount) \<Rightarrow>
            Inr \<lparr>rs_status = inv_status invoice, rs_requested_at = requested_at,
                 rs_gross_amount = gross_amount, rs_processing_fee = processing_fee,
                 rs_network_fee = network_fee, rs_net_amount = net_amount\<rparr>)"

definition reject_refund ::
    "'w host \<Rightarrow> 'w invoice_store \<Rightarrow> address \<Rightarrow> u64 \<Rightarrow> 'w invoice_store i_outcome" where
  "reject_refund h s admin i =
     andthen (require_admin h s admin) (\<lambda>_.
     andthen (require_not_paused s) (\<lambda>_.
     andthen (get_invoice s i) (\<lambda>invoice.
     andthen (require (inv_status invoice = IRefundRequested) (Err IE_NotRefundRequested)) (\<lambda>_.
     andthen (verify_payment_state invoice) (\<lambda>_.
     let invoice' = invoice\<lparr>inv_status := IPaid\<rparr>;
         s1 = put_invoice i invoice' s;
         s2 = append_history h i IRefundRequested IPaid s1
     in Inr (refund_rejected i invoice' s2))))))"

section \<open>The fee arithmetic\<close>

text \<open>Decomposing the floor: \<open>g * b div D = (g div D) * b + (g mod D) * b div D\<close>.\<close>

lemma floor_decomposition:
  fixes g b d :: int
  assumes "0 < d"
  shows "g div d * b + g mod d * b div d = g * b div d"
proof -
  have "g * b = g mod d * b + d * (g div d * b)"
    by (metis add.commute distrib_right div_mult_mod_eq mult.commute mult.left_commute)
  also have "(g mod d * b + d * (g div d * b)) div d = g mod d * b div d + g div d * b"
    using assms by simp
  finally show ?thesis by simp
qed

lemma i128_ok_between: "0 \<le> x \<Longrightarrow> x \<le> y \<Longrightarrow> i128_ok y \<Longrightarrow> i128_ok x"
  by (simp add: i128_defs)

lemma fee_bounds:
  fixes g b :: int
  assumes "0 < g" "0 \<le> b" "b \<le> 10000"
  shows "0 \<le> g div 10000 * b" "g div 10000 * b \<le> g" "0 \<le> g mod 10000 * b" "g mod 10000 * b \<le> 100000000"
    "0 \<le> g * b div 10000" "g * b div 10000 \<le> g"
proof -
  show "0 \<le> g div 10000 * b" "0 \<le> g mod 10000 * b" using assms by simp_all
  have "0 \<le> g * b" using assms by simp
  then show "0 \<le> g * b div 10000" by (subst pos_imp_zdiv_nonneg_iff) simp
  have "g div 10000 * b \<le> g div 10000 * 10000" using assms by (intro mult_left_mono) simp_all
  also have "\<dots> \<le> g" using pos_mod_sign [of 10000 g] div_mult_mod_eq [of g 10000] by linarith
  finally show "g div 10000 * b \<le> g" .
  have "g mod 10000 * b \<le> 10000 * 10000" using assms by (intro mult_mono) simp_all
  then show "g mod 10000 * b \<le> 100000000" by simp
  have "g * b \<le> g * 10000" using assms by (intro mult_left_mono) simp_all
  then have "g * b div 10000 \<le> g * 10000 div 10000" by (rule zdiv_mono1) simp
  then show "g * b div 10000 \<le> g" by simp
qed

definition net_refund_spec :: "i128 \<Rightarrow> u32 \<Rightarrow> i128 \<Rightarrow> NetRefund" where
  "net_refund_spec g bps fee =
     (let processing = g * int (unat bps) div 10000;
          network = min g fee
      in \<lparr>nr_gross_amount = g, nr_processing_fee = processing, nr_network_fee = network,
          nr_net_amount = max 0 (g - processing - network)\<rparr>)"

lemma net_refund_eq:
  assumes g: "0 < g" "i128_ok g" and b: "bps \<le> 10000" and fee: "0 \<le> fee"
  shows "calculate_net_refund_with_network_fee g bps fee = Inr (net_refund_spec g bps fee)"
proof -
  let ?b = "int (unat bps)"
  have bb: "0 \<le> ?b" "?b \<le> 10000" using b by (simp_all add: word_le_def)
  note bounds = fee_bounds [OF g(1) bb]
  have ok: "i128_ok (g div 10000 * ?b)" "i128_ok (g mod 10000 * ?b)" "i128_ok (g * ?b div 10000)"
    by (rule i128_ok_between [OF bounds(1,2) g(2)], rule i128_ok_between [OF bounds(3,4)],
        simp add: i128_defs, rule i128_ok_between [OF bounds(5,6) g(2)])
  have "g div 10000 * ?b + g mod 10000 * ?b div 10000 = g * ?b div 10000"
    by (rule floor_decomposition) simp
  then show ?thesis
    using g b fee bounds ok
    by (auto simp: calculate_net_refund_with_network_fee_def net_refund_spec_def Let_def require_def
        MAX_REFUND_FEE_BPS_def BPS_DENOMINATOR_def checked_i128_def min_def max_def)
qed

lemma net_refund_fails:
  "calculate_net_refund_with_network_fee g bps fee = Inl f \<Longrightarrow> i128_ok g \<Longrightarrow>
    (fee < 0 \<and> f = Err IE_InvalidAmount) \<or> (10000 < bps \<and> f = Err IE_RefundFeeTooHigh) \<or>
    (g \<le> 0 \<and> f = Err IE_InvalidAmount)"
proof -
  assume a: "calculate_net_refund_with_network_fee g bps fee = Inl f" "i128_ok g"
  have "\<not> (0 < g \<and> bps \<le> 10000 \<and> 0 \<le> fee)" using a net_refund_eq [of g bps fee] by auto
  then show ?thesis using a(1)
    by (auto simp: calculate_net_refund_with_network_fee_def require_def MAX_REFUND_FEE_BPS_def
        BPS_DENOMINATOR_def not_less not_le split: if_splits)
qed

end
