(* ===== verification/Invoice_Entrypoints.thy ===== *)
theory Invoice_Entrypoints
  imports Invoice_Refund
begin

text \<open>
  \<^verbatim>\<open>contracts/invoice/src/entrypoints\<close>: \<^verbatim>\<open>admin.rs\<close>, \<^verbatim>\<open>lifecycle.rs\<close>, \<^verbatim>\<open>batch.rs\<close>,
  \<^verbatim>\<open>template.rs\<close> and \<^verbatim>\<open>transfer.rs\<close> (the refund entrypoints are in \<open>Invoice_Refund\<close>).
\<close>

section \<open>admin.rs\<close>

definition initialize :: "'w host \<Rightarrow> 'w invoice_store \<Rightarrow> address \<Rightarrow> 'w invoice_store i_outcome" where
  "initialize h s admin =
     andthen (require (i_admin s = None) (Err IE_AlreadyInitialized)) (\<lambda>_.
     andthen (require_auth h admin) (\<lambda>_.
       Inr (s\<lparr>i_admin := Some admin, i_count := Some 0, i_paused := Some False\<rparr>)))"

definition set_grace_window :: "'w host \<Rightarrow> 'w invoice_store \<Rightarrow> address \<Rightarrow> u64 \<Rightarrow> 'w invoice_store i_outcome" where
  "set_grace_window h s admin seconds =
     andthen (require_admin h s admin) (\<lambda>_.
     let old_seconds = unwrap_or (i_grace_window s) 0 in
       Inr (publish (Ev_grace_window_updated old_seconds seconds) (s\<lparr>i_grace_window := Some seconds\<rparr>)))"

definition get_grace_window :: "'w invoice_store \<Rightarrow> u64" where
  "get_grace_window s = unwrap_or (i_grace_window s) 0"

definition set_max_open_invoices :: "'w host \<Rightarrow> 'w invoice_store \<Rightarrow> address \<Rightarrow> u32 \<Rightarrow> 'w invoice_store i_outcome" where
  "set_max_open_invoices h s admin limit =
     andthen (require_admin h s admin) (\<lambda>_.
     let old_limit = unwrap_or (i_max_open s) 0 in
       Inr (publish (Ev_max_open_invoices_updated old_limit limit) (s\<lparr>i_max_open := Some limit\<rparr>)))"

definition get_max_open_invoices :: "'w invoice_store \<Rightarrow> u32" where
  "get_max_open_invoices s = unwrap_or (i_max_open s) 0"

definition set_merchant_max_open_invoices ::
    "'w host \<Rightarrow> 'w invoice_store \<Rightarrow> address \<Rightarrow> address \<Rightarrow> u32 option \<Rightarrow> 'w invoice_store i_outcome" where
  "set_merchant_max_open_invoices h s admin merchant limit =
     andthen (require_admin h s admin) (\<lambda>_.
       Inr (publish (Ev_merchant_max_open_invoices_updated merchant limit)
             (s\<lparr>i_merchant_max_open := (i_merchant_max_open s)(merchant := limit)\<rparr>)))"

definition get_max_open_invoices_for :: "'w invoice_store \<Rightarrow> address \<Rightarrow> u32" where
  "get_max_open_invoices_for s merchant =
     (case i_merchant_max_open s merchant of Some limit \<Rightarrow> limit | None \<Rightarrow> unwrap_or (i_max_open s) 0)"

definition set_late_fee_bps :: "'w host \<Rightarrow> 'w invoice_store \<Rightarrow> address \<Rightarrow> u32 \<Rightarrow> 'w invoice_store i_outcome" where
  "set_late_fee_bps h s admin bps =
     andthen (require_admin h s admin) (\<lambda>_.
     andthen (require (\<not> bps > BPS_DENOMINATOR) (Err IE_InvalidLateFee)) (\<lambda>_.
     let old_bps = unwrap_or (i_late_fee s) 0 in
       Inr (publish (Ev_late_fee_updated old_bps bps) (s\<lparr>i_late_fee := Some bps\<rparr>))))"

definition get_late_fee_bps :: "'w invoice_store \<Rightarrow> u32" where
  "get_late_fee_bps s = unwrap_or (i_late_fee s) 0"

definition set_refund_window :: "'w host \<Rightarrow> 'w invoice_store \<Rightarrow> address \<Rightarrow> u64 \<Rightarrow> 'w invoice_store i_outcome" where
  "set_refund_window h s admin seconds =
     andthen (require_admin h s admin) (\<lambda>_. Inr (s\<lparr>i_refund_window := Some seconds\<rparr>))"

definition get_refund_window :: "'w invoice_store \<Rightarrow> u64" where
  "get_refund_window s = unwrap_or (i_refund_window s) 0"

definition transfer_admin :: "'w host \<Rightarrow> 'w invoice_store \<Rightarrow> address \<Rightarrow> address \<Rightarrow> 'w invoice_store i_outcome" where
  "transfer_admin h s admin new_admin =
     andthen (require_admin h s admin) (\<lambda>_. Inr (s\<lparr>i_pending_admin := Some new_admin\<rparr>))"

definition accept_admin :: "'w host \<Rightarrow> 'w invoice_store \<Rightarrow> address \<Rightarrow> 'w invoice_store i_outcome" where
  "accept_admin h s new_admin =
     andthen (require_auth h new_admin) (\<lambda>_.
     andthen (ok_or (i_pending_admin s) (Err IE_NoPendingAdmin)) (\<lambda>pending.
     andthen (require (pending = new_admin) (Err IE_Unauthorized)) (\<lambda>_.
       Inr (s\<lparr>i_admin := Some new_admin, i_pending_admin := None\<rparr>))))"

definition get_admin :: "'w invoice_store \<Rightarrow> address i_outcome" where
  "get_admin s = ok_or (i_admin s) Trap"

definition pause :: "'w host \<Rightarrow> 'w invoice_store \<Rightarrow> address \<Rightarrow> 'w invoice_store i_outcome" where
  "pause h s admin =
     andthen (require_admin h s admin) (\<lambda>_.
       Inr (publish (Ev_contract_paused admin) (s\<lparr>i_paused := Some True\<rparr>)))"

definition unpause :: "'w host \<Rightarrow> 'w invoice_store \<Rightarrow> address \<Rightarrow> 'w invoice_store i_outcome" where
  "unpause h s admin =
     andthen (require_admin h s admin) (\<lambda>_.
       Inr (publish (Ev_contract_unpaused admin) (s\<lparr>i_paused := Some False\<rparr>)))"

text \<open>\<open>checked_add(..).filter(|new| *new > old)\<close> refuses an extension of zero seconds too.\<close>

definition extend_expiry ::
    "'w host \<Rightarrow> 'w invoice_store \<Rightarrow> address \<Rightarrow> u64 \<Rightarrow> u64 \<Rightarrow> 'w invoice_store i_outcome" where
  "extend_expiry h s admin i additional_seconds =
     andthen (require_admin h s admin) (\<lambda>_.
     andthen (get_invoice s i) (\<lambda>invoice.
     andthen (require (inv_status invoice = IPending) (Err IE_NotPending)) (\<lambda>_.
     let old_expires_at = inv_expires_at invoice in
     andthen (ok_or (case checked_add old_expires_at additional_seconds of
                       Some e \<Rightarrow> if e > old_expires_at then Some e else None
                     | None \<Rightarrow> None) (Err IE_ExpiryOverflow)) (\<lambda>new_expires_at.
       Inr (publish (Ev_invoice_expiry_extended i old_expires_at new_expires_at)
             (put_invoice i (invoice\<lparr>inv_expires_at := new_expires_at\<rparr>) s))))))"

definition set_refund_network_fee :: "'w host \<Rightarrow> 'w invoice_store \<Rightarrow> address \<Rightarrow> i128 \<Rightarrow> 'w invoice_store i_outcome" where
  "set_refund_network_fee h s admin fee =
     andthen (require_admin h s admin) (\<lambda>_.
     andthen (require (0 \<le> fee \<and> fee \<le> MAX_REFUND_NETWORK_FEE) (Err IE_InvalidAmount)) (\<lambda>_.
     let old_fee = configured_network_fee s in
       Inr (publish (Ev_refund_network_fee_updated old_fee fee) (s\<lparr>i_refund_network_fee := Some fee\<rparr>))))"

definition get_refund_network_fee :: "'w invoice_store \<Rightarrow> i128" where
  "get_refund_network_fee s = configured_network_fee s"

section \<open>lifecycle.rs\<close>

definition new_invoice ::
    "u64 \<Rightarrow> address \<Rightarrow> i128 \<Rightarrow> i128 \<Rightarrow> u64 \<Rightarrow> MaybeBytes \<Rightarrow> MaybeBytes \<Rightarrow> u64 \<Rightarrow> MaybeAddress \<Rightarrow> Invoice" where
  "new_invoice i merchant amount_usdc gross_usdc expires_at metadata_hash payment_link_hash
     merchant_nonce token_address =
     \<lparr>inv_id = i, inv_merchant = merchant, inv_amount_usdc = amount_usdc, inv_gross_usdc = gross_usdc,
      inv_status = IPending, inv_expires_at = expires_at, inv_paid_at = None, inv_payer = MA_None,
      inv_metadata_hash = metadata_hash, inv_payment_link_hash = payment_link_hash,
      inv_merchant_nonce = merchant_nonce, inv_token_address = token_address\<rparr>"

definition create_invoice_record ::
    "'w host \<Rightarrow> 'w invoice_store \<Rightarrow> address \<Rightarrow> i128 \<Rightarrow> i128 \<Rightarrow> u64 \<Rightarrow> MaybeBytes \<Rightarrow> MaybeBytes \<Rightarrow> u64 \<Rightarrow>
     MaybeAddress \<Rightarrow> (u64 \<times> 'w invoice_store) i_outcome" where
  "create_invoice_record h s merchant amount_usdc gross_usdc expires_in_seconds metadata_hash
     payment_link_hash merchant_nonce token_address =
     andthen (ok_or (checked_add (unwrap_or (i_count s) 0) 1) (Err IE_InvoiceCountOverflow)) (\<lambda>i.
     andthen (ok_or (checked_add (h_now h) expires_in_seconds) (Err IE_ExpiryOverflow)) (\<lambda>expires_at.
     let s1 = (if merchant_nonce \<noteq> 0
               then s\<lparr>i_merchant_nonce := (i_merchant_nonce s)((merchant, merchant_nonce) \<mapsto> True)\<rparr> else s);
         invoice = new_invoice i merchant amount_usdc gross_usdc expires_at metadata_hash
                     payment_link_hash merchant_nonce token_address;
         s2 = put_invoice i invoice s1;
         s3 = s2\<lparr>i_count := Some i\<rparr>;
         merchant_count = unwrap_or (i_merchant_count s3 merchant) 0;
         s4 = s3\<lparr>i_merchant_index := (i_merchant_index s3)((merchant, merchant_count) \<mapsto> i)\<rparr>
     in andthen (ok_or (checked_add merchant_count 1) Trap) (\<lambda>merchant_count'.
        let s5 = s4\<lparr>i_merchant_count := (i_merchant_count s4)(merchant \<mapsto> merchant_count')\<rparr>;
            s6 = pending_index_add i s5
        in Inr (i, invoice_created i invoice s6))))"

definition create_invoice ::
    "'w host \<Rightarrow> 'w invoice_store \<Rightarrow> address \<Rightarrow> i128 \<Rightarrow> i128 \<Rightarrow> u64 \<Rightarrow> MaybeBytes \<Rightarrow> MaybeBytes \<Rightarrow> u64 \<Rightarrow>
     MaybeAddress \<Rightarrow> (u64 \<times> 'w invoice_store) i_outcome" where
  "create_invoice h s merchant amount_usdc gross_usdc expires_in_seconds metadata_hash
     payment_link_hash merchant_nonce token_address =
     andthen (require_auth h merchant) (\<lambda>_.
     andthen (require_not_paused s) (\<lambda>_.
     andthen (require_positive_amount amount_usdc gross_usdc) (\<lambda>_.
     andthen (require_usdc_precision amount_usdc gross_usdc) (\<lambda>_.
     andthen (require_hash_not_too_long metadata_hash) (\<lambda>_.
     andthen (require_hash_not_too_long payment_link_hash) (\<lambda>_.
     andthen (require_valid_payment_link_hash payment_link_hash) (\<lambda>_.
     andthen (require (expires_in_seconds \<noteq> 0) (Err IE_ZeroDuration)) (\<lambda>_.
     andthen (require_expiry_not_too_long expires_in_seconds) (\<lambda>_.
     andthen (require (\<not> (merchant_nonce \<noteq> 0 \<and> i_merchant_nonce s (merchant, merchant_nonce) \<noteq> None))
                (Err IE_DuplicateNonce)) (\<lambda>_.
       create_invoice_record h s merchant amount_usdc gross_usdc expires_in_seconds metadata_hash
         payment_link_hash merchant_nonce token_address))))))))))"

definition mark_paid ::
    "'w host \<Rightarrow> 'w invoice_store \<Rightarrow> address \<Rightarrow> u64 \<Rightarrow> address \<Rightarrow> MaybeBytes \<Rightarrow> MaybeAddress \<Rightarrow>
     'w invoice_store i_outcome" where
  "mark_paid h s admin i payer provided_metadata_hash payment_token =
     andthen (require_admin h s admin) (\<lambda>_.
     andthen (require_not_paused s) (\<lambda>_.
     andthen (get_invoice s i) (\<lambda>invoice.
     andthen (require (inv_status invoice = IPending) (Err IE_NotPending)) (\<lambda>_.
     andthen (require_payer_not_merchant payer (inv_merchant invoice)) (\<lambda>_.
     andthen (require (\<not> (provided_metadata_hash \<noteq> MB_None \<and>
                          provided_metadata_hash \<noteq> inv_metadata_hash invoice))
                (Err IE_MetadataMismatch)) (\<lambda>_.
     andthen (case inv_token_address invoice of
                MA_Some expected \<Rightarrow> require (payment_token = MA_Some expected) (Err IE_TokenMismatch)
              | MA_None \<Rightarrow> Inr ()) (\<lambda>_.
     let grace = unwrap_or (i_grace_window s) 0;
         effective_deadline = unwrap_or (checked_add (inv_expires_at invoice) grace) (inv_expires_at invoice) in
     andthen (require (\<not> h_now h \<ge> effective_deadline) (Err IE_Expired)) (\<lambda>_.
     let invoice' = invoice\<lparr>inv_status := IPaid, inv_paid_at := Some (h_now h), inv_payer := MA_Some payer\<rparr>;
         s1 = put_invoice i invoice' s;
         s2 = payer_index_add payer i s1;
         s3 = pending_index_remove i s2;
         s4 = append_history h i IPending IPaid s3
     in Inr (invoice_paid i invoice' s4)))))))))"

definition release_escrow :: "'w host \<Rightarrow> 'w invoice_store \<Rightarrow> address \<Rightarrow> u64 \<Rightarrow> 'w invoice_store i_outcome" where
  "release_escrow h s admin i =
     andthen (require_admin h s admin) (\<lambda>_.
     andthen (require_not_paused s) (\<lambda>_.
     andthen (get_invoice s i) (\<lambda>invoice.
     andthen (require (inv_status invoice = IPaid) (Err IE_NotPaid)) (\<lambda>_.
     let invoice' = invoice\<lparr>inv_status := IReleased\<rparr>;
         s1 = put_invoice i invoice' s;
         s2 = append_history h i IPaid IReleased s1
     in Inr (escrow_released h i invoice' s2)))))"

definition get_invoice_status :: "'w invoice_store \<Rightarrow> u64 \<Rightarrow> InvoiceStatus i_outcome" where
  "get_invoice_status s i =
     andthen (ok_or (i_invoices s i) (Err IE_NotFound)) (\<lambda>invoice. Inr (inv_status invoice))"

definition get_invoice_summary :: "'w invoice_store \<Rightarrow> u64 \<Rightarrow> InvoiceSummary i_outcome" where
  "get_invoice_summary s i =
     andthen (ok_or (i_invoices s i) (Err IE_NotFound)) (\<lambda>invoice. Inr (summary_from invoice))"

definition batch_get_invoice_status :: "'w invoice_store \<Rightarrow> u64 list \<Rightarrow> InvoiceStatus i_outcome list" where
  "batch_get_invoice_status s ids = map (get_invoice_status s) ids"

text \<open>\<open>count + 1\<close> is checked; the loop variable stays below the end and cannot overflow.\<close>

definition get_invoices_page :: "'w invoice_store \<Rightarrow> u64 \<Rightarrow> u64 \<Rightarrow> Invoice list i_outcome" where
  "get_invoices_page s start_id limit =
     andthen (ok_or (checked_add (unwrap_or (i_count s) 0) 1) Trap) (\<lambda>next_id.
     let end_id = min (saturating_add start_id limit) next_id
     in Inr (List.map_filter (\<lambda>current. i_invoices s (word_of_nat current)) [unat start_id..<unat end_id]))"

definition get_invoice_count :: "'w invoice_store \<Rightarrow> u64" where
  "get_invoice_count s = unwrap_or (i_count s) 0"

definition get_pending_ids :: "'w invoice_store \<Rightarrow> u64 list" where
  "get_pending_ids s = unwrap_or (i_pending_index s) []"

definition cancel_invoice :: "'w host \<Rightarrow> 'w invoice_store \<Rightarrow> address \<Rightarrow> u64 \<Rightarrow> 'w invoice_store i_outcome" where
  "cancel_invoice h s caller i =
     andthen (require_auth h caller) (\<lambda>_.
     andthen (require_not_paused s) (\<lambda>_.
     andthen (get_invoice s i) (\<lambda>invoice.
     andthen (require (\<not> (caller \<noteq> inv_merchant invoice \<and> i_admin s \<noteq> Some caller)) (Err IE_Unauthorized)) (\<lambda>_.
     andthen (require (inv_status invoice = IPending) (Err IE_NotPending)) (\<lambda>_.
     let invoice' = invoice\<lparr>inv_status := ICancelled\<rparr>;
         s1 = put_invoice i invoice' s;
         s2 = pending_index_remove i s1;
         s3 = append_history h i IPending ICancelled s2
     in Inr (invoice_cancelled i invoice' s3))))))"

definition amend_invoice ::
    "'w host \<Rightarrow> 'w invoice_store \<Rightarrow> address \<Rightarrow> u64 \<Rightarrow> i128 \<Rightarrow> i128 \<Rightarrow> u64 \<Rightarrow> 'w invoice_store i_outcome" where
  "amend_invoice h s merchant i new_amount_usdc new_gross_usdc new_expires_in_seconds =
     andthen (require_auth h merchant) (\<lambda>_.
     andthen (require_not_paused s) (\<lambda>_.
     andthen (require_positive_amount new_amount_usdc new_gross_usdc) (\<lambda>_.
     andthen (require_usdc_precision new_amount_usdc new_gross_usdc) (\<lambda>_.
     andthen (require (new_expires_in_seconds \<noteq> 0) (Err IE_ZeroDuration)) (\<lambda>_.
     andthen (require_expiry_not_too_long new_expires_in_seconds) (\<lambda>_.
     andthen (get_invoice s i) (\<lambda>invoice.
     andthen (require (inv_merchant invoice = merchant) (Err IE_Unauthorized)) (\<lambda>_.
     andthen (require (inv_status invoice = IPending) (Err IE_NotPending)) (\<lambda>_.
     andthen (ok_or (checked_add (h_now h) new_expires_in_seconds) (Err IE_ExpiryOverflow)) (\<lambda>expires_at.
       Inr (publish (Ev_invoice_amended i (inv_amount_usdc invoice) new_amount_usdc
                       (inv_gross_usdc invoice) new_gross_usdc)
             (put_invoice i (invoice\<lparr>inv_amount_usdc := new_amount_usdc, inv_gross_usdc := new_gross_usdc,
                                     inv_expires_at := expires_at\<rparr>) s))))))))))))"

definition get_invoices_by_merchant :: "'w invoice_store \<Rightarrow> address \<Rightarrow> u32 \<Rightarrow> u32 \<Rightarrow> u64 list" where
  "get_invoices_by_merchant s merchant start limit =
     (let total = unwrap_or (i_merchant_count s merchant) 0;
          start' = min (ucast start) total;
          end' = min (saturating_add start' (ucast limit)) total
      in List.map_filter (\<lambda>i. i_merchant_index s (merchant, word_of_nat i)) [unat start'..<unat end'])"

definition get_invoices_by_payer :: "'w invoice_store \<Rightarrow> address \<Rightarrow> u32 \<Rightarrow> u32 \<Rightarrow> u64 list" where
  "get_invoices_by_payer s payer start limit =
     (let total = unwrap_or (i_payer_count s payer) 0;
          start' = min (ucast start) total;
          limit' = min limit MAX_PAGE_LIMIT;
          end' = min (saturating_add start' (ucast limit')) total
      in List.map_filter (\<lambda>i. i_payer_index s (payer, word_of_nat i)) [unat start'..<unat end'])"

section \<open>batch.rs\<close>

text \<open>The validation pass: the accumulator is \<open>batch_nonces\<close>.\<close>

definition validate_batch_param ::
    "'w invoice_store \<Rightarrow> address \<Rightarrow> BatchInvoiceParams \<Rightarrow> u64 list \<Rightarrow> u64 list i_outcome" where
  "validate_batch_param s merchant p batch_nonces =
     andthen (require_positive_amount (bp_amount_usdc p) (bp_gross_usdc p)) (\<lambda>_.
     andthen (require_usdc_precision (bp_amount_usdc p) (bp_gross_usdc p)) (\<lambda>_.
     andthen (require_hash_not_too_long (bp_metadata_hash p)) (\<lambda>_.
     andthen (require_hash_not_too_long (bp_payment_link_hash p)) (\<lambda>_.
     andthen (require_valid_payment_link_hash (bp_payment_link_hash p)) (\<lambda>_.
     andthen (require (bp_expires_in_seconds p \<noteq> 0) (Err IE_ZeroDuration)) (\<lambda>_.
     andthen (require_expiry_not_too_long (bp_expires_in_seconds p)) (\<lambda>_.
     if bp_merchant_nonce p \<noteq> 0
     then andthen (require (\<not> (i_merchant_nonce s (merchant, bp_merchant_nonce p) \<noteq> None \<or>
                               bp_merchant_nonce p \<in> set batch_nonces)) (Err IE_DuplicateNonce)) (\<lambda>_.
            Inr (batch_nonces @ [bp_merchant_nonce p]))
     else Inr batch_nonces)))))))"

definition batch_create_one ::
    "'w host \<Rightarrow> address \<Rightarrow> BatchInvoiceParams \<Rightarrow> u64 list \<times> 'w invoice_store \<Rightarrow>
     (u64 list \<times> 'w invoice_store) i_outcome" where
  "batch_create_one h merchant p acc = (case acc of (ids, s) \<Rightarrow>
     andthen (ok_or (checked_add (unwrap_or (i_count s) 0) 1) (Err IE_InvoiceCountOverflow)) (\<lambda>i.
     andthen (ok_or (checked_add (h_now h) (bp_expires_in_seconds p)) (Err IE_ExpiryOverflow)) (\<lambda>expires_at.
     let invoice = new_invoice i merchant (bp_amount_usdc p) (bp_gross_usdc p) expires_at
                     (bp_metadata_hash p) (bp_payment_link_hash p) (bp_merchant_nonce p) (bp_token_address p);
         s1 = put_invoice i invoice s;
         s2 = s1\<lparr>i_count := Some i\<rparr>;
         s3 = (if bp_merchant_nonce p \<noteq> 0
               then s2\<lparr>i_merchant_nonce := (i_merchant_nonce s2)((merchant, bp_merchant_nonce p) \<mapsto> True)\<rparr>
               else s2);
         merchant_count = unwrap_or (i_merchant_count s3 merchant) 0;
         s4 = s3\<lparr>i_merchant_index := (i_merchant_index s3)((merchant, merchant_count) \<mapsto> i)\<rparr>
     in andthen (ok_or (checked_add merchant_count 1) Trap) (\<lambda>merchant_count'.
        let s5 = s4\<lparr>i_merchant_count := (i_merchant_count s4)(merchant \<mapsto> merchant_count')\<rparr>;
            s6 = pending_index_add i s5
        in Inr (ids @ [i], invoice_created i invoice s6)))))"

definition batch_create_invoice ::
    "'w host \<Rightarrow> 'w invoice_store \<Rightarrow> address \<Rightarrow> BatchInvoiceParams list \<Rightarrow>
     (u64 list \<times> 'w invoice_store) i_outcome" where
  "batch_create_invoice h s merchant params =
     andthen (require_auth h merchant) (\<lambda>_.
     andthen (require_not_paused s) (\<lambda>_.
     andthen (fold_result (validate_batch_param s merchant) params []) (\<lambda>_.
     andthen (ok_or (checked_add (unwrap_or (i_count s) 0) (word_of_nat (length params)))
                (Err IE_InvoiceCountOverflow)) (\<lambda>_.
       fold_result (batch_create_one h merchant) params ([], s)))))"

definition expire_one ::
    "'w host \<Rightarrow> u64 \<Rightarrow> u32 \<times> 'w invoice_store \<Rightarrow> (u32 \<times> 'w invoice_store) i_outcome" where
  "expire_one h i acc = (case acc of (expired_count, s) \<Rightarrow>
     (case i_invoices s i of
        None \<Rightarrow> Inr (expired_count, s)
      | Some invoice \<Rightarrow>
          if inv_status invoice = IPending \<and> h_now h \<ge> inv_expires_at invoice
          then let invoice' = invoice\<lparr>inv_status := IExpired\<rparr>;
                   s1 = put_invoice i invoice' s;
                   s2 = pending_index_remove i s1;
                   s3 = append_history h i IPending IExpired s2;
                   s4 = invoice_expired i invoice' s3
               in andthen (ok_or (checked_add expired_count 1) Trap) (\<lambda>expired_count'. Inr (expired_count', s4))
          else Inr (expired_count, s)))"

definition batch_expire ::
    "'w host \<Rightarrow> 'w invoice_store \<Rightarrow> address \<Rightarrow> u64 list \<Rightarrow> (u32 \<times> 'w invoice_store) i_outcome" where
  "batch_expire h s admin ids =
     andthen (require_admin h s admin) (\<lambda>_.
     andthen (require_not_paused s) (\<lambda>_.
     andthen (require (\<not> length ids > MAX_BATCH_EXPIRE) (Err IE_BatchTooLarge)) (\<lambda>_.
       fold_result (expire_one h) ids (0, s))))"

definition collect_cancellable ::
    "'w invoice_store \<Rightarrow> address \<Rightarrow> u64 \<Rightarrow> Invoice list \<Rightarrow> Invoice list i_outcome" where
  "collect_cancellable s merchant i invoices =
     andthen (get_invoice s i) (\<lambda>invoice.
     andthen (require (inv_merchant invoice = merchant) (Err IE_Unauthorized)) (\<lambda>_.
     andthen (require (inv_status invoice = IPending) (Err IE_NotPending)) (\<lambda>_.
       Inr (invoices @ [invoice]))))"

definition cancel_collected :: "'w host \<Rightarrow> Invoice \<Rightarrow> 'w invoice_store \<Rightarrow> 'w invoice_store" where
  "cancel_collected h invoice s =
     (let invoice' = invoice\<lparr>inv_status := ICancelled\<rparr>;
          s1 = put_invoice (inv_id invoice) invoice' s;
          s2 = pending_index_remove (inv_id invoice) s1;
          s3 = append_history h (inv_id invoice) IPending ICancelled s2
      in invoice_cancelled (inv_id invoice) invoice' s3)"

definition batch_cancel_invoices ::
    "'w host \<Rightarrow> 'w invoice_store \<Rightarrow> address \<Rightarrow> u64 list \<Rightarrow> MaybeBytes \<Rightarrow> 'w invoice_store i_outcome" where
  "batch_cancel_invoices h s merchant ids reason =
     andthen (require_auth h merchant) (\<lambda>_.
     andthen (require_not_paused s) (\<lambda>_.
     andthen (require (\<not> length ids > MAX_BATCH_SIZE) (Err IE_BatchTooLarge)) (\<lambda>_.
     andthen (fold_result (collect_cancellable s merchant) ids []) (\<lambda>invoices.
       Inr (fold (cancel_collected h) invoices s)))))"

section \<open>template.rs\<close>

definition index_template :: "address \<Rightarrow> u64 \<Rightarrow> 'w invoice_store \<Rightarrow> 'w invoice_store" where
  "index_template merchant i s =
     s\<lparr>i_merchant_templates := (i_merchant_templates s)(merchant \<mapsto>
         unwrap_or (i_merchant_templates s merchant) [] @ [i])\<rparr>"

definition create_template ::
    "'w host \<Rightarrow> 'w invoice_store \<Rightarrow> address \<Rightarrow> i128 \<Rightarrow> i128 \<Rightarrow> RecurrenceInterval \<Rightarrow> u64 \<Rightarrow> MaybeBytes \<Rightarrow>
     MaybeBytes \<Rightarrow> (u64 \<times> 'w invoice_store) i_outcome" where
  "create_template h s merchant amount_usdc gross_usdc interval expires_in_seconds metadata_hash
     payment_link_hash =
     andthen (require_auth h merchant) (\<lambda>_.
     andthen (require_not_paused s) (\<lambda>_.
     andthen (require_positive_amount amount_usdc gross_usdc) (\<lambda>_.
     andthen (require_usdc_precision amount_usdc gross_usdc) (\<lambda>_.
     andthen (require_hash_not_too_long metadata_hash) (\<lambda>_.
     andthen (require_hash_not_too_long payment_link_hash) (\<lambda>_.
     andthen (require_valid_payment_link_hash payment_link_hash) (\<lambda>_.
     andthen (require (expires_in_seconds \<noteq> 0) (Err IE_ZeroDuration)) (\<lambda>_.
     andthen (require_expiry_not_too_long expires_in_seconds) (\<lambda>_.
     andthen (ok_or (checked_add (unwrap_or (i_template_count s) 0) 1) (Err IE_InvoiceCountOverflow)) (\<lambda>i.
     andthen (ok_or (checked_add (h_now h) (period_seconds interval)) (Err IE_ExpiryOverflow)) (\<lambda>next_run_at.
     let template = \<lparr>tpl_id = i, tpl_merchant = merchant, tpl_amount_usdc = amount_usdc,
                     tpl_gross_usdc = gross_usdc, tpl_interval = interval,
                     tpl_expires_in_seconds = expires_in_seconds, tpl_metadata_hash = metadata_hash,
                     tpl_payment_link_hash = payment_link_hash, tpl_active = True,
                     tpl_next_run_at = next_run_at\<rparr>;
         s1 = s\<lparr>i_templates := (i_templates s)(i \<mapsto> template), i_template_count := Some i\<rparr>;
         s2 = index_template merchant i s1
     in Inr (i, publish (Ev_template_created i template) s2))))))))))))"

definition get_invoice_template :: "'w invoice_store \<Rightarrow> u64 \<Rightarrow> InvoiceTemplate i_outcome" where
  "get_invoice_template s i = ok_or (i_templates s i) (Err IE_NotFound)"

text \<open>\<open>start as usize\<close> keeps the low 32 bits on the contract's target.\<close>

fun list_templates_loop ::
    "'w invoice_store \<Rightarrow> nat \<Rightarrow> u64 list \<Rightarrow> InvoiceTemplate list \<Rightarrow> InvoiceTemplate list" where
  "list_templates_loop s capped [] page = page"
| "list_templates_loop s capped (i # ids) page =
     (if length page \<ge> capped then page
      else case i_templates s i of
             Some template \<Rightarrow> list_templates_loop s capped ids (page @ [template])
           | None \<Rightarrow> list_templates_loop s capped ids page)"

definition list_templates_by_merchant ::
    "'w invoice_store \<Rightarrow> address \<Rightarrow> u64 \<Rightarrow> u64 \<Rightarrow> InvoiceTemplate list" where
  "list_templates_by_merchant s merchant start limit =
     (let capped = min limit (ucast TEMPLATE_PAGE_LIMIT);
          ids = unwrap_or (i_merchant_templates s merchant) []
      in list_templates_loop s (unat capped) (drop (unat (ucast start :: u32)) ids) [])"

definition set_template_active ::
    "'w host \<Rightarrow> 'w invoice_store \<Rightarrow> address \<Rightarrow> u64 \<Rightarrow> bool \<Rightarrow> 'w invoice_store i_outcome" where
  "set_template_active h s caller i active =
     andthen (require_auth h caller) (\<lambda>_.
     andthen (ok_or (i_templates s i) (Err IE_NotFound)) (\<lambda>template.
     andthen (require (\<not> (caller \<noteq> tpl_merchant template \<and> i_admin s \<noteq> Some caller)) (Err IE_Unauthorized)) (\<lambda>_.
       Inr (publish (Ev_template_activated i active)
             (s\<lparr>i_templates := (i_templates s)(i \<mapsto> template\<lparr>tpl_active := active\<rparr>)\<rparr>)))))"

definition generate_from_template ::
    "'w host \<Rightarrow> 'w invoice_store \<Rightarrow> address \<Rightarrow> u64 \<Rightarrow> (u64 \<times> 'w invoice_store) i_outcome" where
  "generate_from_template h s merchant template_id =
     andthen (require_auth h merchant) (\<lambda>_.
     andthen (require_not_paused s) (\<lambda>_.
     andthen (ok_or (i_templates s template_id) (Err IE_NotFound)) (\<lambda>template.
     andthen (require (tpl_merchant template = merchant) (Err IE_Unauthorized)) (\<lambda>_.
     andthen (require (tpl_active template) (Err IE_TemplateDisabled)) (\<lambda>_.
     andthen (create_invoice_record h s (tpl_merchant template) (tpl_amount_usdc template)
                (tpl_gross_usdc template) (tpl_expires_in_seconds template) (tpl_metadata_hash template)
                (tpl_payment_link_hash template) 0 MA_None) (\<lambda>(invoice_id, s1).
       Inr (invoice_id, publish (Ev_template_generated template_id invoice_id) s1)))))))"

definition get_template_count :: "'w invoice_store \<Rightarrow> u64" where
  "get_template_count s = unwrap_or (i_template_count s) 0"

text \<open>
  The schedule loop \<open>while next_run_at <= now \{ .. \}\<close>. A period is positive, so each
  round brings the next run closer to the end of the \<open>u64\<close> range.
\<close>

function advance_next_run :: "RecurrenceInterval \<Rightarrow> u64 \<Rightarrow> u64 \<Rightarrow> u64" where
  "advance_next_run interval now next_run_at =
     (if next_run_at \<le> now
      then (case checked_add next_run_at (period_seconds interval) of
              Some advanced \<Rightarrow> advance_next_run interval now advanced
            | None \<Rightarrow> - 1)
      else next_run_at)"
  by pat_completeness auto
termination
proof (relation "measure (\<lambda>(interval, now, next_run_at). 2 ^ 64 - unat next_run_at)")
  fix interval and now next_run_at advanced :: u64
  assume "checked_add next_run_at (period_seconds interval) = Some advanced"
  then have "unat advanced = unat next_run_at + unat (period_seconds interval)" by (simp add: arith_simps)
  moreover have "unat advanced < 2 ^ 64" using unsigned_less [of advanced] by simp
  moreover note period_positive [of interval]
  ultimately show "((interval, now, advanced), (interval, now, next_run_at))
      \<in> measure (\<lambda>(interval, now, next_run_at). 2 ^ 64 - unat next_run_at)" by simp
qed simp

declare advance_next_run.simps [simp del]

definition generate_one ::
    "'w host \<Rightarrow> u64 \<Rightarrow> u32 \<times> 'w invoice_store \<Rightarrow> (u32 \<times> 'w invoice_store) i_outcome" where
  "generate_one h i acc = (case acc of (generated, s) \<Rightarrow>
     (case i_templates s i of
        None \<Rightarrow> Inr (generated, s)
      | Some template \<Rightarrow>
          if \<not> tpl_active template \<or> h_now h < tpl_next_run_at template then Inr (generated, s)
          else
            andthen (create_invoice_record h s (tpl_merchant template) (tpl_amount_usdc template)
                (tpl_gross_usdc template) (tpl_expires_in_seconds template) (tpl_metadata_hash template)
                (tpl_payment_link_hash template) 0 MA_None) (\<lambda>(invoice_id, s1).
            let next_run_at = advance_next_run (tpl_interval template) (h_now h) (tpl_next_run_at template);
                s2 = s1\<lparr>i_templates := (i_templates s1)(i \<mapsto> template\<lparr>tpl_next_run_at := next_run_at\<rparr>)\<rparr>
            in andthen (ok_or (checked_add generated 1) Trap) (\<lambda>generated'.
               Inr (generated', publish (Ev_template_generated i invoice_id) s2)))))"

definition generate_due_invoices ::
    "'w host \<Rightarrow> 'w invoice_store \<Rightarrow> u64 list \<Rightarrow> (u32 \<times> 'w invoice_store) i_outcome" where
  "generate_due_invoices h s template_ids =
     andthen (require (\<not> length template_ids > TEMPLATE_KEEPER_BATCH_SIZE) (Err IE_BatchTooLarge)) (\<lambda>_.
     andthen (require_not_paused s) (\<lambda>_.
       fold_result (generate_one h) template_ids (0, s)))"

section \<open>transfer.rs\<close>

definition transfer_invoice ::
    "'w host \<Rightarrow> 'w invoice_store \<Rightarrow> address \<Rightarrow> u64 \<Rightarrow> address \<Rightarrow> 'w invoice_store i_outcome" where
  "transfer_invoice h s from i to =
     andthen (require_auth h from) (\<lambda>_.
     andthen (require_not_paused s) (\<lambda>_.
     andthen (get_invoice s i) (\<lambda>invoice.
     andthen (require (inv_payer invoice = MA_Some from) (Err IE_Unauthorized)) (\<lambda>_.
     andthen (require (inv_status invoice = IPaid) (Err IE_NotPaid)) (\<lambda>_.
     andthen (require (from \<noteq> to) (Err IE_InvalidAmount)) (\<lambda>_.
       Inr (publish (Ev_invoice_transferred i from to)
             (put_invoice i (invoice\<lparr>inv_payer := MA_Some to\<rparr>) s))))))))"

section \<open>The shared interfaces\<close>

interpretation invoice_switch: pausable pause unpause is_paused i_admin
  by unfold_locales
    (auto simp: pause_def unpause_def require_admin_def is_paused_def publish_def result_simps)

interpretation invoice_handover: two_step_admin transfer_admin accept_admin i_admin i_pending_admin
  by unfold_locales
    (auto simp: transfer_admin_def accept_admin_def require_admin_def result_simps)

end
