(* ===== verification/Invoice_Ledger.thy ===== *)
theory Invoice_Ledger
  imports Invoice_Entrypoints
begin

text \<open>
  What the invoice contract promises, without storage layout, guards on callers or
  events: a ledger of invoices that changes only along the life cycle of
  \<open>InvoiceStatus\<close>. \<open>invoice_step\<close> is the life cycle of one invoice, \<open>ledger_step\<close> one
  change of the ledger, \<open>ledger_ok\<close> the invariant of the ledger.
\<close>

section \<open>The life cycle of one invoice\<close>

inductive invoice_step :: "Invoice \<Rightarrow> Invoice \<Rightarrow> bool" where
  pay: "inv_status v = IPending \<Longrightarrow> p \<noteq> inv_merchant v \<Longrightarrow>
    invoice_step v (v\<lparr>inv_status := IPaid, inv_paid_at := Some t, inv_payer := MA_Some p\<rparr>)"
| expire: "inv_status v = IPending \<Longrightarrow> invoice_step v (v\<lparr>inv_status := IExpired\<rparr>)"
| cancel: "inv_status v = IPending \<Longrightarrow> invoice_step v (v\<lparr>inv_status := ICancelled\<rparr>)"
| amend: "inv_status v = IPending \<Longrightarrow> USDC_FACTOR \<le> a \<Longrightarrow> a \<le> g \<Longrightarrow>
    invoice_step v (v\<lparr>inv_amount_usdc := a, inv_gross_usdc := g, inv_expires_at := e\<rparr>)"
| extend: "inv_status v = IPending \<Longrightarrow> inv_expires_at v < e \<Longrightarrow> invoice_step v (v\<lparr>inv_expires_at := e\<rparr>)"
| release: "inv_status v = IPaid \<Longrightarrow> invoice_step v (v\<lparr>inv_status := IReleased\<rparr>)"
| request: "inv_status v = IPaid \<Longrightarrow> invoice_step v (v\<lparr>inv_status := IRefundRequested\<rparr>)"
| transfer: "inv_status v = IPaid \<Longrightarrow> invoice_step v (v\<lparr>inv_payer := MA_Some p\<rparr>)"
| refund: "inv_status v = IRefundRequested \<Longrightarrow> invoice_step v (v\<lparr>inv_status := IRefunded\<rparr>)"
| reject: "inv_status v = IRefundRequested \<Longrightarrow> invoice_step v (v\<lparr>inv_status := IPaid\<rparr>)"

inductive_cases invoice_stepE: "invoice_step v v'"

definition status_edge :: "InvoiceStatus \<Rightarrow> InvoiceStatus \<Rightarrow> bool" where
  "status_edge a b \<longleftrightarrow> (a, b) \<in> {(IPending, IPaid), (IPending, IExpired), (IPending, ICancelled),
     (IPaid, IReleased), (IPaid, IRefundRequested), (IRefundRequested, IRefunded), (IRefundRequested, IPaid)}"

lemma step_status: "invoice_step v v' \<Longrightarrow> inv_status v' = inv_status v \<or> status_edge (inv_status v) (inv_status v')"
  by (auto simp: status_edge_def elim!: invoice_stepE)

lemma terminal_iff_no_edge: "is_terminal a \<longleftrightarrow> (\<nexists>b. status_edge a b)"
  by (cases a) (auto simp: status_edge_def)

lemma terminal_stuck: "invoice_step v v' \<Longrightarrow> \<not> is_terminal (inv_status v)"
  by (auto elim!: invoice_stepE)

lemma terminal_frozen: "invoice_step\<^sup>*\<^sup>* v v' \<Longrightarrow> is_terminal (inv_status v) \<Longrightarrow> v' = v"
  by (erule converse_rtranclpE) (auto dest: terminal_stuck)

definition same_identity :: "Invoice \<Rightarrow> Invoice \<Rightarrow> bool" where
  "same_identity v v' \<longleftrightarrow>
     inv_id v' = inv_id v \<and> inv_merchant v' = inv_merchant v \<and>
     inv_metadata_hash v' = inv_metadata_hash v \<and> inv_payment_link_hash v' = inv_payment_link_hash v \<and>
     inv_merchant_nonce v' = inv_merchant_nonce v \<and> inv_token_address v' = inv_token_address v"

lemma step_identity: "invoice_step v v' \<Longrightarrow> same_identity v v'"
  by (auto simp: same_identity_def elim!: invoice_stepE)

lemma steps_identity: "invoice_step\<^sup>*\<^sup>* v v' \<Longrightarrow> same_identity v v'"
  by (induction rule: rtranclp_induct) (auto simp: same_identity_def dest!: step_identity)

text \<open>Once paid, the amounts are fixed.\<close>

lemma step_amounts:
  "invoice_step v v' \<Longrightarrow> inv_status v \<noteq> IPending \<Longrightarrow>
    inv_status v' \<noteq> IPending \<and> inv_amount_usdc v' = inv_amount_usdc v \<and> inv_gross_usdc v' = inv_gross_usdc v"
  by (erule invoice_stepE) simp_all

lemma steps_amounts:
  "invoice_step\<^sup>*\<^sup>* v v' \<Longrightarrow> inv_status v \<noteq> IPending \<Longrightarrow>
    inv_status v' \<noteq> IPending \<and> inv_amount_usdc v' = inv_amount_usdc v \<and> inv_gross_usdc v' = inv_gross_usdc v"
  by (induction rule: rtranclp_induct) (simp, metis step_amounts)

definition was_paid :: "InvoiceStatus \<Rightarrow> bool" where
  "was_paid a \<longleftrightarrow> a \<in> {IPaid, IRefundRequested, IReleased, IRefunded}"

definition invoice_ok :: "Invoice \<Rightarrow> bool" where
  "invoice_ok v \<longleftrightarrow> USDC_FACTOR \<le> inv_amount_usdc v \<and> inv_amount_usdc v \<le> inv_gross_usdc v \<and>
     (was_paid (inv_status v) \<longleftrightarrow> inv_paid_at v \<noteq> None) \<and> (was_paid (inv_status v) \<longleftrightarrow> inv_payer v \<noteq> MA_None)"

lemma step_keeps_ok: "invoice_step v v' \<Longrightarrow> invoice_ok v \<Longrightarrow> invoice_ok v'"
  by (erule invoice_stepE) (simp_all add: invoice_ok_def was_paid_def)

lemma new_invoice_ok: "USDC_FACTOR \<le> a \<Longrightarrow> a \<le> g \<Longrightarrow> invoice_ok (new_invoice i m a g e mh lh n tok)"
  by (simp add: invoice_ok_def new_invoice_def was_paid_def)

section \<open>Histories\<close>

text \<open>
  The paths of the life cycle that start at \<open>Pending\<close>. A history records such a
  path; \<open>batch_cancel_invoices\<close> records the cancellation of an id once per
  occurrence in its list, so a history is a path up to immediate repetitions of
  the same record.
\<close>

inductive status_path :: "StatusTransition list \<Rightarrow> InvoiceStatus \<Rightarrow> bool" where
  start: "status_path [] IPending"
| extend_path: "status_path hs a \<Longrightarrow> status_edge a b \<Longrightarrow>
    status_path (hs @ [\<lparr>tr_from = a, tr_to = b, tr_timestamp = t\<rparr>]) b"

definition history_ok :: "StatusTransition list \<Rightarrow> InvoiceStatus \<Rightarrow> bool" where
  "history_ok hs a \<longleftrightarrow> status_path (remdups_adj hs) a"

lemma status_path_edges: "status_path hs a \<Longrightarrow> tr \<in> set hs \<Longrightarrow> status_edge (tr_from tr) (tr_to tr)"
  by (induction rule: status_path.induct) auto

lemma status_path_last: "status_path hs a \<Longrightarrow> (if hs = [] then a = IPending else tr_to (last hs) = a)"
  by (induction rule: status_path.induct) auto

lemma history_ok_start: "history_ok [] IPending"
  by (simp add: history_ok_def status_path.start)

lemma history_ok_extend:
  assumes "history_ok hs a" and "status_edge a b"
  shows "history_ok (hs @ [\<lparr>tr_from = a, tr_to = b, tr_timestamp = t\<rparr>]) b"
proof (cases hs rule: rev_cases)
  case Nil
  with assms status_path.extend_path [of "[]" a b t] show ?thesis by (simp add: history_ok_def)
next
  case (snoc ys y)
  from status_path_last [OF assms(1) [unfolded history_ok_def]] snoc have "tr_to y = a" by simp
  moreover have "a \<noteq> b" using assms(2) by (auto simp: status_edge_def)
  ultimately have "y \<noteq> \<lparr>tr_from = a, tr_to = b, tr_timestamp = t\<rparr>" by (cases y) simp
  with assms status_path.extend_path snoc show ?thesis
    by (simp add: history_ok_def remdups_adj_append_two)
qed

lemma history_ok_repeat: "history_ok (hs @ [tr]) a \<Longrightarrow> history_ok (hs @ [tr, tr]) a"
  by (simp add: history_ok_def remdups_adj_append_two)

section \<open>The ledger\<close>

record ledger =
  l_invoices :: "u64 \<rightharpoonup> Invoice"
  l_count :: u64
  l_nonces :: "(address \<times> u64) set"
  l_pending :: "u64 list"
  l_templates :: "u64 \<rightharpoonup> InvoiceTemplate"
  l_history :: "u64 \<Rightarrow> StatusTransition list"

definition template_ok :: "InvoiceTemplate \<Rightarrow> bool" where
  "template_ok tpl \<longleftrightarrow> USDC_FACTOR \<le> tpl_amount_usdc tpl \<and> tpl_amount_usdc tpl \<le> tpl_gross_usdc tpl"

definition put_step :: "u64 \<Rightarrow> Invoice \<Rightarrow> Invoice \<Rightarrow> u64 \<Rightarrow> ledger \<Rightarrow> ledger" where
  "put_step i v v' t l =
     l\<lparr>l_invoices := (l_invoices l)(i \<mapsto> v'),
       l_pending := (if inv_status v = IPending \<and> inv_status v' \<noteq> IPending
                     then drop_value i (l_pending l) else l_pending l),
       l_history := (if inv_status v' = inv_status v then l_history l
                     else (l_history l)(i := l_history l i @
                       [\<lparr>tr_from = inv_status v, tr_to = inv_status v', tr_timestamp = t\<rparr>]))\<rparr>"

definition add_invoice :: "u64 \<Rightarrow> Invoice \<Rightarrow> ledger \<Rightarrow> ledger" where
  "add_invoice i v l =
     l\<lparr>l_invoices := (l_invoices l)(i \<mapsto> v), l_count := i,
       l_nonces := (if inv_merchant_nonce v = 0 then l_nonces l
                    else insert (inv_merchant v, inv_merchant_nonce v) (l_nonces l)),
       l_pending := l_pending l @ [i]\<rparr>"

inductive ledger_step :: "ledger \<Rightarrow> ledger \<Rightarrow> bool" where
  update: "l_invoices l i = Some v \<Longrightarrow> invoice_step v v' \<Longrightarrow> ledger_step l (put_step i v v' t l)"
| recancel: "l_invoices l i = Some v \<Longrightarrow> inv_status v = ICancelled \<Longrightarrow>
    l_history l i = hs @ [\<lparr>tr_from = IPending, tr_to = ICancelled, tr_timestamp = t\<rparr>] \<Longrightarrow>
    ledger_step l (l\<lparr>l_pending := drop_value i (l_pending l),
      l_history := (l_history l)(i := l_history l i @
        [\<lparr>tr_from = IPending, tr_to = ICancelled, tr_timestamp = t\<rparr>])\<rparr>)"
| create: "unat i = unat (l_count l) + 1 \<Longrightarrow> USDC_FACTOR \<le> a \<Longrightarrow> a \<le> g \<Longrightarrow>
    n = 0 \<or> (m, n) \<notin> l_nonces l \<Longrightarrow>
    ledger_step l (add_invoice i (new_invoice i m a g e mh lh n tok) l)"
| generate: "unat i = unat (l_count l) + 1 \<Longrightarrow> l_templates l k = Some tpl \<Longrightarrow>
    ledger_step l (add_invoice i (new_invoice i (tpl_merchant tpl) (tpl_amount_usdc tpl)
      (tpl_gross_usdc tpl) e (tpl_metadata_hash tpl) (tpl_payment_link_hash tpl) 0 MA_None) l)"
| schedule: "template_ok tpl \<Longrightarrow> ledger_step l (l\<lparr>l_templates := (l_templates l)(k \<mapsto> tpl)\<rparr>)"
| reschedule: "l_templates l k = Some tpl \<Longrightarrow> tpl_amount_usdc tpl' = tpl_amount_usdc tpl \<Longrightarrow>
    tpl_gross_usdc tpl' = tpl_gross_usdc tpl \<Longrightarrow>
    ledger_step l (l\<lparr>l_templates := (l_templates l)(k \<mapsto> tpl')\<rparr>)"

section \<open>The invariant\<close>

definition entry_ok :: "ledger \<Rightarrow> u64 \<Rightarrow> Invoice \<Rightarrow> bool" where
  "entry_ok l i v \<longleftrightarrow> inv_id v = i \<and> 0 < i \<and> i \<le> l_count l \<and> invoice_ok v \<and>
     (inv_merchant_nonce v = 0 \<or> (inv_merchant v, inv_merchant_nonce v) \<in> l_nonces l) \<and>
     history_ok (l_history l i) (inv_status v)"

definition nonce_key :: "Invoice \<Rightarrow> address \<times> u64" where
  "nonce_key v = (inv_merchant v, inv_merchant_nonce v)"

definition nonces_unique :: "(u64 \<rightharpoonup> Invoice) \<Rightarrow> bool" where
  "nonces_unique invs \<longleftrightarrow>
     (\<forall>i j v w. invs i = Some v \<longrightarrow> invs j = Some w \<longrightarrow> nonce_key v = nonce_key w \<longrightarrow>
        inv_merchant_nonce v \<noteq> 0 \<longrightarrow> i = j)"

definition pending_exact :: "ledger \<Rightarrow> bool" where
  "pending_exact l \<longleftrightarrow> distinct (l_pending l) \<and>
     set (l_pending l) = {i. \<exists>v. l_invoices l i = Some v \<and> inv_status v = IPending}"

definition ledger_ok :: "ledger \<Rightarrow> bool" where
  "ledger_ok l \<longleftrightarrow>
     (\<forall>i v. l_invoices l i = Some v \<longrightarrow> entry_ok l i v) \<and>
     (\<forall>i. l_invoices l i = None \<longrightarrow> l_history l i = []) \<and>
     nonces_unique (l_invoices l) \<and> pending_exact l \<and>
     (\<forall>k tpl. l_templates l k = Some tpl \<longrightarrow> template_ok tpl)"

lemma ledger_okD:
  assumes "ledger_ok l"
  shows "l_invoices l i = Some v \<Longrightarrow> entry_ok l i v" "l_invoices l i = None \<Longrightarrow> l_history l i = []"
    "nonces_unique (l_invoices l)" "pending_exact l" "l_templates l k = Some tpl \<Longrightarrow> template_ok tpl"
  using assms by (auto simp: ledger_ok_def)

text \<open>Every change of the ledger keeps the invariant.\<close>

lemma nonces_unique_update:
  assumes "nonces_unique invs" "invs i = Some v" "nonce_key v' = nonce_key v"
  shows "nonces_unique (invs(i \<mapsto> v'))"
proof -
  have "inv_merchant_nonce v' = inv_merchant_nonce v" using assms(3) by (simp add: nonce_key_def)
  with assms show ?thesis unfolding nonces_unique_def fun_upd_apply by (metis option.inject)
qed

lemma nonces_unique_add:
  assumes "nonces_unique invs"
    and "inv_merchant_nonce v' = 0 \<or> (\<forall>j w. invs j = Some w \<longrightarrow> nonce_key w \<noteq> nonce_key v')"
  shows "nonces_unique (invs(i \<mapsto> v'))"
  using assms unfolding nonces_unique_def nonce_key_def fun_upd_apply by (metis option.inject prod.inject)

lemma put_step_ok:
  assumes ok: "ledger_ok l" and v: "l_invoices l i = Some v" and step: "invoice_step v v'"
  shows "ledger_ok (put_step i v v' t l)"
proof -
  let ?l = "put_step i v v' t l"
  note e = ledger_okD(1) [OF ok v, unfolded entry_ok_def]
  have ident: "inv_id v' = inv_id v" "inv_merchant v' = inv_merchant v" "inv_merchant_nonce v' = inv_merchant_nonce v"
    using step_identity [OF step] by (simp_all add: same_identity_def)
  have fields: "l_invoices ?l = (l_invoices l)(i \<mapsto> v')" "l_count ?l = l_count l" "l_nonces ?l = l_nonces l"
    "l_templates ?l = l_templates l" "\<And>j. j \<noteq> i \<Longrightarrow> l_history ?l j = l_history l j"
    by (simp_all add: put_step_def)
  have hist: "history_ok (l_history ?l i) (inv_status v')"
    using e step_status [OF step] by (auto simp: put_step_def intro: history_ok_extend)
  have entry: "entry_ok ?l j w" if "l_invoices ?l j = Some w" for j w
  proof (cases "j = i")
    case True
    with that have "w = v'" by (simp add: fields)
    with True hist e ident step_keeps_ok [OF step] show ?thesis by (simp add: entry_ok_def fields)
  next
    case False
    with that have "l_invoices l j = Some w" by (simp add: fields)
    from ledger_okD(1) [OF ok this] False show ?thesis by (simp add: entry_ok_def fields)
  qed
  have "inv_status v = IPending" if "inv_status v' = IPending"
    using that step_amounts [OF step] by blast
  then have "pending_exact ?l"
    using ledger_okD(4) [OF ok] v by (auto simp: pending_exact_def put_step_def)
  moreover have "nonces_unique (l_invoices ?l)"
    unfolding fields by (rule nonces_unique_update [OF ledger_okD(3) [OF ok] v]) (simp add: nonce_key_def ident)
  moreover have "l_history ?l j = []" if "l_invoices ?l j = None" for j
    using that ledger_okD(2) [OF ok, of j] by (cases "j = i") (simp_all add: fields)
  ultimately show ?thesis using entry ledger_okD(5) [OF ok] by (auto simp: ledger_ok_def fields)
qed

lemma fresh_id: "ledger_ok l \<Longrightarrow> unat i = unat (l_count l) + 1 \<Longrightarrow> l_invoices l i = None"
  by (rule ccontr) (auto dest!: ledger_okD(1) simp: entry_ok_def word_le_nat_alt)

lemma add_invoice_ok:
  assumes ok: "ledger_ok l" and i: "unat i = unat (l_count l) + 1"
    and amounts: "USDC_FACTOR \<le> a" "a \<le> g" and nonce: "n = 0 \<or> (m, n) \<notin> l_nonces l"
  shows "ledger_ok (add_invoice i (new_invoice i m a g e mh lh n tok) l)"
proof -
  let ?v = "new_invoice i m a g e mh lh n tok"
  let ?l = "add_invoice i ?v l"
  have v: "inv_id ?v = i" "inv_merchant ?v = m" "inv_merchant_nonce ?v = n" "inv_status ?v = IPending"
    by (simp_all add: new_invoice_def)
  have fresh: "l_invoices l i = None" by (rule fresh_id [OF ok i])
  have fields: "l_invoices ?l = (l_invoices l)(i \<mapsto> ?v)" "l_count ?l = i" "l_history ?l = l_history l"
    "l_templates ?l = l_templates l" "l_pending ?l = l_pending l @ [i]"
    "l_nonces ?l = (if n = 0 then l_nonces l else insert (m, n) (l_nonces l))"
    by (simp_all add: add_invoice_def v)
  have entry: "entry_ok ?l j w" if "l_invoices ?l j = Some w" for j w
  proof (cases "j = i")
    case True
    with that have "w = ?v" by (simp add: fields)
    moreover have "0 < i" using i by (simp add: word_less_nat_alt)
    moreover have "l_history l i = []" by (rule ledger_okD(2) [OF ok fresh])
    ultimately show ?thesis
      using True new_invoice_ok [OF amounts] by (simp add: entry_ok_def fields v history_ok_start)
  next
    case False
    with that have "l_invoices l j = Some w" by (simp add: fields)
    from ledger_okD(1) [OF ok this] i show ?thesis by (auto simp: entry_ok_def fields word_le_nat_alt)
  qed
  have "i \<notin> set (l_pending l)" using ledger_okD(4) [OF ok] fresh by (simp add: pending_exact_def)
  then have "pending_exact ?l"
    using ledger_okD(4) [OF ok] fresh by (auto simp: pending_exact_def fields v)
  moreover have "nonces_unique (l_invoices ?l)"
    unfolding fields using ledger_okD(3) [OF ok]
  proof (rule nonces_unique_add)
    have "nonce_key w \<noteq> (m, n)" if "l_invoices l j = Some w" "n \<noteq> 0" for j w
      using ledger_okD(1) [OF ok that(1)] nonce that(2) by (auto simp: nonce_key_def entry_ok_def)
    then show "inv_merchant_nonce ?v = 0 \<or> (\<forall>j w. l_invoices l j = Some w \<longrightarrow> nonce_key w \<noteq> nonce_key ?v)"
      by (auto simp: v nonce_key_def)
  qed
  moreover have "l_history ?l j = []" if "l_invoices ?l j = None" for j
    using that ledger_okD(2) [OF ok, of j] by (cases "j = i") (simp_all add: fields)
  ultimately show ?thesis using entry ledger_okD(5) [OF ok] by (auto simp: ledger_ok_def fields(4))
qed

lemma recancel_ok:
  assumes ok: "ledger_ok l" and v: "l_invoices l i = Some v" "inv_status v = ICancelled"
    and hist: "l_history l i = hs @ [\<lparr>tr_from = IPending, tr_to = ICancelled, tr_timestamp = t\<rparr>]"
  shows "ledger_ok (l\<lparr>l_pending := drop_value i (l_pending l),
      l_history := (l_history l)(i := l_history l i @
        [\<lparr>tr_from = IPending, tr_to = ICancelled, tr_timestamp = t\<rparr>])\<rparr>)" (is "ledger_ok ?l")
proof -
  have entry: "entry_ok ?l j w" if w: "l_invoices ?l j = Some w" for j w
  proof (cases "j = i")
    case True
    with w v have "w = v" by simp
    with True v hist ledger_okD(1) [OF ok v(1)] show ?thesis
      by (simp add: entry_ok_def history_ok_repeat)
  next
    case False
    with w ledger_okD(1) [OF ok, of j w] show ?thesis by (simp add: entry_ok_def)
  qed
  have "i \<notin> set (l_pending l)" using ledger_okD(4) [OF ok] v by (simp add: pending_exact_def)
  then have "pending_exact ?l" using ledger_okD(4) [OF ok] by (simp add: pending_exact_def)
  with entry v ok show ?thesis by (auto simp: ledger_ok_def)
qed

lemma ledger_step_ok: "ledger_step l l' \<Longrightarrow> ledger_ok l \<Longrightarrow> ledger_ok l'"
proof (induction rule: ledger_step.induct)
  case (update l i v v' t)
  then show ?case by (simp add: put_step_ok)
next
  case (recancel l i v hs t)
  from recancel_ok [OF recancel(4,1-3)] show ?case .
next
  case (create i l a g n m e mh lh tok)
  then show ?case by (intro add_invoice_ok)
next
  case (generate i l k tpl e)
  then have "template_ok tpl" using ledger_okD(5) by blast
  with generate show ?case by (intro add_invoice_ok) (simp_all add: template_ok_def)
next
  case (schedule tpl l k)
  then show ?case by (auto simp: ledger_ok_def entry_ok_def pending_exact_def)
next
  case (reschedule l k tpl tpl')
  then have "template_ok tpl'" using ledger_okD(5) [of l k tpl] by (simp add: template_ok_def)
  with reschedule show ?case by (auto simp: ledger_ok_def entry_ok_def pending_exact_def)
qed

definition ledger_le :: "ledger \<Rightarrow> ledger \<Rightarrow> bool" where
  "ledger_le l l' \<longleftrightarrow> l_count l \<le> l_count l' \<and>
     (\<forall>i v. l_invoices l i = Some v \<longrightarrow> (\<exists>v'. l_invoices l' i = Some v' \<and> invoice_step\<^sup>*\<^sup>* v v'))"

lemma ledger_step_le: "ledger_step l l' \<Longrightarrow> ledger_ok l \<Longrightarrow> ledger_le l l'"
  by (induction rule: ledger_step.induct)
    (auto simp: ledger_le_def put_step_def add_invoice_def word_le_nat_alt dest: fresh_id)

text \<open>The runs of the ledger.\<close>

definition empty_ledger :: "ledger \<Rightarrow> bool" where
  "empty_ledger l \<longleftrightarrow> l_invoices l = Map.empty \<and> l_pending l = [] \<and> l_templates l = Map.empty \<and>
     l_history l = (\<lambda>_. [])"

interpretation ledger_run: monotone empty_ledger "ledger_step\<^sup>*\<^sup>*" ledger_ok ledger_le
proof
  show "ledger_ok l" if "empty_ledger l" for l
    using that by (simp add: empty_ledger_def ledger_ok_def nonces_unique_def pending_exact_def)
  show ok: "ledger_ok l'" if "ledger_ok l" "ledger_step\<^sup>*\<^sup>* l l'" for l l'
    using that(2,1) by (induction rule: rtranclp_induct) (auto intro: ledger_step_ok)
  show "ledger_le l l" for l by (auto simp: ledger_le_def)
  show trans: "ledger_le l l''" if "ledger_le l l'" "ledger_le l' l''" for l l' l''
    using that unfolding ledger_le_def by (meson order_trans rtranclp_trans)
  show "ledger_le l l'" if "ledger_ok l" "ledger_step\<^sup>*\<^sup>* l l'" for l l'
    using that(2,1)
  proof (induction rule: rtranclp_induct)
    case (step l' l'')
    then show ?case using ok trans ledger_step_le by blast
  qed (auto simp: ledger_le_def)
qed

end
