(* ===== verification/Invoice_Calls.thy ===== *)
theory Invoice_Calls
  imports Invoice_Ledger
begin

text \<open>
  The invoice contract as a state machine, and its refinement: \<open>ledger_of\<close> reads the
  abstract ledger off the storage, and every successful entrypoint is a sequence
  of ledger steps.
\<close>

definition ledger_of :: "'w invoice_store \<Rightarrow> ledger" where
  "ledger_of s =
     \<lparr>l_invoices = i_invoices s, l_count = unwrap_or (i_count s) 0,
      l_nonces = dom (i_merchant_nonce s), l_pending = get_pending_ids s,
      l_templates = i_templates s, l_history = (\<lambda>i. unwrap_or (i_history s i) [])\<rparr>"

lemma ledger_of_sel [simp]:
  "l_invoices (ledger_of s) = i_invoices s" "l_count (ledger_of s) = unwrap_or (i_count s) 0"
  "l_nonces (ledger_of s) = dom (i_merchant_nonce s)" "l_pending (ledger_of s) = get_pending_ids s"
  "l_templates (ledger_of s) = i_templates s" "l_history (ledger_of s) i = unwrap_or (i_history s i) []"
  by (simp_all add: ledger_of_def)

lemma ledger_of_writes:
  "ledger_of (publish e s) = ledger_of s"
  "ledger_of (payer_index_add p i s) = ledger_of s"
  "ledger_of (put_invoice i v s) = (ledger_of s)\<lparr>l_invoices := (i_invoices s)(i \<mapsto> v)\<rparr>"
  "ledger_of (pending_index_remove i s) = (ledger_of s)\<lparr>l_pending := drop_value i (get_pending_ids s)\<rparr>"
  "ledger_of (pending_index_add i s) = (ledger_of s)\<lparr>l_pending := get_pending_ids s @ [i]\<rparr>"
  "ledger_of (append_history h i a b s) = (ledger_of s)\<lparr>l_history := (l_history (ledger_of s))(i :=
     l_history (ledger_of s) i @ [\<lparr>tr_from = a, tr_to = b, tr_timestamp = h_now h\<rparr>])\<rparr>"
  "ledger_of (index_template m i s) = ledger_of s"
  "ledger_of (s\<lparr>i_refund_requested_at := rr\<rparr>) = ledger_of s"
  "ledger_of (s\<lparr>i_refund_breakdown := rb\<rparr>) = ledger_of s"
  "ledger_of (s\<lparr>i_world := w\<rparr>) = ledger_of s"
  "ledger_of (s\<lparr>i_template_count := c\<rparr>) = ledger_of s"
  "ledger_of (s\<lparr>i_templates := ts\<rparr>) = (ledger_of s)\<lparr>l_templates := ts\<rparr>"
  "(ledger_of s)\<lparr>l_invoices := i_invoices s\<rparr> = ledger_of s"
  by (auto simp: ledger_of_def publish_def payer_index_add_def put_invoice_def pending_index_remove_def
      pending_index_add_def append_history_def index_template_def get_pending_ids_def Let_def fun_eq_iff
      split: option.split)

lemma write_reads:
  "i_invoices (publish e s) = i_invoices s" "i_invoices (payer_index_add p i s) = i_invoices s"
  "i_invoices (pending_index_remove i s) = i_invoices s" "i_invoices (append_history h i a b s) = i_invoices s"
  "i_invoices (put_invoice i v s) = (i_invoices s)(i \<mapsto> v)"
  "get_pending_ids (put_invoice i v s) = get_pending_ids s"
  "get_pending_ids (payer_index_add p i s) = get_pending_ids s"
  by (simp_all add: publish_def payer_index_add_def pending_index_remove_def append_history_def put_invoice_def
      get_pending_ids_def Let_def split: option.split)

lemmas event_defs = invoice_created_def invoice_paid_def invoice_expired_def invoice_cancelled_def
  invoice_refund_requested_def refund_approved_def refund_rejected_def refund_processed_def
  escrow_released_def

section \<open>Single entrypoints\<close>

text \<open>
  The shapes of the successful entrypoints: \<open>paid_like\<close> leaves the pending index,
  \<open>status_like\<close> records a transition, \<open>field_like\<close> changes fields of the invoice only.
\<close>

lemma update_leaves_pending:
  assumes "i_invoices s i = Some v" "invoice_step v v'" "inv_status v = IPending" "inv_status v' \<noteq> IPending"
    and "ledger_of t = (ledger_of s)\<lparr>l_invoices := (i_invoices s)(i \<mapsto> v'),
      l_pending := drop_value i (get_pending_ids s),
      l_history := (l_history (ledger_of s))(i := l_history (ledger_of s) i @
        [\<lparr>tr_from = inv_status v, tr_to = inv_status v', tr_timestamp = ts\<rparr>])\<rparr>"
  shows "ledger_step (ledger_of s) (ledger_of t)"
proof -
  have "ledger_of t = put_step i v v' ts (ledger_of s)" using assms by (simp add: put_step_def)
  with ledger_step.update [of "ledger_of s" i v v' ts] assms show ?thesis by simp
qed

lemma update_status:
  assumes "i_invoices s i = Some v" "invoice_step v v'" "inv_status v \<noteq> IPending" "inv_status v' \<noteq> inv_status v"
    and "ledger_of t = (ledger_of s)\<lparr>l_invoices := (i_invoices s)(i \<mapsto> v'),
      l_history := (l_history (ledger_of s))(i := l_history (ledger_of s) i @
        [\<lparr>tr_from = inv_status v, tr_to = inv_status v', tr_timestamp = ts\<rparr>])\<rparr>"
  shows "ledger_step (ledger_of s) (ledger_of t)"
proof -
  have "ledger_of t = put_step i v v' ts (ledger_of s)" using assms by (simp add: put_step_def)
  with ledger_step.update [of "ledger_of s" i v v' ts] assms show ?thesis by simp
qed

lemma update_fields:
  assumes "i_invoices s i = Some v" "invoice_step v v'" "inv_status v' = inv_status v"
    and "ledger_of t = (ledger_of s)\<lparr>l_invoices := (i_invoices s)(i \<mapsto> v')\<rparr>"
  shows "ledger_step (ledger_of s) (ledger_of t)"
proof -
  have "ledger_of t = put_step i v v' ts (ledger_of s)" for ts using assms by (simp add: put_step_def)
  with ledger_step.update [of "ledger_of s" i v v'] assms show ?thesis by simp
qed

lemmas step_simps = Let_def result_simps ledger_of_writes write_reads event_defs

lemma mark_paid_refines: "mark_paid h s a i p mh tok = Inr t \<Longrightarrow> ledger_step (ledger_of s) (ledger_of t)"
  by (auto simp: mark_paid_def step_simps intro!: update_leaves_pending invoice_step.pay)

lemma cancel_invoice_refines: "cancel_invoice h s a i = Inr t \<Longrightarrow> ledger_step (ledger_of s) (ledger_of t)"
  by (auto simp: cancel_invoice_def step_simps intro!: update_leaves_pending invoice_step.cancel)

lemma release_escrow_refines: "release_escrow h s a i = Inr t \<Longrightarrow> ledger_step (ledger_of s) (ledger_of t)"
  by (auto simp: release_escrow_def step_simps intro!: update_status invoice_step.release)

lemma refund_ops_refine:
  "request_refund h s a i = Inr t \<Longrightarrow> ledger_step (ledger_of s) (ledger_of t)"
  "approve_refund h s a i = Inr t \<Longrightarrow> ledger_step (ledger_of s) (ledger_of t)"
  "reject_refund h s a i = Inr t \<Longrightarrow> ledger_step (ledger_of s) (ledger_of t)"
  subgoal by (auto simp: request_refund_def step_simps intro!: update_status invoice_step.request)
  subgoal by (auto simp: approve_refund_def step_simps intro!: update_status invoice_step.refund)
  subgoal by (auto simp: reject_refund_def step_simps intro!: update_status invoice_step.reject)
  done

lemma transfer_net_refund_eq_Inr [result_simps]:
  "transfer_net_refund h tok to amt s = Inr t \<longleftrightarrow>
     (\<exists>w. h_transfer h tok (h_self h) to amt (i_world s) = Some w \<and> t = s\<lparr>i_world := w\<rparr>)"
  by (auto simp: transfer_net_refund_def split: option.splits)

lemma verify_payment_state_eq_Inr [result_simps]:
  "verify_payment_state v = Inr u \<longleftrightarrow> inv_paid_at v \<noteq> None \<and> inv_payer v \<noteq> MA_None \<and>
     0 < inv_amount_usdc v \<and> inv_amount_usdc v \<le> inv_gross_usdc v"
  by (auto simp: verify_payment_state_def result_simps)

lemma refund_recipient_eq_Inr [result_simps]: "refund_recipient v = Inr p \<longleftrightarrow> inv_payer v = MA_Some p"
  by (simp add: refund_recipient_def split: MaybeAddress.split)

text \<open>The state a successful \<open>process_refund\<close> leaves, and when it succeeds.\<close>

definition refunded_state ::
    "'w host \<Rightarrow> 'w invoice_store \<Rightarrow> u64 \<Rightarrow> Invoice \<Rightarrow> address \<Rightarrow> NetRefund \<Rightarrow> 'w \<Rightarrow> 'w invoice_store" where
  "refunded_state h s i v p r w =
     refund_processed h i p r (refund_approved i (v\<lparr>inv_status := IRefunded\<rparr>)
       (append_history h i IRefundRequested IRefunded
         ((put_invoice i (v\<lparr>inv_status := IRefunded\<rparr>) (s\<lparr>i_world := w\<rparr>))
            \<lparr>i_refund_breakdown := (i_refund_breakdown s)(i \<mapsto> r)\<rparr>)))"

lemma process_refund_parts:
  assumes "process_refund h s admin i bps = Inr (r, t)"
  obtains v p tok w where "h_auth h admin" "i_admin s = Some admin" "\<not> is_paused s"
    "i_invoices s i = Some v" "inv_status v = IRefundRequested"
    "inv_payer v = MA_Some p" "inv_token_address v = MA_Some tok"
    "calculate_net_refund_with_network_fee (inv_amount_usdc v) bps (configured_network_fee s) = Inr r"
    "h_transfer h tok (h_self h) p (nr_net_amount r) (i_world s) = Some w"
    "t = refunded_state h s i v p r w"
proof -
  have *: "(case m of MA_Some x \<Rightarrow> Inr x | MA_None \<Rightarrow> Inl f) = Inr y \<longleftrightarrow> m = MA_Some y"
    for m and f :: "InvoiceError fault" and y
    by (simp split: MaybeAddress.split)
  from assms show ?thesis
    by (auto simp: process_refund_def result_simps * Let_def refunded_state_def put_invoice_def intro: that)
qed

lemma process_refund_succeeds:
  assumes "h_auth h admin" "i_admin s = Some admin" "\<not> is_paused s"
    "i_invoices s i = Some v" "inv_status v = IRefundRequested" "verify_payment_state v = Inr ()"
    "inv_payer v = MA_Some p" "inv_token_address v = MA_Some tok"
    "calculate_net_refund_with_network_fee (inv_amount_usdc v) bps (configured_network_fee s) = Inr r"
    "h_transfer h tok (h_self h) p (nr_net_amount r) (i_world s) = Some w"
  shows "process_refund h s admin i bps = Inr (r, refunded_state h s i v p r w)"
  using assms by (simp add: process_refund_def require_admin_def require_auth_def require_not_paused_def
      is_paused_def get_invoice_def refund_recipient_def transfer_net_refund_def refunded_state_def
      put_invoice_def Let_def)

lemma process_refund_refines:
  assumes "process_refund h s a i bps = Inr (r, t)"
  shows "ledger_step (ledger_of s) (ledger_of t)"
proof -
  from assms obtain v p tok w where v: "i_invoices s i = Some v" "inv_status v = IRefundRequested" and
    t: "t = refunded_state h s i v p r w" by (rule process_refund_parts)
  then show ?thesis
    by (intro update_status [OF v(1) invoice_step.refund, where ts = "h_now h"])
      (simp_all add: refunded_state_def event_defs ledger_of_writes)
qed

lemma field_ops_refine:
  "extend_expiry h s a i secs = Inr t \<Longrightarrow> ledger_step (ledger_of s) (ledger_of t)"
  "amend_invoice h s m i am gr secs = Inr t \<Longrightarrow> ledger_step (ledger_of s) (ledger_of t)"
  "transfer_invoice h s p i q = Inr t \<Longrightarrow> ledger_step (ledger_of s) (ledger_of t)"
  subgoal by (auto simp: extend_expiry_def step_simps intro!: update_fields invoice_step.extend
        split: option.splits if_splits)
  subgoal by (auto simp: amend_invoice_def step_simps intro!: update_fields invoice_step.amend)
  subgoal by (auto simp: transfer_invoice_def step_simps intro!: update_fields invoice_step.transfer)
  done

section \<open>Creation\<close>

lemma create_record_ledger:
  assumes "create_invoice_record h s m a g secs mh lh n tok = Inr (i, t)"
  obtains e where "unat i = unat (l_count (ledger_of s)) + 1"
    "ledger_of t = add_invoice i (new_invoice i m a g e mh lh n tok) (ledger_of s)"
    "i_merchant_nonce t = (if n = 0 then i_merchant_nonce s else (i_merchant_nonce s)((m, n) \<mapsto> True))"
    "i_templates t = i_templates s"
proof -
  from assms obtain e where i: "unat i = unat (l_count (ledger_of s)) + 1"
    and t: "ledger_of t = add_invoice i (new_invoice i m a g e mh lh n tok) (ledger_of s)"
      "i_merchant_nonce t = (if n = 0 then i_merchant_nonce s else (i_merchant_nonce s)((m, n) \<mapsto> True))"
      "i_templates t = i_templates s"
    by (auto simp: create_invoice_record_def Let_def result_simps arith_simps ledger_of_def add_invoice_def
        event_defs publish_def pending_index_add_def put_invoice_def get_pending_ids_def new_invoice_def
        split: if_splits)
  then show ?thesis by (rule that)
qed

lemma create_invoice_refines:
  assumes "create_invoice h s m a g secs mh lh n tok = Inr (i, t)"
  shows "ledger_step (ledger_of s) (ledger_of t)"
proof -
  from assms have rec: "create_invoice_record h s m a g secs mh lh n tok = Inr (i, t)"
    and ok: "USDC_FACTOR \<le> a" "a \<le> g" "n = 0 \<or> (m, n) \<notin> l_nonces (ledger_of s)"
    by (auto simp: create_invoice_def result_simps)
  from rec obtain e where "unat i = unat (l_count (ledger_of s)) + 1"
    "ledger_of t = add_invoice i (new_invoice i m a g e mh lh n tok) (ledger_of s)"
    by (rule create_record_ledger)
  with ledger_step.create ok show ?thesis by metis
qed

text \<open>The loop body of \<open>batch_create_invoice\<close> is \<open>create_invoice_record\<close> with its writes in another order.\<close>

lemma batch_create_one_eq:
  "batch_create_one h m p (ids, s) =
     andthen (create_invoice_record h s m (bp_amount_usdc p) (bp_gross_usdc p) (bp_expires_in_seconds p)
       (bp_metadata_hash p) (bp_payment_link_hash p) (bp_merchant_nonce p) (bp_token_address p))
       (\<lambda>(i, t). Inr (ids @ [i], t))"
  by (cases "checked_add (unwrap_or (i_count s) 0) 1"; cases "checked_add (h_now h) (bp_expires_in_seconds p)";
      cases "checked_add (unwrap_or (i_merchant_count s m) 0) 1")
    (cases s; simp add: batch_create_one_def create_invoice_record_def Let_def put_invoice_def)+

lemma validate_eq_Inr:
  "validate_batch_param s m p ns = Inr ns' \<Longrightarrow>
     USDC_FACTOR \<le> bp_amount_usdc p \<and> bp_amount_usdc p \<le> bp_gross_usdc p \<and>
     (bp_merchant_nonce p = 0 \<and> ns' = ns \<or>
      i_merchant_nonce s (m, bp_merchant_nonce p) = None \<and> bp_merchant_nonce p \<notin> set ns \<and>
      ns' = ns @ [bp_merchant_nonce p])"
  by (auto simp: validate_batch_param_def result_simps split: if_splits)

lemma batch_create_loop_refines:
  assumes "fold_result (validate_batch_param s m) ps ns = Inr ns'"
    and "fold_result (batch_create_one h m) ps (ids, u) = Inr (ids', t)"
    and "\<And>n. i_merchant_nonce u (m, n) \<noteq> None \<Longrightarrow> i_merchant_nonce s (m, n) \<noteq> None \<or> n \<in> set ns"
  shows "ledger_step\<^sup>*\<^sup>* (ledger_of u) (ledger_of t)"
  using assms
proof (induction ps arbitrary: ns ids u)
  case (Cons p ps)
  let ?n = "bp_merchant_nonce p"
  from Cons.prems(1) obtain ns1 where v: "validate_batch_param s m p ns = Inr ns1"
    and v': "fold_result (validate_batch_param s m) ps ns1 = Inr ns'" by (auto simp: result_simps)
  from Cons.prems(2) obtain i u1 where
    c: "create_invoice_record h u m (bp_amount_usdc p) (bp_gross_usdc p) (bp_expires_in_seconds p)
       (bp_metadata_hash p) (bp_payment_link_hash p) ?n (bp_token_address p) = Inr (i, u1)"
    and c': "fold_result (batch_create_one h m) ps (ids @ [i], u1) = Inr (ids', t)"
    by (auto simp: batch_create_one_eq result_simps)
  note v = validate_eq_Inr [OF v]
  from c obtain e where i: "unat i = unat (l_count (ledger_of u)) + 1"
    and u1: "ledger_of u1 = add_invoice i (new_invoice i m (bp_amount_usdc p) (bp_gross_usdc p) e
        (bp_metadata_hash p) (bp_payment_link_hash p) ?n (bp_token_address p)) (ledger_of u)"
      "i_merchant_nonce u1 = (if ?n = 0 then i_merchant_nonce u else (i_merchant_nonce u)((m, ?n) \<mapsto> True))"
    by (rule create_record_ledger)
  have "?n = 0 \<or> (m, ?n) \<notin> l_nonces (ledger_of u)" using v Cons.prems(3) [of ?n] by auto
  with v i u1(1) have "ledger_step (ledger_of u) (ledger_of u1)" using ledger_step.create by metis
  moreover have "i_merchant_nonce s (m, n) \<noteq> None \<or> n \<in> set ns1" if "i_merchant_nonce u1 (m, n) \<noteq> None" for n
    using v Cons.prems(3) [of n] that by (auto simp: u1(2) split: if_splits)
  then have "ledger_step\<^sup>*\<^sup>* (ledger_of u1) (ledger_of t)" by (rule Cons.IH [OF v' c'])
  ultimately show ?case by (rule converse_rtranclp_into_rtranclp)
qed simp

lemma batch_create_refines:
  "batch_create_invoice h s m ps = Inr (ids, t) \<Longrightarrow> ledger_step\<^sup>*\<^sup>* (ledger_of s) (ledger_of t)"
  by (auto simp: batch_create_invoice_def result_simps intro: batch_create_loop_refines)

section \<open>Batches and templates\<close>

lemma expire_one_refines:
  "expire_one h i (n, s) = Inr (n', t) \<Longrightarrow> ledger_step\<^sup>*\<^sup>* (ledger_of s) (ledger_of t)"
  by (auto simp: expire_one_def step_simps split: option.splits if_splits
      intro!: r_into_rtranclp update_leaves_pending invoice_step.expire)

lemma fold_refines:
  assumes "\<And>x n s n' t. f x (n, s) = Inr (n', t) \<Longrightarrow> ledger_step\<^sup>*\<^sup>* (ledger_of s) (ledger_of t)"
    and "fold_result f xs (n, s) = Inr (n', t)"
  shows "ledger_step\<^sup>*\<^sup>* (ledger_of s) (ledger_of t)"
  using assms(2)
proof (induction xs arbitrary: n s)
  case (Cons x xs)
  then obtain m u where u: "f x (n, s) = Inr (m, u)" "fold_result f xs (m, u) = Inr (n', t)"
    by (auto simp: result_simps)
  from assms(1) [OF u(1)] Cons.IH [OF u(2)] show ?case by (rule rtranclp_trans)
qed simp

lemma batch_expire_refines:
  "batch_expire h s a ids = Inr (n, t) \<Longrightarrow> ledger_step\<^sup>*\<^sup>* (ledger_of s) (ledger_of t)"
  by (auto simp: batch_expire_def result_simps intro: fold_refines [OF expire_one_refines])

lemma collect_eq_Inr:
  "fold_result (collect_cancellable s m) ids vs = Inr vs' \<Longrightarrow>
    \<forall>v\<in>set vs. \<exists>i. i_invoices s i = Some v \<and> inv_status v = IPending \<Longrightarrow>
    \<forall>v\<in>set vs'. \<exists>i. i_invoices s i = Some v \<and> inv_status v = IPending"
  by (erule fold_result_invariant) (auto simp: collect_cancellable_def result_simps)

text \<open>
  The state of a collected invoice while the batch runs: as collected, or already
  cancelled by this batch, with the record of that at the end of its history.
\<close>

definition collected :: "'w host \<Rightarrow> 'w invoice_store \<Rightarrow> Invoice \<Rightarrow> bool" where
  "collected h u v \<longleftrightarrow> inv_status v = IPending \<and>
     (i_invoices u (inv_id v) = Some v \<or>
      i_invoices u (inv_id v) = Some (v\<lparr>inv_status := ICancelled\<rparr>) \<and>
      (\<exists>hs. unwrap_or (i_history u (inv_id v)) [] =
         hs @ [\<lparr>tr_from = IPending, tr_to = ICancelled, tr_timestamp = h_now h\<rparr>]))"

lemma cancel_collected_refines:
  assumes "collected h u v"
  shows "ledger_step (ledger_of u) (ledger_of (cancel_collected h v u))"
proof (cases "i_invoices u (inv_id v) = Some v")
  case True
  have st: "inv_status v = IPending" using assms by (simp add: collected_def)
  show ?thesis
    by (rule update_leaves_pending [OF True invoice_step.cancel [OF st], where ts = "h_now h"])
      (simp_all add: cancel_collected_def step_simps st)
next
  case False
  with assms obtain hs where w: "i_invoices u (inv_id v) = Some (v\<lparr>inv_status := ICancelled\<rparr>)"
    and hs: "unwrap_or (i_history u (inv_id v)) [] =
      hs @ [\<lparr>tr_from = IPending, tr_to = ICancelled, tr_timestamp = h_now h\<rparr>]"
    by (auto simp: collected_def)
  from w have "(i_invoices u)(inv_id v \<mapsto> v\<lparr>inv_status := ICancelled\<rparr>) = i_invoices u" by (rule fun_upd_idem)
  with ledger_step.recancel [of "ledger_of u" "inv_id v" "v\<lparr>inv_status := ICancelled\<rparr>" hs "h_now h"] w hs
  show ?thesis by (simp add: cancel_collected_def step_simps)
qed

lemma cancel_collected_keeps:
  assumes "collected h u w" and "inv_id w = inv_id v \<Longrightarrow> w = v"
  shows "collected h (cancel_collected h v u) w"
proof -
  have hist: "i_history (cancel_collected h v u) = (i_history u)(inv_id v \<mapsto>
      unwrap_or (i_history u (inv_id v)) [] @ [\<lparr>tr_from = IPending, tr_to = ICancelled, tr_timestamp = h_now h\<rparr>])"
    by (simp add: cancel_collected_def Let_def event_defs publish_def append_history_def put_invoice_def
        pending_index_remove_def split: option.split)
  have inv: "i_invoices (cancel_collected h v u) = (i_invoices u)(inv_id v \<mapsto> v\<lparr>inv_status := ICancelled\<rparr>)"
    by (simp add: cancel_collected_def step_simps)
  show ?thesis using assms by (cases "inv_id w = inv_id v") (simp_all add: collected_def hist inv)
qed

lemma cancel_all_refines:
  assumes "\<And>v. v \<in> set vs \<Longrightarrow> collected h u v"
    and "\<And>v w. v \<in> set vs \<Longrightarrow> w \<in> set vs \<Longrightarrow> inv_id v = inv_id w \<Longrightarrow> v = w"
  shows "ledger_step\<^sup>*\<^sup>* (ledger_of u) (ledger_of (fold (cancel_collected h) vs u))"
  using assms
proof (induction vs arbitrary: u)
  case (Cons v vs)
  let ?u = "cancel_collected h v u"
  have "ledger_step (ledger_of u) (ledger_of ?u)"
    using Cons.prems(1) [of v] by (simp add: cancel_collected_refines)
  moreover have "ledger_step\<^sup>*\<^sup>* (ledger_of ?u) (ledger_of (fold (cancel_collected h) vs ?u))"
    using Cons.prems by (intro Cons.IH cancel_collected_keeps) auto
  ultimately show ?case by (simp add: converse_rtranclp_into_rtranclp)
qed simp

lemma batch_cancel_invoices_refines:
  assumes "batch_cancel_invoices h s m ids r = Inr t" and ok: "ledger_ok (ledger_of s)"
  shows "ledger_step\<^sup>*\<^sup>* (ledger_of s) (ledger_of t)"
proof -
  from assms(1) obtain vs where vs: "fold_result (collect_cancellable s m) ids [] = Inr vs"
      "t = fold (cancel_collected h) vs s"
    by (auto simp: batch_cancel_invoices_def result_simps)
  have id: "inv_id v = i" if "i_invoices s i = Some v" for i v
    using ledger_okD(1) [OF ok, of i v] that by (simp add: entry_ok_def)
  have "inv_status v = IPending \<and> i_invoices s (inv_id v) = Some v" if "v \<in> set vs" for v
    using collect_eq_Inr [OF vs(1)] that id by fastforce
  then show ?thesis unfolding vs(2)
    by (intro cancel_all_refines) (simp add: collected_def, metis option.inject)
qed

lemma create_template_refines:
  "create_template h s m a g r secs mh lh = Inr (i, t) \<Longrightarrow> ledger_step (ledger_of s) (ledger_of t)"
  by (auto simp: create_template_def Let_def result_simps template_ok_def ledger_of_writes
      intro!: ledger_step.schedule [of _ "ledger_of s", simplified])

lemma set_template_active_refines:
  "set_template_active h s a k b = Inr t \<Longrightarrow> ledger_step (ledger_of s) (ledger_of t)"
  by (auto simp: set_template_active_def result_simps ledger_of_writes
      intro!: ledger_step.reschedule [of "ledger_of s", simplified])

lemma generate_record_refines:
  assumes "create_invoice_record h s (tpl_merchant tpl) (tpl_amount_usdc tpl) (tpl_gross_usdc tpl)
      (tpl_expires_in_seconds tpl) (tpl_metadata_hash tpl) (tpl_payment_link_hash tpl) 0 MA_None = Inr (i, t)"
    and "i_templates s k = Some tpl"
  shows "ledger_step (ledger_of s) (ledger_of t)" "i_templates t = i_templates s"
proof -
  from assms(1) obtain e where e: "unat i = unat (l_count (ledger_of s)) + 1"
    "ledger_of t = add_invoice i (new_invoice i (tpl_merchant tpl) (tpl_amount_usdc tpl) (tpl_gross_usdc tpl) e
       (tpl_metadata_hash tpl) (tpl_payment_link_hash tpl) 0 MA_None) (ledger_of s)"
    "i_templates t = i_templates s" by (rule create_record_ledger)
  with ledger_step.generate [of i "ledger_of s" k tpl] assms(2)
  show "ledger_step (ledger_of s) (ledger_of t)" "i_templates t = i_templates s" by simp_all
qed

lemma generate_from_template_refines:
  "generate_from_template h s m k = Inr (i, t) \<Longrightarrow> ledger_step (ledger_of s) (ledger_of t)"
  by (auto simp: generate_from_template_def result_simps ledger_of_writes intro: generate_record_refines)

lemma generate_one_refines:
  assumes "generate_one h k (n, s) = Inr (n', t)"
  shows "ledger_step\<^sup>*\<^sup>* (ledger_of s) (ledger_of t)"
proof (cases "\<exists>tpl. i_templates s k = Some tpl \<and> tpl_active tpl \<and> tpl_next_run_at tpl \<le> h_now h")
  case True
  then obtain tpl where tpl: "i_templates s k = Some tpl" "tpl_active tpl" "tpl_next_run_at tpl \<le> h_now h" by blast
  let ?tpl = "tpl\<lparr>tpl_next_run_at := advance_next_run (tpl_interval tpl) (h_now h) (tpl_next_run_at tpl)\<rparr>"
  from assms tpl obtain i u where
    u: "create_invoice_record h s (tpl_merchant tpl) (tpl_amount_usdc tpl) (tpl_gross_usdc tpl)
      (tpl_expires_in_seconds tpl) (tpl_metadata_hash tpl) (tpl_payment_link_hash tpl) 0 MA_None = Inr (i, u)"
    and t: "t = publish (Ev_template_generated k i) (u\<lparr>i_templates := (i_templates u)(k \<mapsto> ?tpl)\<rparr>)"
    by (auto simp: generate_one_def result_simps Let_def leD)
  note g = generate_record_refines [OF u tpl(1)]
  have "ledger_of t = (ledger_of u)\<lparr>l_templates := (l_templates (ledger_of u))(k \<mapsto> ?tpl)\<rparr>"
    by (simp add: t ledger_of_writes)
  with ledger_step.reschedule [of "ledger_of u" k tpl ?tpl] g(2) tpl(1)
  have "ledger_step (ledger_of u) (ledger_of t)" by simp
  with g(1) show ?thesis by (meson converse_rtranclp_into_rtranclp r_into_rtranclp)
next
  case False
  with assms have "t = s" by (auto simp: generate_one_def not_le split: option.splits if_splits)
  then show ?thesis by simp
qed

lemma generate_due_refines:
  "generate_due_invoices h s ks = Inr (n, t) \<Longrightarrow> ledger_step\<^sup>*\<^sup>* (ledger_of s) (ledger_of t)"
  by (auto simp: generate_due_invoices_def result_simps intro: fold_refines [OF generate_one_refines])

end
