(* ===== verification/Invoice_Runs.thy ===== *)
theory Invoice_Runs
  imports Invoice_Calls
begin

text \<open>
  The runs of the invoice contract: one constructor per entrypoint that can change
  storage, the dispatcher, the states reachable from the empty storage of a newly
  deployed contract, and the invariant \<open>store_ok\<close> obtained from the ledger's through
  the refinement. Invoices can be created before \<open>initialize\<close>, which then resets the
  counter; the invariant holds of the orderly runs, in which that does not happen.
\<close>

datatype (plugins only: code) InvoiceCall =
    J_initialize address
  | J_set_grace_window address u64
  | J_set_max_open_invoices address u32
  | J_set_merchant_max_open_invoices address address "u32 option"
  | J_set_late_fee_bps address u32
  | J_set_refund_window address u64
  | J_transfer_admin address address
  | J_accept_admin address
  | J_pause address
  | J_unpause address
  | J_extend_expiry address u64 u64
  | J_set_refund_network_fee address i128
  | J_create_invoice address i128 i128 u64 MaybeBytes MaybeBytes u64 MaybeAddress
  | J_mark_paid address u64 address MaybeBytes MaybeAddress
  | J_release_escrow address u64
  | J_cancel_invoice address u64
  | J_amend_invoice address u64 i128 i128 u64
  | J_batch_create_invoice address "BatchInvoiceParams list"
  | J_batch_expire address "u64 list"
  | J_batch_cancel_invoices address "u64 list" MaybeBytes
  | J_request_refund address u64
  | J_approve_refund address u64
  | J_process_refund address u64 u32
  | J_reject_refund address u64
  | J_create_template address i128 i128 RecurrenceInterval u64 MaybeBytes MaybeBytes
  | J_set_template_active address u64 bool
  | J_generate_from_template address u64
  | J_generate_due_invoices "u64 list"
  | J_transfer_invoice address u64 address

definition store_of :: "('b \<times> 'w invoice_store) i_outcome \<Rightarrow> 'w invoice_store i_outcome" where
  "store_of r = andthen r (\<lambda>(_, s). Inr s)"

lemma store_of_eq_Inr: "store_of r = Inr s' \<longleftrightarrow> (\<exists>x. r = Inr (x, s'))"
  by (auto simp: store_of_def result_simps)

fun invoice_invoke :: "'w host \<Rightarrow> 'w invoice_store \<Rightarrow> InvoiceCall \<Rightarrow> 'w invoice_store i_outcome" where
  "invoice_invoke h s (J_initialize a) = initialize h s a"
| "invoice_invoke h s (J_set_grace_window a n) = set_grace_window h s a n"
| "invoice_invoke h s (J_set_max_open_invoices a n) = set_max_open_invoices h s a n"
| "invoice_invoke h s (J_set_merchant_max_open_invoices a m n) = set_merchant_max_open_invoices h s a m n"
| "invoice_invoke h s (J_set_late_fee_bps a n) = set_late_fee_bps h s a n"
| "invoice_invoke h s (J_set_refund_window a n) = set_refund_window h s a n"
| "invoice_invoke h s (J_transfer_admin a n) = transfer_admin h s a n"
| "invoice_invoke h s (J_accept_admin a) = accept_admin h s a"
| "invoice_invoke h s (J_pause a) = pause h s a"
| "invoice_invoke h s (J_unpause a) = unpause h s a"
| "invoice_invoke h s (J_extend_expiry a i n) = extend_expiry h s a i n"
| "invoice_invoke h s (J_set_refund_network_fee a n) = set_refund_network_fee h s a n"
| "invoice_invoke h s (J_create_invoice m a g e mh lh n tok) = store_of (create_invoice h s m a g e mh lh n tok)"
| "invoice_invoke h s (J_mark_paid a i p mh tok) = mark_paid h s a i p mh tok"
| "invoice_invoke h s (J_release_escrow a i) = release_escrow h s a i"
| "invoice_invoke h s (J_cancel_invoice a i) = cancel_invoice h s a i"
| "invoice_invoke h s (J_amend_invoice m i a g e) = amend_invoice h s m i a g e"
| "invoice_invoke h s (J_batch_create_invoice m ps) = store_of (batch_create_invoice h s m ps)"
| "invoice_invoke h s (J_batch_expire a ids) = store_of (batch_expire h s a ids)"
| "invoice_invoke h s (J_batch_cancel_invoices m ids r) = batch_cancel_invoices h s m ids r"
| "invoice_invoke h s (J_request_refund p i) = request_refund h s p i"
| "invoice_invoke h s (J_approve_refund a i) = approve_refund h s a i"
| "invoice_invoke h s (J_process_refund a i b) = store_of (process_refund h s a i b)"
| "invoice_invoke h s (J_reject_refund a i) = reject_refund h s a i"
| "invoice_invoke h s (J_create_template m a g r e mh lh) = store_of (create_template h s m a g r e mh lh)"
| "invoice_invoke h s (J_set_template_active a k b) = set_template_active h s a k b"
| "invoice_invoke h s (J_generate_from_template m k) = store_of (generate_from_template h s m k)"
| "invoice_invoke h s (J_generate_due_invoices ks) = store_of (generate_due_invoices h s ks)"
| "invoice_invoke h s (J_transfer_invoice p i q) = transfer_invoice h s p i q"

text \<open>A step is a call that succeeds, or activity elsewhere on the ledger.\<close>

inductive invoice_call :: "'w invoice_store \<Rightarrow> 'w invoice_store \<Rightarrow> bool" where
  call_entrypoint: "invoice_invoke h s c = Inr t \<Longrightarrow> invoice_call s t"
| call_elsewhere: "invoice_call s (s\<lparr>i_world := w\<rparr>)"

inductive_cases invoice_callE: "invoice_call s t"

definition invoice_started :: "'w invoice_store \<Rightarrow> bool" where
  "invoice_started s \<longleftrightarrow> (\<exists>w. s = empty_invoice_store w)"

definition invoice_reachable :: "'w invoice_store \<Rightarrow> bool" where
  "invoice_reachable = reachable invoice_started invoice_call"

text \<open>
  An orderly call: any entrypoint, in any order, except that \<open>initialize\<close> comes before
  the first invoice.
\<close>

inductive orderly_call :: "'w invoice_store \<Rightarrow> 'w invoice_store \<Rightarrow> bool" where
  orderly_entrypoint: "invoice_invoke h s c = Inr t \<Longrightarrow>
    (\<And>a. c = J_initialize a \<Longrightarrow> get_invoice_count s = 0) \<Longrightarrow> orderly_call s t"
| orderly_elsewhere: "orderly_call s (s\<lparr>i_world := w\<rparr>)"

definition orderly_reachable :: "'w invoice_store \<Rightarrow> bool" where
  "orderly_reachable = reachable invoice_started orderly_call"

lemma orderly_is_call: "orderly_call s t \<Longrightarrow> invoice_call s t"
  by (induction rule: orderly_call.induct) (auto intro: invoice_call.intros)

text \<open>After a successful \<open>initialize\<close> every call is orderly.\<close>

lemma initialised_is_orderly:
  "invoice_call s t \<Longrightarrow> i_admin s \<noteq> None \<Longrightarrow> orderly_call s t"
proof (induction rule: invoice_call.induct)
  case (call_entrypoint h s c t)
  then show ?case by (intro orderly_entrypoint [of h s c t]) (auto simp: initialize_def result_simps)
qed (rule orderly_elsewhere)

definition invoice_run :: "('w host \<times> InvoiceCall) list \<Rightarrow> 'w invoice_store \<Rightarrow> 'w invoice_store i_outcome" where
  "invoice_run = fold_result (\<lambda>(h, c) s. invoice_invoke h s c)"

lemma invoice_run_steps: "invoice_run cs s = Inr t \<Longrightarrow> invoice_call\<^sup>*\<^sup>* s t"
  unfolding invoice_run_def
  by (erule fold_result_invariant) (auto intro: rtranclp.rtrancl_into_rtrancl call_entrypoint)

lemma invoice_run_orderly:
  assumes "invoice_run cs s = Inr t" and "\<forall>(h, c)\<in>set cs. \<forall>a. c \<noteq> J_initialize a"
  shows "orderly_call\<^sup>*\<^sup>* s t"
  using assms
proof (induction cs arbitrary: s)
  case (Cons hc cs)
  then obtain u where "invoice_invoke (fst hc) s (snd hc) = Inr u" "invoice_run cs u = Inr t"
    by (auto simp: invoice_run_def result_simps split: prod.splits)
  with Cons show ?case
    by (intro converse_rtranclp_into_rtranclp [of orderly_call s u]) (auto intro!: orderly_entrypoint)
qed (simp add: invoice_run_def)

lemma orderly_steps_reachable: "orderly_call\<^sup>*\<^sup>* s t \<Longrightarrow> orderly_reachable s \<Longrightarrow> orderly_reachable t"
  unfolding orderly_reachable_def by (rule steps_reachable)

section \<open>Refinement of the whole interface\<close>

lemma config_ops_ledger:
  "set_grace_window h s a n = Inr t \<Longrightarrow> ledger_of t = ledger_of s"
  "set_max_open_invoices h s a k = Inr t \<Longrightarrow> ledger_of t = ledger_of s"
  "set_merchant_max_open_invoices h s a m lim = Inr t \<Longrightarrow> ledger_of t = ledger_of s"
  "set_late_fee_bps h s a k = Inr t \<Longrightarrow> ledger_of t = ledger_of s"
  "set_refund_window h s a n = Inr t \<Longrightarrow> ledger_of t = ledger_of s"
  "transfer_admin h s a x = Inr t \<Longrightarrow> ledger_of t = ledger_of s"
  "accept_admin h s a = Inr t \<Longrightarrow> ledger_of t = ledger_of s"
  "pause h s a = Inr t \<Longrightarrow> ledger_of t = ledger_of s"
  "unpause h s a = Inr t \<Longrightarrow> ledger_of t = ledger_of s"
  "set_refund_network_fee h s a fee = Inr t \<Longrightarrow> ledger_of t = ledger_of s"
  by (auto simp: set_grace_window_def set_max_open_invoices_def set_merchant_max_open_invoices_def
      set_late_fee_bps_def set_refund_window_def transfer_admin_def accept_admin_def pause_def unpause_def
      set_refund_network_fee_def result_simps Let_def ledger_of_def publish_def get_pending_ids_def)

lemmas single_refines = mark_paid_refines cancel_invoice_refines release_escrow_refines refund_ops_refine
  process_refund_refines field_ops_refine create_invoice_refines create_template_refines
  set_template_active_refines generate_from_template_refines

lemma initialize_ledger:
  "initialize h s a = Inr t \<Longrightarrow> get_invoice_count s = 0 \<Longrightarrow> ledger_of t = ledger_of s"
  by (auto simp: initialize_def result_simps ledger_of_def get_pending_ids_def get_invoice_count_def)

lemma invoice_invoke_refines:
  assumes "invoice_invoke h s c = Inr t" and "ledger_ok (ledger_of s)"
    and "\<And>a. c = J_initialize a \<Longrightarrow> get_invoice_count s = 0"
  shows "ledger_step\<^sup>*\<^sup>* (ledger_of s) (ledger_of t)"
  using assms
  by (cases c)
    (auto simp: store_of_eq_Inr
      dest: config_ops_ledger initialize_ledger intro: r_into_rtranclp [of ledger_step] single_refines batch_create_refines batch_expire_refines
        batch_cancel_invoices_refines generate_due_refines)

section \<open>The network fee stays in range\<close>

definition guard_fields :: "'w invoice_store \<Rightarrow> address option \<times> i128 option" where
  "guard_fields s = (i_admin s, i_refund_network_fee s)"

lemma guard_fields_writes [simp]:
  "guard_fields (publish e s) = guard_fields s" "guard_fields (payer_index_add p i s) = guard_fields s"
  "guard_fields (put_invoice i v s) = guard_fields s" "guard_fields (pending_index_remove i s) = guard_fields s"
  "guard_fields (pending_index_add i s) = guard_fields s"
  "guard_fields (append_history h i a b s) = guard_fields s" "guard_fields (index_template m i s) = guard_fields s"
  "guard_fields (s\<lparr>i_refund_requested_at := rr\<rparr>) = guard_fields s"
  "guard_fields (s\<lparr>i_refund_breakdown := rb\<rparr>) = guard_fields s" "guard_fields (s\<lparr>i_world := w\<rparr>) = guard_fields s"
  "guard_fields (s\<lparr>i_template_count := c\<rparr>) = guard_fields s" "guard_fields (s\<lparr>i_templates := ts\<rparr>) = guard_fields s"
  by (simp_all add: guard_fields_def publish_def payer_index_add_def put_invoice_def pending_index_remove_def
      pending_index_add_def append_history_def index_template_def Let_def split: option.split)

lemma create_record_guard:
  "create_invoice_record h s m a g secs mh lh n tok = Inr (i, t) \<Longrightarrow> guard_fields t = guard_fields s"
  by (auto simp: create_invoice_record_def Let_def result_simps event_defs)
    (simp_all add: guard_fields_def put_invoice_def)

lemma fold_keeps:
  assumes "\<And>x n s n' t. f x (n, s) = Inr (n', t) \<Longrightarrow> view t = view s"
    and "fold_result f xs (n, s) = Inr (n', t)"
  shows "view t = view s"
  using assms(2)
proof (induction xs arbitrary: n s)
  case (Cons x xs)
  then obtain m u where u: "f x (n, s) = Inr (m, u)" "fold_result f xs (m, u) = Inr (n', t)"
    by (auto simp: result_simps)
  from assms(1) [OF u(1)] Cons.IH [OF u(2)] show ?case by simp
qed simp

lemma loop_bodies_guard:
  "batch_create_one h m p (ids, s) = Inr (ids', t) \<Longrightarrow> guard_fields t = guard_fields s"
  "expire_one h i (n, s) = Inr (n', t) \<Longrightarrow> guard_fields t = guard_fields s"
  "generate_one h k (n, s) = Inr (n', t) \<Longrightarrow> guard_fields t = guard_fields s"
  by (auto simp: batch_create_one_eq expire_one_def generate_one_def result_simps Let_def event_defs
      dest: create_record_guard split: option.splits if_splits)

lemma loops_guard:
  "fold_result (batch_create_one h m) ps (ids, s) = Inr (ids', t) \<Longrightarrow> guard_fields t = guard_fields s"
  "fold_result (expire_one h) is (n, s) = Inr (n', t) \<Longrightarrow> guard_fields t = guard_fields s"
  "fold_result (generate_one h) ks (n, s) = Inr (n', t) \<Longrightarrow> guard_fields t = guard_fields s"
  by (erule fold_keeps [rotated], erule loop_bodies_guard)+

lemma cancel_all_guard: "guard_fields (fold (cancel_collected h) vs s) = guard_fields s"
  by (induction vs arbitrary: s) (simp_all add: cancel_collected_def Let_def event_defs)


lemma ops_guard:
  "mark_paid h s a i p mh tok = Inr t \<Longrightarrow> guard_fields t = guard_fields s"
  "cancel_invoice h s a i = Inr t \<Longrightarrow> guard_fields t = guard_fields s"
  "release_escrow h s a i = Inr t \<Longrightarrow> guard_fields t = guard_fields s"
  "request_refund h s a i = Inr t \<Longrightarrow> guard_fields t = guard_fields s"
  "approve_refund h s a i = Inr t \<Longrightarrow> guard_fields t = guard_fields s"
  "reject_refund h s a i = Inr t \<Longrightarrow> guard_fields t = guard_fields s"
  "extend_expiry h s a i n = Inr t \<Longrightarrow> guard_fields t = guard_fields s"
  "amend_invoice h s m i am gr n = Inr t \<Longrightarrow> guard_fields t = guard_fields s"
  "transfer_invoice h s p i q = Inr t \<Longrightarrow> guard_fields t = guard_fields s"
  "set_template_active h s a i b = Inr t \<Longrightarrow> guard_fields t = guard_fields s"
  by (auto simp: mark_paid_def cancel_invoice_def release_escrow_def request_refund_def approve_refund_def
      reject_refund_def extend_expiry_def amend_invoice_def transfer_invoice_def set_template_active_def
      result_simps Let_def event_defs)

lemma valued_ops_guard:
  "process_refund h s a i bps = Inr (r, t) \<Longrightarrow> guard_fields t = guard_fields s"
  "create_invoice h s m am gr secs mh lh n tok = Inr (i, t) \<Longrightarrow> guard_fields t = guard_fields s"
  "batch_create_invoice h s m ps = Inr (ids, t) \<Longrightarrow> guard_fields t = guard_fields s"
  "batch_expire h s a ids = Inr (k, t) \<Longrightarrow> guard_fields t = guard_fields s"
  "batch_cancel_invoices h s m ids reason = Inr t \<Longrightarrow> guard_fields t = guard_fields s"
  "create_template h s m am gr iv secs mh lh = Inr (i, t) \<Longrightarrow> guard_fields t = guard_fields s"
  "generate_from_template h s m i = Inr (j, t) \<Longrightarrow> guard_fields t = guard_fields s"
  "generate_due_invoices h s ids = Inr (k, t) \<Longrightarrow> guard_fields t = guard_fields s"
  subgoal by (erule process_refund_parts) (simp add: refunded_state_def event_defs)
  subgoal by (auto simp: create_invoice_def result_simps dest: create_record_guard)
  subgoal by (auto simp: batch_create_invoice_def result_simps dest: loops_guard)
  subgoal by (auto simp: batch_expire_def result_simps dest: loops_guard)
  subgoal by (auto simp: batch_cancel_invoices_def result_simps cancel_all_guard)
  subgoal by (auto simp: create_template_def result_simps Let_def)
  subgoal by (auto simp: generate_from_template_def result_simps dest: create_record_guard)
  subgoal by (auto simp: generate_due_invoices_def result_simps dest: loops_guard)
  done

definition fee_ok :: "'w invoice_store \<Rightarrow> bool" where
  "fee_ok s \<longleftrightarrow> 0 \<le> configured_network_fee s"

lemma fee_ok_cong: "guard_fields t = guard_fields s \<Longrightarrow> fee_ok t = fee_ok s"
  by (simp add: fee_ok_def guard_fields_def configured_network_fee_def)

lemma config_ops_fee_ok:
  assumes "invoice_invoke h s c = Inr t" and "fee_ok s"
  shows "fee_ok t"
  using assms
  by (cases c)
    (auto simp: store_of_eq_Inr dest!: ops_guard valued_ops_guard fee_ok_cong,
      (auto simp: initialize_def set_grace_window_def set_max_open_invoices_def
        set_merchant_max_open_invoices_def set_late_fee_bps_def set_refund_window_def transfer_admin_def
        accept_admin_def pause_def unpause_def set_refund_network_fee_def result_simps Let_def publish_def
        fee_ok_def configured_network_fee_def)+)

definition store_ok :: "'w invoice_store \<Rightarrow> bool" where
  "store_ok s \<longleftrightarrow> ledger_ok (ledger_of s) \<and> fee_ok s"

definition store_le :: "'w invoice_store \<Rightarrow> 'w invoice_store \<Rightarrow> bool" where
  "store_le s t \<longleftrightarrow> ledger_le (ledger_of s) (ledger_of t)"

lemma elsewhere_ledger: "ledger_of (s\<lparr>i_world := w\<rparr>) = ledger_of s"
  by (simp add: ledger_of_def get_pending_ids_def)

interpretation invoice_runs: monotone invoice_started orderly_call store_ok store_le
proof
  fix s t u :: "'w invoice_store"
  show "store_ok s" if "invoice_started s"
  proof -
    from that have "empty_ledger (ledger_of s)" "fee_ok s"
      by (auto simp: invoice_started_def empty_ledger_def ledger_of_def
          empty_invoice_store_def get_pending_ids_def fee_ok_def configured_network_fee_def
          REFUND_NETWORK_FEE_def)
    then show ?thesis using ledger_run.init_inv by (auto simp: store_ok_def)
  qed
  show "store_ok t" if ok: "store_ok s" and step: "orderly_call s t"
    using step
  proof cases
    case (orderly_entrypoint h c)
    with ok invoice_invoke_refines [of h s c t] config_ops_fee_ok [of h s c t] ledger_run.step_inv
    show ?thesis by (auto simp: store_ok_def fee_ok_def)
  next
    case (orderly_elsewhere w)
    with ok show ?thesis by (simp add: store_ok_def fee_ok_def configured_network_fee_def elsewhere_ledger)
  qed
  show "store_le s s" unfolding store_le_def by (rule ledger_run.le_refl)
  show "store_le s u" if "store_le s t" "store_le t u"
    using that unfolding store_le_def by (rule ledger_run.le_trans)
  show "store_le s t" if ok: "store_ok s" and step: "orderly_call s t"
    using step
  proof cases
    case (orderly_entrypoint h c)
    with ok invoice_invoke_refines [of h s c t] ledger_run.step_le
    show ?thesis by (auto simp: store_ok_def store_le_def fee_ok_def)
  next
    case (orderly_elsewhere w)
    then show ?thesis unfolding store_le_def elsewhere_ledger by (simp add: elsewhere_ledger ledger_run.le_refl)
  qed
qed

lemma reachable_store_ok: "orderly_reachable s \<Longrightarrow> store_ok s"
  unfolding orderly_reachable_def by (rule invoice_runs.reachable_inv)

interpretation invoice_calls: signed_admin invoice_invoke i_admin
proof
  fix h :: "'w host" and s t c
  assume "invoice_invoke h s c = Inr t"
  then show "i_admin t = i_admin s \<or> (\<exists>a. i_admin t = Some a \<and> h_auth h a)"
    by (cases c)
      (auto simp: store_of_eq_Inr dest!: ops_guard valued_ops_guard,
        (auto simp: guard_fields_def initialize_def set_grace_window_def set_max_open_invoices_def
          set_merchant_max_open_invoices_def set_late_fee_bps_def set_refund_window_def transfer_admin_def
          accept_admin_def pause_def unpause_def set_refund_network_fee_def result_simps Let_def publish_def)+)
qed

end
