(* ===== verification/Invoice_Keeper.thy ===== *)
theory Invoice_Keeper
  imports Invoice_Calls
begin

text \<open>
  The keeper of recurring invoices (\<open>generate_due_invoices\<close> of
  \<^verbatim>\<open>entrypoints/template.rs\<close>): the schedule loop in closed form, and what one run over
  a list of template ids does to invoices and templates.
\<close>

section \<open>The schedule loop\<close>

lemma advance_next_run_closed:
  assumes "unat now + unat (period_seconds iv) < 2 ^ 64" and "nxt \<le> now"
  shows "unat (advance_next_run iv now nxt) =
    unat nxt + ((unat now - unat nxt) div unat (period_seconds iv) + 1) * unat (period_seconds iv)"
  using assms
proof (induction iv now nxt rule: advance_next_run.induct)
  case (1 iv now nxt)
  let ?P = "unat (period_seconds iv)"
  from 1(3) have le: "unat nxt \<le> unat now" by (simp add: word_le_nat_alt)
  with 1(2) obtain adv where adv: "checked_add nxt (period_seconds iv) = Some adv" "unat adv = unat nxt + ?P"
    by (cases "checked_add nxt (period_seconds iv)") (simp_all add: arith_simps)
  have eq: "advance_next_run iv now nxt = advance_next_run iv now adv"
    using 1(3) adv(1) by (subst advance_next_run.simps) simp
  show ?case
  proof (cases "adv \<le> now")
    case True
    then have "unat nxt + ?P \<le> unat now" by (simp add: word_le_nat_alt adv)
    then have "(unat now - unat nxt) div ?P = Suc ((unat now - unat adv) div ?P)"
      using le_div_geq [of ?P "unat now - unat nxt"] period_positive [of iv] adv(2) by simp
    with 1(1) [OF 1(3) adv(1) 1(2) True] show ?thesis by (simp add: eq adv(2))
  next
    case False
    then have "unat now - unat nxt < ?P" using le by (simp add: word_le_nat_alt adv(2))
    with False show ?thesis by (simp add: eq adv(2) advance_next_run.simps [of iv now adv])
  qed
qed

lemma advance_in_future:
  assumes "unat now + unat (period_seconds iv) < 2 ^ 64" and "nxt \<le> now"
  shows "now < advance_next_run iv now nxt"
proof -
  have "unat now - unat nxt < ((unat now - unat nxt) div unat (period_seconds iv) + 1) * unat (period_seconds iv)"
    using dividend_less_div_times [OF period_positive [of iv], of "unat now - unat nxt"] by simp
  with advance_next_run_closed [OF assms] assms(2) show ?thesis
    by (simp only: word_less_nat_alt word_le_nat_alt)
qed

section \<open>One template\<close>

definition due :: "'w host \<Rightarrow> 'w invoice_store \<Rightarrow> u64 \<Rightarrow> bool" where
  "due h s k \<longleftrightarrow> (case i_templates s k of
     None \<Rightarrow> False | Some tpl \<Rightarrow> tpl_active tpl \<and> tpl_next_run_at tpl \<le> h_now h)"

definition rescheduled :: "'w host \<Rightarrow> InvoiceTemplate \<Rightarrow> InvoiceTemplate" where
  "rescheduled h tpl =
     tpl\<lparr>tpl_next_run_at := advance_next_run (tpl_interval tpl) (h_now h) (tpl_next_run_at tpl)\<rparr>"

definition invoice_of_template :: "'w host \<Rightarrow> u64 \<Rightarrow> InvoiceTemplate \<Rightarrow> Invoice" where
  "invoice_of_template h i tpl =
     new_invoice i (tpl_merchant tpl) (tpl_amount_usdc tpl) (tpl_gross_usdc tpl)
       (h_now h + tpl_expires_in_seconds tpl) (tpl_metadata_hash tpl) (tpl_payment_link_hash tpl) 0 MA_None"

lemma generate_one_not_due: "\<not> due h s k \<Longrightarrow> generate_one h k (n, s) = Inr (n, s)"
  by (auto simp: due_def generate_one_def split: option.splits)

lemma create_record_effect:
  assumes "create_invoice_record h s m a g secs mh lh n tok = Inr (i, t)"
  shows "unat i = unat (get_invoice_count s) + 1 \<and> i_count t = Some i \<and>
    i_invoices t = (i_invoices s)(i \<mapsto> new_invoice i m a g (h_now h + secs) mh lh n tok) \<and>
    get_pending_ids t = get_pending_ids s @ [i] \<and> i_templates t = i_templates s \<and> i_paused t = i_paused s"
proof -
  from assms obtain e where i: "checked_add (unwrap_or (i_count s) 0) 1 = Some i"
    and e: "checked_add (h_now h) secs = Some e"
    and t: "i_count t = Some i" "i_invoices t = (i_invoices s)(i \<mapsto> new_invoice i m a g e mh lh n tok)"
      "get_pending_ids t = get_pending_ids s @ [i]" "i_templates t = i_templates s" "i_paused t = i_paused s"
    by (cases "n = 0") (auto simp: create_invoice_record_def result_simps Let_def event_defs publish_def
        pending_index_add_def put_invoice_def get_pending_ids_def)
  from e have "e = h_now h + secs" by (auto simp: checked_add_def split: if_splits)
  with i t show ?thesis by (simp add: arith_simps get_invoice_count_def)
qed

lemma generate_one_due:
  assumes "generate_one h k (n, s) = Inr (n', t)" and "due h s k"
  obtains tpl i where "i_templates s k = Some tpl" "unat n' = unat n + 1"
    "unat i = unat (get_invoice_count s) + 1" "get_invoice_count t = i"
    "i_invoices t = (i_invoices s)(i \<mapsto> invoice_of_template h i tpl)"
    "i_templates t = (i_templates s)(k \<mapsto> rescheduled h tpl)" "i_paused t = i_paused s"
proof -
  from assms(2) obtain tpl where tpl: "i_templates s k = Some tpl" "tpl_active tpl" "tpl_next_run_at tpl \<le> h_now h"
    by (auto simp: due_def split: option.splits)
  then have "\<not> h_now h < tpl_next_run_at tpl" by simp
  with tpl assms(1) obtain i u where
    c: "create_invoice_record h s (tpl_merchant tpl) (tpl_amount_usdc tpl)
         (tpl_gross_usdc tpl) (tpl_expires_in_seconds tpl) (tpl_metadata_hash tpl)
         (tpl_payment_link_hash tpl) 0 MA_None = Inr (i, u)"
    and n': "checked_add n 1 = Some n'"
    and t: "t = publish (Ev_template_generated k i) (u\<lparr>i_templates := (i_templates u)(k \<mapsto> rescheduled h tpl)\<rparr>)"
    by (auto simp: generate_one_def result_simps Let_def rescheduled_def)
  from create_record_effect [OF c] n' tpl(1) show thesis
    by (intro that [of tpl i])
      (simp_all add: t publish_def invoice_of_template_def get_invoice_count_def arith_simps)
qed

lemma due_after_one:
  assumes "generate_one h k (n, s) = Inr (n', t)" and "due h s k" and "unat (h_now h) + 2592000 < 2 ^ 64"
  shows "due h t j \<longleftrightarrow> due h s j \<and> j \<noteq> k"
  using assms(1,2)
proof (rule generate_one_due)
  fix tpl assume tpl: "i_templates s k = Some tpl" and t: "i_templates t = (i_templates s)(k \<mapsto> rescheduled h tpl)"
  have "unat (h_now h) + unat (period_seconds (tpl_interval tpl)) < 2 ^ 64"
    using assms(3) by (cases "tpl_interval tpl") simp_all
  with advance_in_future [of "h_now h" "tpl_interval tpl" "tpl_next_run_at tpl"] assms(2) tpl
  have "\<not> due h t k" by (simp add: due_def t rescheduled_def not_le)
  then show ?thesis by (cases "j = k") (simp_all add: due_def t)
qed

section \<open>A run of the keeper\<close>

text \<open>
  The run takes the due templates of the list, each once, in the order \<open>ds\<close>: the
  \<open>j\<close>-th of them gets the \<open>j\<close>-th new invoice.
\<close>

definition keeper_result ::
    "'w host \<Rightarrow> 'w invoice_store \<Rightarrow> u64 list \<Rightarrow> 'w invoice_store \<Rightarrow> bool" where
  "keeper_result h s ds t \<longleftrightarrow>
     unat (get_invoice_count t) = unat (get_invoice_count s) + length ds \<and>
     (\<forall>i. unat i \<le> unat (get_invoice_count s) \<longrightarrow> i_invoices t i = i_invoices s i) \<and>
     (\<forall>i j. j < length ds \<longrightarrow> unat i = unat (get_invoice_count s) + 1 + j \<longrightarrow>
        i_invoices t i = map_option (invoice_of_template h i) (i_templates s (ds ! j))) \<and>
     (\<forall>k. i_templates t k = (if k \<in> set ds then map_option (rescheduled h) (i_templates s k)
                             else i_templates s k)) \<and>
     i_paused t = i_paused s"

lemma keeper_result_Cons:
  assumes "generate_one h k (n, s) = Inr (n', u)" and "due h s k" and "k \<notin> set ds" and "keeper_result h u ds t"
  shows "keeper_result h s (k # ds) t"
  using assms(1,2)
proof (rule generate_one_due)
  fix tpl i
  assume tpl: "i_templates s k = Some tpl" and i: "unat i = unat (get_invoice_count s) + 1" "get_invoice_count u = i"
    and u: "i_invoices u = (i_invoices s)(i \<mapsto> invoice_of_template h i tpl)"
      "i_templates u = (i_templates s)(k \<mapsto> rescheduled h tpl)" "i_paused u = i_paused s"
  note r = assms(4) [unfolded keeper_result_def i(2)]
  have "i_invoices t x = i_invoices s x" if "unat x \<le> unat (get_invoice_count s)" for x
    using r that i(1) by (auto simp: u)
  moreover have "i_invoices t x = map_option (invoice_of_template h x) (i_templates s ((k # ds) ! j))"
    if j: "j < length (k # ds)" "unat x = unat (get_invoice_count s) + 1 + j" for x j
  proof (cases j)
    case 0
    with j(2) i(1) have "x = i" by (simp add: word_unat_eq_iff)
    with r show ?thesis by (simp add: 0 tpl u(1))
  next
    case (Suc j')
    with j have "j' < length ds" "unat x = unat i + 1 + j'" by (simp_all add: i(1))
    with r have "i_invoices t x = map_option (invoice_of_template h x) (i_templates u (ds ! j'))" by blast
    moreover have "ds ! j' \<noteq> k" using \<open>j' < length ds\<close> assms(3) nth_mem by blast
    ultimately show ?thesis by (simp add: Suc u(2))
  qed
  moreover have "i_templates t x = (if x \<in> set (k # ds) then map_option (rescheduled h) (i_templates s x)
      else i_templates s x)" for x
    using r assms(3) by (simp add: u(2) tpl)
  ultimately show ?thesis using r i by (simp add: keeper_result_def u(3))
qed

lemma keeper_loop:
  assumes "fold_result (generate_one h) ks (n, s) = Inr (n', t)" and "unat (h_now h) + 2592000 < 2 ^ 64"
  shows "\<exists>ds. distinct ds \<and> set ds = {k \<in> set ks. due h s k} \<and> unat n' = unat n + length ds \<and>
    keeper_result h s ds t"
  using assms(1)
proof (induction ks arbitrary: n s)
  case Nil
  then show ?case by (auto simp: keeper_result_def)
next
  case (Cons k ks)
  from Cons.prems obtain m u where u: "generate_one h k (n, s) = Inr (m, u)"
    "fold_result (generate_one h) ks (m, u) = Inr (n', t)" by (auto simp: result_simps)
  from Cons.IH [OF u(2)] obtain ds where ds: "distinct ds" "set ds = {k \<in> set ks. due h u k}"
    "unat n' = unat m + length ds" "keeper_result h u ds t" by blast
  show ?case
  proof (cases "due h s k")
    case False
    with u(1) have "m = n" "u = s" by (simp_all add: generate_one_not_due)
    with ds False show ?thesis by (intro exI [of _ ds]) auto
  next
    case True
    note due = due_after_one [OF u(1) True assms(2)]
    have "unat m = unat n + 1" using u(1) True by (rule generate_one_due) simp
    moreover have "k \<notin> set ds" using ds(2) due by simp
    moreover from keeper_result_Cons [OF u(1) True this ds(4)] have "keeper_result h s (k # ds) t" .
    moreover have "set (k # ds) = {j \<in> set (k # ks). due h s j}" using ds(2) due True by auto
    ultimately show ?thesis using ds(1,3) by (intro exI [of _ "k # ds"]) simp
  qed
qed

lemma keeper_idle:
  assumes "\<forall>k\<in>set ks. \<not> due h t k"
  shows "fold_result (generate_one h) ks (n, t) = Inr (n, t)"
  using assms by (induction ks) (simp_all add: generate_one_not_due)

lemma keeper_result_not_due:
  assumes "keeper_result h s ds t" and "\<And>iv. unat (h_now h) + unat (period_seconds iv) < 2 ^ 64"
    and "due h s k \<longleftrightarrow> k \<in> set ds"
  shows "\<not> due h t k"
proof (cases "due h s k")
  case True
  with assms(3) obtain tpl where tpl: "i_templates s k = Some tpl" "tpl_next_run_at tpl \<le> h_now h" "k \<in> set ds"
    by (auto simp: due_def split: option.splits)
  with assms(1) have "i_templates t k = Some (rescheduled h tpl)" by (simp add: keeper_result_def)
  with advance_in_future [OF assms(2) tpl(2)] show ?thesis by (simp add: due_def rescheduled_def not_le)
next
  case False
  with assms(1,3) show ?thesis by (simp add: keeper_result_def due_def)
qed

lemma distinct_singleton_list: "distinct xs \<Longrightarrow> set xs = {x} \<Longrightarrow> xs = [x]"
  by (cases xs; cases "tl xs") auto

end
