(* ===== verification/Invoice_Properties.thy ===== *)
theory Invoice_Properties
  imports Invoice_Runs Invoice_Keeper
begin

text \<open>
  The properties of the invoice contract, and the concrete run that shows their
  hypotheses can hold.
\<close>

section \<open>A concrete run\<close>

type_synonym payments = "(address \<times> address \<times> address \<times> i128) list"

text \<open>An invocation at time \<open>now\<close> signed by \<open>who\<close>; the token contract records transfers.\<close>

definition shop_host :: "u64 \<Rightarrow> address \<Rightarrow> payments host" where
  "shop_host now who =
     \<lparr>h_now = now, h_seq = 0, h_self = 50, h_auth = (\<lambda>a. a = who),
      h_transfer = (\<lambda>tok src dst amt w. Some (w @ [(tok, src, dst, amt)])), h_balance = (\<lambda>_ _ _. Some 0),
      h_is_allowed = (\<lambda>_ _ _. Some True), h_is_allowed_for_amount = (\<lambda>_ _ _ _. Some True)\<rparr>"

lemma shop_host_simps [simp]:
  "h_now (shop_host now who) = now" "h_auth (shop_host now who) = (\<lambda>a. a = who)" "h_self (shop_host now who) = 50"
  "h_transfer (shop_host now who) = (\<lambda>tok src dst amt w. Some (w @ [(tok, src, dst, amt)]))"
  by (simp_all add: shop_host_def)

definition store_after :: "(payments host \<times> InvoiceCall) list \<Rightarrow> payments invoice_store" where
  "store_after cs = (case invoice_run cs (empty_invoice_store []) of Inr s \<Rightarrow> s | Inl _ \<Rightarrow> empty_invoice_store [])"

definition shop_open :: "(payments host \<times> InvoiceCall) list" where
  "shop_open =
     [(shop_host 10 1, J_initialize 1),
      (shop_host 10 5, J_create_invoice 5 20000000 20000000 1000 MB_None MB_None 7 (MA_Some 9))]"

definition shop_requested :: "(payments host \<times> InvoiceCall) list" where
  "shop_requested = shop_open @
     [(shop_host 20 1, J_mark_paid 1 1 6 MB_None (MA_Some 9)),
      (shop_host 30 6, J_request_refund 6 1)]"

lemmas shop_eval = invoice_run_def empty_invoice_store_def initialize_def create_invoice_def
  create_invoice_record_def new_invoice_def mark_paid_def request_refund_def
  require_admin_def require_not_paused_def require_auth_def require_positive_amount_def
  require_usdc_precision_def require_hash_not_too_long_def require_valid_payment_link_hash_def
  require_expiry_not_too_long_def require_payer_not_merchant_def refund_window_open_def
  get_invoice_def put_invoice_def payer_index_add_def pending_index_add_def pending_index_remove_def
  append_history_def event_defs publish_def store_of_def Let_def USDC_FACTOR_def MAX_EXPIRY_SECONDS_def
  MAX_PAYER_INDEX_ENTRIES_def checked_add_def saturating_add_def drop_value_def
  word_le_nat_alt word_less_nat_alt

definition shop_invoice :: Invoice where
  "shop_invoice = \<lparr>inv_id = 1, inv_merchant = 5, inv_amount_usdc = 20000000, inv_gross_usdc = 20000000,
     inv_status = IRefundRequested, inv_expires_at = 1010, inv_paid_at = Some 20, inv_payer = MA_Some 6,
     inv_metadata_hash = MB_None, inv_payment_link_hash = MB_None, inv_merchant_nonce = 7,
     inv_token_address = MA_Some 9\<rparr>"

lemma shop_requested_run: "invoice_run shop_requested (empty_invoice_store []) = Inr (store_after shop_requested)"
proof -
  have "\<not> isl (invoice_run shop_requested (empty_invoice_store []))"
    by (simp add: shop_requested_def shop_open_def shop_eval)
  then show ?thesis by (auto simp: store_after_def split: sum.split)
qed

lemma shop_requested_state:
  "i_invoices (store_after shop_requested) = [1 \<mapsto> shop_invoice]" "i_admin (store_after shop_requested) = Some 1"
  "i_paused (store_after shop_requested) = Some False" "i_refund_network_fee (store_after shop_requested) = None"
  "i_world (store_after shop_requested) = []" "i_pending_index (store_after shop_requested) = Some []"
  by (simp_all add: store_after_def shop_requested_def shop_open_def shop_eval shop_invoice_def)

lemma run_reachable:
  assumes "invoice_run ((h, J_initialize a) # cs) (empty_invoice_store w) = Inr t"
    and "\<forall>(h, c)\<in>set cs. \<forall>a. c \<noteq> J_initialize a"
  shows "orderly_reachable t"
proof -
  from assms(1) obtain s where s: "invoice_invoke h (empty_invoice_store w) (J_initialize a) = Inr s"
    "invoice_run cs s = Inr t"
    by (auto simp: invoice_run_def result_simps)
  have "orderly_reachable (empty_invoice_store w)"
    unfolding orderly_reachable_def invoice_started_def by (blast intro: reachable_init)
  moreover have "orderly_call (empty_invoice_store w) s"
    by (rule orderly_entrypoint [OF s(1)]) (simp add: get_invoice_count_def empty_invoice_store_def)
  ultimately have "orderly_reachable s" unfolding orderly_reachable_def by (rule reachable_step)
  with invoice_run_orderly [OF s(2) assms(2)] show ?thesis by (rule orderly_steps_reachable)
qed

lemma shop_requested_reachable: "orderly_reachable (store_after shop_requested)"
  using shop_requested_run unfolding shop_requested_def shop_open_def by (simp add: run_reachable)

section \<open>The life cycle\<close>

text \<open>What the abstract well-formedness of an entry says to the contract's own readers.\<close>

lemma entry_ok_evidence:
  assumes "entry_ok l i v"
  shows "was_paid (inv_status v) \<longleftrightarrow> verify_payment_state v = Inr ()"
proof -
  from assms have "0 < inv_amount_usdc v" "inv_amount_usdc v \<le> inv_gross_usdc v"
    "was_paid (inv_status v) = (inv_paid_at v \<noteq> None)" "was_paid (inv_status v) = (inv_payer v \<noteq> MA_None)"
    unfolding entry_ok_def invoice_ok_def USDC_FACTOR_def by linarith+
  then show ?thesis by (auto simp: verify_payment_state_eq_Inr)
qed

lemma entry_ok_reads:
  assumes "entry_ok (ledger_of s) i v"
  shows "inv_id v = i \<and> 0 < i \<and> i \<le> get_invoice_count s \<and>
      USDC_FACTOR \<le> inv_amount_usdc v \<and> inv_amount_usdc v \<le> inv_gross_usdc v \<and>
      (was_paid (inv_status v) \<longleftrightarrow> verify_payment_state v = Inr ()) \<and>
      status_path (remdups_adj (unwrap_or (i_history s i) [])) (inv_status v)"
  unfolding entry_ok_evidence [OF assms, symmetric]
  using assms by (simp add: entry_ok_def invoice_ok_def get_invoice_count_def history_ok_def)

text \<open>
  C7. Over every orderly run, which is one in which \<open>initialize\<close> comes before the
  first invoice, an invoice never disappears, changes only along the life cycle of
  its status, keeps its identity, keeps its amounts once it has left \<open>Pending\<close>,
  and is frozen once its status is terminal. (Without the condition it fails, since
  \<open>initialize\<close> resets the counter that gives the invoices their ids. From a successful
  \<open>initialize\<close> on every call is orderly.)
\<close>

theorem invoice_lifecycle:
  assumes "orderly_reachable s" and "orderly_call\<^sup>*\<^sup>* s t" and "i_invoices s i = Some v"
  shows "\<exists>v'. i_invoices t i = Some v' \<and> invoice_step\<^sup>*\<^sup>* v v' \<and> same_identity v v' \<and>
    (inv_status v \<noteq> IPending \<longrightarrow>
       inv_amount_usdc v' = inv_amount_usdc v \<and> inv_gross_usdc v' = inv_gross_usdc v) \<and>
    (is_terminal (inv_status v) \<longrightarrow> v' = v)"
proof -
  from assms(1,2) have "store_le s t" unfolding orderly_reachable_def by (rule invoice_runs.reachable_le)
  with assms(3) obtain v' where v': "i_invoices t i = Some v'" "invoice_step\<^sup>*\<^sup>* v v'"
    by (auto simp: store_le_def ledger_le_def)
  with steps_identity [OF v'(2)] steps_amounts [OF v'(2)] terminal_frozen [OF v'(2)] show ?thesis by blast
qed

theorem invoice_lifecycle_witness:
  "\<exists>v'. i_invoices (store_after shop_requested) 1 = Some v' \<and> invoice_step\<^sup>*\<^sup>* shop_invoice v' \<and>
     inv_amount_usdc v' = 20000000"
proof -
  have v: "i_invoices (store_after shop_requested) 1 = Some shop_invoice" by (simp add: shop_requested_state)
  have "inv_status shop_invoice \<noteq> IPending" "inv_amount_usdc shop_invoice = 20000000"
    by (simp_all add: shop_invoice_def)
  with invoice_lifecycle [OF shop_requested_reachable rtranclp.rtrancl_refl v] show ?thesis by auto
qed

text \<open>
  C13. In every state reached by an orderly run (\<open>initialize\<close> comes before the first
  invoice) a stored invoice carries its own id, which the counter has reached, and
  amounts of at least one USDC with the gross no smaller than the net; payment time
  and payer are recorded exactly from \<open>Paid\<close> on, so \<open>verify_payment_state\<close> never
  refuses a paid invoice; its history, with immediate repetitions of one record
  counted once, is a path of legal transitions from \<open>Pending\<close> to its status; the
  pending index lists each pending invoice once and nothing else; and no merchant has
  two invoices with the same non-zero nonce. (A repeated record occurs: a repeated id
  in \<open>batch_cancel_invoices\<close> is recorded once per occurrence.)
\<close>

theorem invoice_store_well_formed:
  assumes "orderly_reachable s"
  shows "(\<forall>i v. i_invoices s i = Some v \<longrightarrow>
      inv_id v = i \<and> 0 < i \<and> i \<le> get_invoice_count s \<and>
      USDC_FACTOR \<le> inv_amount_usdc v \<and> inv_amount_usdc v \<le> inv_gross_usdc v \<and>
      (was_paid (inv_status v) \<longleftrightarrow> verify_payment_state v = Inr ()) \<and>
      status_path (remdups_adj (unwrap_or (i_history s i) [])) (inv_status v)) \<and>
    distinct (get_pending_ids s) \<and>
    set (get_pending_ids s) = {i. \<exists>v. i_invoices s i = Some v \<and> inv_status v = IPending} \<and>
    (\<forall>i j v w. i_invoices s i = Some v \<longrightarrow> i_invoices s j = Some w \<longrightarrow> inv_merchant v = inv_merchant w \<longrightarrow>
       inv_merchant_nonce v = inv_merchant_nonce w \<longrightarrow> inv_merchant_nonce v \<noteq> 0 \<longrightarrow> i = j)"
proof -
  have ok: "ledger_ok (ledger_of s)" using reachable_store_ok [OF assms] by (simp add: store_ok_def)
  have e: "inv_id v = i \<and> 0 < i \<and> i \<le> get_invoice_count s \<and>
      USDC_FACTOR \<le> inv_amount_usdc v \<and> inv_amount_usdc v \<le> inv_gross_usdc v \<and>
      (was_paid (inv_status v) \<longleftrightarrow> verify_payment_state v = Inr ()) \<and>
      status_path (remdups_adj (unwrap_or (i_history s i) [])) (inv_status v)" if "i_invoices s i = Some v" for i v
    using entry_ok_reads [of s i v] ledger_okD(1) [OF ok, of i v] that by simp
  have p: "distinct (get_pending_ids s)"
    "set (get_pending_ids s) = {i. \<exists>v. i_invoices s i = Some v \<and> inv_status v = IPending}"
    using ledger_okD(4) [OF ok] by (simp_all add: pending_exact_def)
  have n: "i = j" if "i_invoices s i = Some v" "i_invoices s j = Some w" "inv_merchant v = inv_merchant w"
      "inv_merchant_nonce v = inv_merchant_nonce w" "inv_merchant_nonce v \<noteq> 0" for i j v w
    using ledger_okD(3) [OF ok] that by (simp add: nonces_unique_def nonce_key_def)
  show ?thesis by (intro conjI p; use e n in blast)
qed

theorem invoice_store_well_formed_witness:
  "get_pending_ids (store_after shop_requested) = [] \<and> verify_payment_state shop_invoice = Inr () \<and>
   status_path (remdups_adj (unwrap_or (i_history (store_after shop_requested) 1) [])) IRefundRequested"
proof -
  let ?s = "store_after shop_requested"
  have v: "i_invoices ?s 1 = Some shop_invoice" by (simp add: shop_requested_state)
  have st: "inv_status shop_invoice = IRefundRequested" "was_paid IRefundRequested"
    by (simp_all add: shop_invoice_def was_paid_def)
  note all = invoice_store_well_formed [OF shop_requested_reachable]
  from all [THEN conjunct1, rule_format, OF v] st have "verify_payment_state shop_invoice = Inr ()"
    "status_path (remdups_adj (unwrap_or (i_history ?s 1) [])) IRefundRequested" by simp_all
  moreover have "get_pending_ids ?s = []" by (simp add: shop_requested_state get_pending_ids_def)
  ultimately show ?thesis by blast
qed

section \<open>Refunds\<close>

text \<open>
  C23. For every \<open>i128\<close> amount the refund arithmetic either rejects its arguments
  with the documented error or computes the exact floor of the fee share, never
  overflowing; the payout lies between zero and the gross amount, and payout plus
  fees make up the gross amount unless the fees consume it.
\<close>

theorem net_refund_exact:
  assumes "i128_ok g"
  shows "calculate_net_refund_with_network_fee g bps fee =
      (if fee < 0 then Inl (Err IE_InvalidAmount)
       else if 10000 < bps then Inl (Err IE_RefundFeeTooHigh)
       else if g \<le> 0 then Inl (Err IE_InvalidAmount)
       else Inr \<lparr>nr_gross_amount = g, nr_processing_fee = g * int (unat bps) div 10000,
                 nr_network_fee = min g fee,
                 nr_net_amount = max 0 (g - g * int (unat bps) div 10000 - min g fee)\<rparr>) \<and>
    (\<forall>r. calculate_net_refund_with_network_fee g bps fee = Inr r \<longrightarrow>
       0 \<le> nr_net_amount r \<and> nr_net_amount r \<le> g \<and> 0 \<le> nr_processing_fee r \<and> nr_processing_fee r \<le> g \<and>
       (nr_net_amount r = 0 \<or> nr_net_amount r + nr_processing_fee r + nr_network_fee r = g))"
    (is "?eq \<and> ?bounds")
proof
  show ?eq
  proof (cases "fee < 0 \<or> 10000 < bps \<or> g \<le> 0")
    case True
    then show ?thesis
      by (auto simp: calculate_net_refund_with_network_fee_def require_def MAX_REFUND_FEE_BPS_def BPS_DENOMINATOR_def)
  next
    case False
    with net_refund_eq [of g bps fee] assms show ?thesis
      by (simp add: not_less not_le net_refund_spec_def Let_def)
  qed
  show ?bounds
  proof (intro allI impI)
    fix r assume r: "calculate_net_refund_with_network_fee g bps fee = Inr r"
    with \<open>?eq\<close> have g: "0 < g" "bps \<le> 10000" "0 \<le> fee" by (auto simp: not_less not_le split: if_splits)
    have b: "0 \<le> int (unat bps)" "int (unat bps) \<le> 10000" using g(2) by (simp_all add: word_le_def)
    from r \<open>?eq\<close> g have "r = \<lparr>nr_gross_amount = g, nr_processing_fee = g * int (unat bps) div 10000,
                 nr_network_fee = min g fee,
                 nr_net_amount = max 0 (g - g * int (unat bps) div 10000 - min g fee)\<rparr>"
      by (auto simp: leD)
    with fee_bounds(5,6) [OF g(1) b] g show "0 \<le> nr_net_amount r \<and> nr_net_amount r \<le> g \<and> 0 \<le> nr_processing_fee r \<and> nr_processing_fee r \<le> g \<and>
       (nr_net_amount r = 0 \<or> nr_net_amount r + nr_processing_fee r + nr_network_fee r = g)"
      by (simp del: of_nat_unat) (auto simp: max_def min_def)
  qed
qed

theorem net_refund_exact_witness:
  "calculate_net_refund_with_network_fee i128_MAX 25 100 =
     Inr \<lparr>nr_gross_amount = i128_MAX, nr_processing_fee = i128_MAX * 25 div 10000, nr_network_fee = 100,
          nr_net_amount = i128_MAX - i128_MAX * 25 div 10000 - 100\<rparr>"
  using net_refund_exact [of i128_MAX 25 100] by (simp add: i128_defs)

text \<open>
  C10. A requested refund can always be paid: in every state reached by an orderly
  run (\<open>initialize\<close> comes before the first invoice), when the admin processes a \<open>RefundRequested\<close> invoice that names a token, with a fee of at most
  100\% and a token contract that accepts the transfer, the call succeeds, the net
  amount goes from the contract to the recorded payer and the invoice becomes
  \<open>Refunded\<close>; when the token contract refuses, the call fails with
  \<open>RefundTransferFailed\<close>.
\<close>

theorem requested_refund_is_payable:
  assumes "orderly_reachable s" and "h_auth h admin" "i_admin s = Some admin" "\<not> is_paused s"
    and v: "i_invoices s i = Some v" "inv_status v = IRefundRequested" "inv_token_address v = MA_Some tok"
    and "i128_ok (inv_amount_usdc v)" "bps \<le> 10000"
  shows "\<exists>p r. inv_payer v = MA_Some p \<and>
      quote_net_refund s (inv_amount_usdc v) bps = Inr r \<and>
      (case h_transfer h tok (h_self h) p (nr_net_amount r) (i_world s) of
         None \<Rightarrow> process_refund h s admin i bps = Inl (Err IE_RefundTransferFailed)
       | Some w \<Rightarrow> (\<exists>t. process_refund h s admin i bps = Inr (r, t) \<and> i_world t = w \<and>
                     i_invoices t = (i_invoices s)(i \<mapsto> v\<lparr>inv_status := IRefunded\<rparr>) \<and>
                     get_refund_breakdown t i = Inr r))"
proof -
  have ok: "entry_ok (ledger_of s) i v" "0 \<le> configured_network_fee s"
    using reachable_store_ok [OF assms(1)] v(1) by (auto simp: store_ok_def fee_ok_def dest: ledger_okD(1))
  have paid: "was_paid (inv_status v)" by (simp add: v(2) was_paid_def)
  with ok(1) have evidence: "verify_payment_state v = Inr ()" by (simp add: entry_ok_evidence)
  from paid ok(1) obtain p where p: "inv_payer v = MA_Some p"
    by (cases "inv_payer v") (auto simp: entry_ok_def invoice_ok_def)
  have "0 < inv_amount_usdc v" using ok(1) by (simp add: entry_ok_def invoice_ok_def USDC_FACTOR_def)
  with net_refund_eq assms(8,9) ok(2) obtain r where
    r: "calculate_net_refund_with_network_fee (inv_amount_usdc v) bps (configured_network_fee s) = Inr r" by blast
  show ?thesis
  proof (cases "h_transfer h tok (h_self h) p (nr_net_amount r) (i_world s)")
    case None
    with assms(2-6) v evidence p r have "process_refund h s admin i bps = Inl (Err IE_RefundTransferFailed)"
      by (simp add: process_refund_def require_admin_def require_auth_def require_not_paused_def
          is_paused_def get_invoice_def refund_recipient_def transfer_net_refund_def)
    with None p r show ?thesis by (simp add: quote_net_refund_def)
  next
    case (Some w)
    with process_refund_succeeds [OF assms(2-4) v(1,2) evidence p v(3) r Some] p r show ?thesis
      by (simp add: quote_net_refund_def refunded_state_def event_defs publish_def append_history_def
          put_invoice_def get_refund_breakdown_def)
  qed
qed

theorem requested_refund_is_payable_witness:
  "\<exists>r t. process_refund (shop_host 40 1) (store_after shop_requested) 1 1 250 = Inr (r, t) \<and>
     nr_net_amount r = 19499900 \<and> i_world t = [(9, 50, 6, 19499900)]"
proof -
  let ?s = "store_after shop_requested"
  have q: "quote_net_refund ?s 20000000 250 = Inr \<lparr>nr_gross_amount = 20000000, nr_processing_fee = 500000,
      nr_network_fee = 100, nr_net_amount = 19499900\<rparr>"
    by (simp add: quote_net_refund_def calculate_net_refund_with_network_fee_def configured_network_fee_def
        REFUND_NETWORK_FEE_def shop_requested_state MAX_REFUND_FEE_BPS_def BPS_DENOMINATOR_def
        checked_i128_def i128_defs Let_def word_less_nat_alt)
  have v: "i_invoices ?s 1 = Some shop_invoice" "inv_status shop_invoice = IRefundRequested"
    "inv_token_address shop_invoice = MA_Some 9" "inv_amount_usdc shop_invoice = 20000000"
    "inv_payer shop_invoice = MA_Some 6"
    by (simp_all add: shop_requested_state shop_invoice_def)
  have "i128_ok (inv_amount_usdc shop_invoice)" "(250 :: u32) \<le> 10000" "\<not> is_paused ?s"
    by (simp_all add: v i128_defs is_paused_def shop_requested_state word_le_nat_alt)
  with requested_refund_is_payable [OF shop_requested_reachable _ _ _ v(1-3), of "shop_host 40 1" 1 250] q v
  show ?thesis by (auto simp: shop_requested_state)
qed

section \<open>Recurring invoices\<close>

text \<open>
  C24. A run of the keeper at a time at least 30 days before the end of the \<open>u64\<close>
  range. It takes exactly the due templates of its list (active, with the next run
  not in the future), each once even if listed twice, and counts them. Each of them
  gets one new invoice, under the ids that follow the counter, with the template's
  merchant, amounts, hashes and lifetime; invoices that existed are untouched. The next
  run of each moves on by whole periods to the first time after now, and every other
  template stays as it is. Running the keeper again at the same time creates nothing.
\<close>

theorem keeper_generates_once:
  assumes "generate_due_invoices h s ks = Inr (n, t)" and "unat (h_now h) + 2592000 < 2 ^ 64"
  shows "(\<exists>ds. distinct ds \<and> set ds = {k \<in> set ks. due h s k} \<and> unat n = length ds \<and> keeper_result h s ds t) \<and>
    (\<forall>k tpl. due h s k \<longrightarrow> i_templates s k = Some tpl \<longrightarrow>
       (let P = unat (period_seconds (tpl_interval tpl)); old = unat (tpl_next_run_at tpl); now = unat (h_now h)
        in unat (tpl_next_run_at (rescheduled h tpl)) = old + ((now - old) div P + 1) * P)) \<and>
    generate_due_invoices h t ks = Inr (0, t)"
proof -
  from assms(1) have loop: "fold_result (generate_one h) ks (0, s) = Inr (n, t)"
    and g: "\<not> length ks > TEMPLATE_KEEPER_BATCH_SIZE" "\<not> is_paused s"
    by (auto simp: generate_due_invoices_def result_simps)
  from keeper_loop [OF loop assms(2)] obtain ds where ds: "distinct ds" "set ds = {k \<in> set ks. due h s k}"
    "unat n = length ds" "keeper_result h s ds t" by auto
  have fits: "unat (h_now h) + unat (period_seconds iv) < 2 ^ 64" for iv
    using assms(2) by (cases iv) simp_all
  have closed: "let P = unat (period_seconds (tpl_interval tpl)); old = unat (tpl_next_run_at tpl); now = unat (h_now h)
      in unat (tpl_next_run_at (rescheduled h tpl)) = old + ((now - old) div P + 1) * P"
    if "due h s k" "i_templates s k = Some tpl" for k tpl
    using that advance_next_run_closed [OF fits] by (simp add: due_def rescheduled_def Let_def)
  have "\<not> due h t k" if "k \<in> set ks" for k
    using keeper_result_not_due [OF ds(4) fits, of k] ds(2) that by simp
  then have "fold_result (generate_one h) ks (0, t) = Inr (0, t)" by (intro keeper_idle) blast
  moreover have "\<not> is_paused t" using ds(4) g(2) by (simp add: keeper_result_def is_paused_def)
  ultimately have "generate_due_invoices h t ks = Inr (0, t)"
    using g(1) by (simp add: generate_due_invoices_def require_not_paused_def is_paused_def)
  with ds closed show ?thesis by blast
qed

text \<open>A weekly template, set up at 10 and run by the keeper at 2000000.\<close>

definition shop_rent :: "(payments host \<times> InvoiceCall) list" where
  "shop_rent = [(shop_host 10 1, J_initialize 1),
     (shop_host 10 5, J_create_template 5 20000000 20000000 Weekly 1000 MB_None MB_None)]"

definition rent :: InvoiceTemplate where
  "rent = \<lparr>tpl_id = 1, tpl_merchant = 5, tpl_amount_usdc = 20000000, tpl_gross_usdc = 20000000,
     tpl_interval = Weekly, tpl_expires_in_seconds = 1000, tpl_metadata_hash = MB_None,
     tpl_payment_link_hash = MB_None, tpl_active = True, tpl_next_run_at = 604810\<rparr>"

lemmas rent_eval = shop_rent_def create_template_def index_template_def

lemma rent_state:
  "i_templates (store_after shop_rent) 1 = Some rent" "get_invoice_count (store_after shop_rent) = 0"
  by (simp_all add: store_after_def rent_eval shop_eval rent_def get_invoice_count_def)

lemma rent_generated: "\<not> isl (generate_due_invoices (shop_host 2000000 4) (store_after shop_rent) [1])"
  by (simp add: generate_due_invoices_def generate_one_def store_after_def rent_eval shop_eval
      TEMPLATE_KEEPER_BATCH_SIZE_def)

theorem keeper_generates_once_witness:
  "\<exists>t. generate_due_invoices (shop_host 2000000 4) (store_after shop_rent) [1] = Inr (1, t) \<and>
     i_invoices t 1 = Some (invoice_of_template (shop_host 2000000 4) 1 rent) \<and>
     map_option (unat \<circ> tpl_next_run_at) (i_templates t 1) = Some 2419210 \<and>
     generate_due_invoices (shop_host 2000000 4) t [1] = Inr (0, t)"
proof -
  let ?h = "shop_host 2000000 4" and ?s = "store_after shop_rent"
  obtain n t where r: "generate_due_invoices ?h ?s [1] = Inr (n, t)"
    using rent_generated by (cases "generate_due_invoices ?h ?s [1]") auto
  have due: "due ?h ?s 1" by (simp add: due_def rent_state) (simp add: rent_def word_le_nat_alt)
  have "unat (h_now ?h) + 2592000 < 2 ^ 64" by simp
  note all = keeper_generates_once [OF r this]
  from all due obtain ds where ds: "distinct ds" "set ds = {1}" "unat n = length ds" "keeper_result ?h ?s ds t"
    by auto
  then have [simp]: "ds = [1]" by (metis distinct_singleton_list)
  have "unat (tpl_next_run_at (rescheduled ?h rent)) = 2419210"
    using all [THEN conjunct2, THEN conjunct1, rule_format, OF due rent_state(1)]
    by (simp add: rent_def Let_def)
  with ds all r show ?thesis
    by (simp add: keeper_result_def rent_state) (auto simp: word_unat_eq_iff)
qed

section \<open>Invoices before \<open>initialize\<close>\<close>




end
