(* ===== verification/Workflow.thy ===== *)
theory Workflow
  imports Treasury_State
begin

text \<open>
  \<^verbatim>\<open>contracts/settlement-workflow/src/lib.rs\<close> with \<^verbatim>\<open>crates/workflow-errors\<close>: the
  contract that puts the compliance check in front of the treasury's
  \<open>execute_settlement\<close> and that stops and resumes the whole protocol in an
  emergency.

  The contracts it calls are found by address at run time. They are the fields
  of a record \<open>'w peers\<close> that the operations take as an argument: \<open>'w\<close> is the
  state of the rest of the ledger and \<open>None\<close> an invocation that failed, whose
  writes the host has discarded. The theory \<open>Protocol\<close> puts the models of the
  treasury, the compliance and the invoice contract behind these fields.
\<close>

section \<open>Errors, events and storage\<close>

text \<open>
  \<open>ResumeTooEarly\<close> is used by \<open>resume_all\<close>; the error enum of
  \<^verbatim>\<open>crates/workflow-errors\<close> ends at \<open>NotEmergencyPaused\<close> and does not declare it.
\<close>

datatype WorkflowError =
    WE_Unauthorized | WE_NotConfigured | WE_PauseTargetFailed | WE_UnpauseTargetFailed | WE_NoPauseTargets
  | WE_TooManyPauseTargets | WE_DuplicatePauseTarget | WE_SelfPauseTarget | WE_EmergencyPauseActive
  | WE_NotEmergencyPaused | WE_ResumeTooEarly

text \<open>The entrypoints fail with codes of two enums, sometimes of both in one entrypoint.\<close>

datatype workflow_code = TreasuryCode TreasuryError | WorkflowCode WorkflowError

type_synonym 'a w_outcome = "(workflow_code, 'a) outcome"

definition as_treasury_code :: "(TreasuryError, 'a) outcome \<Rightarrow> 'a w_outcome" where
  "as_treasury_code r = (case r of
     Inr x \<Rightarrow> Inr x | Inl (Err e) \<Rightarrow> Inl (Err (TreasuryCode e)) | Inl AuthTrap \<Rightarrow> Inl AuthTrap | Inl Trap \<Rightarrow> Inl Trap)"

datatype (plugins only: code) WorkflowEvent =
    Ev_workflow_initialized address address address
  | Ev_admin_transfer_initiated address
  | Ev_admin_transferred address
  | Ev_settlement_workflow_paused address
  | Ev_settlement_workflow_unpaused address
  | Ev_settlement_workflow_executed u64 address address i128
  | Ev_workflow_batch_completed nat nat
  | Ev_emergency_pause_configured address "address list"
  | Ev_emergency_pause_completed address "address list"
  | Ev_emergency_pause_resumed "address list"

text \<open>
  One field per storage key that the code reads or writes. \<open>ExecutedSettlements\<close>
  and \<open>AlreadyPaused\<close> are declared keys that no operation uses.
\<close>

record 'w workflow =
  w_compliance_id :: "address option"
  w_treasury_id :: "address option"
  w_emergency_pause_admin :: "address option"
  w_emergency_pause_targets :: "address list option"
  w_emergency_paused_at :: "u64 option"
  w_admin :: "address option"
  w_pending_admin :: "address option"
  w_paused :: "bool option"
  w_events :: "WorkflowEvent list"
  w_world :: 'w

definition undeployed :: "'w \<Rightarrow> 'w workflow" where
  "undeployed w = \<lparr>w_compliance_id = None, w_treasury_id = None, w_emergency_pause_admin = None,
     w_emergency_pause_targets = None, w_emergency_paused_at = None, w_admin = None, w_pending_admin = None,
     w_paused = None, w_events = [], w_world = w\<rparr>"

definition publish :: "WorkflowEvent \<Rightarrow> 'w workflow \<Rightarrow> 'w workflow" where
  "publish e s = s\<lparr>w_events := w_events s @ [e]\<rparr>"

lemma publish_fields [simp]:
  "w_compliance_id (publish e s) = w_compliance_id s" "w_treasury_id (publish e s) = w_treasury_id s"
  "w_emergency_pause_admin (publish e s) = w_emergency_pause_admin s"
  "w_emergency_pause_targets (publish e s) = w_emergency_pause_targets s"
  "w_emergency_paused_at (publish e s) = w_emergency_paused_at s" "w_admin (publish e s) = w_admin s"
  "w_pending_admin (publish e s) = w_pending_admin s" "w_paused (publish e s) = w_paused s"
  "w_world (publish e s) = w_world s" "w_events (publish e s) = w_events s @ [e]"
  by (simp_all add: publish_def)

text \<open>
  \<open>TreasuryInterface\<close> and \<open>PausableInterface\<close>: the callee's address comes first,
  then the arguments of the entrypoint.
\<close>

record 'w peers =
  x_execute_settlement :: "address \<Rightarrow> address \<Rightarrow> u64 \<Rightarrow> address \<Rightarrow> 'w \<Rightarrow> 'w option"
  x_get_settlement :: "address \<Rightarrow> u64 \<Rightarrow> 'w \<Rightarrow> Settlement option"
  x_pause :: "address \<Rightarrow> address \<Rightarrow> 'w \<Rightarrow> 'w option"
  x_unpause :: "address \<Rightarrow> address \<Rightarrow> 'w \<Rightarrow> 'w option"

definition MAX_PAUSE_TARGETS :: nat where "MAX_PAUSE_TARGETS = 8"

section \<open>Deployment and administration\<close>

definition constructor ::
    "'w host \<Rightarrow> 'w workflow \<Rightarrow> address \<Rightarrow> address \<Rightarrow> address \<Rightarrow> 'w workflow w_outcome" where
  "constructor h s admin compliance_id treasury_id =
     andthen (require_auth h admin) (\<lambda>_.
       Inr (publish (Ev_workflow_initialized admin compliance_id treasury_id)
             (s\<lparr>w_admin := Some admin, w_compliance_id := Some compliance_id, w_treasury_id := Some treasury_id\<rparr>)))"

definition require_admin :: "'w host \<Rightarrow> 'w workflow \<Rightarrow> address \<Rightarrow> unit w_outcome" where
  "require_admin h s admin =
     andthen (require_auth h admin) (\<lambda>_.
     require (w_admin s = Some admin) (Err (TreasuryCode T_Unauthorized)))"

definition transfer_admin :: "'w host \<Rightarrow> 'w workflow \<Rightarrow> address \<Rightarrow> address \<Rightarrow> 'w workflow w_outcome" where
  "transfer_admin h s admin new_admin =
     andthen (require_admin h s admin) (\<lambda>_.
       Inr (publish (Ev_admin_transfer_initiated new_admin) (s\<lparr>w_pending_admin := Some new_admin\<rparr>)))"

definition accept_admin :: "'w host \<Rightarrow> 'w workflow \<Rightarrow> address \<Rightarrow> 'w workflow w_outcome" where
  "accept_admin h s new_admin =
     andthen (require_auth h new_admin) (\<lambda>_.
     andthen (ok_or (w_pending_admin s) (Err (TreasuryCode T_NoPendingAdmin))) (\<lambda>pending.
     andthen (require (pending = new_admin) (Err (TreasuryCode T_Unauthorized))) (\<lambda>_.
       Inr (publish (Ev_admin_transferred new_admin)
             (s\<lparr>w_admin := Some new_admin, w_pending_admin := None\<rparr>)))))"

definition get_compliance_id :: "'w workflow \<Rightarrow> address w_outcome" where
  "get_compliance_id s = ok_or (w_compliance_id s) (Err (WorkflowCode WE_NotConfigured))"

definition get_treasury_id :: "'w workflow \<Rightarrow> address w_outcome" where
  "get_treasury_id s = ok_or (w_treasury_id s) (Err (WorkflowCode WE_NotConfigured))"

definition pause :: "'w host \<Rightarrow> 'w workflow \<Rightarrow> address \<Rightarrow> 'w workflow w_outcome" where
  "pause h s admin =
     andthen (require_admin h s admin) (\<lambda>_.
       Inr (publish (Ev_settlement_workflow_paused admin) (s\<lparr>w_paused := Some True\<rparr>)))"

definition unpause :: "'w host \<Rightarrow> 'w workflow \<Rightarrow> address \<Rightarrow> 'w workflow w_outcome" where
  "unpause h s admin =
     andthen (require_admin h s admin) (\<lambda>_.
       Inr (publish (Ev_settlement_workflow_unpaused admin) (s\<lparr>w_paused := Some False\<rparr>)))"

definition is_paused :: "'w workflow \<Rightarrow> bool" where
  "is_paused s = unwrap_or (w_paused s) False"

definition get_admin :: "'w workflow \<Rightarrow> address w_outcome" where
  "get_admin s = ok_or (w_admin s) (Err (TreasuryCode T_Unauthorized))"

definition require_not_paused :: "'w workflow \<Rightarrow> unit w_outcome" where
  "require_not_paused s = require (\<not> unwrap_or (w_paused s) False) (Err (TreasuryCode T_ContractPaused))"

section \<open>Compliance-gated execution\<close>

definition execute_with_compliance ::
    "'w host \<Rightarrow> 'w peers \<Rightarrow> 'w workflow \<Rightarrow> u64 \<Rightarrow> address \<Rightarrow> address \<Rightarrow> 'w workflow w_outcome" where
  "execute_with_compliance h x s settlement_id token_contract merchant =
     andthen (require_not_paused s) (\<lambda>_.
     andthen (get_compliance_id s) (\<lambda>compliance.
     andthen (as_treasury_code (require_allowed_for_treasury h compliance (w_world s) merchant)) (\<lambda>_.
     andthen (get_treasury_id s) (\<lambda>treasury.
     andthen (ok_or (x_execute_settlement x treasury (h_self h) settlement_id token_contract (w_world s)) Trap) (\<lambda>w.
     andthen (ok_or (x_get_settlement x treasury settlement_id w) Trap) (\<lambda>settlement.
       Inr (publish (Ev_settlement_workflow_executed settlement_id merchant token_contract (st_amount settlement))
             (s\<lparr>w_world := w\<rparr>))))))))"

text \<open>One round of the batch loop: a settlement the treasury refuses is skipped.\<close>

definition execute_batch_one ::
    "'w host \<Rightarrow> 'w peers \<Rightarrow> address \<Rightarrow> address \<Rightarrow> address \<Rightarrow> u64 \<Rightarrow> u64 list \<times> 'w workflow \<Rightarrow>
      (u64 list \<times> 'w workflow) w_outcome" where
  "execute_batch_one h x treasury token_contract merchant i acc = (case acc of (executed, s) \<Rightarrow>
     (case x_execute_settlement x treasury (h_self h) i token_contract (w_world s) of
        None \<Rightarrow> Inr (executed, s)
      | Some w \<Rightarrow>
          andthen (ok_or (x_get_settlement x treasury i w) Trap) (\<lambda>settlement.
            Inr (executed @ [i],
                 publish (Ev_settlement_workflow_executed i merchant token_contract (st_amount settlement))
                   (s\<lparr>w_world := w\<rparr>)))))"

definition execute_with_compliance_batch ::
    "'w host \<Rightarrow> 'w peers \<Rightarrow> 'w workflow \<Rightarrow> u64 list \<Rightarrow> address \<Rightarrow> address \<Rightarrow>
      (u64 list \<times> 'w workflow) w_outcome" where
  "execute_with_compliance_batch h x s settlement_ids token_contract merchant =
     andthen (require_not_paused s) (\<lambda>_.
     andthen (get_compliance_id s) (\<lambda>compliance.
     andthen (as_treasury_code (require_allowed_for_treasury h compliance (w_world s) merchant)) (\<lambda>_.
     andthen (get_treasury_id s) (\<lambda>treasury.
     andthen (fold_result (execute_batch_one h x treasury token_contract merchant) settlement_ids ([], s))
       (\<lambda>(executed, s1).
       Inr (executed, publish (Ev_workflow_batch_completed (length settlement_ids) (length executed)) s1))))))"

section \<open>Emergency pause coordination\<close>

text \<open>The validation loop, with the addresses seen so far.\<close>

fun check_targets :: "address \<Rightarrow> address list \<Rightarrow> address list \<Rightarrow> unit w_outcome" where
  "check_targets self_address seen [] = Inr ()"
| "check_targets self_address seen (target # targets) =
     andthen (require (\<not> target = self_address) (Err (WorkflowCode WE_SelfPauseTarget))) (\<lambda>_.
     andthen (require (\<not> target \<in> set seen) (Err (WorkflowCode WE_DuplicatePauseTarget))) (\<lambda>_.
       check_targets self_address (seen @ [target]) targets))"

definition validate_pause_targets :: "'w host \<Rightarrow> address list \<Rightarrow> unit w_outcome" where
  "validate_pause_targets h targets =
     andthen (require (targets \<noteq> []) (Err (WorkflowCode WE_NoPauseTargets))) (\<lambda>_.
     andthen (require (\<not> length targets > MAX_PAUSE_TARGETS) (Err (WorkflowCode WE_TooManyPauseTargets))) (\<lambda>_.
       check_targets (h_self h) [] targets))"

definition initialize_emergency_pause ::
    "'w host \<Rightarrow> 'w workflow \<Rightarrow> address \<Rightarrow> address list \<Rightarrow> 'w workflow w_outcome" where
  "initialize_emergency_pause h s admin targets =
     andthen (require_auth h admin) (\<lambda>_.
     andthen (require (w_emergency_paused_at s = None) (Err (WorkflowCode WE_EmergencyPauseActive))) (\<lambda>_.
     andthen (validate_pause_targets h targets) (\<lambda>_.
       Inr (publish (Ev_emergency_pause_configured admin targets)
             (s\<lparr>w_emergency_pause_admin := Some admin, w_emergency_pause_targets := Some targets\<rparr>)))))"

definition require_pause_admin :: "'w workflow \<Rightarrow> address \<Rightarrow> unit w_outcome" where
  "require_pause_admin s admin =
     andthen (ok_or (w_emergency_pause_admin s) (Err (WorkflowCode WE_NotConfigured))) (\<lambda>configured.
     require (configured = admin) (Err (WorkflowCode WE_Unauthorized)))"

definition pause_targets :: "'w workflow \<Rightarrow> address list w_outcome" where
  "pause_targets s = ok_or (w_emergency_pause_targets s) (Err (WorkflowCode WE_NotConfigured))"

text \<open>One round of a sweep; the sweep collects the targets it has reached.\<close>

definition sweep_one ::
    "(address \<Rightarrow> address \<Rightarrow> 'w \<Rightarrow> 'w option) \<Rightarrow> WorkflowError \<Rightarrow> address \<Rightarrow> address \<Rightarrow>
      address list \<times> 'w \<Rightarrow> (address list \<times> 'w) w_outcome" where
  "sweep_one call failed self_address target acc = (case acc of (reached, w) \<Rightarrow>
     (case call target self_address w of
        None \<Rightarrow> Inl (Err (WorkflowCode failed))
      | Some w' \<Rightarrow> Inr (reached @ [target], w')))"

definition emergency_pause_all ::
    "'w host \<Rightarrow> 'w peers \<Rightarrow> 'w workflow \<Rightarrow> address \<Rightarrow> (address list \<times> 'w workflow) w_outcome" where
  "emergency_pause_all h x s admin =
     andthen (require_auth h admin) (\<lambda>_.
     andthen (require_pause_admin s admin) (\<lambda>_.
     andthen (pause_targets s) (\<lambda>targets.
     andthen (fold_result (sweep_one (x_pause x) WE_PauseTargetFailed (h_self h)) targets ([], w_world s))
       (\<lambda>(paused, w).
       Inr (paused, publish (Ev_emergency_pause_completed admin paused)
              (s\<lparr>w_world := w, w_emergency_paused_at := Some (h_now h)\<rparr>))))))"

definition resume_all ::
    "'w host \<Rightarrow> 'w peers \<Rightarrow> 'w workflow \<Rightarrow> address \<Rightarrow> u64 \<Rightarrow> (address list \<times> 'w workflow) w_outcome" where
  "resume_all h x s admin min_delay_secs =
     andthen (require_auth h admin) (\<lambda>_.
     andthen (require_pause_admin s admin) (\<lambda>_.
     andthen (ok_or (w_emergency_paused_at s) (Err (WorkflowCode WE_NotEmergencyPaused))) (\<lambda>paused_at.
     andthen (if min_delay_secs > 0
              then require (\<not> h_now h < saturating_add paused_at min_delay_secs) (Err (WorkflowCode WE_ResumeTooEarly))
              else Inr ()) (\<lambda>_.
     andthen (pause_targets s) (\<lambda>targets.
     andthen (fold_result (sweep_one (x_unpause x) WE_UnpauseTargetFailed (h_self h)) (rev targets) ([], w_world s))
       (\<lambda>(resumed, w).
       Inr (resumed, publish (Ev_emergency_pause_resumed resumed)
              (s\<lparr>w_world := w, w_emergency_paused_at := None\<rparr>))))))))"

definition get_emergency_pause_targets :: "'w workflow \<Rightarrow> address list w_outcome" where
  "get_emergency_pause_targets s = pause_targets s"

definition get_emergency_pause_admin :: "'w workflow \<Rightarrow> address w_outcome" where
  "get_emergency_pause_admin s = ok_or (w_emergency_pause_admin s) (Err (WorkflowCode WE_NotConfigured))"

definition get_emergency_paused_at :: "'w workflow \<Rightarrow> u64 option" where
  "get_emergency_paused_at s = w_emergency_paused_at s"

section \<open>Laws\<close>

interpretation workflow_switch: pausable pause unpause is_paused w_admin
  by unfold_locales (auto simp: pause_def unpause_def require_admin_def is_paused_def result_simps)

interpretation workflow_handover: two_step_admin transfer_admin accept_admin w_admin w_pending_admin
  by unfold_locales (auto simp: transfer_admin_def accept_admin_def require_admin_def result_simps)

lemma as_treasury_code_eq_Inr [result_simps]: "as_treasury_code r = Inr x \<longleftrightarrow> r = Inr x"
  by (simp add: as_treasury_code_def split: sum.split fault.split)

text \<open>Inversion of the gate.\<close>

lemma execute_with_compliance_eq_Inr:
  "execute_with_compliance h x s i tok m = Inr t \<longleftrightarrow>
     \<not> is_paused s \<and> (\<exists>c tr w st. w_compliance_id s = Some c \<and> h_is_allowed h c m (w_world s) = Some True \<and>
       w_treasury_id s = Some tr \<and> x_execute_settlement x tr (h_self h) i tok (w_world s) = Some w \<and>
       x_get_settlement x tr i w = Some st \<and>
       t = publish (Ev_settlement_workflow_executed i m tok (st_amount st)) (s\<lparr>w_world := w\<rparr>))"
  by (auto simp: execute_with_compliance_def require_not_paused_def is_paused_def get_compliance_id_def
      get_treasury_id_def result_simps)

lemma check_targets_eq_Inr [result_simps]:
  "check_targets self seen ts = Inr u \<longleftrightarrow> self \<notin> set ts \<and> distinct ts \<and> set seen \<inter> set ts = {}"
  by (induction self seen ts rule: check_targets.induct) (auto simp: result_simps)

lemma validate_pause_targets_eq_Inr [result_simps]:
  "validate_pause_targets h ts = Inr u \<longleftrightarrow> ts \<noteq> [] \<and> length ts \<le> 8 \<and> distinct ts \<and> h_self h \<notin> set ts"
  by (auto simp: validate_pause_targets_def result_simps MAX_PAUSE_TARGETS_def)

text \<open>A sweep over the targets, as the composition of the single calls.\<close>

fun call_all :: "(address \<Rightarrow> 'w \<Rightarrow> 'w option) \<Rightarrow> address list \<Rightarrow> 'w \<Rightarrow> 'w option" where
  "call_all f [] w = Some w"
| "call_all f (t # ts) w = (case f t w of None \<Rightarrow> None | Some w' \<Rightarrow> call_all f ts w')"

lemma sweep_eq:
  "fold_result (sweep_one call failed self) ts (reached, w) =
     (case call_all (\<lambda>t. call t self) ts w of
        None \<Rightarrow> Inl (Err (WorkflowCode failed)) | Some w' \<Rightarrow> Inr (reached @ ts, w'))"
  by (induction ts arbitrary: reached w) (auto simp: sweep_one_def split: option.split)

lemma emergency_pause_all_eq:
  assumes "h_auth h admin" "w_emergency_pause_admin s = Some admin" "w_emergency_pause_targets s = Some ts"
  shows "emergency_pause_all h x s admin =
    (case call_all (\<lambda>t. x_pause x t (h_self h)) ts (w_world s) of
       None \<Rightarrow> Inl (Err (WorkflowCode WE_PauseTargetFailed))
     | Some w \<Rightarrow> Inr (ts, publish (Ev_emergency_pause_completed admin ts)
              (s\<lparr>w_world := w, w_emergency_paused_at := Some (h_now h)\<rparr>)))"
  using assms by (simp add: emergency_pause_all_def require_auth_def require_pause_admin_def pause_targets_def
      sweep_eq split: option.split)

lemma resume_all_eq:
  assumes "h_auth h admin" "w_emergency_pause_admin s = Some admin" "w_emergency_pause_targets s = Some ts"
    "w_emergency_paused_at s = Some at" "d = 0 \<or> saturating_add at d \<le> h_now h"
  shows "resume_all h x s admin d =
    (case call_all (\<lambda>t. x_unpause x t (h_self h)) (rev ts) (w_world s) of
       None \<Rightarrow> Inl (Err (WorkflowCode WE_UnpauseTargetFailed))
     | Some w \<Rightarrow> Inr (rev ts, publish (Ev_emergency_pause_resumed (rev ts))
              (s\<lparr>w_world := w, w_emergency_paused_at := None\<rparr>)))"
  using assms by (auto simp: resume_all_def require_auth_def require_pause_admin_def pause_targets_def
      sweep_eq leD split: option.split)

section \<open>What the workflow relies on\<close>

text \<open>
  One kind of call on the pause switches of a network of contracts. On the contracts
  inside the network the call succeeds exactly when this contract is the target's
  admin, and sets that switch only. Any other target does what its own code says,
  given by \<open>foreign\<close> on its part \<open>outer\<close> of the ledger; it leaves the network alone.
\<close>

locale target_sweep =
  fixes call :: "address \<Rightarrow> 'w \<Rightarrow> 'w option"
    and self :: address
    and stopped :: "'w \<Rightarrow> address \<Rightarrow> bool"
    and owner :: "'w \<Rightarrow> address \<Rightarrow> address option"
    and inside :: "address \<Rightarrow> bool"
    and outer :: "'w \<Rightarrow> 'v"
    and foreign :: "address \<Rightarrow> 'v \<Rightarrow> 'v option"
    and position :: bool
  assumes reaches: "inside c \<Longrightarrow> (\<exists>w'. call c w = Some w') \<longleftrightarrow> owner w c = Some self"
    and sets: "inside c \<Longrightarrow> call c w = Some w' \<Longrightarrow>
      stopped w' = (stopped w)(c := position) \<and> owner w' = owner w \<and> outer w' = outer w"
    and reaches_foreign: "\<not> inside c \<Longrightarrow> (\<exists>w'. call c w = Some w') \<longleftrightarrow> (\<exists>v. foreign c (outer w) = Some v)"
    and leaves: "\<not> inside c \<Longrightarrow> call c w = Some w' \<Longrightarrow>
      stopped w' = stopped w \<and> owner w' = owner w \<and> foreign c (outer w) = Some (outer w')"
begin

lemma sweep_effect:
  "call_all call ts w = Some w' \<Longrightarrow>
     stopped w' = (\<lambda>t. if t \<in> set ts \<and> inside t then position else stopped w t) \<and> owner w' = owner w \<and>
     call_all foreign (filter (\<lambda>t. \<not> inside t) ts) (outer w) = Some (outer w')"
proof (induction ts arbitrary: w)
  case (Cons t ts)
  then obtain v where v: "call t w = Some v" "call_all call ts v = Some w'"
    by (auto split: option.splits)
  show ?case
  proof (cases "inside t")
    case True
    from Cons.IH [OF v(2)] sets [OF True v(1)] True show ?thesis by (auto simp: fun_eq_iff)
  next
    case False
    from Cons.IH [OF v(2)] leaves [OF False v(1)] False show ?thesis by (auto simp: fun_eq_iff)
  qed
qed simp

lemma sweep_iff:
  "(\<exists>w'. call_all call ts w = Some w') \<longleftrightarrow>
     (\<forall>t\<in>set ts. inside t \<longrightarrow> owner w t = Some self) \<and>
     (\<exists>v. call_all foreign (filter (\<lambda>t. \<not> inside t) ts) (outer w) = Some v)"
proof (induction ts arbitrary: w)
  case (Cons t ts)
  show ?case
  proof (cases "call t w")
    case None
    with reaches [of t w] reaches_foreign [of t w] show ?thesis
      by (cases "inside t"; cases "foreign t (outer w)") auto
  next
    case (Some v)
    show ?thesis
    proof (cases "inside t")
      case True
      with Some Cons.IH [of v] sets [OF True Some] reaches [OF True, of w] show ?thesis by auto
    next
      case False
      with Some Cons.IH [of v] leaves [OF False Some] show ?thesis by auto
    qed
  qed
qed simp

end

text \<open>A network on which this contract can both pause and unpause.\<close>

locale pause_network =
  pausing: target_sweep "\<lambda>t. x_pause x t self" self stopped owner inside outer "\<lambda>t. halt t self" True +
  resuming: target_sweep "\<lambda>t. x_unpause x t self" self stopped owner inside outer "\<lambda>t. go t self" False
  for x :: "'w peers"
    and self :: address
    and stopped :: "'w \<Rightarrow> address \<Rightarrow> bool"
    and owner :: "'w \<Rightarrow> address \<Rightarrow> address option"
    and inside :: "address \<Rightarrow> bool"
    and outer :: "'w \<Rightarrow> 'v"
    and halt :: "address \<Rightarrow> address \<Rightarrow> 'v \<Rightarrow> 'v option"
    and go :: "address \<Rightarrow> address \<Rightarrow> 'v \<Rightarrow> 'v option"
begin

text \<open>
  After a completed sweep the reverse sweep can run as soon as the targets outside
  the network let it, and reopens exactly the targets inside.
\<close>

lemma sweep_reversible:
  assumes "call_all (\<lambda>t. x_pause x t self) ts w = Some v"
    and "call_all (\<lambda>t. go t self) (filter (\<lambda>t. \<not> inside t) (rev ts)) (outer v) = Some y"
  shows "\<exists>u. call_all (\<lambda>t. x_unpause x t self) (rev ts) v = Some u \<and>
    stopped u = (\<lambda>t. \<not> (t \<in> set ts \<and> inside t) \<and> stopped w t) \<and> outer u = y"
proof -
  from assms(1) have "\<forall>t\<in>set ts. inside t \<longrightarrow> owner w t = Some self" using pausing.sweep_iff by blast
  with pausing.sweep_effect [OF assms(1)] have "\<forall>t\<in>set (rev ts). inside t \<longrightarrow> owner v t = Some self" by simp
  with assms(2) obtain u where u: "call_all (\<lambda>t. x_unpause x t self) (rev ts) v = Some u"
    using resuming.sweep_iff by blast
  with resuming.sweep_effect [OF u] pausing.sweep_effect [OF assms(1)] assms(2) show ?thesis by auto
qed

end

text \<open>
  A treasury: executing a settlement succeeds only on one that is not executed
  yet, marks it executed and touches no other.
\<close>

locale settlement_service =
  fixes x :: "'w peers"
    and treasury :: address
    and self :: address
    and settlement_of :: "'w \<Rightarrow> u64 \<rightharpoonup> Settlement"
  assumes execute_effect: "x_execute_settlement x treasury self i tok w = Some w' \<Longrightarrow>
      \<exists>st. settlement_of w i = Some st \<and> st_status st \<noteq> SExecuted \<and>
        settlement_of w' = (settlement_of w)(i \<mapsto> st\<lparr>st_status := SExecuted\<rparr>)"
    and read_settlement: "x_get_settlement x treasury i w = settlement_of w i"
begin

lemma execute_batch_total:
  assumes "h_self h = self"
  shows "\<exists>new t. fold_result (execute_batch_one h x treasury tok merchant) ids (old, s) = Inr (old @ new, t) \<and>
    distinct new \<and> set new \<subseteq> set ids \<and>
    (\<forall>i. i \<notin> set new \<longrightarrow> settlement_of (w_world t) i = settlement_of (w_world s) i) \<and>
    (\<forall>i\<in>set new. \<exists>st. settlement_of (w_world s) i = Some st \<and> st_status st \<noteq> SExecuted \<and>
        settlement_of (w_world t) i = Some (st\<lparr>st_status := SExecuted\<rparr>))"
proof (induction ids arbitrary: old s)
  case Nil
  show ?case by (intro exI [of _ "[]"]) simp
next
  case (Cons i ids)
  show ?case
  proof (cases "x_execute_settlement x treasury self i tok (w_world s)")
    case None
    with assms have "execute_batch_one h x treasury tok merchant i (old, s) = Inr (old, s)"
      by (simp add: execute_batch_one_def)
    with Cons.IH [of old s] show ?thesis by auto
  next
    case (Some w)
    from execute_effect [OF Some] obtain st where st: "settlement_of (w_world s) i = Some st"
      "st_status st \<noteq> SExecuted" "settlement_of w = (settlement_of (w_world s))(i \<mapsto> st\<lparr>st_status := SExecuted\<rparr>)"
      by blast
    let ?s = "publish (Ev_settlement_workflow_executed i merchant tok (st_amount st)) (s\<lparr>w_world := w\<rparr>)"
    have one: "execute_batch_one h x treasury tok merchant i (old, s) = Inr (old @ [i], ?s)"
      using Some assms st(3) by (simp add: execute_batch_one_def read_settlement)
    from Cons.IH [of "old @ [i]" ?s] obtain new t where
      t: "fold_result (execute_batch_one h x treasury tok merchant) ids (old @ [i], ?s) = Inr (old @ i # new, t)"
      and new: "distinct new" "set new \<subseteq> set ids"
        "\<And>j. j \<notin> set new \<Longrightarrow> settlement_of (w_world t) j = settlement_of w j"
        "\<And>j. j \<in> set new \<Longrightarrow> \<exists>st. settlement_of w j = Some st \<and> st_status st \<noteq> SExecuted \<and>
           settlement_of (w_world t) j = Some (st\<lparr>st_status := SExecuted\<rparr>)"
      by auto
    have i: "i \<notin> set new" using new(4) [of i] st(3) by auto
    have "fold_result (execute_batch_one h x treasury tok merchant) (i # ids) (old, s) = Inr (old @ i # new, t)"
      using one t by simp
    moreover have "\<exists>st. settlement_of (w_world s) j = Some st \<and> st_status st \<noteq> SExecuted \<and>
        settlement_of (w_world t) j = Some (st\<lparr>st_status := SExecuted\<rparr>)" if "j \<in> set (i # new)" for j
      using that new(3) [OF i] new(4) [of j] st i by (cases "j = i") auto
    moreover have "settlement_of (w_world t) j = settlement_of (w_world s) j" if "j \<notin> set (i # new)" for j
      using that new(3) [of j] st(3) by auto
    ultimately show ?thesis using new(1,2) i by (intro exI [of _ "i # new"] exI [of _ t]) auto
  qed
qed

end

end
