(* ===== verification/Protocol.thy ===== *)
theory Protocol
  imports Workflow Treasury_Admin Treasury_Settlements Compliance_Ops Invoice_Entrypoints
begin

text \<open>
  The four contracts deployed side by side. The models of the treasury, the
  compliance and the invoice contract are put behind the cross-contract calls of
  the workflow (\<open>TreasuryOnlyClient\<close>, \<open>PausableContractClient\<close>,
  \<open>ComplianceClient\<close>) and of the treasury (\<open>ComplianceClient\<close>). The contracts outside
  the repository remain parameters: the token contracts and other compliance
  contracts as fields of the host \<open>g\<close> of the transaction, and whatever contracts
  somebody configures as further pause targets as the fields of \<open>ext\<close>. A call to
  one of them changes the storage of these other contracts only: within the call it
  does not call back into the four.
\<close>

section \<open>The deployment\<close>

record sites =
  site_treasury :: address
  site_compliance :: address
  site_invoice :: address
  site_workflow :: address

definition sites_distinct :: "sites \<Rightarrow> bool" where
  "sites_distinct d \<longleftrightarrow> distinct [site_treasury d, site_compliance d, site_invoice d, site_workflow d]"

text \<open>
  The ledger: the storage of the three contracts and, in \<open>p_tokens\<close>, of all other
  contracts, the token contracts above all. The
  fields \<open>t_world\<close> and \<open>i_world\<close> of the contract states are loaded from the
  ledger before a call and the tokens are written back after it; the treasury
  only queries the compliance contract, so nothing is written back there.
\<close>

record 'v protocol =
  p_treasury :: "(compliance \<times> 'v) treasury"
  p_compliance :: compliance
  p_invoice :: "'v invoice_store"
  p_tokens :: 'v

definition load_treasury :: "'v protocol \<Rightarrow> (compliance \<times> 'v) treasury" where
  "load_treasury p = (p_treasury p)\<lparr>t_world := (p_compliance p, p_tokens p)\<rparr>"

definition store_treasury :: "(compliance \<times> 'v) treasury \<Rightarrow> 'v protocol \<Rightarrow> 'v protocol" where
  "store_treasury s p = p\<lparr>p_treasury := s, p_tokens := snd (t_world s)\<rparr>"

definition load_invoice :: "'v protocol \<Rightarrow> 'v invoice_store" where
  "load_invoice p = (p_invoice p)\<lparr>i_world := p_tokens p\<rparr>"

definition store_invoice :: "'v invoice_store \<Rightarrow> 'v protocol \<Rightarrow> 'v protocol" where
  "store_invoice s p = p\<lparr>p_invoice := s, p_tokens := i_world s\<rparr>"

section \<open>Hosts\<close>

text \<open>
  A contract that calls another authorises its own address for that call; the
  signatures of the transaction stay available.
\<close>

definition called_by :: "address \<Rightarrow> (address \<Rightarrow> bool) \<Rightarrow> address \<Rightarrow> bool" where
  "called_by caller sigs a \<longleftrightarrow> a = caller \<or> sigs a"

definition invoice_host :: "sites \<Rightarrow> 'v host \<Rightarrow> (address \<Rightarrow> bool) \<Rightarrow> 'v host" where
  "invoice_host d g auth = g\<lparr>h_self := site_invoice d, h_auth := auth\<rparr>"

definition treasury_host :: "sites \<Rightarrow> 'v host \<Rightarrow> (address \<Rightarrow> bool) \<Rightarrow> (compliance \<times> 'v) host" where
  "treasury_host d g auth =
     \<lparr>h_now = h_now g, h_seq = h_seq g, h_self = site_treasury d, h_auth = auth,
      h_transfer = (\<lambda>token src dst amount (k, v). map_option (Pair k) (h_transfer g token src dst amount v)),
      h_balance = (\<lambda>token a (k, v). h_balance g token a v),
      h_is_allowed = (\<lambda>c a (k, v).
        if c = site_compliance d then Some (Compliance_Ops.is_allowed g k a) else h_is_allowed g c a v),
      h_is_allowed_for_amount = (\<lambda>c a amount (k, v).
        if c = site_compliance d then Some (Compliance_Ops.is_allowed_for_amount g k a amount)
        else h_is_allowed_for_amount g c a amount v)\<rparr>"

definition workflow_host :: "sites \<Rightarrow> 'v host \<Rightarrow> 'v protocol host" where
  "workflow_host d g =
     \<lparr>h_now = h_now g, h_seq = h_seq g, h_self = site_workflow d, h_auth = h_auth g,
      h_transfer = (\<lambda>token src dst amount p.
        map_option (\<lambda>v. p\<lparr>p_tokens := v\<rparr>) (h_transfer g token src dst amount (p_tokens p))),
      h_balance = (\<lambda>token a p. h_balance g token a (p_tokens p)),
      h_is_allowed = (\<lambda>c a p.
        if c = site_compliance d then Some (Compliance_Ops.is_allowed g (p_compliance p) a)
        else h_is_allowed g c a (p_tokens p)),
      h_is_allowed_for_amount = (\<lambda>c a amount p.
        if c = site_compliance d then Some (Compliance_Ops.is_allowed_for_amount g (p_compliance p) a amount)
        else h_is_allowed_for_amount g c a amount (p_tokens p))\<rparr>"

lemma host_simps [simp]:
  "h_now (treasury_host d g auth) = h_now g" "h_auth (treasury_host d g auth) = auth"
  "h_self (treasury_host d g auth) = site_treasury d"
  "h_transfer (treasury_host d g auth) token src dst amount (k, v) = map_option (Pair k) (h_transfer g token src dst amount v)"
  "h_is_allowed_for_amount (treasury_host d g auth) c a amount (k, v) =
     (if c = site_compliance d then Some (Compliance_Ops.is_allowed_for_amount g k a amount)
      else h_is_allowed_for_amount g c a amount v)"
  "h_now (workflow_host d g) = h_now g" "h_auth (workflow_host d g) = h_auth g"
  "h_self (workflow_host d g) = site_workflow d"
  "h_is_allowed (workflow_host d g) c a p =
     (if c = site_compliance d then Some (Compliance_Ops.is_allowed g (p_compliance p) a)
      else h_is_allowed g c a (p_tokens p))"
  "h_auth (invoice_host d g auth) = auth" "h_self (invoice_host d g auth) = site_invoice d"
  "h_now (invoice_host d g auth) = h_now g"
  by (simp_all add: treasury_host_def workflow_host_def invoice_host_def)

section \<open>The cross-contract calls\<close>

definition succeeded :: "('f + 'a) \<Rightarrow> 'a option" where
  "succeeded r = (case r of Inl _ \<Rightarrow> None | Inr x \<Rightarrow> Some x)"

lemma succeeded_Some [simp]: "succeeded r = Some x \<longleftrightarrow> r = Inr x"
  by (simp add: succeeded_def split: sum.split)

lemma succeeded_simps [simp]: "succeeded (Inr x) = Some x" "succeeded (Inl f) = None"
  by (simp_all add: succeeded_def)

text \<open>
  \<open>pause(admin)\<close> and \<open>unpause(admin)\<close> of the contracts outside the deployment, by the
  address of the contract, the address passed as \<open>admin\<close> and the storage of these
  contracts; \<open>None\<close> is an invocation that fails, also because there is no contract
  at the address or it has no such function.
\<close>

record 'v externals =
  ext_pause :: "address \<Rightarrow> address \<Rightarrow> 'v \<Rightarrow> 'v option"
  ext_unpause :: "address \<Rightarrow> address \<Rightarrow> 'v \<Rightarrow> 'v option"

text \<open>Dispatch of a call to the contract at an address.\<close>

definition on_contract ::
    "sites \<Rightarrow> ((compliance \<times> 'v) treasury \<Rightarrow> (compliance \<times> 'v) treasury option) \<Rightarrow>
     (compliance \<Rightarrow> compliance option) \<Rightarrow> ('v invoice_store \<Rightarrow> 'v invoice_store option) \<Rightarrow>
     (address \<Rightarrow> 'v \<Rightarrow> 'v option) \<Rightarrow> address \<Rightarrow> 'v protocol \<Rightarrow> 'v protocol option" where
  "on_contract d ft fc fi fx c p =
     (if c = site_treasury d then map_option (\<lambda>s. store_treasury s p) (ft (load_treasury p))
      else if c = site_compliance d then map_option (\<lambda>k. p\<lparr>p_compliance := k\<rparr>) (fc (p_compliance p))
      else if c = site_invoice d then map_option (\<lambda>s. store_invoice s p) (fi (load_invoice p))
      else map_option (\<lambda>v. p\<lparr>p_tokens := v\<rparr>) (fx c (p_tokens p)))"

definition protocol_peers :: "sites \<Rightarrow> 'v externals \<Rightarrow> 'v host \<Rightarrow> 'v protocol peers" where
  "protocol_peers d ext g =
     \<lparr>x_execute_settlement = (\<lambda>c caller i token p.
        if c = site_treasury d
        then map_option (\<lambda>s. store_treasury s p)
               (succeeded (Treasury_Settlements.execute_settlement
                  (treasury_host d g (called_by caller (h_auth g))) (load_treasury p) caller i token))
        else None),
      x_get_settlement = (\<lambda>c i p.
        if c = site_treasury d then succeeded (Treasury_Settlements.get_settlement (load_treasury p) i) else None),
      x_pause = (\<lambda>c caller.
        on_contract d
          (\<lambda>s. succeeded (Treasury_Admin.pause (treasury_host d g (called_by caller (h_auth g))) s caller))
          (\<lambda>k. succeeded (Compliance_Ops.pause (g\<lparr>h_auth := called_by caller (h_auth g)\<rparr>) k caller))
          (\<lambda>s. succeeded (Invoice_Entrypoints.pause (invoice_host d g (called_by caller (h_auth g))) s caller))
          (\<lambda>c. ext_pause ext c caller) c),
      x_unpause = (\<lambda>c caller.
        on_contract d
          (\<lambda>s. succeeded (Treasury_Admin.unpause (treasury_host d g (called_by caller (h_auth g))) s caller))
          (\<lambda>k. succeeded (Compliance_Ops.unpause (g\<lparr>h_auth := called_by caller (h_auth g)\<rparr>) k caller))
          (\<lambda>s. succeeded (Invoice_Entrypoints.unpause (invoice_host d g (called_by caller (h_auth g))) s caller))
          (\<lambda>c. ext_unpause ext c caller) c)\<rparr>"

section \<open>The pause network\<close>

definition deployed_at :: "sites \<Rightarrow> address \<Rightarrow> bool" where
  "deployed_at d c \<longleftrightarrow> c \<in> {site_treasury d, site_compliance d, site_invoice d}"

definition stopped_at :: "sites \<Rightarrow> 'v protocol \<Rightarrow> address \<Rightarrow> bool" where
  "stopped_at d p c =
     (if c = site_treasury d then Treasury_State.is_paused (p_treasury p)
      else if c = site_compliance d then Compliance_State.is_paused (p_compliance p)
      else if c = site_invoice d then Invoice_State.is_paused (p_invoice p)
      else False)"

definition owner_at :: "sites \<Rightarrow> 'v protocol \<Rightarrow> address \<Rightarrow> address option" where
  "owner_at d p c =
     (if c = site_treasury d then t_admin (p_treasury p)
      else if c = site_compliance d then c_admin (p_compliance p)
      else if c = site_invoice d then i_admin (p_invoice p)
      else None)"

text \<open>A call that touches one contract only is seen at that contract's address only.\<close>

lemma load_reads [simp]:
  "t_admin (load_treasury p) = t_admin (p_treasury p)" "i_admin (load_invoice p) = i_admin (p_invoice p)"
  "t_world (load_treasury p) = (p_compliance p, p_tokens p)" "i_world (load_invoice p) = p_tokens p"
  "t_settlements (load_treasury p) = t_settlements (p_treasury p)"
  by (simp_all add: load_treasury_def load_invoice_def)

lemma store_reads [simp]:
  "p_treasury (store_treasury s p) = s" "p_invoice (store_treasury s p) = p_invoice p"
  "p_compliance (store_treasury s p) = p_compliance p" "p_tokens (store_treasury s p) = snd (t_world s)"
  "p_treasury (store_invoice i p) = p_treasury p" "p_invoice (store_invoice i p) = i"
  "p_compliance (store_invoice i p) = p_compliance p" "p_tokens (store_invoice i p) = i_world i"
  by (simp_all add: store_treasury_def store_invoice_def)

lemma on_contract_reaches:
  assumes "\<And>s. (\<exists>t. ft s = Some t) \<longleftrightarrow> t_admin s = Some a" "\<And>k. (\<exists>t. fc k = Some t) \<longleftrightarrow> c_admin k = Some a"
    "\<And>s. (\<exists>t. fi s = Some t) \<longleftrightarrow> i_admin s = Some a" and "deployed_at d c"
  shows "(\<exists>q. on_contract d ft fc fi fx c p = Some q) \<longleftrightarrow> owner_at d p c = Some a"
  using assms(1) [of "load_treasury p"] assms(2) [of "p_compliance p"] assms(3) [of "load_invoice p"] assms(4)
  by (auto simp: on_contract_def owner_at_def deployed_at_def)

lemma on_contract_sets:
  assumes "\<And>s t. ft s = Some t \<Longrightarrow> Treasury_State.is_paused t = b \<and> t_admin t = t_admin s \<and> t_world t = t_world s"
    "\<And>k t. fc k = Some t \<Longrightarrow> Compliance_State.is_paused t = b \<and> c_admin t = c_admin k"
    "\<And>s t. fi s = Some t \<Longrightarrow> Invoice_State.is_paused t = b \<and> i_admin t = i_admin s \<and> i_world t = i_world s"
    and "on_contract d ft fc fi fx c p = Some q" and "deployed_at d c"
  shows "stopped_at d q = (stopped_at d p)(c := b) \<and> owner_at d q = owner_at d p \<and> p_tokens q = p_tokens p"
  using assms(4,5)
  by (auto simp: on_contract_def stopped_at_def owner_at_def deployed_at_def fun_eq_iff dest!: assms(1-3)
      split: if_splits)

lemma on_contract_outside:
  assumes "\<not> deployed_at d c"
  shows "on_contract d ft fc fi fx c p = map_option (\<lambda>v. p\<lparr>p_tokens := v\<rparr>) (fx c (p_tokens p))"
  using assms by (simp add: on_contract_def deployed_at_def)

lemma outside_keeps:
  "stopped_at d (p\<lparr>p_tokens := v\<rparr>) = stopped_at d p" "owner_at d (p\<lparr>p_tokens := v\<rparr>) = owner_at d p"
  by (simp_all add: stopped_at_def owner_at_def fun_eq_iff)

lemma switches_keep_world:
  "Treasury_Admin.pause h s a = Inr t \<Longrightarrow> t_world t = t_world s"
  "Treasury_Admin.unpause h s a = Inr t \<Longrightarrow> t_world t = t_world s"
  "Invoice_Entrypoints.pause h' s' a = Inr t' \<Longrightarrow> i_world t' = i_world s'"
  "Invoice_Entrypoints.unpause h' s' a = Inr t' \<Longrightarrow> i_world t' = i_world s'"
  by (auto simp: Treasury_Admin.pause_def Treasury_Admin.unpause_def Invoice_Entrypoints.pause_def
      Invoice_Entrypoints.unpause_def result_simps emit_def Invoice_State.publish_def)

interpretation switches: pause_network "protocol_peers d (ext :: 'v externals) g" a "stopped_at d" "owner_at d" "deployed_at d"
  p_tokens "ext_pause ext" "ext_unpause ext"
proof unfold_locales
  fix c and w w' :: "'v protocol"
  let ?x = "protocol_peers d ext g"
  show "(\<exists>w'. x_pause ?x c a w = Some w') \<longleftrightarrow> owner_at d w c = Some a" if "deployed_at d c"
    unfolding protocol_peers_def peers.simps
    by (rule on_contract_reaches)
      (simp_all add: treasury_switch.pause_succeeds compliance_switch.pause_succeeds invoice_switch.pause_succeeds
        called_by_def that)
  show "(\<exists>w'. x_unpause ?x c a w = Some w') \<longleftrightarrow> owner_at d w c = Some a" if "deployed_at d c"
    unfolding protocol_peers_def peers.simps
    by (rule on_contract_reaches)
      (simp_all add: treasury_switch.unpause_succeeds compliance_switch.unpause_succeeds
        invoice_switch.unpause_succeeds called_by_def that)
  show "stopped_at d w' = (stopped_at d w)(c := True) \<and> owner_at d w' = owner_at d w \<and> p_tokens w' = p_tokens w"
    if "deployed_at d c" "x_pause ?x c a w = Some w'"
    using that(2) unfolding protocol_peers_def peers.simps
    by (rule on_contract_sets [rotated 3])
      (auto simp: that(1) switches_keep_world
        dest: treasury_switch.pause_effect compliance_switch.pause_effect invoice_switch.pause_effect)
  show "stopped_at d w' = (stopped_at d w)(c := False) \<and> owner_at d w' = owner_at d w \<and> p_tokens w' = p_tokens w"
    if "deployed_at d c" "x_unpause ?x c a w = Some w'"
    using that(2) unfolding protocol_peers_def peers.simps
    by (rule on_contract_sets [rotated 3])
      (auto simp: that(1) switches_keep_world
        dest: treasury_switch.unpause_effect compliance_switch.unpause_effect invoice_switch.unpause_effect)
  show "(\<exists>w'. x_pause ?x c a w = Some w') \<longleftrightarrow> (\<exists>v. ext_pause ext c a (p_tokens w) = Some v)"
    "(\<exists>w'. x_unpause ?x c a w = Some w') \<longleftrightarrow> (\<exists>v. ext_unpause ext c a (p_tokens w) = Some v)"
    if "\<not> deployed_at d c"
    by (auto simp: protocol_peers_def on_contract_outside [OF that])
  show "stopped_at d w' = stopped_at d w \<and> owner_at d w' = owner_at d w \<and>
      ext_pause ext c a (p_tokens w) = Some (p_tokens w')"
    if "\<not> deployed_at d c" "x_pause ?x c a w = Some w'"
    using that(2) by (auto simp: protocol_peers_def on_contract_outside [OF that(1)] outside_keeps)
  show "stopped_at d w' = stopped_at d w \<and> owner_at d w' = owner_at d w \<and>
      ext_unpause ext c a (p_tokens w) = Some (p_tokens w')"
    if "\<not> deployed_at d c" "x_unpause ?x c a w = Some w'"
    using that(2) by (auto simp: protocol_peers_def on_contract_outside [OF that(1)] outside_keeps)
qed

section \<open>The settlement service\<close>

lemma execute_settlement_effect:
  assumes "Treasury_Settlements.execute_settlement h s a i tok = Inr t"
  shows "\<exists>st. t_settlements s i = Some st \<and> st_status st \<noteq> SExecuted \<and>
    t_settlements t = (t_settlements s)(i \<mapsto> st\<lparr>st_status := SExecuted\<rparr>)"
  using assms by (auto simp: execute_settlement_eq_Inr write_settlement_eq emit_def)

interpretation settling: settlement_service "protocol_peers d ext g" "site_treasury d" a "\<lambda>p. t_settlements (p_treasury p)"
proof unfold_locales
  show "\<exists>st. t_settlements (p_treasury w) i = Some st \<and> st_status st \<noteq> SExecuted \<and>
      t_settlements (p_treasury w') = (t_settlements (p_treasury w))(i \<mapsto> st\<lparr>st_status := SExecuted\<rparr>)"
    if "x_execute_settlement (protocol_peers d ext g) (site_treasury d) a i tok w = Some w'" for i tok w w'
    using that by (auto simp: protocol_peers_def dest!: execute_settlement_effect)
  show "x_get_settlement (protocol_peers d ext g) (site_treasury d) i w = t_settlements (p_treasury w) i" for i w
    by (cases "t_settlements (p_treasury w) i")
      (simp_all add: protocol_peers_def Treasury_Settlements.get_settlement_def)
qed

end
