(* ===== verification/Protocol_Runs.thy ===== *)
theory Protocol_Runs
  imports Protocol Treasury Compliance_Calls Invoice_Runs
begin

text \<open>
  Runs of the whole deployment: transactions on any of the four contracts, in any
  order and by anybody, with the cross-contract calls going to the models of the
  contracts. The state of the system is the state of the workflow contract, whose
  \<open>w_world\<close> is the ledger with the other three.

  The main result is that each contract, seen alone, only makes steps of its own
  step relation, so that every theorem on the reachable states of one contract
  holds of that contract inside the deployment.
\<close>

type_synonym 'v system = "'v protocol workflow"

section \<open>The calls of the workflow\<close>

datatype (plugins only: code) WorkflowCall =
    W_transfer_admin address address
  | W_accept_admin address
  | W_pause address
  | W_unpause address
  | W_execute_with_compliance u64 address address
  | W_execute_with_compliance_batch "u64 list" address address
  | W_initialize_emergency_pause address "address list"
  | W_emergency_pause_all address
  | W_resume_all address u64

definition new_state :: "('a \<times> 's) w_outcome \<Rightarrow> 's w_outcome" where
  "new_state r = andthen r (\<lambda>(x, s). Inr s)"

lemma new_state_eq_Inr: "new_state r = Inr s \<longleftrightarrow> (\<exists>x. r = Inr (x, s))"
  by (auto simp: new_state_def result_simps)

fun workflow_invoke :: "'w host \<Rightarrow> 'w peers \<Rightarrow> 'w workflow \<Rightarrow> WorkflowCall \<Rightarrow> 'w workflow w_outcome" where
  "workflow_invoke h x s (W_transfer_admin a n) = Workflow.transfer_admin h s a n"
| "workflow_invoke h x s (W_accept_admin a) = Workflow.accept_admin h s a"
| "workflow_invoke h x s (W_pause a) = Workflow.pause h s a"
| "workflow_invoke h x s (W_unpause a) = Workflow.unpause h s a"
| "workflow_invoke h x s (W_execute_with_compliance i tok m) = execute_with_compliance h x s i tok m"
| "workflow_invoke h x s (W_execute_with_compliance_batch ids tok m) =
     new_state (execute_with_compliance_batch h x s ids tok m)"
| "workflow_invoke h x s (W_initialize_emergency_pause a ts) = initialize_emergency_pause h s a ts"
| "workflow_invoke h x s (W_emergency_pause_all a) = new_state (emergency_pause_all h x s a)"
| "workflow_invoke h x s (W_resume_all a n) = new_state (resume_all h x s a n)"

section \<open>Transactions\<close>

text \<open>
  Anybody may submit a transaction, with any signatures except one: the workflow
  is a contract without a \<open>__check_auth\<close>, so its address authorises the calls it
  makes itself and nothing else.
\<close>

definition signable :: "sites \<Rightarrow> 'v host \<Rightarrow> bool" where
  "signable d g \<longleftrightarrow> \<not> h_auth g (site_workflow d)"

inductive system_step :: "sites \<Rightarrow> 'v system \<Rightarrow> 'v system \<Rightarrow> bool" for d :: sites where
  tx_treasury: "signable d g \<Longrightarrow> invoke (treasury_host d g (h_auth g)) (load_treasury (w_world s)) c = Inr t \<Longrightarrow>
     system_step d s (s\<lparr>w_world := store_treasury t (w_world s)\<rparr>)"
| tx_compliance: "signable d (g :: 'v host) \<Longrightarrow> compliance_invoke g (p_compliance (w_world s)) k = Inr t \<Longrightarrow>
     system_step d s (s\<lparr>w_world := (w_world s)\<lparr>p_compliance := t\<rparr>\<rparr>)"
| tx_invoice: "signable d g \<Longrightarrow> invoice_invoke (invoice_host d g (h_auth g)) (load_invoice (w_world s)) j = Inr i \<Longrightarrow>
     system_step d s (s\<lparr>w_world := store_invoice i (w_world s)\<rparr>)"
| tx_workflow: "signable d g \<Longrightarrow> workflow_invoke (workflow_host d g) (protocol_peers d ext g) s w = Inr u \<Longrightarrow>
     system_step d s u"
| tx_tokens: "system_step d s (s\<lparr>w_world := (w_world s)\<lparr>p_tokens := v\<rparr>\<rparr>)"

text \<open>
  The deployment: the workflow's constructor has pinned the compliance and the
  treasury contract, and the storage of the other three contracts is empty.
\<close>

definition system_deployed :: "sites \<Rightarrow> 'v system \<Rightarrow> bool" where
  "system_deployed d s \<longleftrightarrow>
     (\<exists>g admin p. signable d g \<and>
        constructor (workflow_host d g) (undeployed p) admin (site_compliance d) (site_treasury d) = Inr s \<and>
        deployed (p_treasury p) \<and> p_compliance p = empty_compliance \<and> invoice_started (p_invoice p))"

abbreviation system_reachable :: "sites \<Rightarrow> 'v system \<Rightarrow> bool" where
  "system_reachable d \<equiv> reachable (system_deployed d) (system_step d)"

section \<open>Each contract makes its own steps\<close>

definition ledger_runs :: "'v protocol \<Rightarrow> 'v protocol \<Rightarrow> bool" where
  "ledger_runs p q \<longleftrightarrow> treasury_step\<^sup>*\<^sup>* (p_treasury p) (p_treasury q) \<and>
     compliance_step\<^sup>*\<^sup>* (p_compliance p) (p_compliance q) \<and> invoice_call\<^sup>*\<^sup>* (p_invoice p) (p_invoice q)"

lemma ledger_runs_refl [simp]: "ledger_runs p p"
  by (simp add: ledger_runs_def)

lemma ledger_runs_tokens [simp]: "ledger_runs p (p\<lparr>p_tokens := v\<rparr>)"
  by (simp add: ledger_runs_def)

lemma ledger_runs_trans: "ledger_runs p q \<Longrightarrow> ledger_runs q r \<Longrightarrow> ledger_runs p r"
  unfolding ledger_runs_def by (blast intro: rtranclp_trans)

text \<open>A call on the state loaded from the ledger.\<close>

lemma loaded_call:
  assumes "invoke h (load_treasury p) c = Inr t"
  shows "treasury_step\<^sup>*\<^sup>* (p_treasury p) t"
proof -
  have "treasury_step (p_treasury p) (load_treasury p)" unfolding load_treasury_def by (rule step_ledger)
  moreover have "treasury_step (load_treasury p) t" using assms by (rule step_call)
  ultimately show ?thesis by (meson r_into_rtranclp rtranclp.rtrancl_into_rtrancl)
qed

lemma loaded_invoice_call:
  assumes "invoice_invoke h (load_invoice p) c = Inr t"
  shows "invoice_call\<^sup>*\<^sup>* (p_invoice p) t"
proof -
  have "invoice_call (p_invoice p) (load_invoice p)" unfolding load_invoice_def by (rule call_elsewhere)
  moreover have "invoice_call (load_invoice p) t" using assms by (rule call_entrypoint)
  ultimately show ?thesis by (meson r_into_rtranclp rtranclp.rtrancl_into_rtrancl)
qed

lemma peer_calls_run:
  "x_execute_settlement (protocol_peers d ext g) c a i tok p = Some q \<Longrightarrow> ledger_runs p q"
  "x_pause (protocol_peers d ext g) c a p = Some q \<Longrightarrow> ledger_runs p q"
  "x_unpause (protocol_peers d ext g) c a p = Some q \<Longrightarrow> ledger_runs p q"
proof -
  have t: "ledger_runs p (store_treasury t p)" if "invoke h (load_treasury p) k = Inr t" for h k t
    using loaded_call [OF that] by (simp add: ledger_runs_def)
  have i: "ledger_runs p (store_invoice t p)" if "invoice_invoke h (load_invoice p) j = Inr t" for h j t
    using loaded_invoice_call [OF that] by (simp add: ledger_runs_def)
  have k: "ledger_runs p (p\<lparr>p_compliance := t\<rparr>)" if "compliance_invoke g (p_compliance p) j = Inr t" for g :: "'v host" and j t
    using call_is_step [OF that] by (simp add: ledger_runs_def r_into_rtranclp)
  note on_each = t [of _ "C_execute_settlement a i tok"] t [of _ "C_pause a"] t [of _ "C_unpause a"]
    i [of _ "J_pause a"] i [of _ "J_unpause a"] k [of _ "K_pause a"] k [of _ "K_unpause a"]
  show "x_execute_settlement (protocol_peers d ext g) c a i tok p = Some q \<Longrightarrow> ledger_runs p q"
    "x_pause (protocol_peers d ext g) c a p = Some q \<Longrightarrow> ledger_runs p q"
    "x_unpause (protocol_peers d ext g) c a p = Some q \<Longrightarrow> ledger_runs p q"
    using on_each by (auto simp: protocol_peers_def on_contract_def split: if_splits)
qed

lemma sweeps_run:
  assumes "\<And>t p q. f t p = Some q \<Longrightarrow> ledger_runs p q"
  shows "call_all f ts p = Some q \<Longrightarrow> ledger_runs p q"
  by (induction ts arbitrary: p) (auto split: option.splits intro: ledger_runs_trans assms)

lemma batch_runs:
  assumes "fold_result (execute_batch_one h (protocol_peers d ext g) c tok m) ids (old, s) = Inr (new, t)"
  shows "ledger_runs (w_world s) (w_world t)"
proof -
  have "ledger_runs (w_world s) (w_world (snd (new, t)))"
    using assms
    by (rule fold_result_invariant)
      (auto simp: execute_batch_one_def result_simps split: option.splits,
        erule ledger_runs_trans, erule peer_calls_run(1))
  then show ?thesis by simp
qed

lemma workflow_call_runs:
  assumes "workflow_invoke (workflow_host d g) (protocol_peers d ext g) s w = Inr u"
  shows "ledger_runs (w_world s) (w_world u)"
proof -
  have sweep:
    "call_all (\<lambda>t. x_pause (protocol_peers d ext g) t a) ts p = Some q \<Longrightarrow> ledger_runs p q"
    "call_all (\<lambda>t. x_unpause (protocol_peers d ext g) t a) ts p = Some q \<Longrightarrow> ledger_runs p q" for a ts p q
    by (rule sweeps_run, erule peer_calls_run, assumption)+
  show ?thesis
  proof (cases w)
    case (W_execute_with_compliance_batch ids tok m)
    with assms show ?thesis
      by (auto simp: new_state_eq_Inr execute_with_compliance_batch_def result_simps dest: batch_runs)
  next
    case (W_emergency_pause_all a)
    with assms show ?thesis
      by (auto simp: new_state_eq_Inr emergency_pause_all_def sweep_eq result_simps split: option.splits elim!: sweep)
  next
    case (W_resume_all a n)
    with assms show ?thesis
      by (auto simp: new_state_eq_Inr resume_all_def sweep_eq result_simps split: option.splits elim!: sweep)
  qed (use assms in \<open>auto simp: Workflow.transfer_admin_def Workflow.accept_admin_def Workflow.pause_def
      Workflow.unpause_def execute_with_compliance_def initialize_emergency_pause_def result_simps
      dest: peer_calls_run(1)\<close>)
qed

lemma system_step_runs:
  assumes "system_step d s t"
  shows "ledger_runs (w_world s) (w_world t)"
  using assms
proof cases
  case (tx_treasury g c u)
  then show ?thesis using loaded_call by (simp add: ledger_runs_def)
next
  case (tx_compliance g k u)
  then show ?thesis by (simp add: ledger_runs_def call_is_step r_into_rtranclp)
next
  case (tx_invoice g j i)
  then show ?thesis using loaded_invoice_call by (simp add: ledger_runs_def)
next
  case (tx_workflow g w)
  then show ?thesis by (simp add: workflow_call_runs)
next
  case (tx_tokens v)
  then show ?thesis by simp
qed

section \<open>The invariant of the deployment\<close>

text \<open>
  The workflow keeps its pinned contracts for ever, and a configured emergency
  sweep is one that can be run: some targets, at most eight, all different and
  none of them the workflow itself.
\<close>

definition workflow_ok :: "sites \<Rightarrow> 'w workflow \<Rightarrow> bool" where
  "workflow_ok d s \<longleftrightarrow>
     w_compliance_id s = Some (site_compliance d) \<and> w_treasury_id s = Some (site_treasury d) \<and>
     (case w_emergency_pause_targets s of
        None \<Rightarrow> w_emergency_pause_admin s = None \<and> w_emergency_paused_at s = None
      | Some ts \<Rightarrow> w_emergency_pause_admin s \<noteq> None \<and>
          ts \<noteq> [] \<and> length ts \<le> 8 \<and> distinct ts \<and> site_workflow d \<notin> set ts)"

lemma workflow_ok_frame [simp]:
  "workflow_ok d (Workflow.publish e s) = workflow_ok d s" "workflow_ok d (s\<lparr>w_world := w\<rparr>) = workflow_ok d s"
  "workflow_ok d (s\<lparr>w_admin := a\<rparr>) = workflow_ok d s" "workflow_ok d (s\<lparr>w_pending_admin := n\<rparr>) = workflow_ok d s"
  "workflow_ok d (s\<lparr>w_paused := b\<rparr>) = workflow_ok d s"
  by (simp_all add: workflow_ok_def Workflow.publish_def cong: option.case_cong)

lemma batch_keeps_config:
  assumes "fold_result (execute_batch_one h x c tok m) ids (old, s) = Inr (new, t)" "workflow_ok d s"
  shows "workflow_ok d t"
proof -
  have "workflow_ok d (snd (new, t))"
    using assms(1)
    by (rule fold_result_invariant)
      (auto simp: assms(2) execute_batch_one_def result_simps split: option.splits)
  then show ?thesis by simp
qed

lemma workflow_call_ok:
  assumes "workflow_invoke (workflow_host d g) x s w = Inr u" "workflow_ok d s"
  shows "workflow_ok d u"
proof (cases w)
  case (W_execute_with_compliance_batch ids tok m)
  with assms show ?thesis
    by (auto simp: new_state_eq_Inr execute_with_compliance_batch_def result_simps dest: batch_keeps_config)
next
  case (W_initialize_emergency_pause a ts)
  with assms show ?thesis by (auto simp: initialize_emergency_pause_def result_simps workflow_ok_def split: option.splits)
next
  case (W_emergency_pause_all a)
  with assms show ?thesis
    by (auto simp: new_state_eq_Inr emergency_pause_all_def pause_targets_def sweep_eq result_simps workflow_ok_def
        split: option.splits)
next
  case (W_resume_all a n)
  with assms show ?thesis
    by (auto simp: new_state_eq_Inr resume_all_def pause_targets_def sweep_eq result_simps workflow_ok_def
        split: option.splits)
qed (use assms in \<open>auto simp: Workflow.transfer_admin_def Workflow.accept_admin_def Workflow.pause_def
      Workflow.unpause_def execute_with_compliance_def result_simps\<close>)

definition system_ok :: "sites \<Rightarrow> 'v system \<Rightarrow> bool" where
  "system_ok d s \<longleftrightarrow> treasury_reachable (p_treasury (w_world s)) \<and> compliance_reachable (p_compliance (w_world s)) \<and>
     invoice_reachable (p_invoice (w_world s)) \<and> workflow_ok d s"

lemma ledger_runs_reachable:
  assumes "ledger_runs p q" "treasury_reachable (p_treasury p)" "compliance_reachable (p_compliance p)"
    "invoice_reachable (p_invoice p)"
  shows "treasury_reachable (p_treasury q) \<and> compliance_reachable (p_compliance q) \<and> invoice_reachable (p_invoice q)"
  using assms unfolding ledger_runs_def compliance_reachable_def invoice_reachable_def
  by (blast intro: steps_reachable)

interpretation system_runs: invariant "system_deployed d" "system_step d" "system_ok d"
proof
  show "system_ok d s" if "system_deployed d s" for s :: "'v system"
    using that
    by (auto simp: system_deployed_def constructor_def undeployed_def result_simps system_ok_def workflow_ok_def
        compliance_reachable_def invoice_reachable_def intro: reachable_init)
  show "system_ok d t" if ok: "system_ok d s" and step: "system_step d s t" for s t :: "'v system"
  proof -
    have "workflow_ok d t" using step
    proof cases
      case (tx_workflow g w)
      then show ?thesis using ok workflow_call_ok by (auto simp: system_ok_def)
    qed (use ok in \<open>simp_all add: system_ok_def\<close>)
    with ok ledger_runs_reachable [OF system_step_runs [OF step]] show ?thesis by (simp add: system_ok_def)
  qed
qed

section \<open>Who owns the contracts\<close>

text \<open>
  A contract's admin is somebody who authorised that, so the workflow never
  becomes the admin of a contract.
\<close>

definition workflow_owns_nothing :: "sites \<Rightarrow> 'v system \<Rightarrow> bool" where
  "workflow_owns_nothing d s \<longleftrightarrow> (\<forall>c. owner_at d (w_world s) c \<noteq> Some (site_workflow d))"

lemma execute_keeps_owners:
  "x_execute_settlement (protocol_peers d ext g) c a i tok p = Some q \<Longrightarrow> owner_at d q = owner_at d p"
  by (auto simp: protocol_peers_def execute_settlement_eq_Inr write_settlement_eq emit_def owner_at_def fun_eq_iff
      split: if_splits)

lemma batch_keeps_owners:
  assumes "fold_result (execute_batch_one h (protocol_peers d ext g) c tok m) ids (old, s) = Inr (new, t)"
  shows "owner_at d (w_world t) = owner_at d (w_world s)"
proof -
  have "owner_at d (w_world (snd (new, t))) = owner_at d (w_world s)"
    using assms
    by (rule fold_result_invariant)
      (auto simp: execute_batch_one_def result_simps execute_keeps_owners split: option.splits)
  then show ?thesis by simp
qed

lemma sweeps_keep_owners:
  "call_all (\<lambda>t. x_pause (protocol_peers d ext g) t a) ts p = Some q \<Longrightarrow> owner_at d q = owner_at d p"
  "call_all (\<lambda>t. x_unpause (protocol_peers d ext g) t a) ts p = Some q \<Longrightarrow> owner_at d q = owner_at d p"
  by (drule switches.pausing.sweep_effect switches.resuming.sweep_effect, simp)+

lemma workflow_call_owners:
  assumes "workflow_invoke (workflow_host d g) (protocol_peers d ext g) s w = Inr u"
  shows "owner_at d (w_world u) = owner_at d (w_world s)"
proof (cases w)
  case (W_execute_with_compliance_batch ids tok m)
  with assms show ?thesis
    by (auto simp: new_state_eq_Inr execute_with_compliance_batch_def result_simps dest: batch_keeps_owners)
next
  case (W_emergency_pause_all a)
  with assms show ?thesis
    by (auto simp: new_state_eq_Inr emergency_pause_all_def sweep_eq result_simps split: option.splits elim!: sweeps_keep_owners)
next
  case (W_resume_all a n)
  with assms show ?thesis
    by (auto simp: new_state_eq_Inr resume_all_def sweep_eq result_simps split: option.splits elim!: sweeps_keep_owners)
qed (use assms in \<open>auto simp: Workflow.transfer_admin_def Workflow.accept_admin_def Workflow.pause_def
      Workflow.unpause_def execute_with_compliance_def initialize_emergency_pause_def result_simps
      execute_keeps_owners\<close>)

lemma transaction_owners:
  assumes "system_step d s t" "workflow_owns_nothing d s"
  shows "workflow_owns_nothing d t"
  using assms(1)
proof cases
  case (tx_treasury g c u)
  have "t_admin u \<noteq> Some (site_workflow d)" if "t_admin (load_treasury (w_world s)) \<noteq> Some (site_workflow d)"
    using treasury_calls.stays_not_admin [OF tx_treasury(3) _ that] tx_treasury(2) by (simp add: signable_def)
  with assms(2) tx_treasury(1) show ?thesis by (auto simp: workflow_owns_nothing_def owner_at_def split: if_splits)
next
  case (tx_compliance g k u)
  have "c_admin u \<noteq> Some (site_workflow d)" if "c_admin (p_compliance (w_world s)) \<noteq> Some (site_workflow d)"
    using compliance_calls.stays_not_admin [OF tx_compliance(3) _ that] tx_compliance(2) by (simp add: signable_def)
  with assms(2) tx_compliance(1) show ?thesis by (auto simp: workflow_owns_nothing_def owner_at_def split: if_splits)
next
  case (tx_invoice g j u)
  have "i_admin u \<noteq> Some (site_workflow d)" if "i_admin (load_invoice (w_world s)) \<noteq> Some (site_workflow d)"
    using invoice_calls.stays_not_admin [OF tx_invoice(3) _ that] tx_invoice(2) by (simp add: signable_def)
  with assms(2) tx_invoice(1) show ?thesis by (auto simp: workflow_owns_nothing_def owner_at_def split: if_splits)
next
  case (tx_workflow g w)
  with assms(2) workflow_call_owners [OF tx_workflow(2)] show ?thesis by (simp add: workflow_owns_nothing_def)
next
  case (tx_tokens v)
  then have "owner_at d (w_world t) = owner_at d (w_world s)" by (simp add: owner_at_def fun_eq_iff)
  with assms(2) show ?thesis by (simp add: workflow_owns_nothing_def)
qed

interpretation ownership: invariant "system_deployed d" "system_step d" "workflow_owns_nothing d"
proof
  show "workflow_owns_nothing d s" if "system_deployed d s" for s :: "'v system"
    using that
    by (auto simp: system_deployed_def constructor_def undeployed_def result_simps workflow_owns_nothing_def owner_at_def
        deployed_def empty_storage_def empty_compliance_def invoice_started_def empty_invoice_store_def split: if_splits)
qed (rule transaction_owners)

section \<open>The gate in the deployment\<close>
lemma pinned:
  assumes "system_reachable d s"
  shows "w_compliance_id s = Some (site_compliance d)" "w_treasury_id s = Some (site_treasury d)"
  using system_runs.reachable_inv [OF assms] by (simp_all add: system_ok_def workflow_ok_def)

lemmas gate_defs = Workflow.require_not_paused_def Workflow.is_paused_def Workflow.get_compliance_id_def
  Workflow.get_treasury_id_def require_allowed_for_treasury_def as_treasury_code_def

lemma gate_refuses:
  assumes "w_compliance_id s = Some (site_compliance d)" "\<not> Workflow.is_paused s"
    "\<not> Compliance_Ops.is_allowed g (p_compliance (w_world s)) m"
  shows "execute_with_compliance (workflow_host d g) x s i tok m = Inl (Err (TreasuryCode T_ComplianceCheckFailed))"
  using assms by (simp add: execute_with_compliance_def gate_defs)

lemma gate_opens:
  assumes "execute_with_compliance (workflow_host d g) (protocol_peers d ext g) s i tok m = Inr t"
    "w_compliance_id s = Some (site_compliance d)" "w_treasury_id s = Some (site_treasury d)"
  obtains u st where "\<not> Workflow.is_paused s" "Compliance_Ops.is_allowed g (p_compliance (w_world s)) m"
    "Treasury_Settlements.execute_settlement (treasury_host d g (called_by (site_workflow d) (h_auth g)))
       (load_treasury (w_world s)) (site_workflow d) i tok = Inr u"
    "t_settlements u i = Some st"
    "t = Workflow.publish (Ev_settlement_workflow_executed i m tok (st_amount st))
       (s\<lparr>w_world := store_treasury u (w_world s)\<rparr>)"
proof -
  from assms(1) obtain w where
    g: "\<not> Workflow.is_paused s" "h_is_allowed (workflow_host d g) (site_compliance d) m (w_world s) = Some True"
    and w: "x_execute_settlement (protocol_peers d ext g) (site_treasury d) (site_workflow d) i tok (w_world s) = Some w"
    and st: "\<exists>st. x_get_settlement (protocol_peers d ext g) (site_treasury d) i w = Some st \<and>
      t = Workflow.publish (Ev_settlement_workflow_executed i m tok (st_amount st)) (s\<lparr>w_world := w\<rparr>)"
    unfolding execute_with_compliance_eq_Inr assms(2,3) by auto
  from w obtain u where "Treasury_Settlements.execute_settlement
      (treasury_host d g (called_by (site_workflow d) (h_auth g))) (load_treasury (w_world s)) (site_workflow d) i tok = Inr u"
    "w = store_treasury u (w_world s)" by (auto simp: protocol_peers_def)
  with g st that show ?thesis by (auto simp: settling.read_settlement)
qed

lemma load_fields:
  "signer_weight (load_treasury p) a = signer_weight (p_treasury p) a" "t_threshold (load_treasury p) = t_threshold (p_treasury p)"
  "t_compliance_id (load_treasury p) = t_compliance_id (p_treasury p)"
  "payout_address (load_treasury p) m = payout_address (p_treasury p) m"
  by (simp_all add: load_treasury_def signer_weight_def payout_address_def)

end
