(* ===== verification/Protocol_Events.thy ===== *)
theory Protocol_Events
  imports Protocol_Runs
begin

text \<open>
  What the event log of the workflow contract tells an indexer: the
  \<open>settlement_workflow_executed\<close> events agree with the settlements of the treasury,
  over every run of the deployment, whoever else calls the treasury in between.
\<close>

section \<open>Reports\<close>

fun reported_amount :: "u64 \<Rightarrow> WorkflowEvent \<Rightarrow> i128 option" where
  "reported_amount i (Ev_settlement_workflow_executed j m tok amount) = (if i = j then Some amount else None)"
| "reported_amount i _ = None"

definition workflow_reports :: "'w workflow \<Rightarrow> u64 \<Rightarrow> i128 list" where
  "workflow_reports s i = List.map_filter (reported_amount i) (w_events s)"

definition reports_true :: "(u64 \<rightharpoonup> Settlement) \<Rightarrow> (u64 \<Rightarrow> i128 list) \<Rightarrow> bool" where
  "reports_true settlement reports \<longleftrightarrow>
     (\<forall>i. reports i = [] \<or>
        (\<exists>st. settlement i = Some st \<and> st_status st = SExecuted \<and> reports i = [st_amount st]))"

lemma workflow_reports_publish:
  "workflow_reports (Workflow.publish e s) i =
     workflow_reports s i @ (case reported_amount i e of None \<Rightarrow> [] | Some x \<Rightarrow> [x])"
  by (simp add: workflow_reports_def Workflow.publish_def map_filter_def split: option.split)

lemma workflow_reports_frame [simp]:
  "workflow_reports (s\<lparr>w_world := w\<rparr>) = workflow_reports s"
  "workflow_reports (s\<lparr>w_admin := a\<rparr>) = workflow_reports s"
  "workflow_reports (s\<lparr>w_pending_admin := n\<rparr>) = workflow_reports s"
  "workflow_reports (s\<lparr>w_paused := b\<rparr>) = workflow_reports s"
  "workflow_reports (s\<lparr>w_emergency_paused_at := u\<rparr>) = workflow_reports s"
  "workflow_reports (s\<lparr>w_emergency_pause_admin := v\<rparr>) = workflow_reports s"
  "workflow_reports (s\<lparr>w_emergency_pause_targets := ts\<rparr>) = workflow_reports s"
  by (simp_all add: workflow_reports_def fun_eq_iff)

text \<open>Executed settlements are frozen, so what has been reported stays true.\<close>

lemma executed_stays:
  assumes "treasury_reachable s" "treasury_step\<^sup>*\<^sup>* s t" "t_settlements s i = Some st" "st_status st = SExecuted"
  shows "t_settlements t i = Some st"
  using treasury_run.reachable_le [OF assms(1,2)] assms(3,4)
  by (fastforce simp: treasury_le_def book_le_def settlement_le_def terminal_def)

lemma reports_stay_true:
  assumes "reports_true (t_settlements (p_treasury p)) r" "ledger_runs p q" "treasury_reachable (p_treasury p)"
  shows "reports_true (t_settlements (p_treasury q)) r"
  using assms executed_stays unfolding reports_true_def ledger_runs_def by metis

text \<open>One execution adds one true report.\<close>

lemma execution_reports:
  assumes "reports_true (t_settlements (p_treasury (w_world s))) (workflow_reports s)"
    and "x_execute_settlement (protocol_peers d ext g) (site_treasury d) a i tok (w_world s) = Some w"
    and "x_get_settlement (protocol_peers d ext g) (site_treasury d) i w = Some st"
  shows "reports_true (t_settlements (p_treasury w))
    (workflow_reports (Workflow.publish (Ev_settlement_workflow_executed i m tok (st_amount st)) (s\<lparr>w_world := w\<rparr>)))"
  using settling.execute_effect [OF assms(2)] assms(1,3)
  by (fastforce simp: settling.read_settlement reports_true_def workflow_reports_publish)

lemma batch_reports:
  assumes "fold_result (execute_batch_one h (protocol_peers d ext g) (site_treasury d) tok m) ids (old, s) = Inr (new, t)"
    and "reports_true (t_settlements (p_treasury (w_world s))) (workflow_reports s)"
  shows "reports_true (t_settlements (p_treasury (w_world t))) (workflow_reports t)"
proof -
  have "reports_true (t_settlements (p_treasury (w_world (snd (new, t))))) (workflow_reports (snd (new, t)))"
    using assms(1)
  proof (rule fold_result_invariant)
    fix i acc acc'
    assume one: "execute_batch_one h (protocol_peers d ext g) (site_treasury d) tok m i acc = Inr acc'"
      and ok: "reports_true (t_settlements (p_treasury (w_world (snd acc)))) (workflow_reports (snd acc))"
    show "reports_true (t_settlements (p_treasury (w_world (snd acc')))) (workflow_reports (snd acc'))"
    proof (cases "x_execute_settlement (protocol_peers d ext g) (site_treasury d) (h_self h) i tok (w_world (snd acc))")
      case None
      with one ok show ?thesis by (auto simp: execute_batch_one_def split: prod.splits)
    next
      case (Some w)
      with one obtain st where "x_get_settlement (protocol_peers d ext g) (site_treasury d) i w = Some st"
        "snd acc' = Workflow.publish (Ev_settlement_workflow_executed i m tok (st_amount st)) ((snd acc)\<lparr>w_world := w\<rparr>)"
        by (auto simp: execute_batch_one_def result_simps split: prod.splits)
      with execution_reports [OF ok Some, of st m] show ?thesis by simp
    qed
  qed (simp add: assms(2))
  then show ?thesis by simp
qed

text \<open>The other calls of the workflow publish no report.\<close>

lemma quiet_calls:
  assumes "workflow_invoke h x s c = Inr t"
    and "\<And>i tok m. c \<noteq> W_execute_with_compliance i tok m" "\<And>ids tok m. c \<noteq> W_execute_with_compliance_batch ids tok m"
  shows "workflow_reports t = workflow_reports s"
  using assms
  by (cases c) (auto simp: fun_eq_iff Workflow.transfer_admin_def Workflow.accept_admin_def Workflow.pause_def
      Workflow.unpause_def initialize_emergency_pause_def emergency_pause_all_def resume_all_def
      new_state_eq_Inr result_simps workflow_reports_publish)

lemma workflow_call_reports:
  assumes run: "workflow_invoke (workflow_host d g) (protocol_peers d ext g) s c = Inr t" and ok: "system_ok d s"
    and s: "reports_true (t_settlements (p_treasury (w_world s))) (workflow_reports s)"
  shows "reports_true (t_settlements (p_treasury (w_world t))) (workflow_reports t)"
proof -
  have ids: "w_compliance_id s = Some (site_compliance d)" "w_treasury_id s = Some (site_treasury d)"
    using ok by (simp_all add: system_ok_def workflow_ok_def)
  consider (one) i tok m where "c = W_execute_with_compliance i tok m"
    | (batch) xs tok m where "c = W_execute_with_compliance_batch xs tok m"
    | (quiet) "workflow_reports t = workflow_reports s"
    using quiet_calls [OF run] by blast
  then show ?thesis
  proof cases
    case one
    with run ids obtain w st where
      w: "x_execute_settlement (protocol_peers d ext g) (site_treasury d) (site_workflow d) i tok (w_world s) = Some w"
      and st: "x_get_settlement (protocol_peers d ext g) (site_treasury d) i w = Some st"
      "t = Workflow.publish (Ev_settlement_workflow_executed i m tok (st_amount st)) (s\<lparr>w_world := w\<rparr>)"
      by (auto simp: execute_with_compliance_eq_Inr)
    with execution_reports [OF s w st(1), of m] show ?thesis by simp
  next
    case batch
    with run ids obtain new u where
      "fold_result (execute_batch_one (workflow_host d g) (protocol_peers d ext g) (site_treasury d) tok m) xs ([], s) = Inr (new, u)"
      "t = Workflow.publish (Ev_workflow_batch_completed (length xs) (length new)) u"
      by (auto simp: new_state_eq_Inr execute_with_compliance_batch_def Workflow.get_treasury_id_def result_simps)
    with batch_reports [OF _ s] show ?thesis by (auto simp: workflow_reports_publish reports_true_def)
  next
    case quiet
    with reports_stay_true [OF s workflow_call_runs [OF run]] ok show ?thesis by (simp add: system_ok_def)
  qed
qed

section \<open>The invariant\<close>

definition system_truthful :: "sites \<Rightarrow> 'v system \<Rightarrow> bool" where
  "system_truthful d s \<longleftrightarrow> system_ok d s \<and>
     reports_true (t_settlements (p_treasury (w_world s))) (workflow_reports s)"

interpretation truthful: invariant "system_deployed d" "system_step d" "system_truthful d"
proof
  show "system_truthful d s" if "system_deployed d s" for s :: "'v system"
    using that system_runs.init_inv [OF that]
    by (auto simp: system_truthful_def system_deployed_def constructor_def undeployed_def result_simps
        reports_true_def workflow_reports_def Workflow.publish_def map_filter_def)
  show "system_truthful d t" if "system_truthful d s" "system_step d s t" for s t :: "'v system"
  proof -
    have ok: "system_ok d s" and s: "reports_true (t_settlements (p_treasury (w_world s))) (workflow_reports s)"
      using that(1) by (simp_all add: system_truthful_def)
    have "reports_true (t_settlements (p_treasury (w_world t))) (workflow_reports s)"
      using reports_stay_true [OF s system_step_runs [OF that(2)]] ok by (simp add: system_ok_def)
    with that(2) ok s have "reports_true (t_settlements (p_treasury (w_world t))) (workflow_reports t)"
      by cases (simp_all add: workflow_call_reports)
    with system_runs.step_inv [OF ok that(2)] show ?thesis by (simp add: system_truthful_def)
  qed
qed

end
