(* ===== verification/Protocol_Scenario.thy ===== *)
theory Protocol_Scenario
  imports Protocol_Events Treasury_Scenario
begin

text \<open>
  A concrete deployment, evaluated by the kernel: the compliance contract allows a
  merchant, the treasury approves a payout to it and has the workflow as a signer.
  The token contract logs each transfer.
\<close>

section \<open>Executable transactions\<close>

datatype (plugins only: code) system_call =
    OnTreasury TreasuryCall | OnCompliance ComplianceCall | OnInvoice InvoiceCall | OnWorkflow WorkflowCall

fun submit :: "sites \<Rightarrow> 'v externals \<Rightarrow> 'v host \<times> system_call \<Rightarrow> 'v system \<Rightarrow> 'v system option" where
  "submit d ext (g, OnTreasury c) s = map_option (\<lambda>t. s\<lparr>w_world := store_treasury t (w_world s)\<rparr>)
     (succeeded (invoke (treasury_host d g (h_auth g)) (load_treasury (w_world s)) c))"
| "submit d ext (g, OnCompliance c) s = map_option (\<lambda>t. s\<lparr>w_world := (w_world s)\<lparr>p_compliance := t\<rparr>\<rparr>)
     (succeeded (compliance_invoke g (p_compliance (w_world s)) c))"
| "submit d ext (g, OnInvoice c) s = map_option (\<lambda>t. s\<lparr>w_world := store_invoice t (w_world s)\<rparr>)
     (succeeded (invoice_invoke (invoice_host d g (h_auth g)) (load_invoice (w_world s)) c))"
| "submit d ext (g, OnWorkflow c) s = succeeded (workflow_invoke (workflow_host d g) (protocol_peers d ext g) s c)"

fun submit_all :: "sites \<Rightarrow> 'v externals \<Rightarrow> ('v host \<times> system_call) list \<Rightarrow> 'v system \<Rightarrow> 'v system option" where
  "submit_all d ext [] s = Some s"
| "submit_all d ext (x # xs) s = (case submit d ext x s of None \<Rightarrow> None | Some t \<Rightarrow> submit_all d ext xs t)"

lemma submit_step: "signable d g \<Longrightarrow> submit d ext (g, c) s = Some t \<Longrightarrow> system_step d s t"
  by (cases c) (auto intro: system_step.intros)

lemma submit_all_reachable:
  "list_all (\<lambda>(g, c). signable d g) xs \<Longrightarrow> submit_all d ext xs s = Some t \<Longrightarrow> system_reachable d s \<Longrightarrow>
     system_reachable d t"
  by (induction d ext xs s rule: submit_all.induct) (auto split: option.splits intro: reachable_step submit_step)

section \<open>The town\<close>

definition town :: sites where
  "town = \<lparr>site_treasury = 99, site_compliance = 98, site_invoice = 97, site_workflow = 96\<rparr>"

definition town_host :: "u64 \<Rightarrow> address \<Rightarrow> transfers host" where
  "town_host now who = \<lparr>h_now = now, h_seq = 1, h_self = 0, h_auth = (\<lambda>a. a = who),
     h_transfer = (\<lambda>token src dst amount w. Some (w @ [(token, src, dst, amount)])),
     h_balance = (\<lambda>_ _ _. Some 1000), h_is_allowed = (\<lambda>_ _ _. None),
     h_is_allowed_for_amount = (\<lambda>_ _ _ _. None)\<rparr>"

text \<open>
  Outside the deployment there is a contract at 50 whose \<open>pause\<close> and \<open>unpause\<close> succeed
  for any caller.
\<close>

definition town_ext :: "transfers externals" where
  "town_ext = \<lparr>ext_pause = (\<lambda>c a w. if c = 50 then Some w else None),
     ext_unpause = (\<lambda>c a w. if c = 50 then Some w else None)\<rparr>"

definition town_ledger :: "transfers protocol" where
  "town_ledger = \<lparr>p_treasury = empty_storage (empty_compliance, []), p_compliance = empty_compliance,
     p_invoice = empty_invoice_store [],
     p_tokens = []\<rparr>"

definition town_start :: "transfers system" where
  "town_start = projr (constructor (workflow_host town (town_host 1 1)) (undeployed town_ledger) 1 98 99)"

definition town_plan :: "(transfers host \<times> system_call) list" where
  "town_plan =
     [(town_host 10 1, OnCompliance (K_initialize 1)),
      (town_host 10 1, OnInvoice (J_initialize 1)),
      (town_host 10 1, OnCompliance (K_allow_address 1 7)),
      (town_host 10 1, OnTreasury (C_initialize 1 3 [(2, 2), (3, 1), (96, 1)])),
      (town_host 10 1, OnTreasury (C_set_compliance_id 1 98)),
      (town_host 20 2, OnTreasury (C_propose_settlement 2 7 50 0)),
      (town_host 30 3, OnTreasury (C_approve_settlement 3 1))]"

definition town_ready :: "transfers system" where
  "town_ready = the (submit_all town town_ext town_plan town_start)"

lemmas town_eval = town_def town_host_def town_ledger_def town_start_def town_plan_def constructor_def undeployed_def
  Workflow.publish_def workflow_host_def treasury_host_def load_treasury_def store_treasury_def
  empty_compliance_def Compliance_Ops.initialize_def Compliance_Ops.allow_address_def record_allow_def
  Compliance_State.require_admin_def Compliance_State.require_not_paused_def Compliance_State.publish_def
  bump_allow_count_def Compliance_State.append_status_history_def track_address_def index_page_def
  MAX_TRACKED_ADDRESSES_def ADDR_INDEX_PAGE_SIZE_def CURRENT_SCHEMA_VERSION_def MAX_STATUS_HISTORY_def
  Invoice_Entrypoints.initialize_def load_invoice_def store_invoice_def invoice_host_def empty_invoice_store_def
  Treasury_Admin.set_compliance_id_def require_allowed_for_treasury_def Compliance_Ops.is_allowed_def
  is_allowed_at_def Compliance_Ops.is_allowed_for_amount_def get_tier_limit_def get_address_tier_def

lemma town_start_eq: "constructor (workflow_host town (town_host 1 1)) (undeployed town_ledger) 1 98 99 = Inr town_start"
  by (simp add: town_eval require_auth_def del: One_nat_def)

lemma town_deployed: "system_deployed town town_start"
  unfolding system_deployed_def
proof (intro exI conjI)
  show "constructor (workflow_host town (town_host 1 1)) (undeployed town_ledger) 1
      (site_compliance town) (site_treasury town) = Inr town_start"
    using town_start_eq by (simp add: town_def)
  show "signable town (town_host 1 1)" by (simp add: signable_def town_def town_host_def)
  show "deployed (p_treasury town_ledger)" by (auto simp: deployed_def town_ledger_def)
  show "p_compliance town_ledger = empty_compliance" by (simp add: town_ledger_def)
  show "invoice_started (p_invoice town_ledger)" by (auto simp: invoice_started_def town_ledger_def)
qed

lemma town_plan_runs: "submit_all town town_ext town_plan town_start = Some town_ready"
proof -
  have "submit_all town town_ext town_plan town_start \<noteq> None"
    by (simp add: town_eval demo_simps del: One_nat_def)
  then show ?thesis by (auto simp: town_ready_def)
qed

lemma town_reachable: "system_reachable town town_ready"
proof (rule submit_all_reachable [OF _ town_plan_runs])
  show "list_all (\<lambda>(g, c). signable town g) town_plan"
    by (simp add: town_plan_def signable_def town_def town_host_def)
qed (rule reachable_init, rule town_deployed)

text \<open>What the theorems are applied to: the state of the deployment that is ready to pay.\<close>

lemma town_ready_state:
  "w_paused town_ready = None" "w_emergency_paused_at town_ready = None" "w_compliance_id town_ready = Some 98" "w_treasury_id town_ready = Some 99"
  "p_tokens (w_world town_ready) = []" "t_admin (p_treasury (w_world town_ready)) = Some 1"
  by (simp_all add: town_ready_def town_eval demo_simps del: One_nat_def)

lemma town_allowed: "Compliance_Ops.is_allowed (town_host 40 8) (p_compliance (w_world town_ready)) 7"
  by (simp add: town_ready_def town_eval demo_simps del: One_nat_def)

lemma town_executes:
  "\<not> isl (execute_with_compliance (workflow_host town (town_host 40 8)) (protocol_peers town town_ext (town_host 40 8)) town_ready 1 5 7)"
  by (simp add: town_ready_def town_eval demo_simps execute_with_compliance_def Workflow.require_not_paused_def
      Workflow.get_compliance_id_def Workflow.get_treasury_id_def as_treasury_code_def protocol_peers_def
      called_by_def Treasury_Settlements.get_settlement_def
      del: One_nat_def)

text \<open>The same deployment with an emergency sweep over the treasury and the invoice contract configured.\<close>

definition town_armed :: "transfers system" where
  "town_armed = the (submit town town_ext (town_host 35 1, OnWorkflow (W_initialize_emergency_pause 1 [99, 97])) town_ready)"

lemma town_armed_run:
  "submit town town_ext (town_host 35 1, OnWorkflow (W_initialize_emergency_pause 1 [99, 97])) town_ready = Some town_armed"
proof -
  have "submit town town_ext (town_host 35 1, OnWorkflow (W_initialize_emergency_pause 1 [99, 97])) town_ready \<noteq> None"
    by (simp add: initialize_emergency_pause_def validate_pause_targets_def MAX_PAUSE_TARGETS_def town_def town_host_def
        town_ready_state require_auth_def)
  then show ?thesis by (auto simp: town_armed_def)
qed

lemma town_armed_reachable: "system_reachable town town_armed"
proof (rule reachable_step [OF town_reachable submit_step [OF _ town_armed_run]])
  show "signable town (town_host 35 1)" by (simp add: signable_def town_def town_host_def)
qed

lemma town_armed_state: "w_emergency_pause_admin town_armed = Some 1" "w_emergency_pause_targets town_armed = Some [99, 97]"
  by (simp_all add: town_armed_def initialize_emergency_pause_def validate_pause_targets_def MAX_PAUSE_TARGETS_def
      town_def town_host_def town_ready_state require_auth_def)

text \<open>The deployment after the payout.\<close>

definition town_paid :: "transfers system" where
  "town_paid = the (submit town town_ext (town_host 40 8, OnWorkflow (W_execute_with_compliance 1 5 7)) town_ready)"

lemma town_paid_run:
  "submit town town_ext (town_host 40 8, OnWorkflow (W_execute_with_compliance 1 5 7)) town_ready = Some town_paid"
proof -
  let ?run = "execute_with_compliance (workflow_host town (town_host 40 8)) (protocol_peers town town_ext (town_host 40 8)) town_ready 1 5 7"
  obtain t where "?run = Inr t" using town_executes by (cases ?run) simp_all
  then show ?thesis by (simp add: town_paid_def)
qed

lemma town_paid_reachable: "system_reachable town town_paid"
  by (rule reachable_step [OF town_reachable submit_step [OF _ town_paid_run]])
    (simp add: signable_def town_def town_host_def)

lemma town_paid_reports: "workflow_reports town_paid 1 \<noteq> []"
proof -
  have run: "execute_with_compliance (workflow_host town (town_host 40 8)) (protocol_peers town town_ext (town_host 40 8))
      town_ready 1 5 7 = Inr town_paid"
    using town_paid_run by simp
  have ids: "w_compliance_id town_ready = Some (site_compliance town)" "w_treasury_id town_ready = Some (site_treasury town)"
    using town_ready_state(3,4) by (simp_all add: town_def)
  obtain u and st :: Settlement where
    paid: "town_paid = Workflow.publish (Ev_settlement_workflow_executed 1 7 5 (st_amount st))
       (town_ready\<lparr>w_world := store_treasury u (w_world town_ready)\<rparr>)"
    by (rule gate_opens [OF run ids]) blast
  show ?thesis unfolding paid workflow_reports_publish by simp
qed

end
