(* ===== verification/Protocol_Sweep.thy ===== *)
theory Protocol_Sweep
  imports Protocol_Scenario
begin

text \<open>
  The emergency sweep in the deployment: when \<open>emergency_pause_all\<close> and \<open>resume_all\<close>
  succeed, with targets among the deployed contracts and outside of them, and a sweep
  that does succeed.
\<close>

section \<open>What decides a sweep\<close>

text \<open>The targets outside the deployment, called in their order.\<close>

definition outside_pause :: "sites \<Rightarrow> 'v externals \<Rightarrow> address list \<Rightarrow> 'v \<Rightarrow> 'v option" where
  "outside_pause d ext ts v =
     call_all (\<lambda>c. ext_pause ext c (site_workflow d)) (filter (\<lambda>c. \<not> deployed_at d c) ts) v"

definition outside_unpause :: "sites \<Rightarrow> 'v externals \<Rightarrow> address list \<Rightarrow> 'v \<Rightarrow> 'v option" where
  "outside_unpause d ext ts v =
     call_all (\<lambda>c. ext_unpause ext c (site_workflow d)) (filter (\<lambda>c. \<not> deployed_at d c) ts) v"

definition owns_targets :: "sites \<Rightarrow> 'v protocol \<Rightarrow> address list \<Rightarrow> bool" where
  "owns_targets d p ts \<longleftrightarrow> (\<forall>c\<in>set ts. deployed_at d c \<longrightarrow> owner_at d p c = Some (site_workflow d))"

lemma pause_sweep_iff:
  "(\<exists>q. call_all (\<lambda>t. x_pause (protocol_peers d ext g) t (site_workflow d)) ts p = Some q) \<longleftrightarrow>
     owns_targets d p ts \<and> (\<exists>v. outside_pause d ext ts (p_tokens p) = Some v)"
  unfolding owns_targets_def outside_pause_def by (rule switches.pausing.sweep_iff)

lemma unpause_sweep_iff:
  "(\<exists>q. call_all (\<lambda>t. x_unpause (protocol_peers d ext g) t (site_workflow d)) ts p = Some q) \<longleftrightarrow>
     owns_targets d p ts \<and> (\<exists>v. outside_unpause d ext ts (p_tokens p) = Some v)"
  unfolding owns_targets_def outside_unpause_def by (rule switches.resuming.sweep_iff)

lemma pause_all_outcome:
  assumes "h_auth g a" "w_emergency_pause_admin s = Some a" "w_emergency_pause_targets s = Some ts"
  shows "if owns_targets d (w_world s) ts \<and> outside_pause d ext ts (p_tokens (w_world s)) \<noteq> None
    then \<exists>v. emergency_pause_all (workflow_host d g) (protocol_peers d ext g) s a =
        Inr (ts, Workflow.publish (Ev_emergency_pause_completed a ts)
              (s\<lparr>w_world := v, w_emergency_paused_at := Some (h_now g)\<rparr>)) \<and>
      owner_at d v = owner_at d (w_world s) \<and>
      stopped_at d v = (\<lambda>c. c \<in> set ts \<and> deployed_at d c \<or> stopped_at d (w_world s) c) \<and>
      outside_pause d ext ts (p_tokens (w_world s)) = Some (p_tokens v)
    else emergency_pause_all (workflow_host d g) (protocol_peers d ext g) s a =
      Inl (Err (WorkflowCode WE_PauseTargetFailed))"
proof -
  let ?sweep = "call_all (\<lambda>t. x_pause (protocol_peers d ext g) t (site_workflow d)) ts (w_world s)"
  note eq = emergency_pause_all_eq [of "workflow_host d g" a s ts "protocol_peers d ext g", simplified, OF assms]
  show ?thesis
  proof (cases ?sweep)
    case None
    with eq pause_sweep_iff [of d ext g ts "w_world s"] show ?thesis by auto
  next
    case (Some v)
    with pause_sweep_iff [of d ext g ts "w_world s"] have
      "owns_targets d (w_world s) ts \<and> outside_pause d ext ts (p_tokens (w_world s)) \<noteq> None" by auto
    moreover from eq Some switches.pausing.sweep_effect [OF Some] have
      "emergency_pause_all (workflow_host d g) (protocol_peers d ext g) s a =
        Inr (ts, Workflow.publish (Ev_emergency_pause_completed a ts)
              (s\<lparr>w_world := v, w_emergency_paused_at := Some (h_now g)\<rparr>)) \<and>
      owner_at d v = owner_at d (w_world s) \<and>
      stopped_at d v = (\<lambda>c. c \<in> set ts \<and> deployed_at d c \<or> stopped_at d (w_world s) c) \<and>
      outside_pause d ext ts (p_tokens (w_world s)) = Some (p_tokens v)"
      by (auto simp: outside_pause_def fun_eq_iff)
    ultimately show ?thesis by (subst if_P) (assumption, rule exI)
  qed
qed

lemma resume_all_outcome:
  assumes "h_auth g a" "w_emergency_pause_admin s = Some a" "w_emergency_pause_targets s = Some ts"
    "w_emergency_paused_at s = Some at" "delay = 0 \<or> saturating_add at delay \<le> h_now g"
  shows "if owns_targets d (w_world s) ts \<and> outside_unpause d ext (rev ts) (p_tokens (w_world s)) \<noteq> None
    then \<exists>v. resume_all (workflow_host d g) (protocol_peers d ext g) s a delay =
        Inr (rev ts, Workflow.publish (Ev_emergency_pause_resumed (rev ts))
              (s\<lparr>w_world := v, w_emergency_paused_at := None\<rparr>)) \<and>
      stopped_at d v = (\<lambda>c. \<not> (c \<in> set ts \<and> deployed_at d c) \<and> stopped_at d (w_world s) c)
    else resume_all (workflow_host d g) (protocol_peers d ext g) s a delay =
      Inl (Err (WorkflowCode WE_UnpauseTargetFailed))"
proof -
  let ?sweep = "call_all (\<lambda>t. x_unpause (protocol_peers d ext g) t (site_workflow d)) (rev ts) (w_world s)"
  have owns: "owns_targets d (w_world s) (rev ts) = owns_targets d (w_world s) ts" by (simp add: owns_targets_def)
  note eq = resume_all_eq [of "workflow_host d g" a s ts at delay "protocol_peers d ext g", simplified, OF assms]
  show ?thesis
  proof (cases ?sweep)
    case None
    with eq unpause_sweep_iff [of d ext g "rev ts" "w_world s"] show ?thesis by (auto simp: owns)
  next
    case (Some v)
    with unpause_sweep_iff [of d ext g "rev ts" "w_world s"] have
      "owns_targets d (w_world s) ts \<and> outside_unpause d ext (rev ts) (p_tokens (w_world s)) \<noteq> None"
      by (auto simp: owns)
    moreover from eq Some switches.resuming.sweep_effect [OF Some] have
      "resume_all (workflow_host d g) (protocol_peers d ext g) s a delay =
        Inr (rev ts, Workflow.publish (Ev_emergency_pause_resumed (rev ts))
              (s\<lparr>w_world := v, w_emergency_paused_at := None\<rparr>)) \<and>
      stopped_at d v = (\<lambda>c. \<not> (c \<in> set ts \<and> deployed_at d c) \<and> stopped_at d (w_world s) c)"
      by (auto simp: fun_eq_iff)
    ultimately show ?thesis by (subst if_P) (assumption, rule exI)
  qed
qed

lemma owns_targets_cong: "owner_at d q = owner_at d p \<Longrightarrow> owns_targets d q ts = owns_targets d p ts"
  by (simp add: owns_targets_def)

section \<open>A sweep over a contract outside the deployment\<close>

definition town_watch :: "transfers system" where
  "town_watch = the (submit town town_ext (town_host 35 1, OnWorkflow (W_initialize_emergency_pause 1 [50])) town_ready)"

lemma town_watch_run:
  "submit town town_ext (town_host 35 1, OnWorkflow (W_initialize_emergency_pause 1 [50])) town_ready = Some town_watch"
proof -
  have "submit town town_ext (town_host 35 1, OnWorkflow (W_initialize_emergency_pause 1 [50])) town_ready \<noteq> None"
    by (simp add: initialize_emergency_pause_def validate_pause_targets_def MAX_PAUSE_TARGETS_def town_def town_host_def
        town_ready_state require_auth_def)
  then show ?thesis by (auto simp: town_watch_def)
qed

lemma town_watch_reachable: "system_reachable town town_watch"
  by (rule reachable_step [OF town_reachable submit_step [OF _ town_watch_run]])
    (simp add: signable_def town_def town_host_def)

lemma town_watch_state: "w_emergency_pause_admin town_watch = Some 1" "w_emergency_pause_targets town_watch = Some [50]"
  by (simp_all add: town_watch_def initialize_emergency_pause_def validate_pause_targets_def MAX_PAUSE_TARGETS_def
      town_def town_host_def town_ready_state require_auth_def)

end
