(* ===== verification/Invoice_Batch.thy ===== *)
theory Invoice_Batch
  imports Invoice_Runs
begin

text \<open>
  \<open>batch_create_invoice\<close> validates every element before it writes anything and has
  its own copy of the code that stores an invoice. This theory shows that it does
  what calling \<open>create_invoice\<close> for each element in turn does.
\<close>

section \<open>The reference\<close>

fun create_each ::
    "'w host \<Rightarrow> address \<Rightarrow> BatchInvoiceParams list \<Rightarrow> 'w invoice_store \<Rightarrow> (u64 list \<times> 'w invoice_store) i_outcome" where
  "create_each h merchant [] s = Inr ([], s)"
| "create_each h merchant (p # ps) s =
     andthen (create_invoice h s merchant (bp_amount_usdc p) (bp_gross_usdc p) (bp_expires_in_seconds p)
         (bp_metadata_hash p) (bp_payment_link_hash p) (bp_merchant_nonce p) (bp_token_address p)) (\<lambda>(i, s1).
     andthen (create_each h merchant ps s1) (\<lambda>(ids, t). Inr (i # ids, t)))"

abbreviation create_param ::
    "'w host \<Rightarrow> address \<Rightarrow> BatchInvoiceParams \<Rightarrow> 'w invoice_store \<Rightarrow> (u64 \<times> 'w invoice_store) i_outcome" where
  "create_param h merchant p s \<equiv>
     create_invoice_record h s merchant (bp_amount_usdc p) (bp_gross_usdc p) (bp_expires_in_seconds p)
       (bp_metadata_hash p) (bp_payment_link_hash p) (bp_merchant_nonce p) (bp_token_address p)"

fun record_each ::
    "'w host \<Rightarrow> address \<Rightarrow> BatchInvoiceParams list \<Rightarrow> 'w invoice_store \<Rightarrow> (u64 list \<times> 'w invoice_store) i_outcome" where
  "record_each h merchant [] s = Inr ([], s)"
| "record_each h merchant (p # ps) s =
     andthen (create_param h merchant p s) (\<lambda>(i, s1).
     andthen (record_each h merchant ps s1) (\<lambda>(ids, t). Inr (i # ids, t)))"

text \<open>The nonces a batch claims; zero stands for none.\<close>

definition nonces :: "BatchInvoiceParams list \<Rightarrow> u64 list" where
  "nonces ps = filter (\<lambda>n. n \<noteq> 0) (map bp_merchant_nonce ps)"

section \<open>The writes\<close>

text \<open>The loop body of the batch stores what \<open>create_invoice_record\<close> stores, in another order.\<close>

lemma batch_create_one_record:
  "batch_create_one h merchant p (ids, s) =
     andthen (create_param h merchant p s) (\<lambda>(i, t). Inr (ids @ [i], t))"
  by (cases s) (simp add: batch_create_one_def create_invoice_record_def Let_def put_invoice_def ok_or_def
      pending_index_add_def invoice_created_def publish_def andthen_def split: option.split)

lemma batch_loop_record:
  "fold_result (batch_create_one h merchant) ps (ids, s) =
     andthen (record_each h merchant ps s) (\<lambda>(new, t). Inr (ids @ new, t))"
  by (induction ps arbitrary: ids s)
    (auto simp: batch_create_one_record andthen_def split: sum.split)

lemma record_effect:
  assumes "create_param h merchant p s = Inr (i, t)"
  shows "i_paused t = i_paused s"
    "unat (unwrap_or (i_count t) 0) = Suc (unat (unwrap_or (i_count s) 0))"
    "i_merchant_nonce t (merchant, n) = None \<longleftrightarrow>
       i_merchant_nonce s (merchant, n) = None \<and> n \<notin> set (nonces [p])"
  using assms
  by (auto simp: nonces_def create_invoice_record_def Let_def put_invoice_def pending_index_add_def invoice_created_def
      publish_def result_simps arith_simps split: if_splits)

lemma record_each_count:
  "record_each h merchant ps s = Inr (ids, t) \<Longrightarrow>
     unat (unwrap_or (i_count t) 0) = unat (unwrap_or (i_count s) 0) + length ps"
  by (induction ps arbitrary: s ids) (auto simp: result_simps dest!: record_effect(2))

section \<open>The validation\<close>

definition param_ok :: "BatchInvoiceParams \<Rightarrow> bool" where
  "param_ok p \<longleftrightarrow>
     require_positive_amount (bp_amount_usdc p) (bp_gross_usdc p) = Inr () \<and>
     require_usdc_precision (bp_amount_usdc p) (bp_gross_usdc p) = Inr () \<and>
     require_hash_not_too_long (bp_metadata_hash p) = Inr () \<and>
     require_hash_not_too_long (bp_payment_link_hash p) = Inr () \<and>
     require_valid_payment_link_hash (bp_payment_link_hash p) = Inr () \<and>
     bp_expires_in_seconds p \<noteq> 0 \<and> require_expiry_not_too_long (bp_expires_in_seconds p) = Inr ()"

lemma validate_batch_param_eq_Inr:
  "validate_batch_param s merchant p ns = Inr ns' \<longleftrightarrow>
     param_ok p \<and> ns' = ns @ nonces [p] \<and>
     (\<forall>n\<in>set (nonces [p]). i_merchant_nonce s (merchant, n) = None \<and> n \<notin> set ns)"
  by (auto simp: validate_batch_param_def param_ok_def nonces_def result_simps)

lemma nonces_Cons: "nonces (p # ps) = nonces [p] @ nonces ps"
  by (simp add: nonces_def)

lemma distinct_nonces_single: "distinct (nonces [p])"
  by (simp add: nonces_def)

lemma validate_batch:
  "(\<exists>ns'. fold_result (validate_batch_param s merchant) ps ns = Inr ns') \<longleftrightarrow>
     list_all param_ok ps \<and> distinct (nonces ps) \<and>
     (\<forall>n\<in>set (nonces ps). i_merchant_nonce s (merchant, n) = None \<and> n \<notin> set ns)"
proof (induction ps arbitrary: ns)
  case Nil
  show ?case by (simp add: nonces_def)
next
  case (Cons p ps)
  have "(\<exists>ns'. fold_result (validate_batch_param s merchant) (p # ps) ns = Inr ns') \<longleftrightarrow>
      param_ok p \<and> (\<forall>n\<in>set (nonces [p]). i_merchant_nonce s (merchant, n) = None \<and> n \<notin> set ns) \<and>
      (\<exists>ns'. fold_result (validate_batch_param s merchant) ps (ns @ nonces [p]) = Inr ns')"
    by (auto simp: result_simps validate_batch_param_eq_Inr)
  then show ?case unfolding Cons.IH nonces_Cons [of p ps] using distinct_nonces_single [of p] by auto
qed

lemma create_invoice_eq_Inr:
  "create_invoice h s merchant (bp_amount_usdc p) (bp_gross_usdc p) (bp_expires_in_seconds p)
       (bp_metadata_hash p) (bp_payment_link_hash p) (bp_merchant_nonce p) (bp_token_address p) = Inr r \<longleftrightarrow>
     h_auth h merchant \<and> \<not> is_paused s \<and> param_ok p \<and>
     (\<forall>n\<in>set (nonces [p]). i_merchant_nonce s (merchant, n) = None) \<and> create_param h merchant p s = Inr r"
  by (auto simp: create_invoice_def param_ok_def nonces_def result_simps)

section \<open>Batch and sequence agree\<close>

lemma create_each_eq_Inr:
  "ps \<noteq> [] \<Longrightarrow> create_each h merchant ps s = Inr r \<longleftrightarrow>
     h_auth h merchant \<and> \<not> is_paused s \<and> list_all param_ok ps \<and> distinct (nonces ps) \<and>
     (\<forall>n\<in>set (nonces ps). i_merchant_nonce s (merchant, n) = None) \<and> record_each h merchant ps s = Inr r"
proof (induction ps arbitrary: s r)
  case (Cons p ps)
  have step: "is_paused s1 = is_paused s \<and>
      ((\<forall>n\<in>set (nonces ps). i_merchant_nonce s1 (merchant, n) = None) \<longleftrightarrow>
       (\<forall>n\<in>set (nonces ps). i_merchant_nonce s (merchant, n) = None \<and> n \<notin> set (nonces [p])))"
    if "create_param h merchant p s = Inr (i, s1)" for i s1
    using record_effect(1) [OF that] record_effect(3) [OF that]
    by (simp add: is_paused_def)
  show ?case
  proof (cases "ps = []")
    case True
    then show ?thesis using distinct_nonces_single [of p]
      by (auto simp: result_simps create_invoice_eq_Inr)
  next
    case False
    have "create_each h merchant (p # ps) s = Inr r \<longleftrightarrow>
      h_auth h merchant \<and> \<not> is_paused s \<and> param_ok p \<and>
      (\<forall>n\<in>set (nonces [p]). i_merchant_nonce s (merchant, n) = None) \<and>
      (\<exists>i s1 ids t. create_param h merchant p s = Inr (i, s1) \<and> create_each h merchant ps s1 = Inr (ids, t) \<and> r = (i # ids, t))"
      by (auto simp: result_simps create_invoice_eq_Inr)
    also have "\<dots> \<longleftrightarrow> h_auth h merchant \<and> \<not> is_paused s \<and> list_all param_ok (p # ps) \<and> distinct (nonces (p # ps)) \<and>
      (\<forall>n\<in>set (nonces (p # ps)). i_merchant_nonce s (merchant, n) = None) \<and>
      (\<exists>i s1 ids t. create_param h merchant p s = Inr (i, s1) \<and> record_each h merchant ps s1 = Inr (ids, t) \<and> r = (i # ids, t))"
      unfolding Cons.IH [OF False] nonces_Cons [of p ps] using distinct_nonces_single [of p] step by auto
    also have "\<dots> \<longleftrightarrow> h_auth h merchant \<and> \<not> is_paused s \<and> list_all param_ok (p # ps) \<and> distinct (nonces (p # ps)) \<and>
      (\<forall>n\<in>set (nonces (p # ps)). i_merchant_nonce s (merchant, n) = None) \<and> record_each h merchant (p # ps) s = Inr r"
      by (auto simp: result_simps)
    finally show ?thesis .
  qed
qed simp

lemma batch_create_eq_Inr:
  assumes "length ps < 2 ^ 64"
  shows "batch_create_invoice h s merchant ps = Inr r \<longleftrightarrow>
     h_auth h merchant \<and> \<not> is_paused s \<and> list_all param_ok ps \<and> distinct (nonces ps) \<and>
     (\<forall>n\<in>set (nonces ps). i_merchant_nonce s (merchant, n) = None) \<and> record_each h merchant ps s = Inr r"
proof -
  have n: "unat (word_of_nat (length ps) :: u64) = length ps"
    using assms by (simp add: unat_of_nat take_bit_nat_eq_self)
  have room: "\<exists>c. checked_add (unwrap_or (i_count s) 0) (word_of_nat (length ps)) = Some c"
    if "record_each h merchant ps s = Inr (ids, t)" for ids t
  proof -
    have "unat (unwrap_or (i_count t) 0) < 2 ^ LENGTH(64)" by (rule unsigned_less)
    with record_each_count [OF that] show ?thesis by (simp add: checked_add_def n)
  qed
  have loop: "fold_result (batch_create_one h merchant) ps ([], s) = record_each h merchant ps s"
    by (simp add: batch_loop_record andthen_def split: sum.split)
  have "batch_create_invoice h s merchant ps = Inr r \<longleftrightarrow> h_auth h merchant \<and> \<not> is_paused s \<and>
      (\<exists>ns. fold_result (validate_batch_param s merchant) ps [] = Inr ns) \<and>
      (\<exists>c. checked_add (unwrap_or (i_count s) 0) (word_of_nat (length ps)) = Some c) \<and>
      record_each h merchant ps s = Inr r"
    unfolding batch_create_invoice_def loop by (auto simp: result_simps simp del: fold_result.simps)
  then show ?thesis unfolding validate_batch using room by (cases r) auto
qed

section \<open>Properties\<close>

definition batch_host :: "unit host" where
  "batch_host =
     \<lparr>h_now = 10, h_seq = 0, h_self = 50, h_auth = (\<lambda>a. a = 7),
      h_transfer = (\<lambda>_ _ _ _ w. Some w), h_balance = (\<lambda>_ _ _. Some 0),
      h_is_allowed = (\<lambda>_ _ _. Some True), h_is_allowed_for_amount = (\<lambda>_ _ _ _. Some True)\<rparr>"

definition batch_params :: "BatchInvoiceParams list" where
  "batch_params = map (\<lambda>n. \<lparr>bp_amount_usdc = 20000000, bp_gross_usdc = 21000000, bp_expires_in_seconds = 3600,
     bp_metadata_hash = MB_None, bp_payment_link_hash = MB_None, bp_merchant_nonce = n, bp_token_address = MA_None\<rparr>) [4, 0, 5]"

text \<open>
  C25. A batch is its invoices one by one: for every non-empty list of parameters
  \<open>batch_create_invoice\<close> succeeds exactly when calling \<open>create_invoice\<close> for each
  element in turn succeeds every time, and then with the same ids and the same final
  state. In particular the validation of a batch against itself finds exactly the
  repeated nonces, and the check of the counter up front refuses no batch that fits.
\<close>

theorem batch_create_is_sequence:
  assumes "ps \<noteq> []" and "length ps < 2 ^ 64"
  shows "batch_create_invoice h s merchant ps = Inr r \<longleftrightarrow> create_each h merchant ps s = Inr r"
  unfolding batch_create_eq_Inr [OF assms(2)] create_each_eq_Inr [OF assms(1)] ..

theorem batch_create_is_sequence_witness:
  "\<exists>r. create_each batch_host 7 batch_params (empty_invoice_store ()) = Inr r \<and>
     batch_create_invoice batch_host (empty_invoice_store ()) 7 batch_params = Inr r"
proof -
  have "\<not> isl (create_each batch_host 7 batch_params (empty_invoice_store ()))"
    by (simp add: batch_host_def batch_params_def empty_invoice_store_def create_invoice_def create_invoice_record_def
        require_auth_def require_not_paused_def require_positive_amount_def require_usdc_precision_def USDC_FACTOR_def
        require_hash_not_too_long_def require_valid_payment_link_hash_def require_expiry_not_too_long_def
        MAX_EXPIRY_SECONDS_def checked_add_def put_invoice_def pending_index_add_def invoice_created_def publish_def
        Let_def word_less_nat_alt)
  then obtain r where r: "create_each batch_host 7 batch_params (empty_invoice_store ()) = Inr r"
    by (cases "create_each batch_host 7 batch_params (empty_invoice_store ())") simp_all
  with batch_create_is_sequence [of batch_params batch_host "empty_invoice_store ()" 7 r] show ?thesis
    by (auto simp: batch_params_def)
qed

end
