(* ===== verification/Protocol_Batch.thy ===== *)
theory Protocol_Batch
  imports Protocol_Runs
begin

text \<open>
  The batch entrypoint of the workflow against the reference its fuzz target
  (\<^verbatim>\<open>contracts/settlement-workflow/fuzz/fuzz_targets/execute_with_compliance_batch.rs\<close>)
  names: running the items one by one with \<open>execute_with_compliance\<close>, where a
  refused item leaves everything as it was.
\<close>

fun one_by_one ::
    "'w host \<Rightarrow> 'w peers \<Rightarrow> address \<Rightarrow> address \<Rightarrow> u64 list \<Rightarrow> 'w workflow \<Rightarrow> u64 list \<times> 'w workflow" where
  "one_by_one h x tok m [] s = ([], s)"
| "one_by_one h x tok m (i # ids) s =
     (case execute_with_compliance h x s i tok m of
        Inl _ \<Rightarrow> one_by_one h x tok m ids s
      | Inr t \<Rightarrow> (case one_by_one h x tok m ids t of (done_ids, u) \<Rightarrow> (i # done_ids, u)))"

definition gate_open :: "sites \<Rightarrow> 'v host \<Rightarrow> address \<Rightarrow> 'v system \<Rightarrow> bool" where
  "gate_open d g m s \<longleftrightarrow> \<not> Workflow.is_paused s \<and> w_compliance_id s = Some (site_compliance d) \<and>
     w_treasury_id s = Some (site_treasury d) \<and> Compliance_Ops.is_allowed g (p_compliance (w_world s)) m"

lemma open_gate_executes:
  assumes "gate_open d g m s"
  shows "execute_with_compliance (workflow_host d g) (protocol_peers d ext g) s i tok m =
    (case x_execute_settlement (protocol_peers d ext g) (site_treasury d) (site_workflow d) i tok (w_world s) of
       None \<Rightarrow> Inl Trap
     | Some w \<Rightarrow> (case t_settlements (p_treasury w) i of
         None \<Rightarrow> Inl Trap
       | Some st \<Rightarrow> Inr (Workflow.publish (Ev_settlement_workflow_executed i m tok (st_amount st)) (s\<lparr>w_world := w\<rparr>))))"
  using assms
  by (simp add: gate_open_def execute_with_compliance_def gate_defs settling.read_settlement split: option.split)

lemma execution_keeps_gate:
  assumes "gate_open d g m s"
    and "x_execute_settlement (protocol_peers d ext g) (site_treasury d) a i tok (w_world s) = Some w"
  shows "gate_open d g m (Workflow.publish e (s\<lparr>w_world := w\<rparr>))"
proof -
  have "p_compliance w = p_compliance (w_world s)"
    using assms(2) by (auto simp: protocol_peers_def)
  with assms(1) show ?thesis by (simp add: gate_open_def Workflow.is_paused_def Workflow.publish_def)
qed

lemma batch_loop_one_by_one:
  assumes "gate_open d g m s"
  shows "fold_result (execute_batch_one (workflow_host d g) (protocol_peers d ext g) (site_treasury d) tok m) ids (old, s) =
    (case one_by_one (workflow_host d g) (protocol_peers d ext g) tok m ids s of (done_ids, t) \<Rightarrow> Inr (old @ done_ids, t))"
  using assms
proof (induction ids arbitrary: old s)
  case (Cons i ids)
  let ?x = "protocol_peers d ext g"
  show ?case
  proof (cases "x_execute_settlement ?x (site_treasury d) (site_workflow d) i tok (w_world s)")
    case None
    with Cons.IH [OF Cons.prems] show ?thesis
      by (simp add: execute_batch_one_def open_gate_executes [OF Cons.prems])
  next
    case (Some w)
    from settling.execute_effect [OF this] obtain st where st: "t_settlements (p_treasury w) i = Some st" by auto
    let ?t = "Workflow.publish (Ev_settlement_workflow_executed i m tok (st_amount st)) (s\<lparr>w_world := w\<rparr>)"
    have "gate_open d g m ?t" by (rule execution_keeps_gate [OF Cons.prems Some])
    from Cons.IH [OF this, of "old @ [i]"] Some st show ?thesis
      by (simp add: execute_batch_one_def open_gate_executes [OF Cons.prems] settling.read_settlement split: prod.split)
  qed
qed simp

lemma batch_one_by_one:
  assumes "gate_open d g m s"
  shows "execute_with_compliance_batch (workflow_host d g) (protocol_peers d ext g) s ids tok m =
    (case one_by_one (workflow_host d g) (protocol_peers d ext g) tok m ids s of (done_ids, t) \<Rightarrow>
       Inr (done_ids, Workflow.publish (Ev_workflow_batch_completed (length ids) (length done_ids)) t))"
  using assms batch_loop_one_by_one [OF assms, of ext tok ids "[]"]
  by (simp add: gate_open_def execute_with_compliance_batch_def gate_defs split: prod.split)

text \<open>A closed gate refuses the batch as it refuses every item of it.\<close>

lemma closed_gate_refuses:
  assumes "w_compliance_id s = Some (site_compliance d)" "w_treasury_id s = Some (site_treasury d)" "\<not> gate_open d g m s"
  obtains e where "execute_with_compliance_batch (workflow_host d g) x s ids tok m = Inl (Err e)"
    "\<And>i. execute_with_compliance (workflow_host d g) x s i tok m = Inl (Err e)"
proof (cases "Workflow.is_paused s")
  case True
  with that [of "TreasuryCode T_ContractPaused"] show thesis
    by (simp add: execute_with_compliance_batch_def execute_with_compliance_def gate_defs)
next
  case False
  with assms have "\<not> Compliance_Ops.is_allowed g (p_compliance (w_world s)) m" by (simp add: gate_open_def)
  with False assms that [of "TreasuryCode T_ComplianceCheckFailed"] show thesis
    by (simp add: execute_with_compliance_batch_def execute_with_compliance_def gate_defs)
qed

end
