(* ===== verification/Protocol_Errors.thy ===== *)
theory Protocol_Errors
  imports Workflow Compliance_State Invoice_State
begin

text \<open>
  The numeric codes of the four error enums (\<^verbatim>\<open>crates/multisig\<close>,
  \<^verbatim>\<open>crates/invoice-errors\<close>, \<^verbatim>\<open>crates/compliance-errors\<close>, \<^verbatim>\<open>crates/workflow-errors\<close>) and
  \<^verbatim>\<open>crates/protocol-errors/src/lib.rs\<close>, the error type that spans them with the
  contract name and the user-facing description of each error.

  \<open>workflow_error_code\<close> and \<open>workflow_description\<close> have no entry for
  \<open>ResumeTooEarly\<close>, which the workflow contract returns and its error crate does not
  declare; \<open>compliance_description\<close> has the one arm of the source, and \<open>None\<close> for
  the variants its match does not cover.
\<close>

section \<open>Discriminants\<close>

primrec treasury_code :: "TreasuryError \<Rightarrow> u32" where
  "treasury_code T_AlreadyInitialized = 1"
| "treasury_code T_ZeroThreshold = 2"
| "treasury_code T_SettlementNotFound = 3"
| "treasury_code T_AlreadyExecuted = 4"
| "treasury_code T_ThresholdNotMet = 5"
| "treasury_code T_ThresholdNotConfigured = 6"
| "treasury_code T_InvalidAmount = 7"
| "treasury_code T_ContractPaused = 8"
| "treasury_code T_Unauthorized = 9"
| "treasury_code T_UnauthorizedSigner = 10"
| "treasury_code T_InvalidTokenContract = 11"
| "treasury_code T_TokenNotAllowed = 12"
| "treasury_code T_RotationNotFound = 13"
| "treasury_code T_RotationAlreadyExecuted = 14"
| "treasury_code T_SettlementOnHold = 15"
| "treasury_code T_DisputeNotExpired = 16"
| "treasury_code T_AlreadyOnHold = 17"
| "treasury_code T_ThresholdUnreachable = 18"
| "treasury_code T_ComplianceCheckFailed = 19"
| "treasury_code T_ArithmeticOverflow = 20"
| "treasury_code T_DisputeNotFound = 21"
| "treasury_code T_DisputeAlreadyResolved = 22"
| "treasury_code T_ResolutionDirectionMismatch = 23"
| "treasury_code T_BatchTooLarge = 24"
| "treasury_code T_WeightOverflow = 25"
| "treasury_code T_SettlementNotCancellable = 26"
| "treasury_code T_TtlNotElapsed = 27"
| "treasury_code T_AllowlistFull = 28"
| "treasury_code T_NotOnHold = 29"
| "treasury_code T_DestinationNotAllowed = 30"
| "treasury_code T_InsufficientBalance = 31"
| "treasury_code T_NotPaused = 32"
| "treasury_code T_RotationProposalCooldown = 33"
| "treasury_code T_WorkflowNotRegisteredSigner = 34"
| "treasury_code T_WithdrawalLimitExceeded = 35"
| "treasury_code T_InvalidSplitRatio = 36"
| "treasury_code T_ForceCancelNotAllowed = 37"
| "treasury_code T_SignerChangeTooEarly = 38"
| "treasury_code T_SignerChangeNotFound = 39"
| "treasury_code T_SignerChangeAlreadyFinalised = 40"
| "treasury_code T_ExecutionDeadlineExceeded = 41"
| "treasury_code T_QuorumBreak = 42"
| "treasury_code T_TokenHasPendingSettlements = 43"
| "treasury_code T_ApprovalNotFound = 44"
| "treasury_code T_DuplicateVote = 45"
| "treasury_code T_NoPendingAdmin = 46"
| "treasury_code T_LabelTooLong = 47"
| "treasury_code T_InvalidTimelockDelay = 48"
| "treasury_code T_DuplicateReferenceId = 49"
| "treasury_code T_TokenHasBalance = 50"

definition treasury_errors :: "TreasuryError list" where
  "treasury_errors =
     [T_AlreadyInitialized, T_ZeroThreshold, T_SettlementNotFound, T_AlreadyExecuted, T_ThresholdNotMet,
      T_ThresholdNotConfigured, T_InvalidAmount, T_ContractPaused, T_Unauthorized, T_UnauthorizedSigner,
      T_InvalidTokenContract, T_TokenNotAllowed, T_RotationNotFound, T_RotationAlreadyExecuted,
      T_SettlementOnHold, T_DisputeNotExpired, T_AlreadyOnHold, T_ThresholdUnreachable,
      T_ComplianceCheckFailed, T_ArithmeticOverflow, T_DisputeNotFound, T_DisputeAlreadyResolved,
      T_ResolutionDirectionMismatch, T_BatchTooLarge, T_WeightOverflow, T_SettlementNotCancellable,
      T_TtlNotElapsed, T_AllowlistFull, T_NotOnHold, T_DestinationNotAllowed, T_InsufficientBalance,
      T_NotPaused, T_RotationProposalCooldown, T_WorkflowNotRegisteredSigner, T_WithdrawalLimitExceeded,
      T_InvalidSplitRatio, T_ForceCancelNotAllowed, T_SignerChangeTooEarly, T_SignerChangeNotFound,
      T_SignerChangeAlreadyFinalised, T_ExecutionDeadlineExceeded, T_QuorumBreak,
      T_TokenHasPendingSettlements, T_ApprovalNotFound, T_DuplicateVote, T_NoPendingAdmin,
      T_LabelTooLong, T_InvalidTimelockDelay, T_DuplicateReferenceId, T_TokenHasBalance]"

primrec invoice_code :: "InvoiceError \<Rightarrow> u32" where
  "invoice_code IE_Unauthorized = 1"
| "invoice_code IE_ContractPaused = 2"
| "invoice_code IE_InvalidAmount = 3"
| "invoice_code IE_NotPending = 4"
| "invoice_code IE_Expired = 5"
| "invoice_code IE_NotFound = 6"
| "invoice_code IE_AlreadyInitialized = 7"
| "invoice_code IE_ZeroDuration = 8"
| "invoice_code IE_ExpiryOverflow = 9"
| "invoice_code IE_NotPaid = 10"
| "invoice_code IE_NotReleased = 11"
| "invoice_code IE_AmountPrecision = 12"
| "invoice_code IE_DuplicateNonce = 13"
| "invoice_code IE_ExpiryTooLong = 14"
| "invoice_code IE_MetadataMismatch = 15"
| "invoice_code IE_NoPendingAdmin = 16"
| "invoice_code IE_InvalidPaymentLinkHash = 17"
| "invoice_code IE_NotRefundRequested = 18"
| "invoice_code IE_TokenMismatch = 19"
| "invoice_code IE_BatchTooLarge = 20"
| "invoice_code IE_CooldownActive = 21"
| "invoice_code IE_InvoiceCountOverflow = 22"
| "invoice_code IE_HashTooLong = 23"
| "invoice_code IE_PaymentStateInconsistent = 24"
| "invoice_code IE_RefundTransferFailed = 25"
| "invoice_code IE_RefundTokenNotSet = 26"
| "invoice_code IE_RefundFeeTooHigh = 27"
| "invoice_code IE_ArithmeticOverflow = 28"
| "invoice_code IE_DiscountExceedsAmount = 29"
| "invoice_code IE_DiscountDeadlineAfterExpiry = 30"
| "invoice_code IE_MemoTooLong = 31"
| "invoice_code IE_RefundWindowClosed = 32"
| "invoice_code IE_SelfPayNotAllowed = 33"
| "invoice_code IE_TemplateDisabled = 34"
| "invoice_code IE_InvalidLateFee = 35"

definition invoice_errors :: "InvoiceError list" where
  "invoice_errors =
     [IE_Unauthorized, IE_ContractPaused, IE_InvalidAmount, IE_NotPending, IE_Expired, IE_NotFound,
      IE_AlreadyInitialized, IE_ZeroDuration, IE_ExpiryOverflow, IE_NotPaid, IE_NotReleased,
      IE_AmountPrecision, IE_DuplicateNonce, IE_ExpiryTooLong, IE_MetadataMismatch, IE_NoPendingAdmin,
      IE_InvalidPaymentLinkHash, IE_NotRefundRequested, IE_TokenMismatch, IE_BatchTooLarge,
      IE_CooldownActive, IE_InvoiceCountOverflow, IE_HashTooLong, IE_PaymentStateInconsistent,
      IE_RefundTransferFailed, IE_RefundTokenNotSet, IE_RefundFeeTooHigh, IE_ArithmeticOverflow,
      IE_DiscountExceedsAmount, IE_DiscountDeadlineAfterExpiry, IE_MemoTooLong, IE_RefundWindowClosed,
      IE_SelfPayNotAllowed, IE_TemplateDisabled, IE_InvalidLateFee]"

primrec compliance_code :: "ComplianceError \<Rightarrow> u32" where
  "compliance_code CE_AlreadyInitialized = 1"
| "compliance_code CE_Unauthorized = 2"
| "compliance_code CE_ContractPaused = 3"
| "compliance_code CE_BatchTooLarge = 4"
| "compliance_code CE_AddressIndexFull = 5"
| "compliance_code CE_BulkOperationCooldown = 6"
| "compliance_code CE_UnexpectedSchemaVersion = 7"
| "compliance_code CE_OperatorCannotClearAdminBlock = 8"
| "compliance_code CE_OperatorSetFull = 9"
| "compliance_code CE_InvalidJurisdictionCode = 10"
| "compliance_code CE_NoPendingAdmin = 11"

definition compliance_errors :: "ComplianceError list" where
  "compliance_errors =
     [CE_AlreadyInitialized, CE_Unauthorized, CE_ContractPaused, CE_BatchTooLarge, CE_AddressIndexFull,
      CE_BulkOperationCooldown, CE_UnexpectedSchemaVersion, CE_OperatorCannotClearAdminBlock,
      CE_OperatorSetFull, CE_InvalidJurisdictionCode, CE_NoPendingAdmin]"

primrec workflow_error_code :: "WorkflowError \<Rightarrow> u32 option" where
  "workflow_error_code WE_Unauthorized = Some 1"
| "workflow_error_code WE_NotConfigured = Some 2"
| "workflow_error_code WE_PauseTargetFailed = Some 3"
| "workflow_error_code WE_UnpauseTargetFailed = Some 4"
| "workflow_error_code WE_NoPauseTargets = Some 5"
| "workflow_error_code WE_TooManyPauseTargets = Some 6"
| "workflow_error_code WE_DuplicatePauseTarget = Some 7"
| "workflow_error_code WE_SelfPauseTarget = Some 8"
| "workflow_error_code WE_EmergencyPauseActive = Some 9"
| "workflow_error_code WE_NotEmergencyPaused = Some 10"
| "workflow_error_code WE_ResumeTooEarly = None"

definition workflow_errors :: "WorkflowError list" where
  "workflow_errors =
     [WE_Unauthorized, WE_NotConfigured, WE_PauseTargetFailed, WE_UnpauseTargetFailed, WE_NoPauseTargets,
      WE_TooManyPauseTargets, WE_DuplicatePauseTarget, WE_SelfPauseTarget, WE_EmergencyPauseActive,
      WE_NotEmergencyPaused]"

section \<open>Tables of codes\<close>

text \<open>
  An enum whose declared variants carry the codes \<open>1, 2, \<dots>, n\<close> in the order of
  their declaration, so that a code received from a contract names one variant.
\<close>

locale code_table =
  fixes code :: "'e \<Rightarrow> u32 option" and variants :: "'e list"
  assumes declared: "code e \<noteq> None \<longleftrightarrow> e \<in> set variants"
    and numbered: "map code variants = map (Some \<circ> word_of_nat) [1..<Suc (length variants)]"
    and few: "length variants < 2 ^ 32"
begin

lemma word_inj: "inj_on (word_of_nat :: nat \<Rightarrow> u32) {1..<Suc (length variants)}"
  using few by (intro inj_onI) (auto simp: word_of_nat_eq_iff take_bit_nat_eq_self)

lemma codes_distinct: "distinct (map code variants)"
proof -
  have "inj_on (Some \<circ> (word_of_nat :: nat \<Rightarrow> u32)) {1..<Suc (length variants)}"
    using word_inj by (simp add: comp_inj_on)
  then show ?thesis unfolding numbered distinct_map set_upt by (simp only: distinct_upt simp_thms)
qed

lemma code_inj: "code e = Some c \<Longrightarrow> code e' = Some c \<Longrightarrow> e = e'"
  using codes_distinct declared [of e] declared [of e'] by (auto simp: distinct_map elim!: inj_onD)

lemma code_range: "{c. \<exists>e. code e = Some c} = word_of_nat ` {1..length variants}"
proof -
  have "Some ` {c. \<exists>e. code e = Some c} = set (map code variants)"
    using declared by (force simp: image_iff)
  also have "\<dots> = Some ` (word_of_nat ` {1..length variants})"
    unfolding numbered by (auto simp: image_image atLeastLessThanSuc_atLeastAtMost)
  finally show ?thesis by (simp add: inj_image_eq_iff)
qed

end

lemma treasury_declared: "e \<in> set treasury_errors"
  by (cases e) (simp_all add: treasury_errors_def)

lemma invoice_declared: "e \<in> set invoice_errors"
  by (cases e) (simp_all add: invoice_errors_def)

lemma compliance_declared: "e \<in> set compliance_errors"
  by (cases e) (simp_all add: compliance_errors_def)

lemma workflow_declared: "workflow_error_code e \<noteq> None \<longleftrightarrow> e \<in> set workflow_errors"
  by (cases e) (simp_all add: workflow_errors_def)

interpretation treasury_table: code_table "\<lambda>e. Some (treasury_code e)" treasury_errors
  by unfold_locales (use treasury_declared in \<open>simp_all add: treasury_errors_def upt_conv_Cons\<close>)

interpretation invoice_table: code_table "\<lambda>e. Some (invoice_code e)" invoice_errors
  by unfold_locales (use invoice_declared in \<open>simp_all add: invoice_errors_def upt_conv_Cons\<close>)

interpretation compliance_table: code_table "\<lambda>e. Some (compliance_code e)" compliance_errors
  by unfold_locales (use compliance_declared in \<open>simp_all add: compliance_errors_def upt_conv_Cons\<close>)

interpretation workflow_table: code_table workflow_error_code workflow_errors
  by unfold_locales (use workflow_declared in \<open>simp_all add: workflow_errors_def upt_conv_Cons\<close>)

lemma table_sizes:
  "length treasury_errors = 50" "length invoice_errors = 35" "length compliance_errors = 11" "length workflow_errors = 10"
  by (simp_all add: treasury_errors_def invoice_errors_def compliance_errors_def workflow_errors_def)

lemma range_flip: "{c. \<exists>e. f e = c} = range f"
  by auto

text \<open>
  The codes in use. Every enum starts at 1, so a code alone does not tell the
  contract; the codes of the workflow are treasury codes as well.
\<close>

lemma code_ranges:
  "range treasury_code = word_of_nat ` {1..50}" "range invoice_code = word_of_nat ` {1..35}"
  "range compliance_code = word_of_nat ` {1..11}"
  "{x. \<exists>e. workflow_error_code e = Some x} = word_of_nat ` {1..10}"
  using treasury_table.code_range invoice_table.code_range compliance_table.code_range workflow_table.code_range
  by (simp_all add: table_sizes range_flip)

section \<open>The error type that spans the contracts\<close>

datatype ProtocolError =
    PE_Invoice InvoiceError
  | PE_Treasury TreasuryError
  | PE_Compliance ComplianceError
  | PE_Workflow WorkflowError

text \<open>The four \<open>From\<close> conversions.\<close>

definition from_InvoiceError :: "InvoiceError \<Rightarrow> ProtocolError" where
  "from_InvoiceError e = PE_Invoice e"

definition from_TreasuryError :: "TreasuryError \<Rightarrow> ProtocolError" where
  "from_TreasuryError e = PE_Treasury e"

definition from_ComplianceError :: "ComplianceError \<Rightarrow> ProtocolError" where
  "from_ComplianceError e = PE_Compliance e"

definition from_WorkflowError :: "WorkflowError \<Rightarrow> ProtocolError" where
  "from_WorkflowError e = PE_Workflow e"

fun contract_name :: "ProtocolError \<Rightarrow> string" where
  "contract_name (PE_Invoice _) = ''invoice''"
| "contract_name (PE_Treasury _) = ''treasury''"
| "contract_name (PE_Compliance _) = ''compliance''"
| "contract_name (PE_Workflow _) = ''settlement-workflow''"

primrec invoice_description :: "InvoiceError \<Rightarrow> string" where
  "invoice_description IE_Unauthorized = ''Caller is not authorized for this action.''"
| "invoice_description IE_ContractPaused = ''The invoice contract is paused.''"
| "invoice_description IE_InvalidAmount = ''The invoice amount is invalid.''"
| "invoice_description IE_NotPending = ''The invoice is not pending.''"
| "invoice_description IE_Expired = ''The invoice has expired.''"
| "invoice_description IE_NotFound = ''Invoice not found.''"
| "invoice_description IE_AlreadyInitialized = ''The invoice contract is already initialized.''"
| "invoice_description IE_ZeroDuration = ''The invoice duration must be greater than zero.''"
| "invoice_description IE_ExpiryOverflow = ''The invoice expiry time is out of range.''"
| "invoice_description IE_NotPaid = ''The invoice has not been paid.''"
| "invoice_description IE_NotReleased = ''The invoice escrow has not been released.''"
| "invoice_description IE_AmountPrecision = ''The amount has too many decimal places.''"
| "invoice_description IE_DuplicateNonce = ''This invoice nonce has already been used.''"
| "invoice_description IE_ExpiryTooLong = ''The invoice expiry is too far in the future.''"
| "invoice_description IE_MetadataMismatch = ''The invoice metadata does not match.''"
| "invoice_description IE_NoPendingAdmin = ''There is no pending admin transfer.''"
| "invoice_description IE_InvalidPaymentLinkHash = ''The payment link hash is invalid.''"
| "invoice_description IE_NotRefundRequested = ''No refund has been requested for this invoice.''"
| "invoice_description IE_TokenMismatch = ''The payment token does not match the invoice.''"
| "invoice_description IE_BatchTooLarge = ''Too many items in one batch.''"
| "invoice_description IE_CooldownActive = ''Please wait before trying this action again.''"
| "invoice_description IE_InvoiceCountOverflow = ''The invoice limit has been reached.''"
| "invoice_description IE_HashTooLong = ''The provided hash is too long.''"
| "invoice_description IE_PaymentStateInconsistent = ''The invoice does not describe a completed payment.''"
| "invoice_description IE_RefundTransferFailed = ''The refund transfer failed.''"
| "invoice_description IE_RefundTokenNotSet = ''The invoice has no token to refund through.''"
| "invoice_description IE_RefundFeeTooHigh = ''The refund fee is too high.''"
| "invoice_description IE_ArithmeticOverflow = ''The calculation overflowed.''"
| "invoice_description IE_DiscountExceedsAmount = ''The discount amount exceeds the invoice amount.''"
| "invoice_description IE_DiscountDeadlineAfterExpiry = ''The discount deadline is after the invoice expiry.''"
| "invoice_description IE_MemoTooLong = ''The memo field is too long.''"
| "invoice_description IE_RefundWindowClosed = ''The refund window for this invoice has closed.''"
| "invoice_description IE_SelfPayNotAllowed = ''A merchant cannot pay its own invoice.''"
| "invoice_description IE_TemplateDisabled = ''The invoice template is disabled.''"
| "invoice_description IE_InvalidLateFee = ''The late fee exceeds 100%.''"

primrec treasury_description :: "TreasuryError \<Rightarrow> string" where
  "treasury_description T_AlreadyInitialized = ''The treasury contract is already initialized.''"
| "treasury_description T_ZeroThreshold = ''The signer threshold must be greater than zero.''"
| "treasury_description T_SettlementNotFound = ''Settlement not found.''"
| "treasury_description T_AlreadyExecuted = ''The settlement has already been executed.''"
| "treasury_description T_ThresholdNotMet = ''Not enough signer approvals yet.''"
| "treasury_description T_ThresholdNotConfigured = ''The signer threshold is not configured.''"
| "treasury_description T_InvalidAmount = ''The amount is invalid.''"
| "treasury_description T_ContractPaused = ''The treasury contract is paused.''"
| "treasury_description T_Unauthorized = ''Caller is not authorized for this action.''"
| "treasury_description T_UnauthorizedSigner = ''Caller is not an authorized signer.''"
| "treasury_description T_InvalidTokenContract = ''The token contract is invalid.''"
| "treasury_description T_TokenNotAllowed = ''This token is not allowed.''"
| "treasury_description T_RotationNotFound = ''Signer rotation not found.''"
| "treasury_description T_RotationAlreadyExecuted = ''The signer rotation has already been executed.''"
| "treasury_description T_SettlementOnHold = ''The settlement is on hold.''"
| "treasury_description T_DisputeNotExpired = ''The dispute window has not ended yet.''"
| "treasury_description T_AlreadyOnHold = ''The settlement is already on hold.''"
| "treasury_description T_ThresholdUnreachable = ''The threshold exceeds the available signer weight.''"
| "treasury_description T_ComplianceCheckFailed = ''The address failed the compliance check.''"
| "treasury_description T_ArithmeticOverflow = ''The calculation overflowed.''"
| "treasury_description T_DisputeNotFound = ''Dispute not found.''"
| "treasury_description T_DisputeAlreadyResolved = ''The dispute has already been resolved.''"
| "treasury_description T_ResolutionDirectionMismatch = ''The dispute resolution direction is invalid.''"
| "treasury_description T_BatchTooLarge = ''Too many items in one batch.''"
| "treasury_description T_WeightOverflow = ''The total signer weight is too large.''"
| "treasury_description T_SettlementNotCancellable = ''The settlement cannot be cancelled.''"
| "treasury_description T_TtlNotElapsed = ''The settlement has not expired yet.''"
| "treasury_description T_AllowlistFull = ''The allowlist is full.''"
| "treasury_description T_NotOnHold = ''The settlement is not on hold.''"
| "treasury_description T_DestinationNotAllowed = ''The destination address is not allowed.''"
| "treasury_description T_InsufficientBalance = ''Insufficient treasury balance.''"
| "treasury_description T_NotPaused = ''The treasury contract is not paused.''"
| "treasury_description T_RotationProposalCooldown = ''Please wait before proposing another signer rotation.''"
| "treasury_description T_WorkflowNotRegisteredSigner = ''The settlement workflow is not a registered signer.''"
| "treasury_description T_WithdrawalLimitExceeded = ''The withdrawal limit has been exceeded.''"
| "treasury_description T_InvalidSplitRatio = ''The dispute split ratio is invalid.''"
| "treasury_description T_ForceCancelNotAllowed = ''The settlement cannot be force-cancelled.''"
| "treasury_description T_SignerChangeTooEarly = ''The signer change delay has not elapsed yet.''"
| "treasury_description T_SignerChangeNotFound = ''Signer change not found.''"
| "treasury_description T_SignerChangeAlreadyFinalised = ''The signer change has already been finalised.''"
| "treasury_description T_ExecutionDeadlineExceeded = ''The settlement execution deadline has passed.''"
| "treasury_description T_QuorumBreak = ''Removing this signer would make the threshold unreachable.''"
| "treasury_description T_TokenHasPendingSettlements = ''The token still has pending settlements.''"
| "treasury_description T_ApprovalNotFound = ''The signer has not approved this settlement.''"
| "treasury_description T_DuplicateVote = ''The signer has already voted on this dispute.''"
| "treasury_description T_NoPendingAdmin = ''There is no pending admin transfer.''"
| "treasury_description T_LabelTooLong = ''The signer label is too long.''"
| "treasury_description T_InvalidTimelockDelay = ''The timelock delay is outside the allowed bounds.''"
| "treasury_description T_DuplicateReferenceId = ''This deposit reference id was already used recently.''"
| "treasury_description T_TokenHasBalance = ''The token still has depositor balances and cannot be removed.''"

primrec compliance_description :: "ComplianceError \<Rightarrow> string option" where
  "compliance_description CE_AlreadyInitialized = Some ''The compliance contract is already initialized.''"
| "compliance_description CE_Unauthorized = None"
| "compliance_description CE_ContractPaused = None"
| "compliance_description CE_BatchTooLarge = None"
| "compliance_description CE_AddressIndexFull = None"
| "compliance_description CE_BulkOperationCooldown = None"
| "compliance_description CE_UnexpectedSchemaVersion = None"
| "compliance_description CE_OperatorCannotClearAdminBlock = None"
| "compliance_description CE_OperatorSetFull = None"
| "compliance_description CE_InvalidJurisdictionCode = None"
| "compliance_description CE_NoPendingAdmin = None"

primrec workflow_description :: "WorkflowError \<Rightarrow> string option" where
  "workflow_description WE_Unauthorized = Some ''Caller is not the emergency-pause admin.''"
| "workflow_description WE_NotConfigured = Some ''Emergency pause has not been configured.''"
| "workflow_description WE_PauseTargetFailed = Some ''A target refused to pause; no targets were paused.''"
| "workflow_description WE_UnpauseTargetFailed = Some ''A target refused to unpause; no targets were resumed.''"
| "workflow_description WE_NoPauseTargets = Some ''An empty pause target set was supplied.''"
| "workflow_description WE_TooManyPauseTargets = Some ''Too many pause targets supplied.''"
| "workflow_description WE_DuplicatePauseTarget = Some ''The pause target list contains a duplicate address.''"
| "workflow_description WE_SelfPauseTarget = Some ''The workflow contract cannot be its own pause target.''"
| "workflow_description WE_EmergencyPauseActive = Some ''Cannot reconfigure targets while an emergency pause is active.''"
| "workflow_description WE_NotEmergencyPaused = Some ''No emergency pause is currently active.''"
| "workflow_description WE_ResumeTooEarly = None"

fun description :: "ProtocolError \<Rightarrow> string option" where
  "description (PE_Invoice e) = Some (invoice_description e)"
| "description (PE_Treasury e) = Some (treasury_description e)"
| "description (PE_Compliance e) = compliance_description e"
| "description (PE_Workflow e) = workflow_description e"

text \<open>The code a contract reports for an error of its enum.\<close>

fun protocol_code :: "ProtocolError \<Rightarrow> u32 option" where
  "protocol_code (PE_Invoice e) = Some (invoice_code e)"
| "protocol_code (PE_Treasury e) = Some (treasury_code e)"
| "protocol_code (PE_Compliance e) = Some (compliance_code e)"
| "protocol_code (PE_Workflow e) = workflow_error_code e"

section \<open>No two errors of a contract read alike\<close>

lemma inj_from_table: "distinct (map f xs) \<Longrightarrow> (\<And>x. x \<in> set xs) \<Longrightarrow> f a = f b \<longleftrightarrow> a = b"
  by (auto simp: distinct_map dest: inj_onD)

lemma treasury_description_inj: "treasury_description a = treasury_description b \<longleftrightarrow> a = b"
  by (rule inj_from_table [where xs = treasury_errors])
    (use treasury_declared in \<open>simp_all add: treasury_errors_def\<close>)

lemma invoice_description_inj: "invoice_description a = invoice_description b \<longleftrightarrow> a = b"
  by (rule inj_from_table [where xs = invoice_errors])
    (use invoice_declared in \<open>simp_all add: invoice_errors_def\<close>)

lemma compliance_description_inj:
  "compliance_description a = Some d \<Longrightarrow> compliance_description b = Some d \<Longrightarrow> a = b"
  by (cases a; cases b) simp_all

lemma workflow_description_inj:
  "workflow_description a = Some d \<Longrightarrow> workflow_description b = Some d \<Longrightarrow> a = b"
  by (cases a; cases b) auto

lemma described_once:
  "contract_name a = contract_name b \<Longrightarrow> description a = Some d \<Longrightarrow> description b = Some d \<Longrightarrow> a = b"
  by (cases a; cases b)
    (auto simp: treasury_description_inj invoice_description_inj
      dest: compliance_description_inj workflow_description_inj)

lemma coded_once:
  "contract_name a = contract_name b \<Longrightarrow> protocol_code a = Some c \<Longrightarrow> protocol_code b = Some c \<Longrightarrow> a = b"
  by (cases a; cases b)
    (auto intro: treasury_table.code_inj invoice_table.code_inj compliance_table.code_inj workflow_table.code_inj)

end
