(* ===== verification/Compliance_Client.thy ===== *)
theory Compliance_Client
  imports Compliance_Ops Treasury_State
begin

text \<open>
  \<^verbatim>\<open>crates/compliance-client/src/lib.rs\<close>: the wrapper other contracts use to call a
  compliance contract, and the in-memory double its tests use in place of it.

  The generated client of the trait \<open>ComplianceInterface\<close> is a record of
  cross-contract calls: contract id, arguments and ledger to the answer, \<open>None\<close> when
  the invocation fails. \<open>contract_interface\<close> fills the record with the model of the
  compliance contract.
\<close>

section \<open>The client\<close>

record 'w ComplianceInterface =
  ci_is_allowed :: "address \<Rightarrow> address \<Rightarrow> 'w \<Rightarrow> bool option"
  ci_is_allowed_for_amount :: "address \<Rightarrow> address \<Rightarrow> i128 \<Rightarrow> 'w \<Rightarrow> bool option"
  ci_bulk_check_addresses :: "address \<Rightarrow> address list \<Rightarrow> 'w \<Rightarrow> bool list option"

record 'w ComplianceClient =
  cc_env :: "'w ComplianceInterface"
  cc_contract_id :: address

definition new_client :: "'w ComplianceInterface \<Rightarrow> address \<Rightarrow> 'w ComplianceClient" where
  "new_client env contract_id = \<lparr>cc_env = env, cc_contract_id = contract_id\<rparr>"

definition client_is_allowed :: "'w ComplianceClient \<Rightarrow> 'w \<Rightarrow> address \<Rightarrow> ('e, bool) outcome" where
  "client_is_allowed c w address = ok_or (ci_is_allowed (cc_env c) (cc_contract_id c) address w) Trap"

definition client_is_allowed_for_amount ::
    "'w ComplianceClient \<Rightarrow> 'w \<Rightarrow> address \<Rightarrow> i128 \<Rightarrow> ('e, bool) outcome" where
  "client_is_allowed_for_amount c w address amount =
     ok_or (ci_is_allowed_for_amount (cc_env c) (cc_contract_id c) address amount w) Trap"

definition client_bulk_check_addresses ::
    "'w ComplianceClient \<Rightarrow> 'w \<Rightarrow> address list \<Rightarrow> ('e, bool list) outcome" where
  "client_bulk_check_addresses c w addresses =
     ok_or (ci_bulk_check_addresses (cc_env c) (cc_contract_id c) addresses w) Trap"

definition require_allowed :: "'w ComplianceClient \<Rightarrow> 'w \<Rightarrow> address \<Rightarrow> 'e \<Rightarrow> ('e, unit) outcome" where
  "require_allowed c w address error =
     andthen (client_is_allowed c w address) (\<lambda>allowed. if allowed then Inr () else Inl (Err error))"

definition client_require_allowed_for_treasury ::
    "'w ComplianceClient \<Rightarrow> 'w \<Rightarrow> address \<Rightarrow> (TreasuryError, unit) outcome" where
  "client_require_allowed_for_treasury c w address = require_allowed c w address T_ComplianceCheckFailed"

section \<open>The test double\<close>

record MockComplianceClient =
  mc_responses :: "address \<rightharpoonup> bool"
  mc_default_allowed :: bool

definition new_mock :: "bool \<Rightarrow> MockComplianceClient" where
  "new_mock default_allowed = \<lparr>mc_responses = Map.empty, mc_default_allowed = default_allowed\<rparr>"

definition mock_set_allowed :: "address \<Rightarrow> bool \<Rightarrow> MockComplianceClient \<Rightarrow> MockComplianceClient" where
  "mock_set_allowed address allowed m = m\<lparr>mc_responses := (mc_responses m)(address \<mapsto> allowed)\<rparr>"

definition mock_is_allowed :: "MockComplianceClient \<Rightarrow> address \<Rightarrow> bool" where
  "mock_is_allowed m address = unwrap_or (mc_responses m address) (mc_default_allowed m)"

definition mock_require_allowed :: "MockComplianceClient \<Rightarrow> address \<Rightarrow> 'e \<Rightarrow> ('e, unit) outcome" where
  "mock_require_allowed m address error = (if mock_is_allowed m address then Inr () else Inl (Err error))"

section \<open>The gate both implement\<close>

text \<open>
  A screening gate has a verdict per address, possibly none when the screening
  contract cannot be reached, and a check that turns a refusal into the error of
  the caller's choice. Clients rely on nothing else.
\<close>

locale screening_gate =
  fixes verdict :: "'c \<Rightarrow> address \<Rightarrow> bool option"
    and check :: "'c \<Rightarrow> address \<Rightarrow> 'e \<Rightarrow> ('e, unit) outcome"
  assumes check_eq: "check c a e =
    (case verdict c a of None \<Rightarrow> Inl Trap | Some allowed \<Rightarrow> require allowed (Err e))"
begin

lemma check_passes_iff: "check c a e = Inr () \<longleftrightarrow> verdict c a = Some True"
  by (simp add: check_eq result_simps split: option.split)

lemma check_refuses_iff: "check c a e = Inl (Err e') \<longleftrightarrow> verdict c a = Some False \<and> e' = e"
  by (auto simp: check_eq result_simps split: option.split)

lemma check_never_unsigned: "check c a e \<noteq> Inl AuthTrap"
  by (auto simp: check_eq result_simps split: option.split)

end

interpretation client_gate: screening_gate
    "\<lambda>(c, w) a. ci_is_allowed (cc_env c) (cc_contract_id c) a w"
    "\<lambda>(c, w) a e. require_allowed c w a e"
  by unfold_locales (auto simp: require_allowed_def client_is_allowed_def require_def split: option.split)

interpretation mock_gate: screening_gate "\<lambda>m a. Some (mock_is_allowed m a)" mock_require_allowed
  by unfold_locales (simp add: mock_require_allowed_def require_def)

text \<open>A double programmed with the verdict of the contract refuses and passes as the client does.\<close>

lemma mock_stands_in:
  assumes "ci_is_allowed (cc_env c) (cc_contract_id c) a w = Some b"
  shows "mock_require_allowed (mock_set_allowed a b m) a e = require_allowed c w a e"
  using client_gate.check_eq [of "(c, w)" a e] assms
  by (simp add: mock_gate.check_eq mock_is_allowed_def mock_set_allowed_def)

lemma mock_default: "mock_is_allowed (new_mock d) a = d"
  by (simp add: mock_is_allowed_def new_mock_def)

lemma mock_set_other: "a \<noteq> b \<Longrightarrow> mock_is_allowed (mock_set_allowed a x m) b = mock_is_allowed m b"
  by (simp add: mock_is_allowed_def mock_set_allowed_def)

section \<open>Calling the compliance contract\<close>

text \<open>
  The interface on a ledger with compliance contracts: \<open>site w id\<close> is the state of the
  contract at \<open>id\<close>, if one is deployed there.
\<close>

definition contract_interface ::
    "'v host \<Rightarrow> ('w \<Rightarrow> address \<Rightarrow> compliance option) \<Rightarrow> 'w ComplianceInterface" where
  "contract_interface h site =
     \<lparr>ci_is_allowed = (\<lambda>contract_id a w. map_option (\<lambda>s. is_allowed h s a) (site w contract_id)),
      ci_is_allowed_for_amount =
        (\<lambda>contract_id a amount w. map_option (\<lambda>s. is_allowed_for_amount h s a amount) (site w contract_id)),
      ci_bulk_check_addresses =
        (\<lambda>contract_id xs w. case site w contract_id of
           None \<Rightarrow> None
         | Some s \<Rightarrow> (case bulk_check_addresses h s xs of Inr bs \<Rightarrow> Some bs | Inl _ \<Rightarrow> None))\<rparr>"

lemma bulk_check_length:
  "bulk_check_addresses h s xs = Inr bs \<longleftrightarrow>
     length xs \<le> Compliance_State.MAX_BATCH_SIZE \<and> bs = map (is_allowed h s) xs"
  by (auto simp: bulk_check_addresses_def result_simps is_allowed_def cong: map_cong)

text \<open>
  One bulk call answers as the single calls would, in their order; a batch over the
  bound of the entrypoint is a failed invocation for the caller.
\<close>

lemma client_bulk_is_pointwise:
  assumes "site w (cc_contract_id c) = Some s" "cc_env c = contract_interface h site"
  shows "client_bulk_check_addresses c w xs =
    (if length xs \<le> Compliance_State.MAX_BATCH_SIZE
     then Inr (map (\<lambda>a. ci_is_allowed (cc_env c) (cc_contract_id c) a w = Some True) xs)
     else Inl Trap)"
proof (cases "length xs \<le> Compliance_State.MAX_BATCH_SIZE")
  case True
  then have "bulk_check_addresses h s xs = Inr (map (is_allowed h s) xs)" by (simp add: bulk_check_length)
  with True assms show ?thesis by (simp add: client_bulk_check_addresses_def contract_interface_def cong: map_cong)
next
  case False
  then have "isl (bulk_check_addresses h s xs)"
    by (cases "bulk_check_addresses h s xs") (auto simp: bulk_check_length)
  with False assms show ?thesis
    by (auto simp: client_bulk_check_addresses_def contract_interface_def split: sum.split)
qed

lemma client_amount_implies_allowed:
  assumes "cc_env c = contract_interface h site"
    and "client_is_allowed_for_amount c w a amount = Inr True"
  shows "client_is_allowed c w a = Inr True"
  using assms by (auto simp: client_is_allowed_for_amount_def client_is_allowed_def contract_interface_def
      is_allowed_for_amount_def is_allowed_def result_simps split: if_splits)

text \<open>The treasury's and the workflow's gate is the client method on the host's calls.\<close>

lemma require_allowed_for_treasury_is_client:
  assumes "ci_is_allowed env = h_is_allowed h"
  shows "client_require_allowed_for_treasury (new_client env compliance) w a =
    require_allowed_for_treasury h compliance w a"
  using assms by (simp add: client_require_allowed_for_treasury_def require_allowed_def client_is_allowed_def
      new_client_def require_allowed_for_treasury_def require_def)

end
