(* ===== verification/Fuzz_Compliance.thy ===== *)
theory Fuzz_Compliance
  imports Compliance_Rules
begin

text \<open>
  \<^verbatim>\<open>contracts/compliance/fuzz/fuzz_targets/is_allowed.rs\<close>: the differential fuzz
  target of the compliance contract. It replays a sequence of admin mutations and
  clock changes on a fresh contract and on a four-field mirror of each subject,
  and asserts after every step that the contract and the mirror agree.

  The target itself is a function here, from the fuzzer's input to whether every
  assertion holds. Two results: on inputs that never clear a subject with a timed
  allowance the target passes, whatever the sequence; a timed allowance that is
  cleared makes it fail, because the mirror keeps the expiry \<open>clear_address\<close>
  removes. The failure text (\<open>log\<close>) is not modelled.
\<close>

section \<open>The target\<close>

definition MAX_OPS :: nat where "MAX_OPS = 12"

definition SUBJECT_POOL :: nat where "SUBJECT_POOL = 4"

datatype Op =
    Op_Allow "8 word"
  | Op_AllowUntil "8 word" u64
  | Op_Block "8 word"
  | Op_BlockUntil "8 word" u64
  | Op_Clear "8 word"
  | Op_Revoke "8 word"
  | Op_Pause
  | Op_Unpause
  | Op_AdvanceTime u64
  | Op_JumpToBoundary "8 word" "8 word"

record Model =
  m_allowed :: bool
  m_allowed_until :: "u64 option"
  m_blocked :: bool
  m_blocked_until :: "u64 option"
  m_last_boundary :: "u64 option"

definition default_Model :: Model where
  "default_Model =
     \<lparr>m_allowed = False, m_allowed_until = None, m_blocked = False, m_blocked_until = None,
      m_last_boundary = None\<rparr>"

definition reference_is_allowed :: "Model \<Rightarrow> u64 \<Rightarrow> bool" where
  "reference_is_allowed m now =
     (if m_blocked m \<and>
         \<not> (case m_blocked_until m of Some unblock_at \<Rightarrow> now \<ge> unblock_at | None \<Rightarrow> False) then False
      else if \<not> m_allowed m then False
      else case m_allowed_until m of
             Some expires_at \<Rightarrow> now < expires_at
           | None \<Rightarrow> True)"

fun apply_op :: "Op \<Rightarrow> bool \<Rightarrow> Model \<Rightarrow> Model" where
  "apply_op (Op_Allow _) paused m =
     (if \<not> paused then m\<lparr>m_allowed := True, m_allowed_until := None\<rparr> else m)"
| "apply_op (Op_AllowUntil _ expires_at) paused m =
     (if \<not> paused
      then m\<lparr>m_allowed := True, m_allowed_until := Some expires_at, m_last_boundary := Some expires_at\<rparr>
      else m)"
| "apply_op (Op_Block _) paused m = m\<lparr>m_blocked := True\<rparr>"
| "apply_op (Op_BlockUntil _ unblock_at) paused m =
     m\<lparr>m_blocked := True, m_blocked_until := Some unblock_at, m_last_boundary := Some unblock_at\<rparr>"
| "apply_op (Op_Clear _) paused m =
     m\<lparr>m_blocked := False, m_blocked_until := None, m_allowed := True\<rparr>"
| "apply_op (Op_Revoke _) paused m =
     (if \<not> paused then m\<lparr>m_allowed := False, m_allowed_until := None\<rparr> else m)"
| "apply_op _ paused m = m"

text \<open>\<open>u64::saturating_add_signed\<close>; the offset is an \<open>i8\<close> widened by \<open>as i64\<close>.\<close>

definition saturating_add_signed :: "u64 \<Rightarrow> 64 word \<Rightarrow> u64" where
  "saturating_add_signed a b =
     (let r = uint a + sint b
      in if r < 0 then 0 else if r > 2 ^ 64 - 1 then - 1 else word_of_int r)"

fun subject_idx :: "Op \<Rightarrow> nat" where
  "subject_idx (Op_Allow subject) = unat subject mod SUBJECT_POOL"
| "subject_idx (Op_AllowUntil subject _) = unat subject mod SUBJECT_POOL"
| "subject_idx (Op_Block subject) = unat subject mod SUBJECT_POOL"
| "subject_idx (Op_BlockUntil subject _) = unat subject mod SUBJECT_POOL"
| "subject_idx (Op_Clear subject) = unat subject mod SUBJECT_POOL"
| "subject_idx (Op_Revoke subject) = unat subject mod SUBJECT_POOL"
| "subject_idx (Op_JumpToBoundary subject _) = unat subject mod SUBJECT_POOL"
| "subject_idx _ = 0 mod SUBJECT_POOL"

text \<open>
  The variable \<open>now\<close> of the target and the ledger clock are always set together and
  are one field here.
\<close>

record harness =
  z_contract :: compliance
  z_model :: "Model list"
  z_now :: u64
  z_paused :: bool

definition harness_env :: "'w host \<Rightarrow> harness \<Rightarrow> 'w host" where
  "harness_env h z = (mock_all_auths h)\<lparr>h_now := z_now z\<rparr>"

text \<open>\<open>let _ = client.try_\<dots>(\<dots>)\<close>: a failed invocation leaves the contract as it was.\<close>

definition try_call :: "compliance c_outcome \<Rightarrow> harness \<Rightarrow> harness" where
  "try_call r z = (case r of Inr s \<Rightarrow> z\<lparr>z_contract := s\<rparr> | Inl _ \<Rightarrow> z)"

fun replay_op :: "'w host \<Rightarrow> address \<Rightarrow> address \<Rightarrow> Op \<Rightarrow> harness \<Rightarrow> harness" where
  "replay_op h admin subject (Op_Allow _) z =
     try_call (allow_address (harness_env h z) (z_contract z) admin subject) z"
| "replay_op h admin subject (Op_AllowUntil _ expires_at) z =
     try_call (allow_address_until (harness_env h z) (z_contract z) admin subject expires_at) z"
| "replay_op h admin subject (Op_Block _) z =
     try_call (block_address (harness_env h z) (z_contract z) admin subject None) z"
| "replay_op h admin subject (Op_BlockUntil _ unblock_at) z =
     try_call (block_address_until (harness_env h z) (z_contract z) admin subject unblock_at None) z"
| "replay_op h admin subject (Op_Clear _) z =
     try_call (clear_address (harness_env h z) (z_contract z) admin subject) z"
| "replay_op h admin subject (Op_Revoke _) z =
     try_call (revoke_allow (harness_env h z) (z_contract z) admin subject) z"
| "replay_op h admin subject Op_Pause z =
     (try_call (pause_with_reason (harness_env h z) (z_contract z) admin ''fuzz'') z)\<lparr>z_paused := True\<rparr>"
| "replay_op h admin subject Op_Unpause z =
     (try_call (unpause (harness_env h z) (z_contract z) admin) z)\<lparr>z_paused := False\<rparr>"
| "replay_op h admin subject (Op_AdvanceTime delta) z = z\<lparr>z_now := saturating_add (z_now z) delta\<rparr>"
| "replay_op h admin subject (Op_JumpToBoundary b offset) z =
     (case m_last_boundary (z_model z ! subject_idx (Op_JumpToBoundary b offset)) of
        Some boundary \<Rightarrow> z\<lparr>z_now := saturating_add_signed boundary (scast offset)\<rparr>
      | None \<Rightarrow> z)"

definition fuzz_step :: "'w host \<Rightarrow> address \<Rightarrow> address list \<Rightarrow> Op \<Rightarrow> harness \<Rightarrow> harness" where
  "fuzz_step h admin subjects op z =
     (let i = subject_idx op;
          z1 = replay_op h admin (subjects ! i) op z
      in z1\<lparr>z_model := (z_model z1)[i := apply_op op (z_paused z1) (z_model z1 ! i)]\<rparr>)"

text \<open>The inner loop of assertions over all subjects, and the outer loop over the operations.\<close>

definition models_agree :: "'w host \<Rightarrow> address list \<Rightarrow> harness \<Rightarrow> bool" where
  "models_agree h subjects z =
     list_all (\<lambda>i. is_allowed (harness_env h z) (z_contract z) (subjects ! i) =
                     reference_is_allowed (z_model z ! i) (z_now z)) [0..<length subjects]"

fun fuzz_loop :: "'w host \<Rightarrow> address \<Rightarrow> address list \<Rightarrow> Op list \<Rightarrow> harness \<Rightarrow> bool" where
  "fuzz_loop h admin subjects [] z = True"
| "fuzz_loop h admin subjects (op # ops) z =
     (let z' = fuzz_step h admin subjects op z
      in models_agree h subjects z' \<and> fuzz_loop h admin subjects ops z')"

definition fuzz_is_allowed :: "'w host \<Rightarrow> address \<Rightarrow> address list \<Rightarrow> Op list \<Rightarrow> bool" where
  "fuzz_is_allowed h admin subjects ops =
     (case initialize (mock_all_auths h) empty_compliance admin of
        Inl _ \<Rightarrow> False
      | Inr s \<Rightarrow> fuzz_loop h admin subjects (take MAX_OPS ops)
          \<lparr>z_contract = s, z_model = replicate SUBJECT_POOL default_Model, z_now = h_now h, z_paused = False\<rparr>)"

section \<open>The mirror is faithful\<close>

text \<open>What the mirror records of one subject, read off the contract.\<close>

definition mirrors :: "compliance \<Rightarrow> address \<Rightarrow> Model \<Rightarrow> bool" where
  "mirrors s a m \<longleftrightarrow>
     m_allowed m = unwrap_or (c_allowed s a) False \<and> m_allowed_until m = c_allowed_until s a \<and>
     m_blocked m = is_blocked s a \<and> m_blocked_until m = c_blocked_until s a"

lemma mirrors_reference: "mirrors s a m \<Longrightarrow> is_allowed_at s a now = reference_is_allowed m now"
  by (auto simp: mirrors_def is_allowed_at_def is_blocked_def reference_is_allowed_def split: option.split)

text \<open>
  A timed allowance is cleared: the one step after which mirror and contract differ.
\<close>

fun pause_after :: "Op \<Rightarrow> bool \<Rightarrow> bool" where
  "pause_after Op_Pause paused = True"
| "pause_after Op_Unpause paused = False"
| "pause_after _ paused = paused"

fun clears_timed :: "Op \<Rightarrow> Model \<Rightarrow> bool" where
  "clears_timed (Op_Clear _) m = (m_allowed_until m \<noteq> None)"
| "clears_timed _ m = False"

fun timed_clear :: "Op list \<Rightarrow> bool \<Rightarrow> Model list \<Rightarrow> bool" where
  "timed_clear [] paused ms = False"
| "timed_clear (op # ops) paused ms =
     (let i = subject_idx op; paused' = pause_after op paused
      in clears_timed op (ms ! i) \<or> timed_clear ops paused' (ms[i := apply_op op paused' (ms ! i)]))"

text \<open>
  While fewer addresses than the index holds are tracked, a write that ends in
  \<open>track_address\<close> succeeds and the index grows by at most one entry.
\<close>

definition tracked_count :: "compliance \<Rightarrow> nat" where
  "tracked_count s = unat (unwrap_or (c_index_count s) 0)"

lemma track_has_room:
  assumes "tracked_count s < 2000"
  obtains t pages count tracked where "track_address a s = Inr t" "tracked_count t \<le> Suc (tracked_count s)"
    "t = s\<lparr>c_index_page := pages, c_addr_tracked := tracked, c_index_count := count\<rparr>"
proof -
  have "\<exists>t. track_address a s = Inr t \<and> tracked_count t \<le> Suc (tracked_count s)"
  proof (cases "c_addr_tracked s a = None")
    case True
    let ?n = "unwrap_or (c_index_count s) 0"
    have add: "checked_add ?n 1 = Some (?n + 1)"
      using assms by (simp add: checked_add_def tracked_count_def)
    then have "unat (?n + 1) = Suc (unat ?n)" by (simp add: arith_simps)
    with True assms add show ?thesis
      by (auto simp: track_address_def Let_def tracked_count_def MAX_TRACKED_ADDRESSES_def word_le_nat_alt)
  qed (simp add: track_address_def)
  then show thesis using that track_address_frame by blast
qed

lemma tracked_write:
  assumes "tracked_count s < 2000"
    and "\<And>t. c_admin t = c_admin s \<Longrightarrow> c_paused t = c_paused s \<Longrightarrow> tracked_count t \<le> Suc (tracked_count s) \<Longrightarrow>
      c_allowed t = c_allowed s \<Longrightarrow> c_allowed_until t = c_allowed_until s \<Longrightarrow>
      c_blocked t = c_blocked s \<Longrightarrow> c_blocked_until t = c_blocked_until s \<Longrightarrow> P t"
  shows "\<exists>t. andthen (track_address a s) (\<lambda>u. Inr (publish e u)) = Inr t \<and> P t"
proof -
  obtain t pages count tracked where t: "track_address a s = Inr t" "tracked_count t \<le> Suc (tracked_count s)"
    "t = s\<lparr>c_index_page := pages, c_addr_tracked := tracked, c_index_count := count\<rparr>"
    by (rule track_has_room [OF assms(1)])
  have "P (publish e t)"
    by (rule assms(2)) (insert t(2), simp_all add: t(3) publish_def tracked_count_def)
  with t(1) show ?thesis by simp
qed

text \<open>The storage the mirror copies, with what the guards of later calls read.\<close>

definition subject_written ::
    "compliance \<Rightarrow> compliance \<Rightarrow> address \<Rightarrow> bool \<Rightarrow> u64 option \<Rightarrow> bool \<Rightarrow> u64 option \<Rightarrow> bool" where
  "subject_written s t a allowed allowed_until blocked blocked_until \<longleftrightarrow>
     c_admin t = c_admin s \<and> c_paused t = c_paused s \<and> tracked_count t \<le> Suc (tracked_count s) \<and>
     (\<forall>b m. mirrors t b m \<longleftrightarrow>
        (if b = a then m_allowed m = allowed \<and> m_allowed_until m = allowed_until \<and>
                       m_blocked m = blocked \<and> m_blocked_until m = blocked_until
         else mirrors s b m))"

definition admin_ready :: "'w host \<Rightarrow> compliance \<Rightarrow> address \<Rightarrow> bool" where
  "admin_ready h s admin \<longleftrightarrow> h_auth h admin \<and> c_admin s = Some admin \<and> tracked_count s < 2000"

lemma admin_guards:
  "admin_ready h s admin \<Longrightarrow> require_admin h s admin = Inr ()"
  "admin_ready h s admin \<Longrightarrow> require_admin_or_operator h s admin = Inr ()"
  "admin_ready h s admin \<Longrightarrow> is_admin s admin"
  "\<not> is_paused s \<Longrightarrow> require_not_paused s = Inr ()"
  by (simp_all add: admin_ready_def result_simps is_admin_def)

lemma tracked_write_written:
  assumes "tracked_count u < 2000" "c_admin u = c_admin s" "c_paused u = c_paused s" "tracked_count u = tracked_count s"
    and "\<And>b. unwrap_or (c_allowed u b) False = (if b = a then x else unwrap_or (c_allowed s b) False)"
    and "\<And>b. c_allowed_until u b = (if b = a then until else c_allowed_until s b)"
    and "\<And>b. is_blocked u b = (if b = a then y else is_blocked s b)"
    and "\<And>b. c_blocked_until u b = (if b = a then unblock else c_blocked_until s b)"
  shows "\<exists>t. andthen (track_address a u) (\<lambda>w. Inr (publish e w)) = Inr t \<and> subject_written s t a x until y unblock"
proof (rule tracked_write [OF assms(1)])
  fix t
  assume "c_admin t = c_admin u" "c_paused t = c_paused u" "tracked_count t \<le> Suc (tracked_count u)"
    "c_allowed t = c_allowed u" "c_allowed_until t = c_allowed_until u"
    "c_blocked t = c_blocked u" "c_blocked_until t = c_blocked_until u"
  then show "subject_written s t a x until y unblock"
    using assms(2-) by (auto simp: subject_written_def mirrors_def is_blocked_def)
qed

lemmas write_unfold = Let_def bump_allow_count_def append_status_history_def record_block_placer_def
  record_block_reason_def tracked_count_def is_blocked_def

lemma unpaused_writes:
  assumes "admin_ready h s admin" and "\<not> is_paused s"
  shows "\<exists>t. allow_address h s admin a = Inr t \<and>
      subject_written s t a True None (is_blocked s a) (c_blocked_until s a)"
    and "\<exists>t. allow_address_until h s admin a expires_at = Inr t \<and>
      subject_written s t a True (Some expires_at) (is_blocked s a) (c_blocked_until s a)"
    and "\<exists>t. revoke_allow h s admin a = Inr t \<and>
      subject_written s t a False None (is_blocked s a) (c_blocked_until s a)"
proof -
  have room: "tracked_count s < 2000" using assms(1) by (simp add: admin_ready_def)
  note guards = admin_guards(1) [OF assms(1)] admin_guards(4) [OF assms(2)] andthen_Inr
  show "\<exists>t. allow_address h s admin a = Inr t \<and>
      subject_written s t a True None (is_blocked s a) (c_blocked_until s a)"
    unfolding allow_address_def record_allow_def Let_def guards
    by (rule tracked_write_written) (use room in \<open>simp_all add: write_unfold\<close>)
  show "\<exists>t. allow_address_until h s admin a expires_at = Inr t \<and>
      subject_written s t a True (Some expires_at) (is_blocked s a) (c_blocked_until s a)"
    unfolding allow_address_until_def Let_def guards
    by (rule tracked_write_written) (use room in \<open>simp_all add: write_unfold\<close>)
  show "\<exists>t. revoke_allow h s admin a = Inr t \<and>
      subject_written s t a False None (is_blocked s a) (c_blocked_until s a)"
    unfolding revoke_allow_def Let_def guards
    by (rule tracked_write_written) (use room in \<open>simp_all add: write_unfold\<close>)
qed

lemma block_writes:
  assumes "admin_ready h s admin"
  shows "\<exists>t. block_address h s admin a None = Inr t \<and>
      subject_written s t a (unwrap_or (c_allowed s a) False) (c_allowed_until s a) True (c_blocked_until s a)"
    and "\<exists>t. block_address_until h s admin a unblock_at None = Inr t \<and>
      subject_written s t a (unwrap_or (c_allowed s a) False) (c_allowed_until s a) True (Some unblock_at)"
    and "\<exists>t. clear_address h s admin a = Inr t \<and> subject_written s t a True None False None"
proof -
  have room: "tracked_count s < 2000" using assms by (simp add: admin_ready_def)
  note guards = admin_guards(2) [OF assms] andthen_Inr
  show "\<exists>t. block_address h s admin a None = Inr t \<and>
      subject_written s t a (unwrap_or (c_allowed s a) False) (c_allowed_until s a) True (c_blocked_until s a)"
    unfolding block_address_def Let_def guards
    by (rule tracked_write_written) (use room in \<open>simp_all add: write_unfold\<close>)
  show "\<exists>t. block_address_until h s admin a unblock_at None = Inr t \<and>
      subject_written s t a (unwrap_or (c_allowed s a) False) (c_allowed_until s a) True (Some unblock_at)"
    unfolding block_address_until_def Let_def guards
    by (rule tracked_write_written) (use room in \<open>simp_all add: write_unfold\<close>)
  have admin: "is_admin s admin = True" using admin_guards(3) [OF assms] by simp
  show "\<exists>t. clear_address h s admin a = Inr t \<and> subject_written s t a True None False None"
    unfolding clear_address_def Let_def guards admin not_True_eq_False if_False
    by (rule tracked_write_written) (use room in \<open>simp_all add: write_unfold\<close>)
qed

lemma paused_refuses:
  assumes "is_paused s"
  shows "isl (allow_address h s admin a)" "isl (allow_address_until h s admin a expires_at)"
    "isl (revoke_allow h s admin a)"
  using assms by (auto simp: allow_address_def allow_address_until_def revoke_allow_def require_not_paused_def
      is_paused_def andthen_def require_def split: sum.splits)

text \<open>What holds between the contract and the mirrors after \<open>k\<close> operations.\<close>

definition in_step :: "address \<Rightarrow> address list \<Rightarrow> nat \<Rightarrow> harness \<Rightarrow> bool" where
  "in_step admin subjects k z \<longleftrightarrow>
     length (z_model z) = SUBJECT_POOL \<and> c_admin (z_contract z) = Some admin \<and>
     is_paused (z_contract z) = z_paused z \<and> tracked_count (z_contract z) \<le> k \<and>
     (\<forall>i<SUBJECT_POOL. mirrors (z_contract z) (subjects ! i) (z_model z ! i))"

lemma in_step_agrees:
  "in_step admin subjects k z \<Longrightarrow> length subjects = SUBJECT_POOL \<Longrightarrow> models_agree h subjects z"
  by (auto simp: in_step_def models_agree_def list_all_iff is_allowed_def harness_env_def mirrors_reference)

lemma subject_idx_bound: "subject_idx op < SUBJECT_POOL"
  by (cases op) (simp_all add: SUBJECT_POOL_def)

text \<open>One write on subject \<open>i\<close>, mirrored by a new entry that copies it.\<close>

lemma in_step_write:
  assumes "in_step admin subjects k z" "distinct subjects" "length subjects = SUBJECT_POOL" "i < SUBJECT_POOL"
    and "subject_written (z_contract z) t (subjects ! i) (m_allowed m) (m_allowed_until m) (m_blocked m) (m_blocked_until m)"
  shows "in_step admin subjects (Suc k)
    (z\<lparr>z_contract := t, z_model := (z_model z)[i := m]\<rparr>)"
  using assms by (auto simp: in_step_def subject_written_def is_paused_def nth_list_update nth_eq_iff_index_eq)

lemma in_step_Suc: "in_step admin subjects k z \<Longrightarrow> in_step admin subjects (Suc k) z"
  by (simp add: in_step_def)

lemma in_step_now: "in_step admin subjects k (z\<lparr>z_now := t\<rparr>) = in_step admin subjects k z"
  by (simp add: in_step_def)

lemma in_step_pause:
  assumes "in_step admin subjects k z"
    and "c_admin t = c_admin (z_contract z)" "tracked_count t = tracked_count (z_contract z)"
      "\<And>a m. mirrors t a m = mirrors (z_contract z) a m" "is_paused t = b"
  shows "in_step admin subjects k (z\<lparr>z_contract := t, z_paused := b\<rparr>)"
  using assms by (simp add: in_step_def)

lemma in_step_ready:
  "in_step admin subjects k z \<Longrightarrow> k < MAX_OPS \<Longrightarrow> admin_ready (harness_env h z) (z_contract z) admin"
  by (simp add: in_step_def admin_ready_def harness_env_def mock_all_auths_def MAX_OPS_def)

lemma in_step_mirrors:
  "in_step admin subjects k z \<Longrightarrow> i < SUBJECT_POOL \<Longrightarrow> mirrors (z_contract z) (subjects ! i) (z_model z ! i)"
  by (simp add: in_step_def)

lemma try_call_Inr [simp]: "try_call (Inr t) z = z\<lparr>z_contract := t\<rparr>"
  by (simp add: try_call_def)

lemma try_call_fields [simp]:
  "z_model (try_call r z) = z_model z" "z_paused (try_call r z) = z_paused z" "z_now (try_call r z) = z_now z"
  by (simp_all add: try_call_def split: sum.split)

lemma try_call_isl: "isl r \<Longrightarrow> try_call r z = z"
  by (cases r) (simp_all add: try_call_def)

text \<open>
  A mutation either succeeds and writes what the mirror writes, or is refused
  by the pause gate and the mirror skips it.
\<close>

fun is_mutation :: "Op \<Rightarrow> bool" where
  "is_mutation Op_Pause = False"
| "is_mutation Op_Unpause = False"
| "is_mutation (Op_AdvanceTime _) = False"
| "is_mutation (Op_JumpToBoundary _ _) = False"
| "is_mutation _ = True"

lemma replay_mutation:
  fixes h :: "'w host" and admin a :: address and op :: Op and z :: harness and m :: Model
  defines "m' \<equiv> apply_op op (z_paused z) m"
  assumes ready: "admin_ready (harness_env h z) (z_contract z) admin"
    and m: "mirrors (z_contract z) a m" and paused: "is_paused (z_contract z) = z_paused z"
    and clean: "\<not> clears_timed op m" and mutation: "is_mutation op"
  shows "(\<exists>t. replay_op h admin a op z = z\<lparr>z_contract := t\<rparr> \<and>
            subject_written (z_contract z) t a (m_allowed m') (m_allowed_until m') (m_blocked m') (m_blocked_until m')) \<or>
         replay_op h admin a op z = z \<and> m' = m"
proof (cases op)
  case (Op_Block b)
  with block_writes(1) [OF ready, of a] m show ?thesis by (auto simp: m'_def mirrors_def)
next
  case (Op_BlockUntil b t)
  with block_writes(2) [OF ready, of a t] m show ?thesis by (auto simp: m'_def mirrors_def)
next
  case (Op_Clear b)
  with block_writes(3) [OF ready, of a] m clean show ?thesis by (auto simp: m'_def mirrors_def)
next
  case (Op_Allow b)
  with unpaused_writes(1) [OF ready, of a] paused_refuses(1) [of "z_contract z" "harness_env h z" admin a] m paused show ?thesis
    by (cases "z_paused z") (auto simp: m'_def mirrors_def try_call_isl)
next
  case (Op_AllowUntil b t)
  with unpaused_writes(2) [OF ready, of a t] paused_refuses(2) [of "z_contract z" "harness_env h z" admin a t] m paused show ?thesis
    by (cases "z_paused z") (auto simp: m'_def mirrors_def try_call_isl)
next
  case (Op_Revoke b)
  with unpaused_writes(3) [OF ready, of a] paused_refuses(3) [of "z_contract z" "harness_env h z" admin a] m paused show ?thesis
    by (cases "z_paused z") (auto simp: m'_def mirrors_def try_call_isl)
qed (use mutation in simp_all)

lemma switch_in_step:
  assumes z: "in_step admin subjects k z" and k: "k < MAX_OPS" and "\<not> is_mutation op"
  shows "in_step admin subjects k (replay_op h admin a op z)"
proof -
  have guard: "require_admin (harness_env h z) (z_contract z) admin = Inr ()"
    by (rule admin_guards(1) [OF in_step_ready [OF z k]])
  have pauses: "in_step admin subjects k
      (z\<lparr>z_contract := publish e ((z_contract z)\<lparr>c_paused := Some b, c_pause_reason := r\<rparr>), z_paused := b\<rparr>)" for e b r
    by (rule in_step_pause [OF z]) (simp_all add: publish_def tracked_count_def mirrors_def is_blocked_def is_paused_def)
  from assms show ?thesis
    by (cases op) (auto simp: pause_with_reason_def unpause_def guard pauses in_step_now split: option.split)
qed

lemma fuzz_step_in_step:
  assumes z: "in_step admin subjects k z" and k: "k < MAX_OPS"
    and subjects: "distinct subjects" "length subjects = SUBJECT_POOL"
    and clean: "\<not> clears_timed op (z_model z ! subject_idx op)"
  shows "in_step admin subjects (Suc k) (fuzz_step h admin subjects op z)"
proof (cases "is_mutation op")
  case True
  let ?i = "subject_idx op"
  note ready = in_step_ready [OF z k, of h]
  have paused: "is_paused (z_contract z) = z_paused z" using z by (simp add: in_step_def)
  from replay_mutation [OF ready in_step_mirrors [OF z subject_idx_bound] paused clean True]
  show ?thesis
    by (auto simp: fuzz_step_def Let_def intro: in_step_write [OF z subjects subject_idx_bound] in_step_Suc [OF z])
next
  case False
  then show ?thesis
    using in_step_Suc [OF switch_in_step [OF z k False, of h]] by (cases op) (simp_all add: fuzz_step_def Let_def)
qed

text \<open>The loop: as long as no step clears a timed allowance, every assertion holds.\<close>

lemma fuzz_step_projections:
  "z_paused (fuzz_step h admin subjects op z) = pause_after op (z_paused z)"
  "z_model (fuzz_step h admin subjects op z) = (z_model z)
     [subject_idx op := apply_op op (pause_after op (z_paused z)) (z_model z ! subject_idx op)]"
  by (cases op; simp add: fuzz_step_def Let_def split: option.split)+

lemma fuzz_loop_passes:
  assumes "in_step admin subjects k z" "k + length ops \<le> MAX_OPS" "distinct subjects" "length subjects = SUBJECT_POOL"
    and "\<not> timed_clear ops (z_paused z) (z_model z)"
  shows "fuzz_loop h admin subjects ops z"
  using assms
proof (induction ops arbitrary: k z)
  case (Cons op ops)
  let ?z = "fuzz_step h admin subjects op z"
  have step: "in_step admin subjects (Suc k) ?z"
    by (rule fuzz_step_in_step [OF Cons.prems(1)]) (use Cons.prems in \<open>auto simp: Let_def\<close>)
  moreover have "fuzz_loop h admin subjects ops ?z"
    by (rule Cons.IH [OF step]) (use Cons.prems in \<open>auto simp: Let_def fuzz_step_projections\<close>)
  ultimately show ?case using Cons.prems(4) by (simp add: Let_def in_step_agrees)
qed simp

lemma fresh_in_step:
  "in_step admin subjects 0
    \<lparr>z_contract = empty_compliance\<lparr>c_admin := Some admin, c_paused := Some False,
       c_schema_version := Some CURRENT_SCHEMA_VERSION\<rparr>,
     z_model = replicate SUBJECT_POOL default_Model, z_now = t, z_paused = False\<rparr>"
  by (simp add: in_step_def empty_compliance_def is_paused_def tracked_count_def mirrors_def default_Model_def is_blocked_def)

lemma fuzz_is_allowed_unfold:
  "fuzz_is_allowed h admin subjects ops = fuzz_loop h admin subjects (take MAX_OPS ops)
    \<lparr>z_contract = empty_compliance\<lparr>c_admin := Some admin, c_paused := Some False,
       c_schema_version := Some CURRENT_SCHEMA_VERSION\<rparr>,
     z_model = replicate SUBJECT_POOL default_Model, z_now = h_now h, z_paused = False\<rparr>"
  by (simp add: fuzz_is_allowed_def initialize_def mock_all_auths_def require_auth_def empty_compliance_def)

section \<open>What a cleared timed allowance does\<close>

lemma mutation_keeps_now: "is_mutation op \<Longrightarrow> z_now (fuzz_step h admin subjects op z) = z_now z"
  by (cases op) (simp_all add: fuzz_step_def Let_def)

text \<open>After the clear the contract allows the subject for good; the mirror keeps the expiry.\<close>

lemma clear_diverges:
  assumes z: "in_step admin subjects k z" and k: "k < MAX_OPS" and "length subjects = SUBJECT_POOL"
    and until: "m_allowed_until (z_model z ! subject_idx (Op_Clear b)) = Some t"
    and late: "t \<le> saturating_add (z_now z) delta"
  shows "\<not> fuzz_loop h admin subjects [Op_Clear b, Op_AdvanceTime delta] z"
proof -
  let ?i = "subject_idx (Op_Clear b)"
  let ?z = "fuzz_step h admin subjects (Op_AdvanceTime delta) (fuzz_step h admin subjects (Op_Clear b) z)"
  obtain s where s: "clear_address (harness_env h z) (z_contract z) admin (subjects ! ?i) = Inr s"
      "subject_written (z_contract z) s (subjects ! ?i) True None False None"
    using block_writes(3) [OF in_step_ready [OF z k]] by blast
  let ?m = "\<lparr>m_allowed = True, m_allowed_until = None, m_blocked = False, m_blocked_until = None, m_last_boundary = None\<rparr>"
  from s(2) have "mirrors s (subjects ! ?i) ?m" by (simp add: subject_written_def)
  then have "is_allowed_at s (subjects ! ?i) now" for now
    by (simp add: mirrors_reference reference_is_allowed_def)
  moreover have "z_contract ?z = s" "z_now ?z = saturating_add (z_now z) delta"
    using s(1) by (simp_all add: fuzz_step_def Let_def)
  moreover have "\<not> reference_is_allowed (z_model ?z ! ?i) (z_now ?z)"
    using until late z subject_idx_bound [of "Op_Clear b"] \<open>z_now ?z = _\<close>
    by (auto simp: fuzz_step_projections reference_is_allowed_def in_step_def nth_list_update not_less)
  ultimately have "\<not> models_agree h subjects ?z"
    using assms(3) subject_idx_bound [of "Op_Clear b"]
    by (auto simp: models_agree_def list_all_iff is_allowed_def harness_env_def simp del: subject_idx.simps)
  then show ?thesis by (simp add: Let_def)
qed

section \<open>Properties\<close>

definition screen_env :: "u64 \<Rightarrow> unit host" where
  "screen_env now =
     \<lparr>h_now = now, h_seq = 0, h_self = 50, h_auth = (\<lambda>_. False),
      h_transfer = (\<lambda>_ _ _ _ w. Some w), h_balance = (\<lambda>_ _ _. Some 0),
      h_is_allowed = (\<lambda>_ _ _. Some True), h_is_allowed_for_amount = (\<lambda>_ _ _ _. Some True)\<rparr>"

text \<open>
  C22. Differential check of \<open>is_allowed\<close>: for four distinct subjects, any admin,
  any start time and any sequence of operations, the assertion of the fuzz target
  holds after each of the at most \<open>MAX_OPS\<close> replayed steps, provided no replayed
  step clears a subject whose mirror still carries a timed allowance. So the
  contract computes the reference precedence through every such history of allow,
  timed allow, block, timed block, clear, revoke, pause and clock changes.
\<close>

theorem fuzz_is_allowed_passes:
  assumes "distinct subjects" and "length subjects = SUBJECT_POOL"
    and "\<not> timed_clear (take MAX_OPS ops) False (replicate SUBJECT_POOL default_Model)"
  shows "fuzz_is_allowed h admin subjects ops"
  unfolding fuzz_is_allowed_unfold
  by (rule fuzz_loop_passes [OF fresh_in_step]) (use assms in simp_all)

theorem fuzz_is_allowed_passes_witness:
  "fuzz_is_allowed (screen_env 0) 1 [2, 3, 4, 5]
    [Op_AllowUntil 1 100, Op_BlockUntil 5 60, Op_JumpToBoundary 1 255, Op_JumpToBoundary 1 0, Op_Pause,
     Op_Allow 2, Op_Unpause, Op_Revoke 1, Op_Clear 1, Op_AdvanceTime 7]"
  by (rule fuzz_is_allowed_passes)
    (simp_all add: SUBJECT_POOL_def MAX_OPS_def default_Model_def Let_def numeral_2_eq_2)

text \<open>
  C38. The mirror of the fuzz target is out of date for \<open>clear_address\<close>: for every
  subject, expiry and delay that reaches the expiry, the three operations timed
  allow, clear, wait make the target's assertion fail, because the contract drops
  \<open>AllowedUntil\<close> on a clear and the mirror keeps it.
\<close>

theorem fuzz_is_allowed_fails_on_clear:
  assumes "distinct subjects" and "length subjects = SUBJECT_POOL"
    and "t \<le> saturating_add (h_now h) delta"
  shows "\<not> fuzz_is_allowed h admin subjects [Op_AllowUntil b t, Op_Clear b, Op_AdvanceTime delta]"
proof -
  let ?z0 = "\<lparr>z_contract = empty_compliance\<lparr>c_admin := Some admin, c_paused := Some False,
       c_schema_version := Some CURRENT_SCHEMA_VERSION\<rparr>,
     z_model = replicate SUBJECT_POOL default_Model, z_now = h_now h, z_paused = False\<rparr>"
  let ?z = "fuzz_step h admin subjects (Op_AllowUntil b t) ?z0"
  have "in_step admin subjects (Suc 0) ?z"
    by (rule fuzz_step_in_step [OF fresh_in_step]) (simp_all add: assms MAX_OPS_def)
  then have "\<not> fuzz_loop h admin subjects [Op_Clear b, Op_AdvanceTime delta] ?z"
    by (rule clear_diverges [where t = t])
      (use assms in \<open>simp_all add: MAX_OPS_def fuzz_step_projections mutation_keeps_now SUBJECT_POOL_def\<close>)
  then show ?thesis by (simp add: fuzz_is_allowed_unfold MAX_OPS_def Let_def)
qed

theorem fuzz_is_allowed_fails_on_clear_witness:
  "\<not> fuzz_is_allowed (screen_env 10) 1 [2, 3, 4, 5] [Op_AllowUntil 6 100, Op_Clear 6, Op_AdvanceTime 90]"
  by (rule fuzz_is_allowed_fails_on_clear) (simp_all add: SUBJECT_POOL_def screen_env_def saturating_add_def)

end
