(* ===== verification/Fuzz_Invoice.thy ===== *)
theory Fuzz_Invoice
  imports Invoice_Properties
begin

text \<open>
  The two fuzz targets of the invoice contract,
  \<^verbatim>\<open>contracts/invoice/fuzz/fuzz_targets/amount_precision.rs\<close> and \<^verbatim>\<open>net_refund.rs\<close>,
  as functions from the fuzzer's input to whether the target passes. A panic in
  the contract is a fault other than an error code.
\<close>

fun is_panic :: "'e fault \<Rightarrow> bool" where
  "is_panic (Err e) = False"
| "is_panic AuthTrap = True"
| "is_panic Trap = True"

definition fuzz_amount_precision ::
    "'w host \<Rightarrow> 'w \<Rightarrow> address \<Rightarrow> address \<Rightarrow> i128 \<Rightarrow> i128 \<Rightarrow> u64 \<Rightarrow> u64 \<Rightarrow> bool" where
  "fuzz_amount_precision h w admin merchant amount_usdc gross_usdc expires_in_seconds merchant_nonce =
     (let env = mock_all_auths h in
      case initialize env (empty_invoice_store w) admin of
        Inl _ \<Rightarrow> False
      | Inr s \<Rightarrow>
          (case create_invoice env s merchant amount_usdc gross_usdc expires_in_seconds MB_None MB_None
                  merchant_nonce MA_None of
             Inl f \<Rightarrow> \<not> is_panic f
           | Inr _ \<Rightarrow> True))"

definition fuzz_net_refund :: "i128 \<Rightarrow> u32 \<Rightarrow> bool" where
  "fuzz_net_refund gross_amount fee_bps =
     (case calculate_net_refund gross_amount fee_bps of
        Inr r \<Rightarrow> nr_gross_amount r = gross_amount \<and> nr_net_amount r \<ge> 0 \<and> nr_processing_fee r \<ge> 0 \<and>
                 nr_network_fee r \<ge> 0 \<and> nr_net_amount r \<le> nr_gross_amount r
      | Inl f \<Rightarrow> \<not> is_panic f)"

lemma fuzz_amount_precision_passes:
  "fuzz_amount_precision h w admin merchant amount_usdc gross_usdc expires_in_seconds merchant_nonce"
proof -
  have "checked_add (0 :: u64) 1 = Some 1" by (simp add: checked_add_def)
  then show ?thesis
    by (auto simp: fuzz_amount_precision_def initialize_def create_invoice_def create_invoice_record_def
      empty_invoice_store_def require_auth_def mock_all_auths_def require_not_paused_def require_positive_amount_def
      require_usdc_precision_def require_hash_not_too_long_def require_valid_payment_link_hash_def
      require_expiry_not_too_long_def require_def ok_or_def Let_def put_invoice_def split: option.split)
qed

lemma fuzz_net_refund_passes:
  assumes "i128_ok gross_amount"
  shows "fuzz_net_refund gross_amount fee_bps"
proof (cases "calculate_net_refund gross_amount fee_bps")
  case (Inl f)
  then have "calculate_net_refund_with_network_fee gross_amount fee_bps REFUND_NETWORK_FEE = Inl f"
    by (simp add: calculate_net_refund_def)
  from net_refund_fails [OF this assms] Inl show ?thesis by (auto simp: fuzz_net_refund_def)
next
  case (Inr r)
  then have ok: "0 < gross_amount" "fee_bps \<le> 10000"
    by (auto simp: calculate_net_refund_def calculate_net_refund_with_network_fee_def result_simps Let_def
        MAX_REFUND_FEE_BPS_def BPS_DENOMINATOR_def)
  with Inr net_refund_eq [OF _ assms, of fee_bps REFUND_NETWORK_FEE]
  have r: "r = net_refund_spec gross_amount fee_bps REFUND_NETWORK_FEE"
    by (simp add: calculate_net_refund_def REFUND_NETWORK_FEE_def)
  have b: "0 \<le> int (unat fee_bps)" "int (unat fee_bps) \<le> 10000" using ok(2) by (simp_all add: word_le_def)
  show ?thesis using fee_bounds(5,6) [OF ok(1) b] ok(1)
    by (auto simp: fuzz_net_refund_def Inr r net_refund_spec_def Let_def REFUND_NETWORK_FEE_def)
qed

text \<open>
  The header of the target also says that the parts account for at most the gross
  amount. That is not asserted, and it does not hold: each fee is capped alone.
\<close>

lemma fees_can_exceed_gross:
  "calculate_net_refund 100 10000 =
     Inr \<lparr>nr_gross_amount = 100, nr_processing_fee = 100, nr_network_fee = 100, nr_net_amount = 0\<rparr>"
  using net_refund_eq [of 100 10000 REFUND_NETWORK_FEE]
  by (simp add: calculate_net_refund_def net_refund_spec_def REFUND_NETWORK_FEE_def i128_defs)

end
