(* ===== verification/Fuzz_Workflow.thy ===== *)
theory Fuzz_Workflow
  imports Protocol Treasury_Signers
begin

text \<open>
  \<^verbatim>\<open>contracts/settlement-workflow/fuzz/fuzz_targets/execute_with_compliance.rs\<close>: the
  fuzz target of the gated execution. It deploys compliance, treasury and workflow
  with pinned contracts chosen by the input, some of them not deployed anywhere,
  and makes one call. The outcome of that call is the result here; a set-up call
  that fails is a panic of the target.

  The second target, \<^verbatim>\<open>execute_with_compliance_batch.rs\<close>, calls entrypoints the contracts
  no longer have and is not modelled; the properties its header lists are theorems
  of the deployment.
\<close>

definition or_panic :: "'f + 'a \<Rightarrow> 'a w_outcome" where
  "or_panic r = (case r of Inl _ \<Rightarrow> Inl Trap | Inr x \<Rightarrow> Inr x)"

lemma or_panic_simps [simp]: "or_panic (Inr x) = Inr x" "or_panic (Inl f) = Inl Trap"
  by (simp_all add: or_panic_def)

record workflow_input =
  compliance_idx :: "8 word"
  treasury_idx :: "8 word"
  token_idx :: "8 word"
  merchant_idx :: "8 word"
  input_settlement_id :: u64
  force_compliance_eq_treasury :: bool
  force_settlement_zero :: bool
  force_settlement_max :: bool

definition pick :: "address list \<Rightarrow> 8 word \<Rightarrow> address" where
  "pick pool idx = pool ! (unat idx mod length pool)"

definition fuzz_settlement_id :: "workflow_input \<Rightarrow> u64" where
  "fuzz_settlement_id input =
     (if force_settlement_zero input then 0
      else if force_settlement_max input then - 1
      else input_settlement_id input)"

text \<open>
  The ledger before the target runs: two empty contracts at their addresses; the
  invoice contract is not part of the target and can be anything.
\<close>

definition fuzz_execute_with_compliance ::
    "sites \<Rightarrow> 'v externals \<Rightarrow> 'v host \<Rightarrow> 'v \<Rightarrow> 'v invoice_store \<Rightarrow> address \<Rightarrow> address list \<Rightarrow> workflow_input \<Rightarrow>
     'v protocol workflow w_outcome" where
  "fuzz_execute_with_compliance d ext env v other admin generated input =
     (let g = mock_all_auths env;
          th = treasury_host d g (h_auth g) in
      andthen (or_panic (Compliance_Ops.initialize g empty_compliance admin)) (\<lambda>k.
      andthen (or_panic (Treasury_State.initialize th (empty_storage (k, v)) admin 1 [])) (\<lambda>t.
      let pool = [site_compliance d, site_treasury d] @ generated;
          compliance_arg = pick pool (compliance_idx input);
          treasury_arg = (if force_compliance_eq_treasury input then compliance_arg
                          else pick pool (treasury_idx input));
          token_contract = pick pool (token_idx input);
          merchant = pick pool (merchant_idx input);
          settlement_id = fuzz_settlement_id input;
          p = \<lparr>p_treasury = t, p_compliance = k, p_invoice = other, p_tokens = v\<rparr>
      in andthen (or_panic (constructor (workflow_host d g) (undeployed p) admin compliance_arg treasury_arg)) (\<lambda>s.
         andthen (or_panic (set_signer th (load_treasury (w_world s)) admin (site_workflow d) 1)) (\<lambda>t'.
         execute_with_compliance (workflow_host d g) (protocol_peers d ext g)
           (s\<lparr>w_world := store_treasury t' (w_world s)\<rparr>) settlement_id token_contract merchant)))))"

text \<open>
  The target never gets past the gate: nobody is ever put on the allowlist, so the
  call ends in \<open>ComplianceCheckFailed\<close> when the real compliance contract is pinned,
  and in a failed invocation otherwise, as no contract with an \<open>is_allowed\<close> is deployed
  at the other addresses. The settlement id, the token and the
  treasury it picks never matter.
\<close>

lemma fuzz_never_passes_gate:
  fixes env :: "'v host"
  assumes "\<And>c a w. h_is_allowed env c a w = None"
  shows "fuzz_execute_with_compliance d ext env v other admin generated input =
     (if pick ([site_compliance d, site_treasury d] @ generated) (compliance_idx input) = site_compliance d
      then Inl (Err (TreasuryCode T_ComplianceCheckFailed)) else Inl Trap)"
proof -
  let ?g = "mock_all_auths env"
  let ?k = "empty_compliance\<lparr>c_admin := Some admin, c_paused := Some False, c_schema_version := Some CURRENT_SCHEMA_VERSION\<rparr>"
  let ?th = "treasury_host d ?g (h_auth ?g)"
  have k: "Compliance_Ops.initialize ?g empty_compliance admin = Inr ?k"
    by (simp add: Compliance_Ops.initialize_def empty_compliance_def require_auth_def mock_all_auths_def)
  have no: "\<not> Compliance_Ops.is_allowed g ?k a" for g :: "'v host" and a
    by (simp add: Compliance_Ops.is_allowed_def is_allowed_at_def empty_compliance_def)
  obtain t where t: "Treasury_State.initialize ?th (empty_storage (?k, v)) admin 1 [] = Inr t" "t_admin t = Some admin"
    by (simp add: Treasury_State.initialize_def empty_storage_def require_auth_def mock_all_auths_def emit_def)
  have signs: "\<exists>t'. set_signer ?th (load_treasury p) admin a 1 = Inr t'" if "p_treasury p = t" for p :: "'v protocol" and a
    using that t(2)
    by (simp add: set_signer_def Treasury_State.require_admin_def require_auth_def mock_all_auths_def Let_def)
  let ?pool = "[site_compliance d, site_treasury d] @ generated"
  let ?p = "\<lparr>p_treasury = t, p_compliance = ?k, p_invoice = other, p_tokens = v\<rparr>"
  from signs [of ?p] obtain t' where t': "set_signer ?th (load_treasury ?p) admin (site_workflow d) 1 = Inr t'" by auto
  show ?thesis
    unfolding fuzz_execute_with_compliance_def Let_def k t(1) or_panic_simps andthen_Inr
    using t' no assms
    by (simp add: constructor_def undeployed_def require_auth_def mock_all_auths_def Workflow.publish_def
        execute_with_compliance_def Workflow.require_not_paused_def Workflow.get_compliance_id_def
        require_allowed_for_treasury_def as_treasury_code_def)
qed

end
