(* ===== verification/Spec2Isabelle.thy ===== *)
theory Spec2Isabelle
  imports Treasury_Properties Compliance_Properties Invoice_Properties Protocol_Sweep
    Invoice_Batch Protocol_Events Protocol_Batch Protocol_Errors Compliance_Client
    Fuzz_Compliance Fuzz_Invoice Fuzz_Workflow
begin

text \<open>
  Verification of the COMEBACKHERE contracts (Soroban, Rust).

  \<^bold>\<open>The program.\<close> Four contracts settle merchant payments. The \<^emph>\<open>treasury\<close>
  (\<^verbatim>\<open>contracts/treasury\<close>, on \<^verbatim>\<open>crates/multisig\<close> and \<^verbatim>\<open>crates/protocol-math\<close>) holds tokens,
  pays settlements that enough weighted signers approved, and keeps deposits, holds,
  disputes, signer rotations and timelocked signer changes. The \<^emph>\<open>compliance\<close> contract
  (\<^verbatim>\<open>contracts/compliance\<close>) says which addresses may be paid. The \<^emph>\<open>invoice\<close> contract
  (\<^verbatim>\<open>contracts/invoice\<close>) keeps invoices from creation over payment to release or refund, and
  recurring templates. The \<^emph>\<open>settlement workflow\<close> (\<^verbatim>\<open>contracts/settlement-workflow\<close>) puts the
  compliance check in front of the treasury's \<open>execute_settlement\<close> and can pause the
  other contracts in one sweep. The treasury asks the compliance contract itself when
  one is pinned; the workflow calls the compliance contract
  (\<^verbatim>\<open>crates/compliance-client\<close>), the treasury, and \<open>pause\<close> and \<open>unpause\<close> of its targets.

  \<^bold>\<open>How it is modelled.\<close> The storage of a contract is a record with one field per \<open>DataKey\<close>
  (an \<open>option\<close> for a plain key, a partial map for a key with arguments) and a log of the
  published events. An entrypoint is a function from the host environment of the
  invocation (time, ledger number, authorisations, token contracts), the state and the
  arguments to an error or the new state; its guards stand in the order of the source. A
  failed invocation leaves no writes, as on the host, so an error carries no state.
  \<open>u32\<close> and \<open>u64\<close> are words, \<open>i128\<close> is an integer with its range written out at each
  operation; overflow is the error or trap the code has there
  (\<open>overflow-checks\<close> is on). Token contracts, \<open>sha256\<close> and the XDR encoding are not part of the
  repository: they are parameters. So is every contract at an address outside the
  deployment: an emergency pause target may be any contract, so \<open>pause\<close> and \<open>unpause\<close> of such a
  target are functions of the record \<open>externals\<close> that accept or refuse as they like, and the answer of
  another compliance contract is a function of the host. These contracts may change what lies
  outside (the token world), but do not call back into the four contracts within the same call. A loop over a list is a fold that stops at the first
  error; \<open>while\<close> loops are recursive functions with a termination proof (\<open>scan_ids\<close>,
  \<open>sweep_loop\<close>, \<open>snapshot_pages\<close>, \<open>advance_next_run\<close>), so no fuel is needed anywhere.

  \<^bold>\<open>The theories.\<close>
  \<^item> \<open>Prelude\<close>: results, machine arithmetic, the host, reachable states, and the interfaces
    \<open>invariant\<close>, \<open>monotone\<close>, \<open>pausable\<close>, \<open>two_step_admin\<close> and \<open>signed_admin\<close>, each interpreted
    on the contracts that implement it.
  \<^item> \<open>Multisig\<close>, \<open>Protocol_Math\<close>: the two crates. \<open>approval_book\<close> is what the quorum primitives
    promise.
  \<^item> \<open>Treasury_State\<close> (\<^verbatim>\<open>lib.rs\<close>), \<open>Treasury_Settlements\<close>, \<open>Treasury_Signers\<close>, \<open>Treasury_Deposits\<close>,
    \<open>Treasury_Disputes\<close>, \<open>Treasury_Holds\<close>, \<open>Treasury_Admin\<close>, \<open>Treasury_Timelock\<close>: one theory per source
    file, every entrypoint.
  \<^item> \<open>Settlement_Book\<close> is the abstract specification of settlements and \<open>Treasury_Refinement\<close> the
    proof that every entrypoint refines it. \<open>Treasury_Frames\<close> says which fields each source
    file writes. \<open>Treasury_Calls\<close> is the exported interface as a transition system, \<open>Treasury\<close> the
    invariants of its runs; \<open>Treasury_Accounts\<close>, \<open>Treasury_Governance\<close>, \<open>Treasury_Dispute_Rules\<close> and
    \<open>Treasury_Views\<close> are about balances with the withdrawal windows and deposit references,
    signer governance, disputes and read-only loops. \<open>Treasury_Payouts\<close>: collecting a quorum and
    paying it, and what a left-over hold expiry does to a later dispute.
    \<open>Treasury_Scenario\<close> and \<open>Treasury_Properties\<close>: concrete runs and the properties.
  \<^item> \<open>Compliance_State\<close>, \<open>Compliance_Ops\<close>: the compliance contract. \<open>Compliance_Index\<close>: the paged
    address index refines a bounded duplicate-free list (\<open>bounded_registry\<close>).
    \<open>Compliance_Calls\<close>: runs and invariant. \<open>Compliance_Rules\<close>: screening precedence, who lifts a
    block, sweeps, the Merkle block list. \<open>Compliance_Properties\<close>.
  \<^item> \<open>Invoice_State\<close>, \<open>Invoice_Refund\<close>, \<open>Invoice_Entrypoints\<close>: the invoice contract.
    \<open>Invoice_Ledger\<close>: the abstract life cycle of invoices with its invariant.
    \<open>Invoice_Calls\<close>, \<open>Invoice_Runs\<close>: every entrypoint refines it, and its runs, all of them from empty
    storage and the orderly ones. \<open>Invoice_Keeper\<close>: what a run of the recurring-invoice keeper
    does. \<open>Invoice_Properties\<close>.
    \<open>Invoice_Batch\<close>: batch creation against one \<open>create_invoice\<close> per element.
  \<^item> \<open>Workflow\<close>: the settlement workflow over a record of cross-contract calls, with the
    interfaces \<open>pause_network\<close> and \<open>settlement_service\<close> it relies on. \<open>Protocol\<close> fills the record with
    the models of the other three contracts and interprets both interfaces on them.
    \<open>Protocol_Runs\<close>: transactions on the whole deployment; each contract makes only its own
    steps, and nobody becomes an admin unsigned. \<open>Protocol_Events\<close>: the workflow's event log
    agrees with the treasury. \<open>Protocol_Batch\<close>: the batch entrypoint against one call per
    item. \<open>Protocol_Scenario\<close>: a concrete deployment with a contract outside it that pauses for
    anybody. \<open>Protocol_Sweep\<close>: the outcome of an emergency sweep over deployed and outside targets.
  \<^item> \<open>Compliance_Client\<close>: the client crate and its test double, both as instances of one
    \<open>screening_gate\<close>. \<open>Protocol_Errors\<close>: the numeric codes of the four error enums as tables
    (\<open>code_table\<close>), and the error type that spans them with names and descriptions.
  \<^item> \<open>Fuzz_Compliance\<close>, \<open>Fuzz_Invoice\<close>, \<open>Fuzz_Workflow\<close>: four of the five fuzz targets as functions of the
    fuzzer's input, with what their assertions amount to on the models of the contracts.
  \<^item> This theory: the properties of the contracts together.

  \<^bold>\<open>What is shown.\<close> Treasury: settlements keep their identity, end for good and are paid once;
  a quorum of approvals pays and less than it does not; approvals count distinct signers;
  authorisation, pause and handover of the admin; accounts add up, what an address withdraws
  in one window stays within the limit, and a deposit reference stays taken; a timelocked
  change applies what was proposed and once; disputes. Compliance: the screening decision equals
  the documented precedence, the index refines a list, sweeps are exact, blocks are lifted
  by their placer or the admin. Invoices, in orderly runs: life cycle, well-formed store, a
  requested refund can be paid; in any state: exact and overflow-free refund arithmetic, the
  keeper bills each due template of its list once, a batch creates what its elements create
  one by one. A run is orderly when \<open>initialize\<close> comes before the first invoice; the contract
  does not enforce this, and \<open>initialize\<close> resets the counter of the invoices, so the
  condition is needed. A history may repeat a record immediately, since a batch
  cancellation records a repeated id once per occurrence. Together: the isolated theorems hold in the deployment, the compliance gate
  is effective, a batch does what its items do one by one, every execution the workflow
  reports has happened, once and with the reported amount, and the emergency sweep is
  all-or-nothing. Error codes: each enum numbers its variants from one without gaps or
  repetitions. Fuzz targets: the differential target of the compliance contract
  passes on every input that does not clear a timed allowance, the invoice targets pass on
  every input, and the workflow target never gets past the gate. Some theorems record where
  the code does not do what its comments say: an operator can take over an admin's block,
  the expiry of a past hold lifts the hold of a later dispute, \<open>initialize\<close> lets invoice ids be
  used twice, the workflow can never become the admin of a deployed contract, which its
  emergency sweep needs, and the mirror of the compliance fuzz target is out of date for
  \<open>clear_address\<close>. Partially executed settlements are frozen, although the documentation
  does not call them terminal and describes further partial payments.

  \<^bold>\<open>Not modelled.\<close> Storage rent and archival (\<open>extend_ttl\<close> only prolongs an entry's life; the one
  entry whose expiry the code relies on, the deposit reference, is modelled with its
  ledger number); resource limits; the \<open>error-macros\<close> crate, whose one macro passes the
  variants of an enum through and adds attributes;
  \<^verbatim>\<open>contracts/treasury/src/errors.rs\<close>, which no module includes; the fuzz target
  \<^verbatim>\<open>execute_with_compliance_batch.rs\<close>, which calls entrypoints the contracts do not have; tests and
  scripts. The compliance contract's \<open>bulk_get_address_status\<close> names an undeclared error type
  and the workflow an undeclared error variant; both are modelled with the evident
  meaning.
\<close>

section \<open>The contracts together\<close>

text \<open>
  C1. Whatever transactions are submitted to the deployment, each contract only
  makes steps of its own: the treasury, the compliance and the invoice contract
  are in states reachable by their own calls, so what is proved of each alone
  holds of it inside the deployment. The workflow keeps calling the compliance
  and the treasury contract pinned by its constructor: the entrypoint
  \<open>update_contract_ids\<close> that the access-control matrix and the ABI file list for
  changing them does not exist in the contract. A configured emergency sweep has
  between one and eight different targets, none of them the workflow.
\<close>

theorem components_run_as_verified:
  assumes "system_reachable d s"
  shows "treasury_reachable (p_treasury (w_world s)) \<and>
    compliance_reachable (p_compliance (w_world s)) \<and>
    invoice_reachable (p_invoice (w_world s)) \<and>
    w_compliance_id s = Some (site_compliance d) \<and> w_treasury_id s = Some (site_treasury d) \<and>
    (\<forall>ts. w_emergency_pause_targets s = Some ts \<longrightarrow>
       ts \<noteq> [] \<and> length ts \<le> 8 \<and> distinct ts \<and> site_workflow d \<notin> set ts)"
  using system_runs.reachable_inv [OF assms] by (auto simp: system_ok_def workflow_ok_def)

theorem components_run_as_verified_witness:
  "treasury_reachable (p_treasury (w_world town_ready)) \<and>
    compliance_reachable (p_compliance (w_world town_ready)) \<and>
    invoice_reachable (p_invoice (w_world town_ready)) \<and> w_treasury_id town_ready = Some 99"
  using components_run_as_verified [OF town_reachable] by (simp add: town_def)

text \<open>
  C5. The compliance gate. In the deployment \<open>execute_with_compliance\<close> succeeds
  only while the workflow is not paused and the compliance contract allows the
  merchant, the workflow is a signer of the treasury and the settlement has met
  the threshold; when the treasury has pinned the same compliance contract, the
  settlement's own merchant is allowed for the amount too. Then exactly the
  settlement's amount moves from the treasury to the payout address, that
  settlement alone changes and becomes executed, and the event carries the
  amount. A merchant that is not allowed is refused with
  \<open>ComplianceCheckFailed\<close> before the treasury is called.
\<close>

theorem gated_execution:
  assumes "system_reachable d s"
  shows "(\<forall>t. execute_with_compliance (workflow_host d g) (protocol_peers d ext g) s i tok m = Inr t \<longrightarrow>
     \<not> Workflow.is_paused s \<and> Compliance_Ops.is_allowed g (p_compliance (w_world s)) m \<and>
     signer_weight (p_treasury (w_world s)) (site_workflow d) \<noteq> 0 \<and>
     (\<exists>st thr. t_settlements (p_treasury (w_world s)) i = Some st \<and>
        t_threshold (p_treasury (w_world s)) = Some thr \<and> thr \<le> st_approval_weight st \<and>
        (t_compliance_id (p_treasury (w_world s)) = Some (site_compliance d) \<longrightarrow>
           Compliance_Ops.is_allowed_for_amount g (p_compliance (w_world s)) (st_merchant_address st) (st_amount st)) \<and>
        h_transfer g tok (site_treasury d) (payout_address (p_treasury (w_world s)) (st_merchant_address st))
          (st_amount st) (p_tokens (w_world s)) = Some (p_tokens (w_world t)) \<and>
        t_settlements (p_treasury (w_world t)) =
          (t_settlements (p_treasury (w_world s)))(i \<mapsto> st\<lparr>st_status := SExecuted\<rparr>) \<and>
        p_compliance (w_world t) = p_compliance (w_world s) \<and> p_invoice (w_world t) = p_invoice (w_world s) \<and>
        w_events t = w_events s @ [Ev_settlement_workflow_executed i m tok (st_amount st)])) \<and>
    (\<not> Workflow.is_paused s \<and> \<not> Compliance_Ops.is_allowed g (p_compliance (w_world s)) m \<longrightarrow>
       execute_with_compliance (workflow_host d g) (protocol_peers d ext g) s i tok m =
         Inl (Err (TreasuryCode T_ComplianceCheckFailed)))"
proof (intro conjI allI impI)
  fix t
  assume "execute_with_compliance (workflow_host d g) (protocol_peers d ext g) s i tok m = Inr t"
  then obtain u st where gate: "\<not> Workflow.is_paused s" "Compliance_Ops.is_allowed g (p_compliance (w_world s)) m"
    and u: "Treasury_Settlements.execute_settlement (treasury_host d g (called_by (site_workflow d) (h_auth g)))
       (load_treasury (w_world s)) (site_workflow d) i tok = Inr u"
    and st: "t_settlements u i = Some st"
    and t: "t = Workflow.publish (Ev_settlement_workflow_executed i m tok (st_amount st))
       (s\<lparr>w_world := store_treasury u (w_world s)\<rparr>)"
    using pinned [OF assms] by (rule gate_opens)
  show "\<not> Workflow.is_paused s" "Compliance_Ops.is_allowed g (p_compliance (w_world s)) m" using gate .
  show "signer_weight (p_treasury (w_world s)) (site_workflow d) \<noteq> 0"
    using u by (simp add: execute_settlement_eq_Inr load_fields)
  from u st show "\<exists>st thr. t_settlements (p_treasury (w_world s)) i = Some st \<and>
        t_threshold (p_treasury (w_world s)) = Some thr \<and> thr \<le> st_approval_weight st \<and>
        (t_compliance_id (p_treasury (w_world s)) = Some (site_compliance d) \<longrightarrow>
           Compliance_Ops.is_allowed_for_amount g (p_compliance (w_world s)) (st_merchant_address st) (st_amount st)) \<and>
        h_transfer g tok (site_treasury d) (payout_address (p_treasury (w_world s)) (st_merchant_address st))
          (st_amount st) (p_tokens (w_world s)) = Some (p_tokens (w_world t)) \<and>
        t_settlements (p_treasury (w_world t)) =
          (t_settlements (p_treasury (w_world s)))(i \<mapsto> st\<lparr>st_status := SExecuted\<rparr>) \<and>
        p_compliance (w_world t) = p_compliance (w_world s) \<and> p_invoice (w_world t) = p_invoice (w_world s) \<and>
        w_events t = w_events s @ [Ev_settlement_workflow_executed i m tok (st_amount st)]"
    by (auto simp: t execute_settlement_eq_Inr load_fields write_settlement_eq emit_def)
qed (use gate_refuses pinned(1) [OF assms] in blast)

theorem gated_execution_witness:
  "\<exists>t. execute_with_compliance (workflow_host town (town_host 40 8)) (protocol_peers town town_ext (town_host 40 8))
       town_ready 1 5 7 = Inr t \<and>
     Compliance_Ops.is_allowed (town_host 40 8) (p_compliance (w_world town_ready)) 7 \<and>
     p_compliance (w_world t) = p_compliance (w_world town_ready)"
proof -
  let ?run = "execute_with_compliance (workflow_host town (town_host 40 8)) (protocol_peers town town_ext (town_host 40 8)) town_ready 1 5 7"
  obtain t where t: "?run = Inr t" using town_executes by (cases ?run) simp_all
  from gated_execution [OF town_reachable, THEN conjunct1, rule_format, OF t] t show ?thesis by auto
qed

text \<open>
  C19. The batch entrypoint returns for every list of ids once the gate is open: it
  executes each settlement at most once, however often the list names it, returns
  exactly the ones it executed, and leaves every other settlement, refused or not
  named, as it was.
\<close>

theorem gated_batch:
  assumes "system_reachable d s" and "\<not> Workflow.is_paused s"
    and "Compliance_Ops.is_allowed g (p_compliance (w_world s)) m"
  shows "\<exists>ran t. execute_with_compliance_batch (workflow_host d g) (protocol_peers d ext g) s ids tok m = Inr (ran, t) \<and>
    distinct ran \<and> set ran \<subseteq> set ids \<and>
    (\<forall>i. t_settlements (p_treasury (w_world t)) i =
       (if i \<in> set ran then map_option (st_status_update (\<lambda>_. SExecuted)) (t_settlements (p_treasury (w_world s)) i)
        else t_settlements (p_treasury (w_world s)) i)) \<and>
    (\<forall>i\<in>set ran. \<exists>st. t_settlements (p_treasury (w_world s)) i = Some st \<and> st_status st \<noteq> SExecuted)"
proof -
  obtain ran u where r: "fold_result (execute_batch_one (workflow_host d g) (protocol_peers d ext g) (site_treasury d) tok m)
      ids ([], s) = Inr (ran, u)"
    and eff: "distinct ran" "set ran \<subseteq> set ids"
      "\<forall>i. i \<notin> set ran \<longrightarrow> t_settlements (p_treasury (w_world u)) i = t_settlements (p_treasury (w_world s)) i"
      "\<forall>i\<in>set ran. \<exists>st. t_settlements (p_treasury (w_world s)) i = Some st \<and> st_status st \<noteq> SExecuted \<and>
        t_settlements (p_treasury (w_world u)) i = Some (st\<lparr>st_status := SExecuted\<rparr>)"
    using settling.execute_batch_total [of "workflow_host d g" "site_workflow d" d ext g tok m ids "[]" s] by auto
  let ?t = "Workflow.publish (Ev_workflow_batch_completed (length ids) (length ran)) u"
  have "execute_with_compliance_batch (workflow_host d g) (protocol_peers d ext g) s ids tok m = Inr (ran, ?t)"
    using r assms(2,3) pinned [OF assms(1)] by (simp add: execute_with_compliance_batch_def gate_defs)
  moreover have "t_settlements (p_treasury (w_world ?t)) i =
       (if i \<in> set ran then map_option (st_status_update (\<lambda>_. SExecuted)) (t_settlements (p_treasury (w_world s)) i)
        else t_settlements (p_treasury (w_world s)) i)" for i
    using eff(3,4) by auto
  ultimately show ?thesis using eff(1,2,4) by blast
qed

theorem gated_batch_witness:
  "\<exists>ran t. execute_with_compliance_batch (workflow_host town (town_host 40 8)) (protocol_peers town town_ext (town_host 40 8))
       town_ready [1, 4, 1] 5 7 = Inr (ran, t) \<and> distinct ran \<and> set ran \<subseteq> {1, 4}"
proof -
  have "\<not> Workflow.is_paused town_ready" by (simp add: Workflow.is_paused_def town_ready_state)
  with gated_batch [OF town_reachable _ town_allowed, of town_ext "[1, 4, 1]" 5] show ?thesis by auto
qed

text \<open>
  C20. The batch entrypoint is its items one by one: in a reachable state of the
  deployment it gives the ids and the state that calling
  \<open>execute_with_compliance\<close> for each id in turn gives, where a refused id changes
  nothing, followed by the summary event; and it is refused as a whole exactly when
  each of those calls would be refused by the gate, with the same error.
\<close>

theorem batch_is_one_by_one:
  assumes "system_reachable d s"
  shows "execute_with_compliance_batch (workflow_host d g) (protocol_peers d ext g) s ids tok m =
    (if Workflow.is_paused s then Inl (Err (TreasuryCode T_ContractPaused))
     else if \<not> Compliance_Ops.is_allowed g (p_compliance (w_world s)) m
     then Inl (Err (TreasuryCode T_ComplianceCheckFailed))
     else (case one_by_one (workflow_host d g) (protocol_peers d ext g) tok m ids s of (executed, t) \<Rightarrow>
       Inr (executed, Workflow.publish (Ev_workflow_batch_completed (length ids) (length executed)) t)))"
proof (cases "gate_open d g m s")
  case True
  then show ?thesis by (simp add: batch_one_by_one) (simp add: gate_open_def)
next
  case False
  with pinned [OF assms] show ?thesis
    by (auto simp: gate_open_def execute_with_compliance_batch_def gate_defs)
qed

theorem batch_is_one_by_one_witness:
  "execute_with_compliance_batch (workflow_host town (town_host 40 8)) (protocol_peers town town_ext (town_host 40 8))
       town_ready [1, 4, 1] 5 7 =
     (case one_by_one (workflow_host town (town_host 40 8)) (protocol_peers town town_ext (town_host 40 8)) 5 7 [1, 4, 1] town_ready of
        (executed, t) \<Rightarrow> Inr (executed, Workflow.publish (Ev_workflow_batch_completed 3 (length executed)) t))"
proof -
  have "\<not> Workflow.is_paused town_ready" by (simp add: Workflow.is_paused_def town_ready_state)
  with batch_is_one_by_one [OF town_reachable, of "town_host 40 8" town_ext "[1, 4, 1]" 5 7] town_allowed show ?thesis
    by (simp add: numeral_3_eq_3 del: one_by_one.simps)
qed

text \<open>
  C21. The workflow's event log is truthful: in every reachable state of the
  deployment an id has no \<open>settlement_workflow_executed\<close> event, or exactly one; then
  the treasury holds that settlement as executed, has published its own event for it
  exactly once, and the reported amount is the amount of the settlement.
\<close>

theorem workflow_events_truthful:
  assumes "system_reachable d s"
  shows "workflow_reports s i = [] \<or>
    (\<exists>st. t_settlements (p_treasury (w_world s)) i = Some st \<and> st_status st = SExecuted \<and>
      executed_reports (p_treasury (w_world s)) i = 1 \<and> workflow_reports s i = [st_amount st])"
proof (cases "workflow_reports s i")
  case (Cons x xs)
  have ok: "system_ok d s" "reports_true (t_settlements (p_treasury (w_world s))) (workflow_reports s)"
    using truthful.reachable_inv [OF assms] by (simp_all add: system_truthful_def)
  from ok(2) Cons obtain st where st: "t_settlements (p_treasury (w_world s)) i = Some st"
      "st_status st = SExecuted" "workflow_reports s i = [st_amount st]"
    unfolding reports_true_def by (metis list.distinct(1))
  have "treasury_reachable (p_treasury (w_world s))" using ok(1) by (simp add: system_ok_def)
  from treasury_run.reachable_inv [OF this] st(1,2) have "executed_reports (p_treasury (w_world s)) i = 1"
    by (auto simp: treasury_ok_def book_ok_def Settlement_Book.entry_ok_def split: option.splits)
  with st show ?thesis by blast
qed simp

theorem workflow_events_truthful_witness:
  "\<exists>st. t_settlements (p_treasury (w_world town_paid)) 1 = Some st \<and> st_status st = SExecuted \<and>
     workflow_reports town_paid 1 = [st_amount st]"
  using workflow_events_truthful [OF town_paid_reachable, of 1] town_paid_reports by auto

section \<open>The emergency sweep\<close>



text \<open>
  C36. In the deployment no sweep reaches a deployed contract. Every contract makes its
  admin sign for the role, at \<open>initialize\<close> and at \<open>accept_admin\<close>, and the workflow has
  no entrypoint that makes either call; so it is never the admin of one of them, and
  as soon as one of them is among the configured targets, \<open>emergency_pause_all\<close> fails
  whoever calls it, with \<open>PauseTargetFailed\<close> for its configured admin. (A sweep over
  contracts outside the deployment alone can succeed, if their \<open>pause\<close> lets it.)
\<close>

theorem deployed_targets_never_paused:
  assumes "system_reachable d s" and "w_emergency_pause_targets s = Some ts" and "c \<in> set ts" and "deployed_at d c"
  shows "owner_at d (w_world s) c \<noteq> Some (site_workflow d) \<and>
    isl (emergency_pause_all (workflow_host d g) (protocol_peers d ext g) s a) \<and>
    (h_auth g a \<and> w_emergency_pause_admin s = Some a \<longrightarrow>
       emergency_pause_all (workflow_host d g) (protocol_peers d ext g) s a =
         Inl (Err (WorkflowCode WE_PauseTargetFailed)))"
proof -
  have owner: "owner_at d (w_world s) c \<noteq> Some (site_workflow d)"
    using ownership.reachable_inv [OF assms(1)] by (simp add: workflow_owns_nothing_def)
  with assms(3,4) have "\<not> owns_targets d (w_world s) ts" by (auto simp: owns_targets_def)
  then have fails: "emergency_pause_all (workflow_host d g) (protocol_peers d ext g) s a =
      Inl (Err (WorkflowCode WE_PauseTargetFailed))" if "h_auth g a" "w_emergency_pause_admin s = Some a"
    using pause_all_outcome [OF that assms(2), of d ext] by simp
  have "isl (emergency_pause_all (workflow_host d g) (protocol_peers d ext g) s a)"
  proof (cases "h_auth g a \<and> w_emergency_pause_admin s = Some a")
    case False
    then have "emergency_pause_all (workflow_host d g) (protocol_peers d ext g) s a \<noteq> Inr r" for r
      by (auto simp: emergency_pause_all_def require_pause_admin_def result_simps)
    then show ?thesis by (cases "emergency_pause_all (workflow_host d g) (protocol_peers d ext g) s a") auto
  qed (simp add: fails)
  with owner fails show ?thesis by blast
qed

theorem deployed_targets_never_paused_witness:
  "w_emergency_pause_targets town_armed = Some [99, 97] \<and>
   emergency_pause_all (workflow_host town (town_host 50 1)) (protocol_peers town town_ext (town_host 50 1)) town_armed 1 =
     Inl (Err (WorkflowCode WE_PauseTargetFailed))"
proof -
  have "deployed_at town 97" "(97 :: address) \<in> set [99, 97]" "h_auth (town_host 50 1) 1"
    by (simp_all add: deployed_at_def town_def town_host_def)
  with deployed_targets_never_paused [OF town_armed_reachable town_armed_state(2) this(2,1), of "town_host 50 1" town_ext 1]
  show ?thesis by (simp add: town_armed_state)
qed

end
